(* ===== verification/Prelude.thy ===== *)
theory Prelude
  imports Complex_Main "HOL-Library.Word"
begin

text \<open>
  Shared vocabulary of the development: the machine types of the bridge between the
  JavaScript engine and the node (\<^verbatim>\<open>vm/v8vm/v8/*.cc\<close>), NUL-terminated C strings, the
  C heap with its three allocators (\<open>malloc\<close>, \<open>new\<close> and \<open>new[]\<close>), and the lemma
  collections that the component theories add to.

  \<^item> \<open>heap_simps\<close> collects the equations of the heap operations;
  \<^item> \<open>bridge_simps\<close> collects the definitions a bridge call unfolds to.
\<close>

named_theorems heap_simps
named_theorems bridge_simps

type_synonym size_t = "64 word"
type_synonym c_int = "32 word"
type_synonym char_ptr = "nat option"

section \<open>NUL-terminated strings\<close>

abbreviation NUL :: char where
  "NUL \<equiv> CHR 0x00"

definition c_trunc :: "string \<Rightarrow> string" where
  "c_trunc s = takeWhile (\<lambda>c. c \<noteq> NUL) s"

definition c_read :: "string \<Rightarrow> string option" where
  "c_read buf = (if NUL \<in> set buf then Some (c_trunc buf) else None)"

section \<open>The C heap\<close>

text \<open>
  A block remembers the allocator it came from: releasing it with another one is
  undefined behaviour, as is releasing it twice. Undefined behaviour is \<open>None\<close>
  throughout. Addresses at and above \<open>brk\<close> have never been handed out.
\<close>

datatype block = Malloc string | NewArr string | NewObj string

fun block_bytes :: "block \<Rightarrow> string option" where
  "block_bytes (Malloc s) = Some s"
| "block_bytes (NewArr s) = Some s"
| "block_bytes (NewObj t) = None"

record c_heap =
  blocks :: "nat \<Rightarrow> block option"
  brk :: nat

definition heap_ok :: "c_heap \<Rightarrow> bool" where
  "heap_ok h \<longleftrightarrow> (\<forall>a \<ge> brk h. blocks h a = None)"

definition empty_heap :: c_heap where
  "empty_heap = \<lparr>blocks = (\<lambda>_. None), brk = 0\<rparr>"

definition alloc :: "block \<Rightarrow> c_heap \<Rightarrow> c_heap" where
  "alloc b h = h\<lparr>blocks := (blocks h)(brk h := Some b), brk := Suc (brk h)\<rparr>"

definition c_free :: "char_ptr \<Rightarrow> c_heap \<Rightarrow> c_heap option" where
  "c_free p h =
     (case p of
        None \<Rightarrow> Some h
      | Some a \<Rightarrow>
          (case blocks h a of
             Some (Malloc _) \<Rightarrow> Some (h\<lparr>blocks := (blocks h)(a := None)\<rparr>)
           | _ \<Rightarrow> None))"

definition delete_arr :: "nat \<Rightarrow> c_heap \<Rightarrow> c_heap option" where
  "delete_arr a h =
     (case blocks h a of
        Some (NewArr _) \<Rightarrow> Some (h\<lparr>blocks := (blocks h)(a := None)\<rparr>)
      | _ \<Rightarrow> None)"

definition delete_obj :: "nat \<Rightarrow> c_heap \<Rightarrow> c_heap option" where
  "delete_obj a h =
     (case blocks h a of
        Some (NewObj _) \<Rightarrow> Some (h\<lparr>blocks := (blocks h)(a := None)\<rparr>)
      | _ \<Rightarrow> None)"

text \<open>The bytes behind a pointer, and the C string there.\<close>

definition bytes_at :: "c_heap \<Rightarrow> char_ptr \<Rightarrow> string option" where
  "bytes_at h p = Option.bind p (\<lambda>a. Option.bind (blocks h a) block_bytes)"

definition c_string_at :: "c_heap \<Rightarrow> char_ptr \<Rightarrow> string option" where
  "c_string_at h p = Option.bind (bytes_at h p) c_read"

section \<open>Lemmas on C strings\<close>

lemma c_trunc_id [simp]: "NUL \<notin> set s \<Longrightarrow> c_trunc s = s"
  by (auto simp: c_trunc_def takeWhile_eq_all_conv)

lemma c_trunc_append_NUL [simp]: "c_trunc (s @ NUL # t) = c_trunc s"
  by (induction s) (auto simp: c_trunc_def)

lemma NUL_notin_c_trunc [simp]: "NUL \<notin> set (c_trunc s)"
  by (metis (mono_tags, lifting) c_trunc_def set_takeWhileD)

lemma c_trunc_idem [simp]: "c_trunc (c_trunc s) = c_trunc s"
  by simp

lemma c_read_terminated [simp]: "c_read (s @ [NUL]) = Some (c_trunc s)"
  by (simp add: c_read_def)

lemma length_c_trunc_le: "length (c_trunc s) \<le> length s"
  by (simp add: c_trunc_def length_takeWhile_le)

lemma length_c_trunc_less: "NUL \<in> set s \<Longrightarrow> length (c_trunc s) < length s"
  by (induction s) (auto simp: c_trunc_def)

section \<open>Lemmas on the heap\<close>

lemma heap_ok_empty [simp]: "heap_ok empty_heap"
  by (simp add: heap_ok_def empty_heap_def)

lemma heap_ok_fresh: "heap_ok h \<Longrightarrow> blocks h (brk h) = None"
  by (simp add: heap_ok_def)

lemma heap_ok_alloc [simp]: "heap_ok h \<Longrightarrow> heap_ok (alloc b h)"
  by (simp add: heap_ok_def alloc_def)

lemma blocks_alloc [heap_simps]: "blocks (alloc b h) = (blocks h)(brk h := Some b)"
  by (simp add: alloc_def)

lemma brk_alloc [heap_simps]: "brk (alloc b h) = Suc (brk h)"
  by (simp add: alloc_def)

lemma heap_ok_remove: "heap_ok h \<Longrightarrow> heap_ok (h\<lparr>blocks := (blocks h)(a := None)\<rparr>)"
  by (simp add: heap_ok_def)

lemma c_free_None [simp]: "c_free None h = Some h"
  by (simp add: c_free_def)

lemma c_free_malloc:
  "blocks h a = Some (Malloc s) \<Longrightarrow>
     c_free (Some a) h = Some (h\<lparr>blocks := (blocks h)(a := None)\<rparr>)"
  by (simp add: c_free_def)

lemma heap_ok_c_free: "heap_ok h \<Longrightarrow> c_free p h = Some h' \<Longrightarrow> heap_ok h'"
  by (auto simp: c_free_def heap_ok_remove split: option.splits block.splits)

lemma heap_ok_delete_arr: "heap_ok h \<Longrightarrow> delete_arr a h = Some h' \<Longrightarrow> heap_ok h'"
  by (auto simp: delete_arr_def heap_ok_remove split: option.splits block.splits)

lemma heap_ok_delete_obj: "heap_ok h \<Longrightarrow> delete_obj a h = Some h' \<Longrightarrow> heap_ok h'"
  by (auto simp: delete_obj_def heap_ok_remove split: option.splits block.splits)

lemma bytes_at_simps [simp]:
  "bytes_at h None = None"
  "bytes_at h (Some a) = Option.bind (blocks h a) block_bytes"
  by (simp_all add: bytes_at_def)

lemma double_free: "c_free (Some a) h = Some h' \<Longrightarrow> c_free (Some a) h' = None"
  by (auto simp: c_free_def split: option.splits block.splits)

end
