(* ===== verification/Engine.thy ===== *)
theory Engine
  imports Prelude
begin

text \<open>
  The engine side of the bridge: JavaScript values as the callbacks see them, the
  \<^verbatim>\<open>CStr\<close> pairs of \<^verbatim>\<open>vm.h\<close>, the \<^verbatim>\<open>Sandbox\<close> record of \<^verbatim>\<open>sandbox.h\<close>, and the world a
  callback runs in. The engine itself (V8) is not part of the repository: the two string
  conversions the bridge uses are the fields of a parameter record \<open>v8_api\<close>.

  A callback is a partial function on worlds; \<open>None\<close> is undefined behaviour or an abort
  of the process. An exception that the code throws is not control flow: the code
  schedules it in the isolate and goes on to its next statement, so it is a field of the
  world.
\<close>

section \<open>Values\<close>

type_synonym js_string = "16 word list"

text \<open>Numbers are doubles: the finite ones are rationals.\<close>

datatype js_number = NaN | PInf | NInf | Fin rat

datatype js_value =
    JUndefined
  | JNull
  | JBool bool
  | JNumber js_number
  | JString js_string
  | JErrorObj js_string
  | JObject nat

fun IsString :: "js_value \<Rightarrow> bool" where
  "IsString (JString s) = True"
| "IsString x = False"

fun IsNumber :: "js_value \<Rightarrow> bool" where
  "IsNumber (JNumber x) = True"
| "IsNumber x = False"

record v8_api =
  utf8_of :: "js_string \<Rightarrow> string"
  js_of_utf8 :: "string \<Rightarrow> js_string"

text \<open>
  Documented behaviour of the conversions: decoding what was encoded gives it back, and only the
  empty string is encoded without bytes.
\<close>

definition codec_roundtrip :: "v8_api \<Rightarrow> js_string \<Rightarrow> bool" where
  "codec_roundtrip v s \<longleftrightarrow> js_of_utf8 v (utf8_of v s) = s \<and> (utf8_of v s = [] \<longrightarrow> s = [])"

section \<open>The C structures of the bridge\<close>

record CStr =
  cstr_data :: char_ptr
  cstr_size :: c_int

definition null_CStr :: CStr where
  "null_CStr = \<lparr>cstr_data = None, cstr_size = 0\<rparr>"

text \<open>
  The objects that hang off a sandbox. A holder's internal field is an \<open>External\<close>
  pointing at one of them, or it was never set.
\<close>

datatype component = CSandbox | CStorage | CBlockchain | CInstruction | CCrypto

datatype ifield = IFUnset | IFExternal component

text \<open>The array-buffer allocator of \<^verbatim>\<open>allocator.h\<close>, whose peak the memory check reads.\<close>

record ArrayBufferAllocator =
  current_allocated_size :: size_t
  max_allocated_size :: size_t

record Sandbox =
  allocator :: ArrayBufferAllocator
  jsPath :: char_ptr
  gasUsed :: size_t
  gasLimit :: size_t
  memLimit :: size_t
  inst_count :: c_int
  obj_blockchain :: nat
  obj_crypto :: nat
  obj_instruction :: nat
  obj_storage :: nat

record 'h world =
  w_heap :: c_heap
  w_sbxPtr :: nat
  w_sbx :: Sandbox
  w_fields :: "nat \<Rightarrow> ifield"
  w_global :: ifield
  w_v8_heap_size :: size_t
  w_host :: 'h
  w_exc :: "js_value option"
  w_ret :: js_value
  w_out :: "string list"

record callback_info =
  ci_args :: "js_value list"
  ci_holder :: nat

type_synonym 'h act = "'h world \<Rightarrow> 'h world option"

text \<open>
  A function template with its instance template: the constructor, the number of internal
  fields of an instance, and its methods by JavaScript name.
\<close>

record 'h class_tpl =
  tpl_name :: string
  tpl_ctor :: "callback_info \<Rightarrow> 'h act"
  tpl_field_count :: nat
  tpl_methods :: "(string \<times> (callback_info \<Rightarrow> 'h act)) list"

section \<open>What every callback uses of the engine\<close>

definition arg :: "callback_info \<Rightarrow> nat \<Rightarrow> js_value" where
  "arg info i = (if i < length (ci_args info) then ci_args info ! i else JUndefined)"

definition ThrowException :: "js_value \<Rightarrow> 'h act" where
  "ThrowException e w = Some (w\<lparr>w_exc := Some e\<rparr>)"

definition throw_error :: "v8_api \<Rightarrow> string \<Rightarrow> 'h act" where
  "throw_error v msg = ThrowException (JErrorObj (js_of_utf8 v msg))"

definition set_ret :: "js_value \<Rightarrow> 'h act" where
  "set_ret x w = Some (w\<lparr>w_ret := x\<rparr>)"

definition print_line :: "string \<Rightarrow> 'h act" where
  "print_line s w = Some (w\<lparr>w_out := w_out w @ [s]\<rparr>)"

definition add_gas :: "size_t \<Rightarrow> 'h world \<Rightarrow> 'h world" where
  "add_gas g w = w\<lparr>w_sbx := (w_sbx w)\<lparr>gasUsed := gasUsed (w_sbx w) + g\<rparr>\<rparr>"

definition seq :: "'h act \<Rightarrow> 'h act \<Rightarrow> 'h act" where
  "seq f g w = Option.bind (f w) g"

text \<open>
  \<^verbatim>\<open>String::Utf8Value\<close> owns a copy of the string for the rest of the enclosing function and
  releases it on every way out of it; \<^verbatim>\<open>NewCStr\<close> points a \<^verbatim>\<open>CStr\<close> at that copy.
\<close>

definition NewCStr :: "v8_api \<Rightarrow> js_string \<Rightarrow> (CStr \<Rightarrow> 'h act) \<Rightarrow> 'h act" where
  "NewCStr v s k w =
     (let a = brk (w_heap w);
          c = \<lparr>cstr_data = Some a, cstr_size = of_nat (length (utf8_of v s))\<rparr>
      in Option.bind (k c (w\<lparr>w_heap := alloc (NewArr (utf8_of v s @ [NUL])) (w_heap w)\<rparr>))
           (\<lambda>w'. Option.bind (delete_arr a (w_heap w')) (\<lambda>h. Some (w'\<lparr>w_heap := h\<rparr>))))"

definition INPUT_MAX_LENGTH :: nat where
  "INPUT_MAX_LENGTH = 65536"

text \<open>
  \<^verbatim>\<open>Local<String>::Cast\<close> does not check its argument: taking the length of something that is
  not a string is undefined behaviour.
\<close>

definition NewCStrChecked :: "v8_api \<Rightarrow> js_value \<Rightarrow> (CStr \<Rightarrow> 'h act) \<Rightarrow> 'h act" where
  "NewCStrChecked v x k =
     (case x of
        JString s \<Rightarrow>
          if INPUT_MAX_LENGTH < length s then throw_error v ''input string too long''
          else NewCStr v s k
      | _ \<Rightarrow> (\<lambda>w. None))"

text \<open>
  The receiver's internal field. A pointer to another component is cast all the same,
  which is undefined.
\<close>

definition with_holder :: "component \<Rightarrow> callback_info \<Rightarrow> string \<Rightarrow> 'h act \<Rightarrow> 'h act" where
  "with_holder c info msg k w =
     (case w_fields w (ci_holder info) of
        IFUnset \<Rightarrow> print_line msg w
      | IFExternal c' \<Rightarrow> if c' = c then k w else None)"

text \<open>\<^verbatim>\<open>String::NewFromUtf8(isolate, data, kNormalString, size)\<close>.\<close>

definition NewFromUtf8 :: "v8_api \<Rightarrow> c_heap \<Rightarrow> CStr \<Rightarrow> js_string option" where
  "NewFromUtf8 v h c =
     (let n = sint (cstr_size c) in
      if n = 0 then Some []
      else if n < 0 then map_option (js_of_utf8 v) (c_string_at h (cstr_data c))
      else Option.bind (bytes_at h (cstr_data c))
             (\<lambda>bs. if nat n \<le> length bs then Some (js_of_utf8 v (take (nat n) bs)) else None))"

text \<open>
  The shared tail of the callbacks: \<^verbatim>\<open>if (ret != nullptr)\<close> throw the message behind it and
  free it, otherwise go on with the result.
\<close>

definition throw_c_string :: "v8_api \<Rightarrow> nat \<Rightarrow> 'h act" where
  "throw_c_string v p w =
     Option.bind (c_string_at (w_heap w) (Some p))
       (\<lambda>msg. Option.bind (throw_error v msg w)
          (\<lambda>w'. Option.bind (c_free (Some p) (w_heap w')) (\<lambda>h. Some (w'\<lparr>w_heap := h\<rparr>))))"

definition finish_call ::
  "v8_api \<Rightarrow> ('h world \<Rightarrow> (char_ptr \<times> 'o \<times> 'h world) option) \<Rightarrow> ('o \<Rightarrow> 'h act) \<Rightarrow> 'h act" where
  "finish_call v m k w =
     (case m w of
        None \<Rightarrow> None
      | Some (Some p, out, w') \<Rightarrow> throw_c_string v p w'
      | Some (None, out, w') \<Rightarrow> k out w')"

text \<open>
  Two ways of handing back a \<^verbatim>\<open>CStr\<close> result: null when no data came back, or the (possibly
  empty) string always.
\<close>

definition free_data :: "CStr \<Rightarrow> 'h act" where
  "free_data r w = Option.bind (c_free (cstr_data r) (w_heap w)) (\<lambda>h. Some (w\<lparr>w_heap := h\<rparr>))"

definition ret_string :: "v8_api \<Rightarrow> CStr \<Rightarrow> 'h act" where
  "ret_string v r w =
     Option.bind (NewFromUtf8 v (w_heap w) r)
       (\<lambda>s. seq (set_ret (JString s)) (free_data r) w)"

definition ret_string_or_null :: "v8_api \<Rightarrow> CStr \<Rightarrow> 'h act" where
  "ret_string_or_null v r =
     (if cstr_data r = None then set_ret JNull else ret_string v r)"

end
