(* ===== verification/JsTree.thy ===== *)
theory JsTree
  imports Engine
begin

text \<open>
  JavaScript objects as the scripts under \<^verbatim>\<open>libjs\<close> see them when they walk over a syntax tree: objects with
  their own properties in order of insertion, arrays and primitive values. The trees are made by the
  parser (\<^verbatim>\<open>esprima.js\<close>), which is a parameter of the functions that call it.
\<close>

section \<open>String literals\<close>

definition js :: "string \<Rightarrow> js_string" where
  "js s = map (\<lambda>c. of_nat (of_char c)) s"

lemma length_js [simp]: "length (js s) = length s"
  by (simp add: js_def)

lemma js_Nil [simp]: "js [] = []"
  by (simp add: js_def)

lemma unit_of_char: "unat (of_nat (of_char c) :: 16 word) = (of_char c :: nat)"
proof -
  have "(of_char c :: nat) < 256" by simp
  then have "(of_char c :: nat) < 2 ^ 16" by (rule less_trans) simp
  then show ?thesis by (simp add: unat_of_nat take_bit_nat_eq_self)
qed

lemma inj_js: "inj js"
proof -
  have "inj (\<lambda>c. of_nat (of_char c) :: 16 word)"
    by (rule inj_on_inverseI [where g = "\<lambda>u. char_of (unat u)"]) (simp add: unit_of_char)
  then show ?thesis by (simp add: js_def [abs_def] inj_mapI)
qed

lemma js_eq_iff [simp]: "js s = js t \<longleftrightarrow> s = t"
  using inj_js by (auto dest: injD)

section \<open>Trees\<close>

datatype jtree =
    TObj "(string \<times> jtree) list"
  | TArr "jtree list"
  | TStr js_string
  | TNum js_number
  | TBool bool
  | TNull
  | TUndef

fun is_object :: "jtree \<Rightarrow> bool" where
  "is_object (TObj fs) = True"
| "is_object (TArr xs) = True"
| "is_object t = False"

text \<open>\<^verbatim>\<open>!t\<close> in a condition.\<close>

fun falsy :: "jtree \<Rightarrow> bool" where
  "falsy (TStr s) = (s = [])"
| "falsy (TNum x) = (x = NaN \<or> x = Fin 0)"
| "falsy (TBool b) = (\<not> b)"
| "falsy TNull = True"
| "falsy TUndef = True"
| "falsy t = False"

text \<open>Reading an own property that is not an index; a missing one is undefined.\<close>

fun field :: "jtree \<Rightarrow> string \<Rightarrow> jtree" where
  "field (TObj fs) k = (case map_of fs k of Some t \<Rightarrow> t | None \<Rightarrow> TUndef)"
| "field (TArr xs) k = (if k = ''length'' then TNum (Fin (of_nat (length xs))) else TUndef)"
| "field (TStr s) k = (if k = ''length'' then TNum (Fin (of_nat (length s))) else TUndef)"
| "field t k = TUndef"

text \<open>Reading a property of null or undefined throws.\<close>

definition readable_value :: "jtree \<Rightarrow> bool" where
  "readable_value t \<longleftrightarrow> t \<noteq> TNull \<and> t \<noteq> TUndef"

text \<open>
  The name in the property \<^verbatim>\<open>type\<close>. The tables of the scripts are indexed with it; a node without one has
  the index \<^verbatim>\<open>undefined\<close>, as JavaScript has it.
\<close>

definition latin :: "js_string \<Rightarrow> string option" where
  "latin s = (if list_all (\<lambda>u. u < 256) s then Some (map (\<lambda>u. char_of (unat u)) s) else None)"

definition node_type :: "jtree \<Rightarrow> string" where
  "node_type t =
     (case field t ''type'' of
        TStr s \<Rightarrow> (case latin s of Some n \<Rightarrow> n | None \<Rightarrow> ''undefined'')
      | _ \<Rightarrow> ''undefined'')"

lemma latin_js [simp]: "latin (js s) = Some s"
proof -
  have "(of_nat (of_char c) :: 16 word) < 256" for c
  proof -
    have "(of_char c :: nat) < 256" by simp
    then show ?thesis by (simp only: word_less_nat_alt unit_of_char) simp
  qed
  then show ?thesis by (simp add: latin_def js_def list_all_iff unit_of_char comp_def)
qed

text \<open>The position fields the parser gives a node: \<^verbatim>\<open>range[0]\<close> and \<^verbatim>\<open>range[1]\<close>.\<close>

fun position :: "jtree \<Rightarrow> nat option" where
  "position (TNum (Fin x)) = (if x = of_nat (nat \<lfloor>x\<rfloor>) then Some (nat \<lfloor>x\<rfloor>) else None)"
| "position t = None"

definition range_of :: "jtree \<Rightarrow> (nat \<times> nat) option" where
  "range_of t =
     (case field t ''range'' of
        TArr [a, b] \<Rightarrow> (case (position a, position b) of (Some i, Some j) \<Rightarrow> Some (i, j) | _ \<Rightarrow> None)
      | _ \<Rightarrow> None)"

lemma position_nat [simp]: "position (TNum (Fin (of_nat n))) = Some n"
  by simp

text \<open>All nodes of a tree, with the tree itself.\<close>

fun subtrees :: "jtree \<Rightarrow> jtree list" where
  "subtrees (TObj fs) = TObj fs # concat (map (\<lambda>(k, t). subtrees t) fs)"
| "subtrees (TArr xs) = TArr xs # concat (map subtrees xs)"
| "subtrees t = [t]"

lemma subtrees_self [simp]: "t \<in> set (subtrees t)"
  by (cases t) auto

end
