(* ===== verification/InjectGas.thy ===== *)
theory InjectGas
  imports JsTree "HOL-Library.AList" "HOL-Library.Monad_Syntax" "HOL-Library.Multiset"
begin

text \<open>
  \<^verbatim>\<open>libjs/inject_gas.js\<close>: the script that turns the source of a contract into one that counts its gas. It
  parses the source, refuses some tokens, replaces operators by calls of the runtime, prints the tree,
  parses the result again, collects what is to be inserted at which position, and weaves it into the text.
  The parser and the printer (\<^verbatim>\<open>esprima.js\<close>, \<^verbatim>\<open>escodegen.js\<close>) are parameters. \<^verbatim>\<open>checkOperator\<close> is not called, and the
  line that \<^verbatim>\<open>processNode\<close> logs for an arrow function is left out.

  Amounts of gas are kept as the sums they are computed from, term by term, so nothing here depends
  on how the engine rounds a sum; how it prints one is the parameter \<open>num\<close>.
\<close>

section \<open>Tables\<close>

datatype charge = Units rat | TwoPlus rat nat

text \<open>\<open>TwoPlus r n\<close> is \<^verbatim>\<open>2 + r * n\<close>.\<close>

fun amount :: "charge \<Rightarrow> rat" where
  "amount (Units r) = r"
| "amount (TwoPlus r n) = 2 + r * of_nat n"

definition chargedExpression :: "string \<Rightarrow> rat option" where
  "chargedExpression = map_of
     [(''ThrowStatement'', 50),
      (''CallExpression'', 4), (''TaggedTemplateExpression'', 4), (''NewExpression'', 8),
      (''YieldExpression'', 8), (''MemberExpression'', 4), (''MetaProperty'', 4),
      (''AssignmentExpression'', 3), (''UpdateExpression'', 3), (''BinaryExpression'', 3),
      (''UnaryExpression'', 3), (''LogicalExpression'', 3), (''ConditionalExpression'', 3),
      (''ObjectExpression'', 1 / 10), (''ArrayExpression'', 1 / 10), (''FunctionExpression'', 1),
      (''ArrowFunctionExpression'', 3),
      (''ClassDeclaration'', 150), (''FunctionDeclaration'', 3), (''VariableDeclarator'', 3),
      (''VariableDeclaratorWithoutInit'', 3), (''MethodDefinition'', 2),
      (''StringLiteral'', 1 / 10),
      (''ForStatement'', 1), (''ForInStatement'', 4), (''ForOfStatement'', 2), (''WhileStatement'', 1),
      (''DoWhileStatement'', 1)]"

definition InjectableStatement :: "string list" where
  "InjectableStatement =
     [''ExpressionStatement'', ''ReturnStatement'', ''ThrowStatement'', ''SwitchStatement'', ''DoWhileStatement'',
      ''ForStatement'', ''ForInStatement'', ''ForOfStatement'', ''IfStatement'', ''WhileStatement'']"

datatype InjectType =
    gasIncr
  | gasIncrWithComma
  | gasIncrWithSemicolon
  | leftBracket
  | rightBracket
  | leftBrace
  | rightBrace
  | str

text \<open>\<^verbatim>\<open>type > 3\<close>.\<close>

fun plain_text :: "InjectType \<Rightarrow> bool" where
  "plain_text gasIncr = False"
| "plain_text gasIncrWithComma = False"
| "plain_text gasIncrWithSemicolon = False"
| "plain_text ty = True"

text \<open>The value of an entry: a text, or nothing, and the numbers that were added to it.\<close>

record entry =
  en_type :: InjectType
  en_text :: "js_string option"
  en_charges :: "charge list"

type_synonym injections = "(nat \<times> entry list) list"

definition entries :: "injections \<Rightarrow> nat \<Rightarrow> entry list" where
  "entries m pos = (case map_of m pos of None \<Rightarrow> [] | Some arr \<Rightarrow> arr)"

section \<open>Printing an entry\<close>

definition value_str :: "(charge list \<Rightarrow> js_string) \<Rightarrow> entry \<Rightarrow> js_string" where
  "value_str num e =
     (case en_text e of
        None \<Rightarrow> num (en_charges e)
      | Some s \<Rightarrow> s @ concat (map (\<lambda>c. num [c]) (en_charges e)))"

fun genInjectionStr :: "(charge list \<Rightarrow> js_string) \<Rightarrow> entry \<Rightarrow> js_string" where
  "genInjectionStr num e =
     (case en_type e of
        gasIncr \<Rightarrow> js ''_IOSTInstruction_counter.incr('' @ value_str num e @ js '')''
      | gasIncrWithComma \<Rightarrow> js ''_IOSTInstruction_counter.incr('' @ value_str num e @ js ''),''
      | gasIncrWithSemicolon \<Rightarrow> js ''_IOSTInstruction_counter.incr('' @ value_str num e @ js '');''
      | leftBracket \<Rightarrow> js ''(''
      | rightBracket \<Rightarrow> js '')''
      | leftBrace \<Rightarrow> js ''{''
      | rightBrace \<Rightarrow> js ''}''
      | str \<Rightarrow> value_str num e)"

section \<open>Tokens that are refused\<close>

record token =
  tk_type :: string
  tk_value :: js_string

text \<open>The message for a regular expression ends with the missing property \<^verbatim>\<open>val\<close> of the token.\<close>

definition checkToken :: "token \<Rightarrow> js_string option" where
  "checkToken t =
     (if tk_type t \<in> {''Identifier'', ''Literal''} \<and>
         tk_value t \<in> js ` {''_IOSTInstruction_counter'', ''_IOSTBinaryOp'', ''IOSTInstruction'', ''_IOSTTemplateTag'', ''_IOSTSpreadElement''}
      then Some (js ''use of _IOSTInstruction_counter or _IOSTBinaryOp keyword is not allowed'')
      else if tk_type t = ''RegularExpression'' then Some (js ''use of RegularExpression is not allowed.undefined'')
      else if tk_type t = ''Keyword'' \<and> tk_value t \<in> js ` {''try'', ''catch''} then Some (js ''use of try catch is not supported'')
      else if tk_type t = ''Identifier'' \<and> tk_value t \<in> js ` {''async'', ''await''}
        then Some (js ''use of async or await is not supported'')
      else None)"

fun checkInvalidKeyword :: "token list \<Rightarrow> js_string option" where
  "checkInvalidKeyword [] = None"
| "checkInvalidKeyword (t # ts) = (case checkToken t of Some e \<Rightarrow> Some e | None \<Rightarrow> checkInvalidKeyword ts)"

section \<open>Collecting injections\<close>

text \<open>What \<^verbatim>\<open>lastInjection\<close> can be: null, an empty object, or a position with an index.\<close>

datatype injection_ref = NullRef | EmptyRef | At nat nat

text \<open>
  The comparison with \<^verbatim>\<open>InjectType.gasIncrWithComm\<close>, which does not exist, is never true, so an entry
  with a comma is not added to.
\<close>

definition addInjection ::
  "nat \<Rightarrow> InjectType \<Rightarrow> js_string option \<Rightarrow> charge list \<Rightarrow> bool \<Rightarrow> injections \<Rightarrow> injection_ref \<times> injections" where
  "addInjection pos ty text value before m =
     (let arr = entries m pos;
          new = \<lparr>en_type = ty, en_text = text, en_charges = value\<rparr>;
          index = (if before then 0 else length arr - 1);
          insert = (if before then (At pos 0, AList.update pos (new # arr) m)
                    else (At pos (length arr), AList.update pos (arr @ [new]) m))
      in
      if plain_text ty then insert
      else if arr \<noteq> [] \<and> en_type (arr ! index) \<in> {gasIncr, gasIncrWithSemicolon} then
        (At pos index,
         AList.update pos (arr[index := (arr ! index)\<lparr>en_charges := en_charges (arr ! index) @ value\<rparr>]) m)
      else insert)"

definition addInjectionPoint ::
  "jtree \<Rightarrow> InjectType \<Rightarrow> charge list \<Rightarrow> injections \<Rightarrow> (injection_ref \<times> injections) option" where
  "addInjectionPoint node ty value m =
     (if falsy node then Some (EmptyRef, m)
      else
        do { (a, b) \<leftarrow> range_of node;
             Some (addInjection a (if node_type node \<noteq> ''EmptyExpression'' then ty else gasIncr) None value False m) })"

text \<open>Both helpers put a pair of texts around a node.\<close>

definition enclose :: "InjectType \<Rightarrow> InjectType \<Rightarrow> jtree \<Rightarrow> injections \<Rightarrow> injections option" where
  "enclose l r node m =
     do { (a, b) \<leftarrow> range_of node;
          let m1 = snd (addInjection a l None [] False m);
          Some (snd (addInjection b r None [] True m1)) }"

definition ensure_block :: "jtree \<Rightarrow> injections \<Rightarrow> injections option" where
  "ensure_block node m =
     (if falsy node \<or> node_type node = ''BlockStatement'' then Some m else enclose leftBrace rightBrace node m)"

definition ensure_bracket :: "jtree \<Rightarrow> injections \<Rightarrow> injections option" where
  "ensure_bracket node m = (if falsy node then Some m else enclose leftBracket rightBracket node m)"

text \<open>\<^verbatim>\<open>injectionMap.get(pos)[index].value += value\<close>.\<close>

fun charge_at :: "injection_ref \<Rightarrow> charge \<Rightarrow> injections \<Rightarrow> injections option" where
  "charge_at (At pos index) c m =
     (let arr = entries m pos in
      if index < length arr then
        Some (AList.update pos (arr[index := (arr ! index)\<lparr>en_charges := en_charges (arr ! index) @ [c]\<rparr>]) m)
      else None)"
| "charge_at r c m = None"

definition statement_start :: "jtree \<Rightarrow> jtree option \<Rightarrow> bool" where
  "statement_start node parentNode \<longleftrightarrow>
     node_type node \<in> set InjectableStatement \<or>
     node_type node = ''VariableDeclaration'' \<and>
     (case parentNode of
        None \<Rightarrow> True
      | Some p \<Rightarrow> node_type p \<notin> {''ForStatement'', ''ForInStatement'', ''ForOfStatement''})"

definition begin_node :: "jtree \<Rightarrow> jtree option \<Rightarrow> injection_ref \<Rightarrow> injections \<Rightarrow> (injection_ref \<times> injections) option" where
  "begin_node node parentNode lastInjection m =
     (if statement_start node parentNode then
        do { (a, b) \<leftarrow> range_of node; Some (addInjection a gasIncrWithSemicolon None [] False m) }
      else Some (lastInjection, m))"

text \<open>Charging a node to the injection before it, or to a new one where it starts.\<close>

definition charge_node :: "jtree \<Rightarrow> charge \<Rightarrow> injection_ref \<Rightarrow> injections \<Rightarrow> (injection_ref \<times> injections) option" where
  "charge_node node c lastInjection m =
     do { (r, m1) \<leftarrow>
            (if lastInjection = NullRef then
               do { (a, b) \<leftarrow> range_of node; Some (addInjection a gasIncrWithSemicolon None [] False m) }
             else Some (lastInjection, m));
          m2 \<leftarrow> charge_at r c m1;
          Some (r, m2) }"

definition body_start :: "jtree \<Rightarrow> nat option" where
  "body_start body =
     do { (a, b) \<leftarrow> range_of body;
          Some (if node_type body = ''BlockStatement'' then a + 1 else a) }"

text \<open>The common part of the loops: braces around the body, and a charge at its start.\<close>

definition loop_body :: "jtree \<Rightarrow> charge \<Rightarrow> injections \<Rightarrow> (injection_ref \<times> injections) option" where
  "loop_body body c m =
     do { m1 \<leftarrow> ensure_block body m;
          pos \<leftarrow> body_start body;
          Some (addInjection pos gasIncrWithSemicolon None [c] False m1) }"

definition type_charge :: "string \<Rightarrow> charge" where
  "type_charge ty = Units (case chargedExpression ty of Some v \<Rightarrow> v | None \<Rightarrow> 0)"

fun elements :: "jtree \<Rightarrow> nat" where
  "elements (TArr xs) = length xs"
| "elements t = 0"

definition plain_charge :: "jtree \<Rightarrow> charge option" where
  "plain_charge node =
     (let ty = node_type node in
      case chargedExpression ty of
        None \<Rightarrow>
          (case field node ''value'' of
             TStr s \<Rightarrow> if ty = ''Literal'' then Some (TwoPlus (1 / 10) (length s)) else None
           | _ \<Rightarrow> None)
      | Some v \<Rightarrow>
          if ty = ''VariableDeclarator'' \<and> field node ''init'' \<in> {TNull, TUndef}
            then Some (type_charge ''VariableDeclaratorWithoutInit'')
          else if ty = ''ObjectExpression'' \<and> elements (field node ''properties'') > 0
            then Some (TwoPlus v (elements (field node ''properties'')))
          else if ty = ''ArrayExpression'' \<and> elements (field node ''elements'') > 0
            then Some (TwoPlus v (elements (field node ''elements'')))
          else Some (Units v))"

type_synonym node_result = "injection_ref \<times> (string \<times> injection_ref) list \<times> injections"

definition process_arrow :: "jtree \<Rightarrow> injection_ref \<Rightarrow> injections \<Rightarrow> node_result option" where
  "process_arrow node lastInjection m =
     do { (r, m1) \<leftarrow> charge_node node (type_charge ''ArrowFunctionExpression'') lastInjection m;
          let body = field node ''body'';
          if \<not> readable_value body then None
          else if node_type body \<noteq> ''BlockStatement'' then
            do { (a, b) \<leftarrow> range_of body;
                 let m2 = snd (addInjection a str (Some (js ''function(){'')) [] False m1);
                 (p, m3) \<leftarrow> addInjectionPoint body gasIncrWithSemicolon [] m2;
                 let m4 = snd (addInjection a str (Some (js ''return '')) [] False m3);
                 Some (r, [(''body'', p)], snd (addInjection b str (Some (js ''}()'')) [] True m4)) }
          else Some (r, [], m1) }"

definition process_conditional :: "jtree \<Rightarrow> injection_ref \<Rightarrow> injections \<Rightarrow> node_result option" where
  "process_conditional node lastInjection m =
     do { let test = field node ''test'';
          let consequent = field node ''consequent'';
          let alternate = field node ''alternate'';
          m1 \<leftarrow> ensure_bracket test m;
          m2 \<leftarrow> ensure_bracket consequent m1;
          m3 \<leftarrow> ensure_bracket alternate m2;
          (p1, m4) \<leftarrow> addInjectionPoint test gasIncrWithComma [] m3;
          (p2, m5) \<leftarrow> addInjectionPoint consequent gasIncrWithComma [] m4;
          (p3, m6) \<leftarrow> addInjectionPoint alternate gasIncrWithComma [] m5;
          (r, m7) \<leftarrow> charge_node node (type_charge ''ConditionalExpression'') lastInjection m6;
          Some (r, [(''test'', p1), (''consequent'', p2), (''alternate'', p3)], m7) }"

definition processNode :: "jtree \<Rightarrow> jtree option \<Rightarrow> injection_ref \<Rightarrow> injections \<Rightarrow> node_result option" where
  "processNode node parentNode lastInjection m0 =
     do { (prev, m) \<leftarrow> begin_node node parentNode lastInjection m0;
          let ty = node_type node;
          let test = field node ''test'';
          let body = field node ''body'';
          if ty = ''IfStatement'' then
            do { m1 \<leftarrow> ensure_block (field node ''consequent'') m;
                 m2 \<leftarrow> ensure_block (field node ''alternate'') m1;
                 (p, m3) \<leftarrow> addInjectionPoint test gasIncrWithComma [] m2;
                 Some (prev, [(''test'', p)], m3) }
          else if ty = ''ForStatement'' then
            do { (p0, m1) \<leftarrow> loop_body body (type_charge ty) m;
                 (p2, m2) \<leftarrow> addInjectionPoint test gasIncrWithComma [] m1;
                 (p3, m3) \<leftarrow> addInjectionPoint (field node ''update'') gasIncrWithComma [] m2;
                 Some (prev, [(''test'', p2), (''update'', p3), (''body'', p0)], m3) }
          else if ty = ''ForInStatement'' \<or> ty = ''ForOfStatement'' then
            do { (p0, m1) \<leftarrow> loop_body body (type_charge ty) m;
                 Some (prev, [(''body'', p0)], m1) }
          else if ty = ''WhileStatement'' \<or> ty = ''DoWhileStatement'' then
            do { (p0, m1) \<leftarrow> loop_body body (Units 1) m;
                 (p, m2) \<leftarrow> addInjectionPoint test gasIncrWithComma [type_charge ty] m1;
                 Some (prev, [(''test'', p), (''body'', p0)], m2) }
          else if ty = ''WithStatement'' then
            do { m1 \<leftarrow> ensure_block body m; Some (prev, [], m1) }
          else if ty = ''SwitchStatement'' then Some (prev, [], m)
          else if ty = ''SwitchCase'' then
            do { (p, m1) \<leftarrow> addInjectionPoint test gasIncrWithComma [] m;
                 Some (prev, [(''test'', p)], m1) }
          else if ty = ''ArrowFunctionExpression'' then process_arrow node prev m
          else if ty = ''ConditionalExpression'' then process_conditional node prev m
          else
            case plain_charge node of
              None \<Rightarrow> Some (prev, [], m)
            | Some c \<Rightarrow> do { (r, m1) \<leftarrow> charge_node node c prev m; Some (r, [], m1) } }"

text \<open>The children of an array have no injection of their own, as an array has no type.\<close>

fun traverse :: "jtree \<Rightarrow> jtree option \<Rightarrow> injection_ref \<Rightarrow> injections \<Rightarrow> injections option"
and traverse_fields ::
  "jtree \<Rightarrow> injection_ref \<Rightarrow> (string \<times> injection_ref) list \<Rightarrow> (string \<times> jtree) list \<Rightarrow> injections \<Rightarrow> injections option"
and traverse_elements :: "jtree \<Rightarrow> injection_ref \<Rightarrow> jtree list \<Rightarrow> injections \<Rightarrow> injections option" where
  "traverse (TObj fs) parentNode lastInjection m =
     Option.bind (processNode (TObj fs) parentNode lastInjection m)
       (\<lambda>(prev, kids, m1). traverse_fields (TObj fs) prev kids fs m1)"
| "traverse (TArr xs) parentNode lastInjection m =
     Option.bind (processNode (TArr xs) parentNode lastInjection m)
       (\<lambda>(prev, kids, m1). traverse_elements (TArr xs) prev xs m1)"
| "traverse t parentNode lastInjection m = Some m"
| "traverse_fields node prev kids [] m = Some m"
| "traverse_fields node prev kids ((key, child) # fs) m =
     Option.bind (traverse child (Some node) (case map_of kids key of Some r \<Rightarrow> r | None \<Rightarrow> prev) m)
       (\<lambda>m1. traverse_fields node prev kids fs m1)"
| "traverse_elements node prev [] m = Some m"
| "traverse_elements node prev (child # xs) m =
     Option.bind (traverse child (Some node) prev m) (\<lambda>m1. traverse_elements node prev xs m1)"

section \<open>Weaving\<close>

definition emitted :: "entry \<Rightarrow> bool" where
  "emitted e \<longleftrightarrow> plain_text (en_type e) \<or> en_text e = None \<and> list_ex (\<lambda>c. amount c > 0) (en_charges e)"

definition insertion :: "(charge list \<Rightarrow> js_string) \<Rightarrow> entry list \<Rightarrow> js_string" where
  "insertion num arr = concat (map (genInjectionStr num) (filter emitted arr))"

fun weave :: "(charge list \<Rightarrow> js_string) \<Rightarrow> injections \<Rightarrow> js_string \<Rightarrow> nat \<Rightarrow> nat list \<Rightarrow> js_string" where
  "weave num m source offset [] = drop offset source"
| "weave num m source offset (pos # ps) =
     drop offset (take pos source) @ insertion num (entries m pos) @ weave num m source pos ps"

definition genNewScript :: "(charge list \<Rightarrow> js_string) \<Rightarrow> injections \<Rightarrow> js_string \<Rightarrow> js_string" where
  "genNewScript num m source = weave num m source 0 (sort (map fst m))"

end
