(* ===== verification/InjectLaws.thy ===== *)
theory InjectLaws
  imports InjectGas
begin

text \<open>
  Laws of the injection of gas: the woven script is the source with the collected entries at their
  positions, every node of the tree is charged exactly once, and no loop body goes without a charge.
\<close>

section \<open>Weaving\<close>

text \<open>The reference: before every character comes what was collected at its position.\<close>

definition spliced :: "(charge list \<Rightarrow> js_string) \<Rightarrow> injections \<Rightarrow> js_string \<Rightarrow> nat \<Rightarrow> js_string" where
  "spliced num m source len =
     concat (map (\<lambda>i. insertion num (entries m i) @ (if i < length source then [source ! i] else [])) [0..<len])"

lemma insertion_Nil [simp]: "insertion num [] = []"
  by (simp add: insertion_def)

lemma concat_chars: "concat (map (\<lambda>i. if i < length s then [s ! i] else []) [a..<b]) = drop a (take b s)"
proof (induction b)
  case (Suc b)
  show ?case
  proof (cases "a \<le> b")
    case True
    then show ?thesis
      using Suc by (cases "b < length s") (simp_all add: take_Suc_conv_app_nth)
  next
    case False
    then show ?thesis by simp
  qed
qed simp

lemma weave_spliced:
  assumes "sorted_wrt (<) ps" and "\<forall>p \<in> set ps. off \<le> p \<and> p < len" and "off \<le> len" and "length source \<le> len"
  shows "weave num m source off ps =
    concat (map (\<lambda>i. (if i \<in> set ps then insertion num (entries m i) else []) @
      (if i < length source then [source ! i] else [])) [off..<len])"
  using assms
proof (induction ps arbitrary: off)
  case Nil
  then show ?case using concat_chars [of source off len] by simp
next
  case (Cons p ps)
  define f where "f ps i = (if i \<in> set ps then insertion num (entries m i) else []) @ (if i < length source then [source ! i] else [])"
    for ps i
  have p: "off \<le> p" "p < len" "\<forall>q \<in> set ps. p < q" using Cons.prems by auto
  have "[off..<len] = [off..<p] @ p # [Suc p..<len]"
    using p upt_add_eq_append [of off p "len - p"] by (simp add: upt_conv_Cons)
  moreover have "concat (map (f (p # ps)) [off..<p]) = drop off (take p source)"
  proof -
    have "map (f (p # ps)) [off..<p] = map (\<lambda>i. if i < length source then [source ! i] else []) [off..<p]"
      by (rule map_cong [OF refl]) (use p(3) in \<open>auto simp: f_def\<close>)
    then show ?thesis by (simp only: concat_chars)
  qed
  moreover have "concat (map (f (p # ps)) [Suc p..<len]) = concat (map (f ps) [Suc p..<len])"
    by (rule arg_cong [where f = concat], rule map_cong [OF refl]) (auto simp: f_def)
  moreover have "weave num m source p ps = f ps p @ concat (map (f ps) [Suc p..<len])"
    using Cons.IH [of p] Cons.prems p by (simp add: upt_conv_Cons order_less_imp_le f_def [abs_def])
  moreover have "f (p # ps) p = insertion num (entries m p) @ f ps p" using p(3) by (auto simp: f_def)
  ultimately have "weave num m source off (p # ps) = concat (map (f (p # ps)) [off..<len])" by simp
  then show ?case by (simp add: f_def [abs_def])
qed

lemma genNewScript_spliced:
  assumes "distinct (map fst m)" and "\<forall>p \<in> set (map fst m). p < len" and "length source \<le> len"
  shows "genNewScript num m source = spliced num m source len"
proof -
  have none: "entries m i = []" if "i \<notin> set (map fst m)" for i
    using that by (simp add: entries_def map_of_eq_None_iff [symmetric])
  have "sorted_wrt (<) (sort (map fst m))" using assms(1) by (simp add: strict_sorted_iff)
  then have "genNewScript num m source = concat (map (\<lambda>i. (if i \<in> set (map fst m) then insertion num (entries m i) else []) @
      (if i < length source then [source ! i] else [])) [0..<len])"
    unfolding genNewScript_def using assms(2,3) by (subst weave_spliced) auto
  also have "\<dots> = spliced num m source len"
    unfolding spliced_def using none by (intro arg_cong [where f = concat] map_cong) auto
  finally show ?thesis .
qed

section \<open>What a step may do to the injections\<close>

definition charges_of :: "entry list \<Rightarrow> charge list" where
  "charges_of arr = concat (map en_charges arr)"

definition all_charges :: "injections \<Rightarrow> charge multiset" where
  "all_charges m = (\<Sum>(p, arr) \<leftarrow> m. mset (charges_of arr))"

text \<open>A gas entry has no text of its own, and a text has no charges.\<close>

definition clean :: "entry \<Rightarrow> bool" where
  "clean e \<longleftrightarrow> (if plain_text (en_type e) then en_charges e = [] else en_text e = None)"

definition metered_at :: "injections \<Rightarrow> nat \<Rightarrow> bool" where
  "metered_at m p \<longleftrightarrow> (\<exists>e \<in> set (entries m p). \<not> plain_text (en_type e) \<and> emitted e)"

definition injections_ok :: "injections \<Rightarrow> bool" where
  "injections_ok m \<longleftrightarrow> distinct (map fst m) \<and> (\<forall>p. \<forall>e \<in> set (entries m p). clean e)"

text \<open>
  \<open>E\<close> are the positions of closing texts, the only ones where entries move: elsewhere the list of
  entries only grows at its end.
\<close>

definition adds :: "nat set \<Rightarrow> charge list \<Rightarrow> injections \<Rightarrow> injections \<Rightarrow> bool" where
  "adds E cs m m' \<longleftrightarrow>
     injections_ok m' \<and> all_charges m' = all_charges m + mset cs \<and>
     (\<forall>p. p \<notin> E \<longrightarrow> (\<exists>ts. map en_type (entries m' p) = map en_type (entries m p) @ ts)) \<and>
     (\<forall>p. metered_at m p \<longrightarrow> metered_at m' p)"

definition gas_ref :: "nat set \<Rightarrow> injections \<Rightarrow> injection_ref \<Rightarrow> bool" where
  "gas_ref E m r \<longleftrightarrow>
     (\<exists>p i. r = At p i \<and> p \<notin> E \<and> i < length (entries m p) \<and> \<not> plain_text (en_type (entries m p ! i)))"

definition ref_ok :: "nat set \<Rightarrow> injections \<Rightarrow> injection_ref \<Rightarrow> bool" where
  "ref_ok E m r \<longleftrightarrow> r = NullRef \<or> gas_ref E m r"

lemma adds_refl [simp]: "injections_ok m \<Longrightarrow> adds E [] m m"
  by (simp add: adds_def)

lemma adds_ok [simp]: "adds E cs m m' \<Longrightarrow> injections_ok m'"
  by (simp add: adds_def)

lemma adds_trans: "adds E cs m m1 \<Longrightarrow> adds E ds m1 m2 \<Longrightarrow> mset es = mset cs + mset ds \<Longrightarrow> adds E es m m2"
  unfolding adds_def by (metis add.assoc append.assoc)

lemma gas_ref_adds:
  assumes "adds E cs m m'" and "gas_ref E m r"
  shows "gas_ref E m' r"
proof -
  obtain p i where r: "r = At p i" "p \<notin> E" "i < length (entries m p)" "\<not> plain_text (en_type (entries m p ! i))"
    using assms(2) by (auto simp: gas_ref_def)
  then obtain ts where ts: "map en_type (entries m' p) = map en_type (entries m p) @ ts"
    using assms(1) by (auto simp: adds_def)
  have len: "i < length (entries m' p)" using arg_cong [OF ts, of length] r(3) by simp
  have "en_type (entries m' p ! i) = map en_type (entries m' p) ! i" using len by simp
  also have "\<dots> = en_type (entries m p ! i)" using r(3) by (simp add: ts nth_append)
  finally show ?thesis using r len by (auto simp: gas_ref_def)
qed

lemma ref_ok_adds: "adds E cs m m' \<Longrightarrow> ref_ok E m r \<Longrightarrow> ref_ok E m' r"
  using gas_ref_adds by (auto simp: ref_ok_def)

lemma entries_update [simp]: "entries (AList.update p arr m) q = (if q = p then arr else entries m q)"
  by (simp add: entries_def update_conv')

lemma all_charges_update:
  assumes "distinct (map fst m)"
  shows "all_charges (AList.update p arr m) + mset (charges_of (entries m p)) = all_charges m + mset (charges_of arr)"
  using assms
proof (induction m)
  case Nil
  then show ?case by (simp add: all_charges_def entries_def charges_of_def)
next
  case (Cons x m)
  obtain q brr where x: "x = (q, brr)" by force
  show ?case
  proof (cases "q = p")
    case True
    then show ?thesis using Cons.prems by (simp add: x all_charges_def entries_def)
  next
    case False
    then have "entries (x # m) p = entries m p" by (simp add: x entries_def)
    then show ?thesis using Cons False by (simp add: x all_charges_def)
  qed
qed

text \<open>Replacing the entries at one position.\<close>

lemma adds_update:
  assumes ok: "injections_ok m" and clean: "\<forall>e \<in> set arr. clean e"
    and cs: "mset (charges_of arr) = mset (charges_of (entries m p)) + mset cs"
    and grow: "p \<notin> E \<Longrightarrow> \<exists>ts. map en_type arr = map en_type (entries m p) @ ts"
    and gas: "\<exists>e \<in> set (entries m p). \<not> plain_text (en_type e) \<and> emitted e \<Longrightarrow> \<exists>e \<in> set arr. \<not> plain_text (en_type e) \<and> emitted e"
  shows "adds E cs m (AList.update p arr m)"
proof -
  have "distinct (map fst (AList.update p arr m))" using ok by (simp add: injections_ok_def distinct_update)
  moreover have "all_charges (AList.update p arr m) = all_charges m + mset cs"
    using all_charges_update [of m p arr] ok cs by (simp add: injections_ok_def)
  ultimately show ?thesis
    using ok clean grow gas unfolding adds_def injections_ok_def metered_at_def by (auto split: if_splits)
qed

section \<open>The steps\<close>

lemma charges_of_append [simp]: "charges_of (xs @ ys) = charges_of xs @ charges_of ys"
  by (simp add: charges_of_def)

lemma charges_of_Cons [simp]: "charges_of (e # xs) = en_charges e @ charges_of xs"
  by (simp add: charges_of_def)

lemma charges_of_Nil [simp]: "charges_of [] = []"
  by (simp add: charges_of_def)

text \<open>Adding charges to an entry that is there.\<close>

definition more :: "nat \<Rightarrow> charge list \<Rightarrow> entry list \<Rightarrow> entry list" where
  "more i cs arr = arr[i := (arr ! i)\<lparr>en_charges := en_charges (arr ! i) @ cs\<rparr>]"

lemma more_split:
  assumes "i < length arr"
  obtains xs e ys where "arr = xs @ e # ys" "arr ! i = e" "more i cs arr = xs @ e\<lparr>en_charges := en_charges e @ cs\<rparr> # ys"
  using assms id_take_nth_drop [OF assms] upd_conv_take_nth_drop [OF assms] by (metis more_def)

lemma adds_more:
  assumes ok: "injections_ok m" and i: "i < length (entries m p)" and gas: "\<not> plain_text (en_type (entries m p ! i))"
  shows "adds E cs m (AList.update p (more i cs (entries m p)) m)"
proof -
  obtain xs e ys where *: "entries m p = xs @ e # ys" "entries m p ! i = e"
    "more i cs (entries m p) = xs @ e\<lparr>en_charges := en_charges e @ cs\<rparr> # ys"
    using more_split [OF i] by metis
  have "\<forall>e \<in> set (entries m p). clean e" using ok by (simp add: injections_ok_def)
  then show ?thesis
    using ok gas * by (intro adds_update) (auto simp: clean_def emitted_def)
qed

lemma adds_insert:
  assumes ok: "injections_ok m" and e: "clean e" and "p \<notin> E \<Longrightarrow> \<not> before"
  shows "adds E (en_charges e) m (AList.update p (if before then e # entries m p else entries m p @ [e]) m)"
proof -
  have "\<forall>e \<in> set (entries m p). clean e" using ok by (simp add: injections_ok_def)
  then show ?thesis using assms by (intro adds_update) auto
qed

text \<open>What \<open>addInjection\<close> does, for a text and for gas.\<close>

lemma addInjection_text:
  assumes "injections_ok m" and "plain_text ty" and "p \<notin> E \<Longrightarrow> \<not> before"
  shows "adds E [] m (snd (addInjection p ty t [] before m))"
  using adds_insert [OF assms(1), of "\<lparr>en_type = ty, en_text = t, en_charges = []\<rparr>" p E before] assms(2,3)
  by (auto simp: addInjection_def Let_def clean_def)

lemma addInjection_gas:
  assumes ok: "injections_ok m" and ty: "\<not> plain_text ty" and p: "p \<notin> E"
    and "addInjection p ty None cs False m = (r, m')"
  shows "adds E cs m m'" "gas_ref E m' r" "list_ex (\<lambda>c. amount c > 0) cs \<Longrightarrow> metered_at m' p"
proof -
  let ?arr = "entries m p" and ?i = "length (entries m p) - 1" and ?e = "\<lparr>en_type = ty, en_text = None, en_charges = cs\<rparr>"
  have clean: "\<forall>e \<in> set ?arr. clean e" using ok by (simp add: injections_ok_def)
  consider (merge) "?arr \<noteq> []" "en_type (?arr ! ?i) \<in> {gasIncr, gasIncrWithSemicolon}" "r = At p ?i"
      "m' = AList.update p (more ?i cs ?arr) m"
    | (new) "r = At p (length ?arr)" "m' = AList.update p (?arr @ [?e]) m"
    using assms(2,4) by (auto simp: addInjection_def Let_def more_def split: if_splits)
  then have "adds E cs m m' \<and> gas_ref E m' r \<and> (list_ex (\<lambda>c. amount c > 0) cs \<longrightarrow> metered_at m' p)"
  proof cases
    case merge
    then have i: "?i < length ?arr" and gas: "\<not> plain_text (en_type (?arr ! ?i))" by auto
    obtain xs e ys where *: "?arr = xs @ e # ys" "?arr ! ?i = e"
      "more ?i cs ?arr = xs @ e\<lparr>en_charges := en_charges e @ cs\<rparr> # ys"
      using more_split [OF i] by metis
    have "gas_ref E m' r" using merge i gas p by (simp add: gas_ref_def more_def)
    moreover have "adds E cs m m'" using adds_more [OF ok i gas] merge(4) by simp
    moreover have "en_text e = None" using clean gas * by (auto simp: clean_def)
    ultimately show ?thesis
      using merge(4) gas * by (auto simp: metered_at_def emitted_def)
  next
    case new
    then show ?thesis
      using adds_insert [OF ok, of ?e p E False] ty p by (auto simp: clean_def gas_ref_def metered_at_def emitted_def)
  qed
  then show "adds E cs m m'" "gas_ref E m' r" "list_ex (\<lambda>c. amount c > 0) cs \<Longrightarrow> metered_at m' p" by blast+
qed

lemma charge_at_gas:
  assumes "injections_ok m" and "gas_ref E m r"
  shows "\<exists>m'. charge_at r c m = Some m' \<and> adds E [c] m m'"
proof -
  obtain p i where r: "r = At p i" "i < length (entries m p)" "\<not> plain_text (en_type (entries m p ! i))"
    using assms(2) by (auto simp: gas_ref_def)
  then show ?thesis using adds_more [OF assms(1) r(2,3), of E "[c]"] by (simp add: more_def Let_def)
qed

section \<open>Well-formed trees\<close>

text \<open>The children that get texts around them, with the positions of the closing ones.\<close>

definition braced :: "jtree \<Rightarrow> jtree list" where
  "braced node =
     (let ty = node_type node; unless_block = filter (\<lambda>t. node_type t \<noteq> ''BlockStatement'') in
      if ty = ''IfStatement'' then unless_block [field node ''consequent'', field node ''alternate'']
      else if ty \<in> {''ForStatement'', ''ForInStatement'', ''ForOfStatement'', ''WhileStatement'', ''DoWhileStatement'',
                    ''WithStatement'', ''ArrowFunctionExpression''} then unless_block [field node ''body'']
      else if ty = ''ConditionalExpression'' then [field node ''test'', field node ''consequent'', field node ''alternate'']
      else [])"

definition closings :: "jtree \<Rightarrow> nat list" where
  "closings t = concat (map (\<lambda>n. concat (map (\<lambda>c. case range_of c of Some (a, b) \<Rightarrow> [b] | None \<Rightarrow> []) (braced n))) (subtrees t))"

definition is_node :: "jtree \<Rightarrow> bool" where
  "is_node t \<longleftrightarrow> node_type t \<noteq> ''undefined''"

definition loops :: "string list" where
  "loops = [''ForStatement'', ''ForInStatement'', ''ForOfStatement'', ''WhileStatement'', ''DoWhileStatement'']"

text \<open>
  A node starts where no text is closed, its children are nodes or missing, and no object has two
  properties of the same name.
\<close>

definition placed :: "nat set \<Rightarrow> jtree \<Rightarrow> bool" where
  "placed E t \<longleftrightarrow> (case range_of t of None \<Rightarrow> False | Some (a, b) \<Rightarrow> a \<notin> E)"

definition child_keys :: "string list" where
  "child_keys = [''test'', ''consequent'', ''alternate'', ''update'']"

definition node_ok :: "nat set \<Rightarrow> jtree \<Rightarrow> bool" where
  "node_ok E n \<longleftrightarrow>
     (case n of TObj fs \<Rightarrow> distinct (map fst fs) | _ \<Rightarrow> True) \<and>
     (is_node n \<longrightarrow> placed E n) \<and>
     list_all (\<lambda>k. falsy (field n k) \<or> is_node (field n k) \<and> placed E (field n k)) child_keys \<and>
     (node_type n \<in> set (''WithStatement'' # ''ArrowFunctionExpression'' # loops) \<longrightarrow>
        \<not> falsy (field n ''body'') \<and> is_node (field n ''body'') \<and> placed E (field n ''body'')) \<and>
     (node_type n \<in> set loops \<longrightarrow> (case body_start (field n ''body'') of None \<Rightarrow> False | Some p \<Rightarrow> p \<notin> E)) \<and>
     (\<forall>c \<in> set (braced n). case range_of c of None \<Rightarrow> True | Some (a, b) \<Rightarrow> b \<in> E)"

definition tree_ok :: "jtree \<Rightarrow> bool" where
  "tree_ok t \<longleftrightarrow> list_all (node_ok (set (closings t))) (subtrees t)"

section \<open>The gas of a tree\<close>

text \<open>What the nodes of a tree cost, by their types alone.\<close>

definition own_gas :: "jtree \<Rightarrow> charge list" where
  "own_gas n =
     (let ty = node_type n in
      if ty \<in> {''IfStatement'', ''WithStatement'', ''SwitchStatement'', ''SwitchCase''} then []
      else if ty \<in> {''ForStatement'', ''ForInStatement'', ''ForOfStatement'', ''ArrowFunctionExpression'', ''ConditionalExpression''}
        then [type_charge ty]
      else if ty \<in> {''WhileStatement'', ''DoWhileStatement''}
        then Units 1 # (if falsy (field n ''test'') then [] else [type_charge ty])
      else case plain_charge n of None \<Rightarrow> [] | Some c \<Rightarrow> [c])"

definition tree_gas :: "jtree \<Rightarrow> charge list" where
  "tree_gas t = concat (map own_gas (subtrees t))"

section \<open>Processing one node\<close>

lemma enclose_adds:
  assumes "injections_ok m" and "plain_text l" and "plain_text r" and "range_of t = Some (a, b)" and "b \<in> E"
  shows "\<exists>m'. enclose l r t m = Some m' \<and> adds E [] m m'"
proof -
  have 1: "adds E [] m (snd (addInjection a l None [] False m))" using assms by (intro addInjection_text) auto
  moreover have "adds E [] (snd (addInjection a l None [] False m)) (snd (addInjection b r None [] True (snd (addInjection a l None [] False m))))"
    using assms 1 by (intro addInjection_text) auto
  ultimately show ?thesis using assms(4) by (auto simp: enclose_def intro: adds_trans)
qed

text \<open>A child that is missing or a node, and closes in \<open>E\<close> when it is enclosed.\<close>

definition child_ok :: "nat set \<Rightarrow> jtree \<Rightarrow> bool" where
  "child_ok E t \<longleftrightarrow> falsy t \<or> (\<exists>a b. range_of t = Some (a, b) \<and> a \<notin> E)"

definition closes_in :: "nat set \<Rightarrow> jtree \<Rightarrow> bool" where
  "closes_in E t \<longleftrightarrow> (\<forall>a b. range_of t = Some (a, b) \<longrightarrow> b \<in> E)"

lemma ensure_block_adds:
  assumes "injections_ok m" and "child_ok E t" and "node_type t = ''BlockStatement'' \<or> closes_in E t"
  shows "\<exists>m'. ensure_block t m = Some m' \<and> adds E [] m m'"
  using assms enclose_adds [OF assms(1), of leftBrace rightBrace t _ _ E]
  by (auto simp: ensure_block_def child_ok_def closes_in_def)

lemma ensure_bracket_adds:
  assumes "injections_ok m" and "child_ok E t" and "closes_in E t"
  shows "\<exists>m'. ensure_bracket t m = Some m' \<and> adds E [] m m'"
  using assms enclose_adds [OF assms(1), of leftBracket rightBracket t _ _ E]
  by (auto simp: ensure_bracket_def child_ok_def closes_in_def)

lemma addInjectionPoint_adds:
  assumes "injections_ok m" and "child_ok E t" and "\<not> plain_text ty"
  shows "\<exists>r m'. addInjectionPoint t ty cs m = Some (r, m') \<and> adds E (if falsy t then [] else cs) m m' \<and>
    (\<not> falsy t \<longrightarrow> gas_ref E m' r)"
proof (cases "falsy t")
  case False
  then obtain a b where ab: "range_of t = Some (a, b)" "a \<notin> E" using assms(2) by (auto simp: child_ok_def)
  let ?ty = "if node_type t \<noteq> ''EmptyExpression'' then ty else gasIncr"
  obtain r m' where "addInjection a ?ty None cs False m = (r, m')" by force
  then show ?thesis
    using addInjection_gas [OF assms(1) _ ab(2), of ?ty cs r m'] ab(1) assms(3) False by (auto simp: addInjectionPoint_def)
qed (use assms(1) in \<open>simp add: addInjectionPoint_def\<close>)

lemma start_adds:
  assumes "injections_ok m" and "placed E n"
  shows "\<exists>r m'. Option.bind (range_of n) (\<lambda>(a, b). Some (addInjection a gasIncrWithSemicolon None [] False m)) = Some (r, m') \<and>
    adds E [] m m' \<and> gas_ref E m' r"
proof -
  obtain a b where ab: "range_of n = Some (a, b)" "a \<notin> E" using assms(2) by (auto simp: placed_def split: option.splits)
  obtain r m' where r: "addInjection a gasIncrWithSemicolon None [] False m = (r, m')" by force
  then show ?thesis using addInjection_gas(1,2) [OF assms(1) _ ab(2) r] ab(1) by simp
qed

lemma begin_node_adds:
  assumes "injections_ok m" and "is_node n \<Longrightarrow> placed E n" and "ref_ok E m r0"
  shows "\<exists>r m'. begin_node n p r0 m = Some (r, m') \<and> adds E [] m m' \<and> ref_ok E m' r"
proof (cases "statement_start n p")
  case True
  then have "is_node n" by (auto simp: statement_start_def is_node_def InjectableStatement_def)
  then show ?thesis using start_adds [OF assms(1)] assms(2) True by (fastforce simp: begin_node_def ref_ok_def)
qed (use assms in \<open>simp add: begin_node_def\<close>)

lemma charge_node_adds:
  assumes "injections_ok m" and "placed E n" and "ref_ok E m r0"
  shows "\<exists>r m'. charge_node n c r0 m = Some (r, m') \<and> adds E [c] m m' \<and> gas_ref E m' r"
proof -
  obtain r m1 where 1: "(if r0 = NullRef then Option.bind (range_of n) (\<lambda>(a, b). Some (addInjection a gasIncrWithSemicolon None [] False m))
      else Some (r0, m)) = Some (r, m1)" "adds E [] m m1" "gas_ref E m1 r"
    using start_adds [OF assms(1,2)] assms(1,3) by (cases "r0 = NullRef") (auto simp: ref_ok_def)
  obtain m2 where 2: "charge_at r c m1 = Some m2" "adds E [c] m1 m2"
    using charge_at_gas [OF adds_ok [OF 1(2)] 1(3)] by blast
  then have "charge_node n c r0 m = Some (r, m2)" unfolding charge_node_def 1(1) by simp
  then show ?thesis using adds_trans [OF 1(2) 2(2), of "[c]"] gas_ref_adds [OF 2(2) 1(3)] by simp
qed

lemma loop_body_adds:
  assumes "injections_ok m" and "child_ok E t" and "node_type t = ''BlockStatement'' \<or> closes_in E t"
    and "body_start t = Some p" and "p \<notin> E" and "amount c > 0"
  shows "\<exists>r m'. loop_body t c m = Some (r, m') \<and> adds E [c] m m' \<and> gas_ref E m' r \<and> metered_at m' p"
proof -
  obtain m1 where 1: "ensure_block t m = Some m1" "adds E [] m m1" using ensure_block_adds [OF assms(1-3)] by blast
  obtain r m' where 2: "addInjection p gasIncrWithSemicolon None [c] False m1 = (r, m')" by force
  have gas: "\<not> plain_text gasIncrWithSemicolon" by simp
  note 3 = addInjection_gas [OF adds_ok [OF 1(2)] gas assms(5) 2]
  have "loop_body t c m = Some (r, m')" using 1(1) 2 assms(4) by (simp add: loop_body_def)
  moreover have "adds E [c] m m'" using adds_trans [OF 1(2) 3(1)] by simp
  moreover have "metered_at m' p" using 3(3) assms(6) by simp
  ultimately show ?thesis using 3(2) by blast
qed

text \<open>What is known of a node after it was processed.\<close>

definition processed :: "nat set \<Rightarrow> jtree \<Rightarrow> injections \<Rightarrow> node_result option \<Rightarrow> bool" where
  "processed E n m res \<longleftrightarrow>
     (\<exists>r kids m'. res = Some (r, kids, m') \<and> adds E (own_gas n) m m' \<and> ref_ok E m' r \<and>
        (\<forall>k r'. map_of kids k = Some r' \<longrightarrow> falsy (field n k) \<or> gas_ref E m' r') \<and>
        (node_type n \<in> set loops \<longrightarrow> (\<exists>q. body_start (field n ''body'') = Some q \<and> metered_at m' q)))"

lemma placed_iff: "placed E t \<longleftrightarrow> (\<exists>a b. range_of t = Some (a, b) \<and> a \<notin> E)"
  by (cases "range_of t") (auto simp: placed_def)

lemma node_ok_child: "node_ok E n \<Longrightarrow> k \<in> set child_keys \<Longrightarrow> child_ok E (field n k)"
  unfolding node_ok_def list_all_iff child_ok_def placed_iff by blast

lemma node_ok_closes: "node_ok E n \<Longrightarrow> c \<in> set (braced n) \<Longrightarrow> closes_in E c"
  unfolding node_ok_def closes_in_def by fastforce

lemma node_ok_body:
  assumes "node_ok E n" and "node_type n \<in> set (''WithStatement'' # ''ArrowFunctionExpression'' # loops)"
  shows "child_ok E (field n ''body'')" "\<not> falsy (field n ''body'')"
    "node_type (field n ''body'') = ''BlockStatement'' \<or> closes_in E (field n ''body'')"
proof -
  show "child_ok E (field n ''body'')" "\<not> falsy (field n ''body'')"
    using assms unfolding node_ok_def child_ok_def placed_iff by blast+
  have "node_type (field n ''body'') \<noteq> ''BlockStatement'' \<Longrightarrow> field n ''body'' \<in> set (braced n)"
    using assms(2) by (elim set_ConsD [THEN disjE]) (auto simp: braced_def loops_def)
  then show "node_type (field n ''body'') = ''BlockStatement'' \<or> closes_in E (field n ''body'')"
    using node_ok_closes [OF assms(1)] by blast
qed

lemma node_ok_loop:
  assumes "node_ok E n" and "node_type n \<in> set loops"
  shows "\<exists>q. body_start (field n ''body'') = Some q \<and> q \<notin> E"
proof -
  have "case body_start (field n ''body'') of None \<Rightarrow> False | Some p \<Rightarrow> p \<notin> E"
    using assms unfolding node_ok_def by blast
  then show ?thesis by (cases "body_start (field n ''body'')") auto
qed

lemma type_charge_loop: "ty \<in> set loops \<Longrightarrow> amount (type_charge ty) > 0"
  by (auto simp: loops_def type_charge_def chargedExpression_def)

lemma processedI:
  assumes "res = Some (r, kids, m')" and "adds E (own_gas n) m m'" and "ref_ok E m' r"
    and "\<And>k r'. (k, r') \<in> set kids \<Longrightarrow> falsy (field n k) \<or> gas_ref E m' r'"
    and "node_type n \<in> set loops \<Longrightarrow> \<exists>q. body_start (field n ''body'') = Some q \<and> metered_at m' q"
  shows "processed E n m res"
  using assms by (auto simp: processed_def dest: map_of_SomeD)

lemma gas_refs_adds: "adds E cs m m' \<Longrightarrow> falsy t \<or> gas_ref E m r \<Longrightarrow> falsy t \<or> gas_ref E m' r"
  using gas_ref_adds by blast

lemma child_keys_mem [simp]:
  "''test'' \<in> set child_keys" "''consequent'' \<in> set child_keys" "''alternate'' \<in> set child_keys" "''update'' \<in> set child_keys"
  by (simp_all add: child_keys_def)

lemma point_adds:
  assumes "injections_ok m" and "node_ok E n" and "k \<in> set child_keys"
  obtains r m' where "addInjectionPoint (field n k) gasIncrWithComma cs m = Some (r, m')"
    "adds E (if falsy (field n k) then [] else cs) m m'" "falsy (field n k) \<or> gas_ref E m' r"
  using addInjectionPoint_adds [OF assms(1) node_ok_child [OF assms(2,3)], of gasIncrWithComma cs] by auto

lemma adds_same: "adds E [] m m1 \<Longrightarrow> adds E cs m1 m2 \<Longrightarrow> adds E cs m m2"
  using adds_trans [of E "[]" m m1 cs m2 cs] by simp

lemma adds_then: "adds E cs m m1 \<Longrightarrow> adds E [] m1 m2 \<Longrightarrow> adds E cs m m2"
  using adds_trans [of E cs m m1 "[]" m2 cs] by simp

lemma process_if:
  assumes ok: "injections_ok m" and r: "ref_ok E m r" and n: "node_ok E n" and ty: "node_type n = ''IfStatement''"
  shows "processed E n m (do { m1 \<leftarrow> ensure_block (field n ''consequent'') m;
                 m2 \<leftarrow> ensure_block (field n ''alternate'') m1;
                 (p, m3) \<leftarrow> addInjectionPoint (field n ''test'') gasIncrWithComma [] m2;
                 Some (r, [(''test'', p)], m3) })"
proof -
  have b: "braced n = filter (\<lambda>t. node_type t \<noteq> ''BlockStatement'') [field n ''consequent'', field n ''alternate'']"
    by (simp add: braced_def ty)
  have c: "node_type (field n k) = ''BlockStatement'' \<or> closes_in E (field n k)" if "k = ''consequent'' \<or> k = ''alternate''" for k
    using node_ok_closes [OF n, of "field n k"] that unfolding b set_filter by auto
  obtain m1 where 1: "ensure_block (field n ''consequent'') m = Some m1" "adds E [] m m1"
    using ensure_block_adds [OF ok node_ok_child [OF n child_keys_mem(2)] c] by blast
  obtain m2 where 2: "ensure_block (field n ''alternate'') m1 = Some m2" "adds E [] m1 m2"
    using ensure_block_adds [OF adds_ok [OF 1(2)] node_ok_child [OF n child_keys_mem(3)] c] by blast
  obtain p m3 where 3: "addInjectionPoint (field n ''test'') gasIncrWithComma [] m2 = Some (p, m3)" "adds E [] m2 m3"
    "falsy (field n ''test'') \<or> gas_ref E m3 p"
    using point_adds [OF adds_ok [OF 2(2)] n child_keys_mem(1), of "[]"] by (metis (full_types))
  have m: "adds E [] m m3" using adds_same [OF adds_same [OF 1(2) 2(2)] 3(2)] .
  have g: "own_gas n = []" "node_type n \<notin> set loops" by (simp_all add: own_gas_def loops_def ty)
  show ?thesis
    by (rule processedI [of _ r "[(''test'', p)]" m3]) (use 1(1) 2(1) 3(1,3) m g ref_ok_adds [OF m r] in auto)
qed

lemma loop_adds:
  assumes "injections_ok m" and n: "node_ok E n" and ty: "node_type n \<in> set loops" and "amount c > 0"
  obtains q r m' where "loop_body (field n ''body'') c m = Some (r, m')" "adds E [c] m m'" "gas_ref E m' r"
    "body_start (field n ''body'') = Some q" "metered_at m' q"
proof -
  have "node_type n \<in> set (''WithStatement'' # ''ArrowFunctionExpression'' # loops)" using ty by simp
  note b = node_ok_body [OF n this]
  obtain q where q: "body_start (field n ''body'') = Some q" "q \<notin> E" using node_ok_loop [OF n ty] by blast
  then show ?thesis using loop_body_adds [OF assms(1) b(1,3) q assms(4)] that by blast
qed

lemma metered_adds: "adds E cs m m' \<Longrightarrow> metered_at m p \<Longrightarrow> metered_at m' p"
  by (simp add: adds_def)

lemma process_for:
  assumes ok: "injections_ok m" and r: "ref_ok E m r" and n: "node_ok E n" and ty: "node_type n = ''ForStatement''"
  shows "processed E n m (do { (p0, m1) \<leftarrow> loop_body (field n ''body'') (type_charge ''ForStatement'') m;
                 (p2, m2) \<leftarrow> addInjectionPoint (field n ''test'') gasIncrWithComma [] m1;
                 (p3, m3) \<leftarrow> addInjectionPoint (field n ''update'') gasIncrWithComma [] m2;
                 Some (r, [(''test'', p2), (''update'', p3), (''body'', p0)], m3) })"
proof -
  have l: "node_type n \<in> set loops" using ty by (simp add: loops_def)
  obtain q p0 m1 where 1: "loop_body (field n ''body'') (type_charge ''ForStatement'') m = Some (p0, m1)"
    "adds E [type_charge ''ForStatement''] m m1" "gas_ref E m1 p0" "body_start (field n ''body'') = Some q" "metered_at m1 q"
    using loop_adds [OF ok n l type_charge_loop [OF l]] unfolding ty .
  obtain p2 m2 where 2: "addInjectionPoint (field n ''test'') gasIncrWithComma [] m1 = Some (p2, m2)" "adds E [] m1 m2"
    "falsy (field n ''test'') \<or> gas_ref E m2 p2"
    using point_adds [OF adds_ok [OF 1(2)] n child_keys_mem(1), of "[]"] by (metis (full_types))
  obtain p3 m3 where 3: "addInjectionPoint (field n ''update'') gasIncrWithComma [] m2 = Some (p3, m3)" "adds E [] m2 m3"
    "falsy (field n ''update'') \<or> gas_ref E m3 p3"
    using point_adds [OF adds_ok [OF 2(2)] n child_keys_mem(4), of "[]"] by (metis (full_types))
  have rest: "adds E [] m1 m3" using adds_then [OF 2(2) 3(2)] .
  have m: "adds E [type_charge ''ForStatement''] m m3" using adds_then [OF 1(2) rest] .
  have g: "own_gas n = [type_charge ''ForStatement'']" by (simp add: own_gas_def ty)
  show ?thesis
    by (rule processedI [of _ r "[(''test'', p2), (''update'', p3), (''body'', p0)]" m3])
      (use 1 2(1) 3(1,3) m g ref_ok_adds [OF m r] gas_ref_adds [OF rest 1(3)] gas_refs_adds [OF 3(2) 2(3)] metered_adds [OF rest] in auto)
qed

lemma process_for_each:
  assumes ok: "injections_ok m" and r: "ref_ok E m r" and n: "node_ok E n" and ty: "node_type n \<in> {''ForInStatement'', ''ForOfStatement''}"
  shows "processed E n m (do { (p0, m1) \<leftarrow> loop_body (field n ''body'') (type_charge (node_type n)) m; Some (r, [(''body'', p0)], m1) })"
proof -
  have l: "node_type n \<in> set loops" using ty by (auto simp: loops_def)
  obtain q p0 m1 where 1: "loop_body (field n ''body'') (type_charge (node_type n)) m = Some (p0, m1)"
    "adds E [type_charge (node_type n)] m m1" "gas_ref E m1 p0" "body_start (field n ''body'') = Some q" "metered_at m1 q"
    using loop_adds [OF ok n l type_charge_loop [OF l]] .
  have g: "own_gas n = [type_charge (node_type n)]" using ty by (auto simp: own_gas_def)
  show ?thesis
    by (rule processedI [of _ r "[(''body'', p0)]" m1]) (use 1 g ref_ok_adds [OF 1(2) r] in auto)
qed

lemma process_while:
  assumes ok: "injections_ok m" and r: "ref_ok E m r" and n: "node_ok E n" and ty: "node_type n \<in> {''WhileStatement'', ''DoWhileStatement''}"
  shows "processed E n m (do { (p0, m1) \<leftarrow> loop_body (field n ''body'') (Units 1) m;
                 (p, m2) \<leftarrow> addInjectionPoint (field n ''test'') gasIncrWithComma [type_charge (node_type n)] m1;
                 Some (r, [(''test'', p), (''body'', p0)], m2) })"
proof -
  let ?c = "if falsy (field n ''test'') then [] else [type_charge (node_type n)]"
  have l: "node_type n \<in> set loops" and u: "amount (Units 1) > 0" using ty by (auto simp: loops_def)
  obtain q p0 m1 where 1: "loop_body (field n ''body'') (Units 1) m = Some (p0, m1)"
    "adds E [Units 1] m m1" "gas_ref E m1 p0" "body_start (field n ''body'') = Some q" "metered_at m1 q"
    using loop_adds [OF ok n l u] .
  obtain p m2 where 2: "addInjectionPoint (field n ''test'') gasIncrWithComma [type_charge (node_type n)] m1 = Some (p, m2)"
    "adds E ?c m1 m2" "falsy (field n ''test'') \<or> gas_ref E m2 p"
    using point_adds [OF adds_ok [OF 1(2)] n child_keys_mem(1)] .
  have m: "adds E (Units 1 # ?c) m m2" using adds_trans [OF 1(2) 2(2)] by simp
  have g: "own_gas n = Units 1 # ?c" using ty by (auto simp: own_gas_def)
  show ?thesis
    by (rule processedI [of _ r "[(''test'', p), (''body'', p0)]" m2])
      (use 1 2(1,3) m g ref_ok_adds [OF m r] gas_ref_adds [OF 2(2) 1(3)] metered_adds [OF 2(2)] in auto)
qed

lemma process_with:
  assumes ok: "injections_ok m" and r: "ref_ok E m r" and n: "node_ok E n" and ty: "node_type n = ''WithStatement''"
  shows "processed E n m (do { m1 \<leftarrow> ensure_block (field n ''body'') m; Some (r, [], m1) })"
proof -
  have "node_type n \<in> set (''WithStatement'' # ''ArrowFunctionExpression'' # loops)" using ty by simp
  note b = node_ok_body [OF n this]
  obtain m1 where 1: "ensure_block (field n ''body'') m = Some m1" "adds E [] m m1" using ensure_block_adds [OF ok b(1,3)] by blast
  have g: "own_gas n = []" "node_type n \<notin> set loops" by (simp_all add: own_gas_def loops_def ty)
  show ?thesis by (rule processedI [of _ r "[]" m1]) (use 1 g ref_ok_adds [OF 1(2) r] in auto)
qed

lemma process_case:
  assumes ok: "injections_ok m" and r: "ref_ok E m r" and n: "node_ok E n" and ty: "node_type n = ''SwitchCase''"
  shows "processed E n m (do { (p, m1) \<leftarrow> addInjectionPoint (field n ''test'') gasIncrWithComma [] m; Some (r, [(''test'', p)], m1) })"
proof -
  obtain p m1 where 1: "addInjectionPoint (field n ''test'') gasIncrWithComma [] m = Some (p, m1)" "adds E [] m m1"
    "falsy (field n ''test'') \<or> gas_ref E m1 p"
    using point_adds [OF ok n child_keys_mem(1), of "[]"] by (metis (full_types))
  have g: "own_gas n = []" "node_type n \<notin> set loops" by (simp_all add: own_gas_def loops_def ty)
  show ?thesis by (rule processedI [of _ r "[(''test'', p)]" m1]) (use 1 g ref_ok_adds [OF 1(2) r] in auto)
qed

lemma node_ok_placed: "node_ok E n \<Longrightarrow> node_type n \<noteq> ''undefined'' \<Longrightarrow> placed E n"
  unfolding node_ok_def is_node_def by blast

lemma process_plain:
  assumes ok: "injections_ok m" and r: "ref_ok E m r" and n: "node_ok E n" and c: "plain_charge n = Some c"
    and g: "own_gas n = [c]" "node_type n \<notin> set loops"
  shows "processed E n m (do { (r, m1) \<leftarrow> charge_node n c r m; Some (r, [], m1) })"
proof -
  have "node_type n \<noteq> ''undefined''"
    using c by (auto simp: plain_charge_def Let_def chargedExpression_def split: jtree.splits)
  then obtain r1 m1 where 1: "charge_node n c r m = Some (r1, m1)" "adds E [c] m m1" "gas_ref E m1 r1"
    using charge_node_adds [OF ok node_ok_placed [OF n] r] by blast
  show ?thesis by (rule processedI [of _ r1 "[]" m1]) (use 1 g in \<open>auto simp: ref_ok_def\<close>)
qed

lemma process_conditional_ok:
  assumes ok: "injections_ok m" and r: "ref_ok E m r" and n: "node_ok E n" and ty: "node_type n = ''ConditionalExpression''"
  shows "processed E n m (process_conditional n r m)"
proof -
  have b: "braced n = [field n ''test'', field n ''consequent'', field n ''alternate'']" by (simp add: braced_def ty)
  have c: "closes_in E (field n k)" if "k \<in> {''test'', ''consequent'', ''alternate''}" for k
    using node_ok_closes [OF n, of "field n k"] that unfolding b by auto
  obtain m1 where 1: "ensure_bracket (field n ''test'') m = Some m1" "adds E [] m m1"
    using ensure_bracket_adds [OF ok node_ok_child [OF n child_keys_mem(1)] c] by blast
  obtain m2 where 2: "ensure_bracket (field n ''consequent'') m1 = Some m2" "adds E [] m1 m2"
    using ensure_bracket_adds [OF adds_ok [OF 1(2)] node_ok_child [OF n child_keys_mem(2)] c] by blast
  obtain m3 where 3: "ensure_bracket (field n ''alternate'') m2 = Some m3" "adds E [] m2 m3"
    using ensure_bracket_adds [OF adds_ok [OF 2(2)] node_ok_child [OF n child_keys_mem(3)] c] by blast
  obtain p1 m4 where 4: "addInjectionPoint (field n ''test'') gasIncrWithComma [] m3 = Some (p1, m4)" "adds E [] m3 m4"
    "falsy (field n ''test'') \<or> gas_ref E m4 p1"
    using point_adds [OF adds_ok [OF 3(2)] n child_keys_mem(1), of "[]"] by (metis (full_types))
  obtain p2 m5 where 5: "addInjectionPoint (field n ''consequent'') gasIncrWithComma [] m4 = Some (p2, m5)" "adds E [] m4 m5"
    "falsy (field n ''consequent'') \<or> gas_ref E m5 p2"
    using point_adds [OF adds_ok [OF 4(2)] n child_keys_mem(2), of "[]"] by (metis (full_types))
  obtain p3 m6 where 6: "addInjectionPoint (field n ''alternate'') gasIncrWithComma [] m5 = Some (p3, m6)" "adds E [] m5 m6"
    "falsy (field n ''alternate'') \<or> gas_ref E m6 p3"
    using point_adds [OF adds_ok [OF 5(2)] n child_keys_mem(3), of "[]"] by (metis (full_types))
  have m: "adds E [] m m6"
    using adds_same [OF 1(2) adds_same [OF 2(2) adds_same [OF 3(2) adds_same [OF 4(2) adds_same [OF 5(2) 6(2)]]]]] .
  have "placed E n" using node_ok_placed [OF n] by (simp add: ty)
  then obtain r7 m7 where 7: "charge_node n (type_charge ''ConditionalExpression'') r m6 = Some (r7, m7)"
    "adds E [type_charge ''ConditionalExpression''] m6 m7" "gas_ref E m7 r7"
    using charge_node_adds [OF adds_ok [OF m] _ ref_ok_adds [OF m r]] by blast
  have g: "own_gas n = [type_charge ''ConditionalExpression'']" "node_type n \<notin> set loops" by (simp_all add: own_gas_def loops_def ty)
  show ?thesis
    by (rule processedI [of _ r7 "[(''test'', p1), (''consequent'', p2), (''alternate'', p3)]" m7])
      (use 1(1) 2(1) 3(1) 4(1) 5(1) 6(1) 7 g adds_same [OF m 7(2)] gas_refs_adds [OF 7(2) gas_refs_adds [OF 6(2) gas_refs_adds [OF 5(2) 4(3)]]]
         gas_refs_adds [OF 7(2) gas_refs_adds [OF 6(2) 5(3)]] gas_refs_adds [OF 7(2) 6(3)]
       in \<open>auto simp: process_conditional_def ref_ok_def\<close>)
qed

lemma process_arrow_ok:
  assumes ok: "injections_ok m" and r: "ref_ok E m r" and n: "node_ok E n" and ty: "node_type n = ''ArrowFunctionExpression''"
  shows "processed E n m (process_arrow n r m)"
proof -
  let ?c = "type_charge ''ArrowFunctionExpression''" and ?b = "field n ''body''"
  have "node_type n \<in> set (''WithStatement'' # ''ArrowFunctionExpression'' # loops)" using ty by simp
  note b = node_ok_body [OF n this]
  have "placed E n" using node_ok_placed [OF n] by (simp add: ty)
  then obtain r1 m1 where 1: "charge_node n ?c r m = Some (r1, m1)" "adds E [?c] m m1" "gas_ref E m1 r1"
    using charge_node_adds [OF ok _ r] by blast
  have g: "own_gas n = [?c]" "node_type n \<notin> set loops" by (simp_all add: own_gas_def loops_def ty)
  have read: "readable_value ?b" using b(2) by (auto simp: readable_value_def)
  show ?thesis
  proof (cases "node_type ?b = ''BlockStatement''")
    case True
    show ?thesis
      by (rule processedI [of _ r1 "[]" m1]) (use 1 g read True in \<open>auto simp: process_arrow_def ref_ok_def\<close>)
  next
    case False
    then obtain a e where ae: "range_of ?b = Some (a, e)" "e \<in> E" using b by (auto simp: child_ok_def closes_in_def)
    let ?m2 = "snd (addInjection a str (Some (js ''function(){'')) [] False m1)"
    have 2: "adds E [] m1 ?m2" using 1(2) by (intro addInjection_text) auto
    have gas: "\<not> plain_text gasIncrWithSemicolon" by simp
    obtain p m3 where 3: "addInjectionPoint ?b gasIncrWithSemicolon [] ?m2 = Some (p, m3)" "adds E [] ?m2 m3" "gas_ref E m3 p"
      using addInjectionPoint_adds [OF adds_ok [OF 2] b(1) gas, of "[]"] b(2) by auto
    let ?m4 = "snd (addInjection a str (Some (js ''return '')) [] False m3)"
    have 4: "adds E [] m3 ?m4" using 3(2) by (intro addInjection_text) auto
    let ?m5 = "snd (addInjection e str (Some (js ''}()'')) [] True ?m4)"
    have 5: "adds E [] ?m4 ?m5" using 4 ae(2) by (intro addInjection_text) auto
    have m: "adds E [?c] m ?m5" using adds_then [OF 1(2) adds_same [OF 2 adds_same [OF 3(2) adds_same [OF 4 5]]]] .
    have refs: "gas_ref E ?m5 r1" "gas_ref E ?m5 p"
      using gas_ref_adds [OF adds_same [OF 2 adds_same [OF 3(2) adds_same [OF 4 5]]] 1(3)] gas_ref_adds [OF adds_same [OF 4 5] 3(3)] .
    have "process_arrow n r m = Some (r1, [(''body'', p)], ?m5)"
      using 1(1) read False ae(1) 3(1) by (simp add: process_arrow_def Let_def)
    then show ?thesis
      by (rule processedI) (use m g refs in \<open>auto simp: ref_ok_def\<close>)
  qed
qed

lemma process_switch:
  assumes "injections_ok m" and "ref_ok E m r" and "node_type n = ''SwitchStatement''"
  shows "processed E n m (Some (r, [], m))"
  by (rule processedI [of _ r "[]" m]) (use assms in \<open>simp_all add: own_gas_def loops_def\<close>)

definition special_types :: "string list" where
  "special_types =
     [''IfStatement'', ''ForStatement'', ''ForInStatement'', ''ForOfStatement'', ''WhileStatement'', ''DoWhileStatement'',
      ''WithStatement'', ''SwitchStatement'', ''SwitchCase'', ''ArrowFunctionExpression'', ''ConditionalExpression'']"

lemma process_other:
  assumes ok: "injections_ok m" and r: "ref_ok E m r" and n: "node_ok E n" and ty: "node_type n \<notin> set special_types"
  shows "processed E n m
    (case plain_charge n of None \<Rightarrow> Some (r, [], m) | Some c \<Rightarrow> do { (r, m1) \<leftarrow> charge_node n c r m; Some (r, [], m1) })"
proof -
  have g: "own_gas n = (case plain_charge n of None \<Rightarrow> [] | Some c \<Rightarrow> [c])" "node_type n \<notin> set loops"
    using ty by (simp_all add: own_gas_def loops_def special_types_def)
  show ?thesis
  proof (cases "plain_charge n")
    case None
    then show ?thesis by (intro processedI [of _ r "[]" m]) (use ok r g in simp_all)
  next
    case (Some c)
    then show ?thesis using process_plain [OF ok r n Some] g by simp
  qed
qed

lemma processNode_adds:
  assumes ok: "injections_ok m" and r: "ref_ok E m r0" and n: "node_ok E n"
  shows "processed E n m (processNode n p r0 m)"
proof -
  have "is_node n \<Longrightarrow> placed E n" using n unfolding node_ok_def by blast
  then obtain r m1 where b: "begin_node n p r0 m = Some (r, m1)" "adds E [] m m1" and r1: "ref_ok E m1 r"
    using begin_node_adds [OF ok _ r] by blast
  note branch = process_if process_for process_for_each process_while process_with process_case process_arrow_ok
    process_conditional_ok process_other
  note branches = branch [OF adds_ok [OF b(2)] r1 n] process_switch [OF adds_ok [OF b(2)] r1]
  have "processed E n m1 (processNode n p r0 m)"
  proof (cases "node_type n \<in> set special_types")
    case True
    then show ?thesis
      unfolding special_types_def set_simps
      by (elim insertE) (use branches b(1) in \<open>simp_all add: processNode_def Let_def\<close>)
  next
    case False
    then show ?thesis using process_other [OF adds_ok [OF b(2)] r1 n False] b(1) by (simp add: processNode_def special_types_def Let_def)
  qed
  then show ?thesis using adds_same [OF b(2)] unfolding processed_def by blast
qed

section \<open>The whole tree\<close>

definition loops_metered :: "jtree list \<Rightarrow> injections \<Rightarrow> bool" where
  "loops_metered ns m \<longleftrightarrow>
     (\<forall>n \<in> set ns. node_type n \<in> set loops \<longrightarrow> (\<exists>q. body_start (field n ''body'') = Some q \<and> metered_at m q))"

definition traversed :: "nat set \<Rightarrow> jtree list \<Rightarrow> injections \<Rightarrow> injections option \<Rightarrow> bool" where
  "traversed E ns m res \<longleftrightarrow>
     (\<exists>m'. res = Some m' \<and> adds E (concat (map own_gas ns)) m m' \<and> loops_metered ns m')"

lemma loops_metered_adds: "adds E cs m m' \<Longrightarrow> loops_metered ns m \<Longrightarrow> loops_metered ns m'"
  by (meson loops_metered_def metered_adds)

lemma traversed_append:
  assumes "traversed E ns m res" 
    and "\<And>m1. res = Some m1 \<Longrightarrow> adds E (concat (map own_gas ns)) m m1 \<Longrightarrow> traversed E ns' m1 (f m1)"
  shows "traversed E (ns @ ns') m (Option.bind res f)"
proof -
  obtain m1 where 1: "res = Some m1" "adds E (concat (map own_gas ns)) m m1" "loops_metered ns m1"
    using assms(1) by (auto simp: traversed_def)
  obtain m2 where 2: "f m1 = Some m2" "adds E (concat (map own_gas ns')) m1 m2" "loops_metered ns' m2"
    using assms(2) [OF 1(1,2)] by (auto simp: traversed_def)
  have "adds E (concat (map own_gas (ns @ ns'))) m m2" using adds_trans [OF 1(2) 2(2)] by simp
  moreover have "loops_metered (ns @ ns') m2"
    using loops_metered_adds [OF 2(2) 1(3)] 2(3) by (auto simp: loops_metered_def)
  ultimately show ?thesis using 1(1) 2(1) by (simp add: traversed_def)
qed

lemma own_gas_untyped: "node_type n = ''undefined'' \<Longrightarrow> own_gas n = []"
  by (simp add: own_gas_def plain_charge_def chargedExpression_def split: jtree.splits)

lemma traversed_leaf:
  assumes "injections_ok m" and "node_type t = ''undefined''"
  shows "traversed E [t] m (Some m)"
  using assms by (simp add: traversed_def own_gas_untyped loops_metered_def loops_def)

lemma traversed_node:
  assumes "injections_ok m" and "ref_ok E m r0" and "node_ok E n"
    and "\<And>r kids m1. adds E (own_gas n) m m1 \<Longrightarrow> ref_ok E m1 r \<Longrightarrow>
      (\<And>k r'. map_of kids k = Some r' \<Longrightarrow> falsy (field n k) \<or> gas_ref E m1 r') \<Longrightarrow> traversed E ns m1 (f r kids m1)"
  shows "traversed E (n # ns) m (Option.bind (processNode n p r0 m) (\<lambda>(r, kids, m1). f r kids m1))"
proof -
  obtain r kids m1 where 1: "processNode n p r0 m = Some (r, kids, m1)" "adds E (own_gas n) m m1" "ref_ok E m1 r"
    "\<And>k r'. map_of kids k = Some r' \<Longrightarrow> falsy (field n k) \<or> gas_ref E m1 r'"
    "node_type n \<in> set loops \<longrightarrow> (\<exists>q. body_start (field n ''body'') = Some q \<and> metered_at m1 q)"
    using processNode_adds [OF assms(1-3), of p] unfolding processed_def by blast
  have "traversed E [n] m (Some m1)" using 1(2,5) by (simp add: traversed_def loops_metered_def)
  then have "traversed E ([n] @ ns) m (Option.bind (Some m1) (\<lambda>m1. f r kids m1))"
    by (rule traversed_append) (use assms(4) [OF 1(2-4)] in simp)
  then show ?thesis using 1(1) by simp
qed

lemma field_of: "distinct (map fst fs) \<Longrightarrow> (k, t) \<in> set fs \<Longrightarrow> field (TObj fs) k = t"
  by simp

definition walks :: "nat set \<Rightarrow> jtree \<Rightarrow> bool" where
  "walks E t \<longleftrightarrow>
     (\<forall>m r p. injections_ok m \<longrightarrow> (is_object t \<longrightarrow> ref_ok E m r) \<longrightarrow> traversed E (subtrees t) m (traverse t p r m))"

lemma falsy_object: "falsy t \<Longrightarrow> \<not> is_object t"
  by (cases t) auto

lemma traverse_fields_walks:
  assumes "\<forall>(k, c) \<in> set fs. walks E c" and "injections_ok m" and "ref_ok E m r"
    and "\<forall>(k, c) \<in> set fs. \<forall>r'. map_of kids k = Some r' \<longrightarrow> falsy c \<or> gas_ref E m r'"
  shows "traversed E (concat (map (\<lambda>(k, c). subtrees c) fs)) m (traverse_fields n r kids fs m)"
  using assms
proof (induction fs arbitrary: m)
  case Nil
  then show ?case by (simp add: traversed_def loops_metered_def)
next
  case (Cons f fs)
  obtain k c where f: "f = (k, c)" by force
  let ?r = "case map_of kids k of Some r' \<Rightarrow> r' | None \<Rightarrow> r"
  have "is_object c \<Longrightarrow> ref_ok E m ?r"
    using Cons.prems(3,4) falsy_object [of c] by (auto simp: f ref_ok_def split: option.splits)
  then have "traversed E (subtrees c) m (traverse c (Some n) ?r m)"
    using Cons.prems(1,2) by (simp add: f walks_def)
  then have "traversed E (subtrees c @ concat (map (\<lambda>(k, c). subtrees c) fs)) m
      (Option.bind (traverse c (Some n) ?r m) (\<lambda>m1. traverse_fields n r kids fs m1))"
  proof (rule traversed_append)
    fix m1 assume a: "adds E (concat (map own_gas (subtrees c))) m m1"
    have "\<forall>(k, c) \<in> set fs. \<forall>r'. map_of kids k = Some r' \<longrightarrow> falsy c \<or> gas_ref E m1 r'"
      using Cons.prems(4) gas_ref_adds [OF a] by fastforce
    then show "traversed E (concat (map (\<lambda>(k, c). subtrees c) fs)) m1 (traverse_fields n r kids fs m1)"
      using Cons.IH [of m1] Cons.prems(1) ref_ok_adds [OF a Cons.prems(3)] a by simp
  qed
  then show ?case by (simp add: f)
qed

lemma traverse_elements_walks:
  assumes "\<forall>c \<in> set xs. walks E c" and "injections_ok m" and "ref_ok E m r"
  shows "traversed E (concat (map subtrees xs)) m (traverse_elements n r xs m)"
  using assms
proof (induction xs arbitrary: m)
  case Nil
  then show ?case by (simp add: traversed_def loops_metered_def)
next
  case (Cons c xs)
  then have "traversed E (subtrees c) m (traverse c (Some n) r m)" by (simp add: walks_def)
  then have "traversed E (subtrees c @ concat (map subtrees xs)) m
      (Option.bind (traverse c (Some n) r m) (\<lambda>m1. traverse_elements n r xs m1))"
    by (rule traversed_append) (use Cons ref_ok_adds in \<open>auto intro: Cons.IH\<close>)
  then show ?case by simp
qed

lemma walks_leaf: "subtrees t = [t] \<Longrightarrow> \<not> is_object t \<Longrightarrow> walks E t"
  by (cases t) (auto simp: walks_def node_type_def intro!: traversed_leaf)

lemma tree_walks: "\<forall>n \<in> set (subtrees t). node_ok E n \<Longrightarrow> walks E t"
proof (induction t)
  case (TObj fs)
  have n: "node_ok E (TObj fs)" and d: "distinct (map fst fs)" using TObj.prems by (simp_all add: node_ok_def)
  have kids: "\<forall>(k, c) \<in> set fs. walks E c"
  proof clarify
    fix k c assume kc: "(k, c) \<in> set fs"
    then have "\<forall>n \<in> set (subtrees c). node_ok E n" using TObj.prems by auto
    then show "walks E c" using TObj.IH [OF kc, of c] by simp
  qed
  show ?case
    unfolding walks_def subtrees.simps traverse.simps
    by (intro allI impI traversed_node [OF _ _ n] traverse_fields_walks [OF kids]) (use field_of [OF d] in auto)
next
  case (TArr xs)
  have n: "node_ok E (TArr xs)" and kids: "\<forall>c \<in> set xs. walks E c" using TArr by auto
  show ?case
    unfolding walks_def subtrees.simps traverse.simps
    by (intro allI impI traversed_node [OF _ _ n] traverse_elements_walks [OF kids]) auto
qed (simp_all add: walks_leaf)

text \<open>
  The injection of a well-formed tree succeeds, puts every charge of a node into an entry that is
  printed as gas, and gives every loop body one.
\<close>

lemma traverse_ok:
  assumes "tree_ok t"
  shows "\<exists>m. traverse t None NullRef [] = Some m \<and> injections_ok m \<and> all_charges m = mset (tree_gas t) \<and> loops_metered (subtrees t) m"
proof -
  have "walks (set (closings t)) t" using assms by (intro tree_walks) (simp add: tree_ok_def list_all_iff)
  moreover have "injections_ok []" by (simp add: injections_ok_def entries_def)
  ultimately have "traversed (set (closings t)) (subtrees t) [] (traverse t None NullRef [])"
    by (simp add: walks_def ref_ok_def)
  then show ?thesis by (auto simp: traversed_def adds_def tree_gas_def all_charges_def)
qed

end
