(* ===== verification/GoLib.thy ===== *)
theory GoLib
  imports Prelude
begin

text \<open>
  What the Go side uses of its standard library: decimal printing (\<^verbatim>\<open>strconv\<close>, \<^verbatim>\<open>fmt\<close>),
  the runes of a string, \<^verbatim>\<open>strings.Split\<close>, \<^verbatim>\<open>strings.Replace\<close>, \<^verbatim>\<open>strings.LastIndex\<close>, the
  little-endian encoding of \<^verbatim>\<open>encoding/binary\<close>, and \<^verbatim>\<open>encoding/json\<close> of a list of strings.
  A Go string is a byte string.
\<close>

type_synonym int64 = "64 word"

section \<open>Decimal numbers\<close>

fun show_nat :: "nat \<Rightarrow> string" where
  "show_nat n = (if n < 10 then [char_of (48 + n)] else show_nat (n div 10) @ [char_of (48 + n mod 10)])"

declare show_nat.simps [simp del]

definition show_int :: "int \<Rightarrow> string" where
  "show_int i = (if i < 0 then CHR ''-'' # show_nat (nat (- i)) else show_nat (nat i))"

definition FormatInt :: "int64 \<Rightarrow> string" where
  "FormatInt v = show_int (sint v)"

definition FormatBool :: "bool \<Rightarrow> string" where
  "FormatBool b = (if b then ''true'' else ''false'')"

section \<open>Runes\<close>

text \<open>
  The first rune of a string and its length in bytes; a byte that starts no valid UTF-8
  sequence is the replacement character, one byte long.
\<close>

definition byte :: "char \<Rightarrow> nat" where
  "byte c = of_char c"

definition cont :: "nat \<Rightarrow> bool" where
  "cont b \<longleftrightarrow> 128 \<le> b \<and> b < 192"

fun decode_rune :: "string \<Rightarrow> nat \<times> nat" where
  "decode_rune [] = (65533, 0)"
| "decode_rune (c0 # s) =
     (let b0 = byte c0 in
      if b0 < 128 then (b0, 1)
      else if 194 \<le> b0 \<and> b0 < 224 then
        (case s of
           c1 # _ \<Rightarrow>
             if cont (byte c1) then ((b0 - 192) * 64 + (byte c1 - 128), 2) else (65533, 1)
         | [] \<Rightarrow> (65533, 1))
      else if 224 \<le> b0 \<and> b0 < 240 then
        (case s of
           c1 # c2 # _ \<Rightarrow>
             if cont (byte c1) \<and> cont (byte c2) \<and> (b0 = 224 \<longrightarrow> 160 \<le> byte c1) \<and> (b0 = 237 \<longrightarrow> byte c1 < 160)
             then ((b0 - 224) * 4096 + (byte c1 - 128) * 64 + (byte c2 - 128), 3) else (65533, 1)
         | _ \<Rightarrow> (65533, 1))
      else if 240 \<le> b0 \<and> b0 < 245 then
        (case s of
           c1 # c2 # c3 # _ \<Rightarrow>
             if cont (byte c1) \<and> cont (byte c2) \<and> cont (byte c3) \<and>
                (b0 = 240 \<longrightarrow> 144 \<le> byte c1) \<and> (b0 = 244 \<longrightarrow> byte c1 < 144)
             then ((b0 - 240) * 262144 + (byte c1 - 128) * 4096 + (byte c2 - 128) * 64 + (byte c3 - 128), 4)
             else (65533, 1)
         | _ \<Rightarrow> (65533, 1))
      else (65533, 1))"

lemma decode_rune_pos: "s \<noteq> [] \<Longrightarrow> 0 < snd (decode_rune s)"
  by (cases s) (auto simp: Let_def split: list.splits)

function runes :: "string \<Rightarrow> nat list" where
  "runes s = (if s = [] then [] else fst (decode_rune s) # runes (drop (snd (decode_rune s)) s))"
  by pat_completeness auto
termination
  by (relation "measure length") (auto simp: decode_rune_pos)

declare runes.simps [simp del]

section \<open>Splitting, searching, replacing\<close>

text \<open>\<^verbatim>\<open>strings.Split\<close> by a one-byte separator, \<^verbatim>\<open>strings.Count\<close>, \<^verbatim>\<open>strings.LastIndex\<close>.\<close>

fun Split :: "char \<Rightarrow> string \<Rightarrow> string list" where
  "Split c [] = [[]]"
| "Split c (x # xs) =
     (if x = c then [] # Split c xs else (x # hd (Split c xs)) # tl (Split c xs))"

definition Count :: "char \<Rightarrow> string \<Rightarrow> nat" where
  "Count c s = length (filter (\<lambda>x. x = c) s)"

definition LastIndex :: "char \<Rightarrow> string \<Rightarrow> nat option" where
  "LastIndex c s =
     (if c \<in> set s then Some (length s - Suc (length (takeWhile (\<lambda>x. x \<noteq> c) (rev s)))) else None)"

text \<open>\<^verbatim>\<open>strings.Replace(s, old, "", 1)\<close>: drop the first occurrence.\<close>

fun is_prefix :: "string \<Rightarrow> string \<Rightarrow> bool" where
  "is_prefix [] s = True"
| "is_prefix (x # xs) [] = False"
| "is_prefix (x # xs) (y # ys) = (x = y \<and> is_prefix xs ys)"

fun ReplaceFirst :: "string \<Rightarrow> string \<Rightarrow> string" where
  "ReplaceFirst old [] = (if old = [] then [] else [])"
| "ReplaceFirst old (y # ys) =
     (if is_prefix old (y # ys) then drop (length old) (y # ys) else y # ReplaceFirst old ys)"

section \<open>Little-endian integers\<close>

definition PutUint64 :: "64 word \<Rightarrow> string" where
  "PutUint64 x = map (\<lambda>i. char_of (unat x div 256 ^ i)) [0..<8]"

text \<open>Reading fewer than eight bytes panics.\<close>

definition Uint64 :: "string \<Rightarrow> 64 word option" where
  "Uint64 bs =
     (if length bs < 8 then None
      else Some (of_nat (\<Sum>i<8. of_char (bs ! i) * 256 ^ i)))"

definition PutUint32 :: "32 word \<Rightarrow> string" where
  "PutUint32 x = map (\<lambda>i. char_of (unat x div 256 ^ i)) [0..<4]"

definition Uint32 :: "string \<Rightarrow> 32 word option" where
  "Uint32 bs =
     (if length bs < 4 then None
      else Some (of_nat (\<Sum>i<4. of_char (bs ! i) * 256 ^ i)))"

section \<open>JSON of a list of strings\<close>

definition hex_digit :: "nat \<Rightarrow> char" where
  "hex_digit n = (if n < 10 then char_of (48 + n) else char_of (87 + n))"

definition json_u :: "nat \<Rightarrow> string" where
  "json_u r = [CHR 0x5C, CHR ''u'', hex_digit (r div 4096 mod 16), hex_digit (r div 256 mod 16),
     hex_digit (r div 16 mod 16), hex_digit (r mod 16)]"

text \<open>
  One rune: quotes and backslashes are escaped, newline, return and tab have short forms,
  other control characters, the HTML-sensitive characters and the two line separators go
  by code point, and an invalid byte becomes the escaped replacement character.
\<close>

definition json_rune :: "string \<Rightarrow> nat \<times> nat \<Rightarrow> string" where
  "json_rune s rn =
     (let r = fst rn; n = snd rn in
      if r = 34 \<or> r = 92 then [CHR 0x5C, char_of r]
      else if r = 10 then [CHR 0x5C, CHR ''n'']
      else if r = 13 then [CHR 0x5C, CHR ''r'']
      else if r = 9 then [CHR 0x5C, CHR ''t'']
      else if r < 32 \<or> r = 60 \<or> r = 62 \<or> r = 38 \<or> r = 8232 \<or> r = 8233 \<or> (r = 65533 \<and> n = 1) then json_u r
      else take n s)"

function json_chars :: "string \<Rightarrow> string" where
  "json_chars s =
     (if s = [] then []
      else json_rune s (decode_rune s) @ json_chars (drop (snd (decode_rune s)) s))"
  by pat_completeness auto
termination
  by (relation "measure length") (auto simp: decode_rune_pos)

declare json_chars.simps [simp del]

definition json_string :: "string \<Rightarrow> string" where
  "json_string s = CHR 0x22 # json_chars s @ [CHR 0x22]"

fun json_join :: "string list \<Rightarrow> string" where
  "json_join [] = []"
| "json_join [x] = x"
| "json_join (x # xs) = x @ CHR '','' # json_join xs"

definition json_strings :: "string list \<Rightarrow> string" where
  "json_strings xs = CHR ''['' # json_join (map json_string xs) @ [CHR '']'']"

section \<open>Lemmas\<close>

lemma LastIndex_append:
  "c \<notin> set b \<Longrightarrow> LastIndex c (a @ c # b) = Some (length a)"
proof -
  assume "c \<notin> set b"
  then have "takeWhile (\<lambda>x. x \<noteq> c) (rev b @ c # rev a) = rev b"
    by (subst takeWhile_append2) auto
  then show ?thesis by (simp add: LastIndex_def)
qed

lemma LastIndex_None: "LastIndex c s = None \<longleftrightarrow> c \<notin> set s"
  by (simp add: LastIndex_def)

lemma Split_nonempty [simp]: "Split c s \<noteq> []"
  by (cases s) auto

lemma Split_no_sep: "c \<notin> set s \<Longrightarrow> Split c s = [s]"
  by (induction s) auto

lemma Split_append: "c \<notin> set a \<Longrightarrow> Split c (a @ c # b) = a # Split c b"
  by (induction a) auto

lemma Split_no_sep_in: "f \<in> set (Split c s) \<Longrightarrow> c \<notin> set f"
proof (induction s arbitrary: f)
  case (Cons x xs)
  obtain y ys where "Split c xs = y # ys" by (meson Split_nonempty neq_Nil_conv)
  with Cons show ?case by (auto split: if_splits)
qed simp

lemma bytes_sum: "(\<Sum>i<k. (n div b ^ i mod b) * b ^ i) = n mod b ^ k" for n b :: nat
proof (induction k)
  case (Suc k)
  have "n mod b ^ Suc k = b ^ k * (n div b ^ k mod b) + n mod b ^ k"
    using mod_mult2_eq [of n "b ^ k" b] by (simp add: mult.commute)
  with Suc show ?case by (simp add: mult.commute)
qed simp

lemma bytes_sum_char:
  fixes n :: nat
  assumes "n < 256 ^ k"
  shows "(\<Sum>i<k. of_char (map (\<lambda>i. char_of (n div 256 ^ i)) [0..<k] ! i) * 256 ^ i) = n"
proof -
  have "(\<Sum>i<k. of_char (map (\<lambda>i. char_of (n div 256 ^ i)) [0..<k] ! i) * 256 ^ i)
      = (\<Sum>i<k. (n div 256 ^ i mod 256) * 256 ^ i)"
    by (rule sum.cong) auto
  also have "\<dots> = n mod 256 ^ k" by (rule bytes_sum)
  finally show ?thesis using assms by simp
qed

lemma Uint64_PutUint64 [simp]: "Uint64 (PutUint64 x) = Some x"
proof -
  have "unat x < 256 ^ 8" using unsigned_less [of x] by simp
  then show ?thesis
    using bytes_sum_char [of "unat x" 8] by (simp add: Uint64_def PutUint64_def del: upt_rec_numeral)
qed

lemma Uint32_PutUint32 [simp]: "Uint32 (PutUint32 x) = Some x"
proof -
  have "unat x < 256 ^ 4" using unsigned_less [of x] by simp
  then show ?thesis
    using bytes_sum_char [of "unat x" 4] by (simp add: Uint32_def PutUint32_def del: upt_rec_numeral)
qed

lemma length_PutUint [simp]: "length (PutUint64 x) = 8" "length (PutUint32 y) = 4"
  by (simp_all add: PutUint64_def PutUint32_def)

text \<open>A decimal number can be read back, so different numbers print differently.\<close>

definition read_nat :: "string \<Rightarrow> nat" where
  "read_nat s = foldl (\<lambda>n c. 10 * n + (of_char c - 48)) 0 s"

lemma read_show_nat [simp]: "read_nat (show_nat n) = n"
proof (induction n rule: less_induct)
  case (less n)
  show ?case
  proof (cases "n < 10")
    case True
    then show ?thesis by (subst show_nat.simps) (simp add: read_nat_def of_char_of)
  next
    case False
    then have "read_nat (show_nat (n div 10)) = n div 10" using less by simp
    then show ?thesis using False by (subst show_nat.simps) (simp add: read_nat_def of_char_of)
  qed
qed

lemma show_nat_inject [simp]: "show_nat m = show_nat n \<longleftrightarrow> m = n"
  by (metis read_show_nat)

lemma show_nat_digits: "c \<in> set (show_nat n) \<Longrightarrow> 48 \<le> byte c \<and> byte c < 58"
proof (induction n rule: less_induct)
  case (less n)
  have d: "byte (char_of (48 + k)) = 48 + k" if "k < 10" for k
    using that by (simp add: byte_def of_char_of)
  show ?case
  proof (cases "n < 10")
    case True
    then show ?thesis using less.prems d [of n] by (subst (asm) show_nat.simps) simp
  next
    case False
    then have "c \<in> set (show_nat (n div 10)) \<or> c = char_of (48 + n mod 10)"
      using less.prems by (subst (asm) show_nat.simps) auto
    then show ?thesis using False less.IH [of "n div 10"] d [of "n mod 10"] by auto
  qed
qed

end
