(* ===== verification/InjectOps.thy ===== *)
theory InjectOps
  imports InjectLaws GoLib
begin

text \<open>
  The first half of \<^verbatim>\<open>libjs/inject_gas.js\<close>: operators become calls of the runtime, which counts what they
  cost, and the function \<^verbatim>\<open>injectGas\<close> that puts the two halves together.

  The script rewrites the tree in place. The only place where two parents get to share nodes is a compound
  assignment, whose target is copied one level deep: everything under the target is then visited twice. That
  can be seen of spread elements alone, which are wrapped at each visit, while every other node is left
  alone at the second one. \<open>d\<close> counts the targets around a node, so the number of visits is \<open>2 ^ d\<close>.
\<close>

section \<open>Operators\<close>

definition op_names :: "string list" where
  "op_names = [''+'', ''-'', ''*'', ''/'', ''%'', ''**'', ''|'', ''&'', ''^'', ''>>'', ''>>>'', ''<<'', ''=='', ''!='', ''==='', ''!=='', ''>'', ''>='', ''<'', ''<='']"

definition is_op :: "jtree \<Rightarrow> bool" where
  "is_op t \<longleftrightarrow> t \<in> TStr ` js ` set op_names"

datatype inject_error = PatternNotAllowed jtree | TypeError | Refused js_string | ParseError js_string

definition ident_node :: "string \<Rightarrow> jtree" where
  "ident_node name = TObj [(''type'', TStr (js ''Identifier'')), (''name'', TStr (js name))]"

text \<open>The quotes of \<^verbatim>\<open>raw\<close> are single ones.\<close>

definition op_literal :: "js_string \<Rightarrow> jtree" where
  "op_literal op =
     TObj [(''type'', TStr (js ''Literal'')), (''value'', TStr op),
           (''raw'', TStr (js [CHR 0x27] @ op @ js [CHR 0x27]))]"

definition call_node :: "string \<Rightarrow> jtree list \<Rightarrow> jtree" where
  "call_node callee arguments =
     TObj [(''type'', TStr (js ''CallExpression'')), (''callee'', ident_node callee), (''arguments'', TArr arguments)]"

definition binary_call :: "jtree \<Rightarrow> jtree \<Rightarrow> js_string \<Rightarrow> jtree" where
  "binary_call left right op = call_node ''_IOSTBinaryOp'' [left, right, op_literal op]"

definition spread_call :: "jtree \<Rightarrow> jtree" where
  "spread_call argument = call_node ''_IOSTSpreadElement'' [argument]"

definition tagged :: "jtree \<Rightarrow> jtree" where
  "tagged quasi =
     TObj [(''type'', TStr (js ''TaggedTemplateExpression'')), (''tag'', ident_node ''_IOSTTemplateTag''), (''quasi'', quasi)]"

text \<open>\<^verbatim>\<open>Object.assign({}, t)\<close>.\<close>

fun copy_of :: "jtree \<Rightarrow> jtree" where
  "copy_of (TObj fs) = TObj fs"
| "copy_of (TArr xs) = TObj (zip (map show_nat [0..<length xs]) xs)"
| "copy_of (TStr s) = TObj (zip (map show_nat [0..<length s]) (map (\<lambda>u. TStr [u]) s))"
| "copy_of t = TObj []"

text \<open>
  The new node in place of one whose fields have been visited: \<open>fs\<close> are the visited fields. \<open>p\<close> is the type of
  the parent, \<^verbatim>\<open>undefined\<close> for the root and below an array.
\<close>

datatype rewriting = Keep | Pattern | Compound js_string | NoOperator | Binary js_string | Template | Spread

definition rewriting_of :: "string \<Rightarrow> jtree \<Rightarrow> rewriting" where
  "rewriting_of p node =
     (let ty = node_type node; operator = field node ''operator'' in
      if ty = ''ArrayPattern'' \<or> ty = ''ObjectPattern'' then Pattern
      else if ty = ''AssignmentExpression'' \<and> operator \<noteq> TStr (js ''='')
        then (case operator of TStr s \<Rightarrow> Compound (butlast s) | _ \<Rightarrow> NoOperator)
      else if ty = ''BinaryExpression'' \<and> is_op operator then (case operator of TStr s \<Rightarrow> Binary s | _ \<Rightarrow> Keep)
      else if ty = ''TemplateLiteral'' \<and> p \<noteq> ''TaggedTemplateExpression'' then Template
      else if ty = ''SpreadElement'' then Spread
      else Keep)"

definition compound_right :: "js_string \<Rightarrow> (string \<times> jtree) list \<Rightarrow> jtree" where
  "compound_right op fs =
     (let left = copy_of (field (TObj fs) ''left''); right = field (TObj fs) ''right'' in
      if is_op (TStr op) then binary_call left right op
      else TObj [(''operator'', TStr op), (''type'', TStr (js ''BinaryExpression'')), (''left'', left), (''right'', right)])"

fun rebuild :: "nat \<Rightarrow> rewriting \<Rightarrow> (string \<times> jtree) list \<Rightarrow> jtree" where
  "rebuild d (Compound op) fs =
     TObj (AList.update ''right'' (compound_right op fs) (AList.update ''operator'' (TStr (js ''='')) fs))"
| "rebuild d (Binary op) fs = binary_call (field (TObj fs) ''left'') (field (TObj fs) ''right'') op"
| "rebuild d Template fs = tagged (TObj fs)"
| "rebuild d Spread fs =
     TObj (AList.update ''argument'' ((spread_call ^^ (2 ^ d)) (field (TObj fs) ''argument'')) fs)"
| "rebuild d rw fs = TObj fs"

text \<open>Only the operands of a binary expression are visited, as nothing else of it is kept.\<close>

fun visits :: "rewriting \<Rightarrow> string \<Rightarrow> bool" where
  "visits (Binary op) k = (k = ''left'' \<or> k = ''right'')"
| "visits rw k = True"

fun deeper :: "rewriting \<Rightarrow> string \<Rightarrow> nat \<Rightarrow> nat" where
  "deeper (Compound op) k d = (if k = ''left'' then Suc d else d)"
| "deeper rw k d = d"

definition parent_type :: "rewriting \<Rightarrow> jtree \<Rightarrow> string" where
  "parent_type rw node = (if rw = Keep then node_type node else ''undefined'')"

fun traverseOperator :: "nat \<Rightarrow> string \<Rightarrow> jtree \<Rightarrow> inject_error + jtree"
and traverseOperator_fields :: "nat \<Rightarrow> rewriting \<Rightarrow> string \<Rightarrow> (string \<times> jtree) list \<Rightarrow> inject_error + (string \<times> jtree) list"
and traverseOperator_elements :: "nat \<Rightarrow> jtree list \<Rightarrow> inject_error + jtree list" where
  "traverseOperator d p (TObj fs) =
     (let rw = rewriting_of p (TObj fs) in
      if rw = Pattern then Inl (PatternNotAllowed (TObj fs))
      else if rw = NoOperator then Inl TypeError
      else
        (case traverseOperator_fields d rw (parent_type rw (TObj fs)) fs of
           Inl e \<Rightarrow> Inl e
         | Inr gs \<Rightarrow> Inr (rebuild d rw gs)))"
| "traverseOperator d p (TArr xs) =
     (case traverseOperator_elements d xs of Inl e \<Rightarrow> Inl e | Inr ys \<Rightarrow> Inr (TArr ys))"
| "traverseOperator d p t = Inr t"
| "traverseOperator_fields d rw p [] = Inr []"
| "traverseOperator_fields d rw p ((k, t) # fs) =
     (case (if visits rw k then traverseOperator (deeper rw k d) p t else Inr t) of
        Inl e \<Rightarrow> Inl e
      | Inr u \<Rightarrow> (case traverseOperator_fields d rw p fs of Inl e \<Rightarrow> Inl e | Inr gs \<Rightarrow> Inr ((k, u) # gs)))"
| "traverseOperator_elements d [] = Inr []"
| "traverseOperator_elements d (t # xs) =
     (case traverseOperator d ''undefined'' t of
        Inl e \<Rightarrow> Inl e
      | Inr u \<Rightarrow> (case traverseOperator_elements d xs of Inl e \<Rightarrow> Inl e | Inr ys \<Rightarrow> Inr (u # ys)))"

section \<open>Every operator is counted\<close>

text \<open>A node without an operator the runtime does not see; \<open>p\<close> is the type of its parent.\<close>

definition op_ok :: "string \<Rightarrow> jtree \<Rightarrow> bool" where
  "op_ok p n \<longleftrightarrow>
     (let ty = node_type n in
      ty \<noteq> ''ArrayPattern'' \<and> ty \<noteq> ''ObjectPattern'' \<and>
      (ty = ''AssignmentExpression'' \<longrightarrow> field n ''operator'' = TStr (js ''='')) \<and>
      (ty = ''BinaryExpression'' \<longrightarrow> \<not> is_op (field n ''operator'')) \<and>
      (ty = ''TemplateLiteral'' \<longrightarrow> p = ''TaggedTemplateExpression'') \<and>
      (ty = ''SpreadElement'' \<longrightarrow> (\<exists>x. field n ''argument'' = spread_call x)))"

fun ops_metered :: "string \<Rightarrow> jtree \<Rightarrow> bool" where
  "ops_metered p (TObj fs) \<longleftrightarrow> op_ok p (TObj fs) \<and> (\<forall>(k, t) \<in> set fs. ops_metered (node_type (TObj fs)) t)"
| "ops_metered p (TArr xs) \<longleftrightarrow> (\<forall>t \<in> set xs. ops_metered ''undefined'' t)"
| "ops_metered p t \<longleftrightarrow> True"

lemma ops_metered_any: "ops_metered ''undefined'' t \<Longrightarrow> ops_metered p t"
  by (cases t) (auto simp: op_ok_def Let_def)

lemma node_type_none: "\<nexists>s. field t ''type'' = TStr s \<Longrightarrow> node_type t = ''undefined''"
  by (cases "field t ''type''") (simp_all add: node_type_def)

lemma node_type_cong:
  assumes "\<And>s. field t ''type'' = TStr s \<longleftrightarrow> field u ''type'' = TStr s"
  shows "node_type t = node_type u"
proof (cases "\<exists>s. field t ''type'' = TStr s")
  case True
  then have "field t ''type'' = field u ''type''" using assms by metis
  then show ?thesis by (simp only: node_type_def)
next
  case False
  then show ?thesis using assms node_type_none [of t] node_type_none [of u] by simp
qed

lemma node_type_js [simp]: "node_type (TObj ((''type'', TStr (js ty)) # fs)) = ty"
  by (simp add: node_type_def)

lemma ident_metered [simp]: "ops_metered p (ident_node name)"
  by (simp add: ident_node_def op_ok_def)

lemma call_metered [simp]: "ops_metered p (call_node callee xs) \<longleftrightarrow> (\<forall>t \<in> set xs. ops_metered ''undefined'' t)"
  by (auto simp: call_node_def op_ok_def)

lemma binary_call_metered:
  "ops_metered ''undefined'' l \<Longrightarrow> ops_metered ''undefined'' r \<Longrightarrow> ops_metered p (binary_call l r op)"
  by (simp add: binary_call_def op_literal_def op_ok_def)

lemma spread_call_metered: "ops_metered ''undefined'' t \<Longrightarrow> ops_metered p ((spread_call ^^ n) t)"
proof (induction n arbitrary: p)
  case 0
  then show ?case by (simp add: ops_metered_any)
qed (simp add: spread_call_def)

text \<open>Visiting the fields of a node keeps its names and its strings.\<close>

lemma traverseOperator_str: "traverseOperator d p t = Inr u \<Longrightarrow> (u = TStr s) = (t = TStr s)"
proof (cases t)
  case (TObj fs)
  moreover have "rebuild d rw gs \<noteq> TStr s" for rw gs
    by (cases rw) (simp_all add: binary_call_def call_node_def tagged_def)
  moreover assume "traverseOperator d p t = Inr u"
  ultimately show ?thesis by (auto simp: Let_def split: if_splits sum.splits)
qed (auto split: sum.splits)

lemma fields_Inr:
  assumes "traverseOperator_fields d rw p fs = Inr gs"
  shows "map fst gs = map fst fs"
    and "(case map_of gs k of Some u \<Rightarrow> u | None \<Rightarrow> TUndef) = TStr s \<longleftrightarrow> (case map_of fs k of Some u \<Rightarrow> u | None \<Rightarrow> TUndef) = TStr s"
  using assms
proof (induction fs arbitrary: gs)
  case (Cons f fs)
  obtain k' t where f: "f = (k', t)" by force
  {
    case 1
    then show ?case using Cons.IH(1) by (auto simp: f split: sum.splits)
  next
    case 2
    then show ?case using Cons.IH(2) traverseOperator_str by (fastforce simp: f split: sum.splits if_splits)
  }
qed simp_all

lemma fields_type:
  assumes "traverseOperator_fields d rw p fs = Inr gs"
  shows "node_type (TObj gs) = node_type (TObj fs)" "field (TObj gs) k = TStr s \<longleftrightarrow> field (TObj fs) k = TStr s"
proof -
  show 1: "field (TObj gs) k = TStr s \<longleftrightarrow> field (TObj fs) k = TStr s" for k s
    using fields_Inr(2) [OF assms] by simp
  show "node_type (TObj gs) = node_type (TObj fs)" by (rule node_type_cong) (rule 1)
qed

lemma show_nat_name: "c \<in> set k \<Longrightarrow> 58 \<le> byte c \<Longrightarrow> show_nat n \<noteq> k"
  using show_nat_digits [of c n] by auto

lemma indexed_type: "node_type (TObj (zip (map show_nat ns) xs)) = ''undefined''"
proof -
  have "show_nat n \<noteq> ''type''" for n by (rule show_nat_name [of "CHR ''t''"]) (simp, code_simp)
  then have "''type'' \<notin> set (map show_nat ns)" by (auto dest: sym)
  then have "map_of (zip (map show_nat ns) xs) ''type'' = None"
    unfolding map_of_eq_None_iff using set_zip_leftD by fastforce
  then show ?thesis by (intro node_type_none) simp
qed

lemma indexed_metered:
  assumes "\<forall>t \<in> set xs. ops_metered ''undefined'' t"
  shows "ops_metered p (TObj (zip (map show_nat ns) xs))"
proof -
  have "op_ok p (TObj (zip (map show_nat ns) xs))" by (simp add: op_ok_def indexed_type)
  moreover have "\<forall>(k, t) \<in> set (zip (map show_nat ns) xs). ops_metered ''undefined'' t"
    using assms by (auto dest: set_zip_rightD)
  ultimately show ?thesis by (simp add: indexed_type)
qed

lemma copy_metered: "ops_metered ''undefined'' t \<Longrightarrow> ops_metered p (copy_of t)"
proof (cases t)
  case (TObj fs)
  moreover assume "ops_metered ''undefined'' t"
  ultimately show ?thesis using ops_metered_any [of t p] by simp
next
  case (TArr xs)
  moreover assume "ops_metered ''undefined'' t"
  ultimately show ?thesis using indexed_metered [of xs p "[0..<length xs]"] by simp
next
  case (TStr s)
  then show ?thesis using indexed_metered [of "map (\<lambda>u. TStr [u]) s"] by simp
qed (simp_all add: op_ok_def node_type_none)

lemma field_metered: "\<forall>(k, t) \<in> set gs. visits rw k \<longrightarrow> ops_metered p t \<Longrightarrow> visits rw k \<Longrightarrow> ops_metered p (field (TObj gs) k)"
  by (auto split: option.splits dest: map_of_SomeD)

lemma fields_updated:
  assumes "\<forall>(k, t) \<in> set gs. ops_metered ''undefined'' t" and "ops_metered ''undefined'' x"
  shows "\<forall>(k, t) \<in> set (AList.update j x gs). ops_metered ''undefined'' t"
  using assms by (induction gs) auto

lemma metered_TObjI:
  assumes "op_ok p (TObj fs)" and "\<forall>(k, t) \<in> set fs. ops_metered ''undefined'' t"
  shows "ops_metered p (TObj fs)"
  using assms ops_metered_any by fastforce

lemma op_okI:
  assumes "node_type n = ty" and "ty \<notin> {''ArrayPattern'', ''ObjectPattern'', ''BinaryExpression''}"
    and "ty = ''AssignmentExpression'' \<Longrightarrow> field n ''operator'' = TStr (js ''='')"
    and "ty = ''TemplateLiteral'' \<Longrightarrow> p = ''TaggedTemplateExpression''"
    and "ty = ''SpreadElement'' \<Longrightarrow> \<exists>x. field n ''argument'' = spread_call x"
  shows "op_ok p n"
  using assms by (simp add: op_ok_def)

lemma rewriting_types:
  "rewriting_of p n = Compound op \<Longrightarrow> node_type n = ''AssignmentExpression''"
  "rewriting_of p n = Template \<Longrightarrow> node_type n = ''TemplateLiteral''"
  "rewriting_of p n = Spread \<Longrightarrow> node_type n = ''SpreadElement''"
  by (auto simp: rewriting_of_def Let_def split: if_splits jtree.splits)

lemma rewriting_keep:
  assumes "rewriting_of p n = Keep"
  shows "op_ok p n"
  using assms by (auto simp: rewriting_of_def op_ok_def is_op_def Let_def split: if_splits jtree.splits)

lemma op_ok_cong:
  assumes "op_ok p (TObj fs)" and "traverseOperator_fields d rw q fs = Inr gs" and "node_type (TObj fs) \<noteq> ''SpreadElement''"
  shows "op_ok p (TObj gs)"
  using assms fields_type [OF assms(2)] by (auto simp: op_ok_def is_op_def Let_def simp del: field.simps)

lemma compound_right_metered:
  assumes "\<And>k. ops_metered ''undefined'' (field (TObj gs) k)"
  shows "ops_metered p (compound_right op gs)"
proof -
  note l = copy_metered [OF assms [of "''left''"]] and r = ops_metered_any [OF assms [of "''right''"]]
  let ?n = "TObj [(''operator'', TStr op), (''type'', TStr (js ''BinaryExpression'')), (''left'', copy_of (field (TObj gs) ''left'')),
      (''right'', field (TObj gs) ''right'')]"
  have "node_type ?n = ''BinaryExpression''" by (simp add: node_type_def)
  then have "\<not> is_op (TStr op) \<Longrightarrow> op_ok p ?n" by (simp add: op_ok_def)
  then have "\<not> is_op (TStr op) \<Longrightarrow> ops_metered p ?n" using l r by simp
  then show ?thesis using binary_call_metered [OF l assms] by (simp add: compound_right_def Let_def del: field.simps)
qed

lemma compound_metered:
  assumes "node_type (TObj gs) = ''AssignmentExpression''" and "\<forall>(k, t) \<in> set gs. ops_metered ''undefined'' t"
  shows "ops_metered p (rebuild d (Compound op) gs)"
proof -
  let ?hs = "AList.update ''right'' (compound_right op gs) (AList.update ''operator'' (TStr (js ''='')) gs)"
  have f: "ops_metered ''undefined'' (field (TObj gs) k)" for k using field_metered [of gs Keep _ k] assms(2) by simp
  have "node_type (TObj ?hs) = node_type (TObj gs)" by (intro node_type_cong) (simp add: update_conv')
  then have "op_ok p (TObj ?hs)" using assms(1) by (intro op_okI [of _ "''AssignmentExpression''"]) (simp_all add: update_conv')
  moreover have "\<forall>(k, t) \<in> set ?hs. ops_metered ''undefined'' t"
    by (intro fields_updated assms(2) compound_right_metered f) simp
  ultimately have "ops_metered p (TObj ?hs)" by (rule metered_TObjI)
  then show ?thesis by simp
qed

lemma spread_metered:
  assumes "node_type (TObj gs) = ''SpreadElement''" and "\<forall>(k, t) \<in> set gs. ops_metered ''undefined'' t"
  shows "ops_metered p (rebuild d Spread gs)"
proof -
  have f: "ops_metered ''undefined'' (field (TObj gs) ''argument'')" using field_metered [of gs Keep _ "''argument''"] assms(2) by simp
  let ?x = "(spread_call ^^ (2 ^ d)) (field (TObj gs) ''argument'')"
  obtain n :: nat where "2 ^ d = Suc n" by (metis Suc_pred' zero_less_numeral zero_less_power)
  then have x: "\<exists>y. ?x = spread_call y" by auto
  let ?hs = "AList.update ''argument'' ?x gs"
  have "node_type (TObj ?hs) = node_type (TObj gs)" by (intro node_type_cong) (simp add: update_conv')
  then have "op_ok p (TObj ?hs)" using assms(1) x by (intro op_okI [of _ "''SpreadElement''"]) (simp_all add: update_conv')
  then have "ops_metered p (TObj ?hs)" by (rule metered_TObjI) (intro fields_updated assms(2) spread_call_metered f)
  then show ?thesis by simp
qed

lemma template_metered:
  assumes "node_type (TObj gs) = ''TemplateLiteral''" and "\<forall>(k, t) \<in> set gs. ops_metered ''undefined'' t"
  shows "ops_metered p (rebuild d Template gs)"
proof -
  have "ops_metered ''TaggedTemplateExpression'' (TObj gs)"
    using assms by (intro metered_TObjI op_okI [of _ "''TemplateLiteral''"]) simp_all
  then show ?thesis by (simp add: tagged_def op_ok_def del: ops_metered.simps(1)) (simp add: op_ok_def)
qed

lemma rebuild_metered:
  assumes rw: "rewriting_of p (TObj fs) = rw" "rw \<noteq> Pattern" "rw \<noteq> NoOperator"
    and gs: "traverseOperator_fields d rw (parent_type rw (TObj fs)) fs = Inr gs"
    and ok: "\<forall>(k, t) \<in> set gs. visits rw k \<longrightarrow> ops_metered (parent_type rw (TObj fs)) t"
  shows "ops_metered p (rebuild d rw gs)"
proof (cases rw)
  case Keep
  then have "op_ok p (TObj fs)" "node_type (TObj fs) \<noteq> ''SpreadElement''"
    using rewriting_keep [of p "TObj fs"] rw(1) by (auto simp: rewriting_of_def Let_def)
  then have "op_ok p (TObj gs)" using op_ok_cong [OF _ gs] by blast
  then show ?thesis using Keep ok fields_type(1) [OF gs] by (simp add: parent_type_def)
next
  case (Binary op)
  have f: "ops_metered ''undefined'' (field (TObj gs) k)" if "k = ''left'' \<or> k = ''right''" for k
    using field_metered [of gs rw _ k] ok that by (simp add: Binary parent_type_def)
  show ?thesis using binary_call_metered [OF f f] by (simp add: Binary)
next
  case (Compound op)
  show ?thesis
    unfolding Compound
    by (rule compound_metered)
      (use rewriting_types(1) [OF rw(1) [unfolded Compound]] fields_type(1) [OF gs] ok Compound in \<open>simp_all add: parent_type_def\<close>)
next
  case Template
  then show ?thesis
    using rewriting_types(2) rw(1) fields_type(1) [OF gs] ok template_metered [of gs] by (simp add: parent_type_def)
next
  case Spread
  then show ?thesis
    using rewriting_types(3) rw(1) fields_type(1) [OF gs] ok spread_metered [of gs p d] by (simp add: parent_type_def)
qed (use rw in simp_all)

lemma traverseOperator_metered:
  "traverseOperator d p t = Inr u \<Longrightarrow> ops_metered p u"
  "traverseOperator_fields d rw q fs = Inr gs \<Longrightarrow> \<forall>(k, t) \<in> set gs. visits rw k \<longrightarrow> ops_metered q t"
  "traverseOperator_elements d xs = Inr ys \<Longrightarrow> \<forall>t \<in> set ys. ops_metered ''undefined'' t"
proof (induction d p t and d rw q fs and d xs arbitrary: u and gs and ys
    rule: traverseOperator_traverseOperator_fields_traverseOperator_elements.induct)
  case (1 d p fs)
  let ?rw = "rewriting_of p (TObj fs)"
  obtain gs where gs: "?rw \<noteq> Pattern" "?rw \<noteq> NoOperator" "traverseOperator_fields d ?rw (parent_type ?rw (TObj fs)) fs = Inr gs" "u = rebuild d ?rw gs"
    using "1.prems" by (auto simp: Let_def split: if_splits sum.splits)
  show ?case
    unfolding gs(4) by (rule rebuild_metered [OF refl gs(1-3)]) (use "1.IH" gs in auto)
next
  case (5 d rw p k t fs)
  obtain u hs where "gs = (k, u) # hs" "visits rw k \<Longrightarrow> traverseOperator (deeper rw k d) p t = Inr u"
    "traverseOperator_fields d rw p fs = Inr hs"
    using "5.prems" by (auto split: sum.splits if_splits)
  then show ?case using "5.IH" by (cases "visits rw k") auto
qed (auto split: sum.splits if_splits)

section \<open>The whole script\<close>

text \<open>
  The parser, asked for tokens and for positions, and the printer. \<open>m\<close> is what the global map of the
  script holds at the start.
\<close>

record parser =
  parse_tokens :: "js_string \<Rightarrow> js_string + token list \<times> jtree"
  parse_ranges :: "js_string \<Rightarrow> js_string + jtree"
  generate :: "jtree \<Rightarrow> js_string"

definition handleOperator :: "parser \<Rightarrow> jtree \<Rightarrow> inject_error + js_string" where
  "handleOperator es ast =
     (case traverseOperator 0 ''undefined'' ast of Inl e \<Rightarrow> Inl e | Inr t \<Rightarrow> Inr (generate es t))"

definition injectGas ::
  "parser \<Rightarrow> (charge list \<Rightarrow> js_string) \<Rightarrow> js_string \<Rightarrow> injections \<Rightarrow> inject_error + js_string" where
  "injectGas es num source m =
     (case parse_tokens es source of
        Inl e \<Rightarrow> Inl (ParseError e)
      | Inr (tokens, ast) \<Rightarrow>
          (case checkInvalidKeyword tokens of
             Some e \<Rightarrow> Inl (Refused e)
           | None \<Rightarrow>
               (case handleOperator es ast of
                  Inl e \<Rightarrow> Inl e
                | Inr source1 \<Rightarrow>
                    (case parse_ranges es source1 of
                       Inl e \<Rightarrow> Inl (ParseError e)
                     | Inr ast1 \<Rightarrow>
                         (case traverse ast1 None NullRef m of
                            None \<Rightarrow> Inl TypeError
                          | Some m1 \<Rightarrow> Inr (genNewScript num m1 source1))))))"

end
