(* ===== verification/Validate.thy ===== *)
theory Validate
  imports JsTree "HOL-Library.AList"
begin

text \<open>
  \<^verbatim>\<open>libjs/validate.js\<close>: the check of a contract's source against its ABI, on the tree the parser made of the
  source. A check returns the message of the error it throws, or nothing. The tree has the fields its node
  types have; a class that defines a method several times keeps the last one. \<^verbatim>\<open>compile.cc\<close> loads the script behind
  other statements, where its line \<^verbatim>\<open>'use strict'\<close> has no effect, so the undeclared loop variable \<^verbatim>\<open>m\<close> is a global.
\<close>

section \<open>The checks\<close>

record abi =
  ab_name :: js_string
  ab_args :: "jtree list"
  ab_amountLimit :: "jtree list"

definition in_range :: "16 word \<Rightarrow> char \<Rightarrow> char \<Rightarrow> bool" where
  "in_range u a b \<longleftrightarrow> of_nat (of_char a) \<le> u \<and> u \<le> of_nat (of_char b)"

definition name_unit :: "16 word \<Rightarrow> bool" where
  "name_unit u \<longleftrightarrow>
     in_range u CHR ''a'' CHR ''z'' \<or> in_range u CHR ''A'' CHR ''Z'' \<or> in_range u CHR ''0'' CHR ''9'' \<or>
     [u] = js ''_''"

fun first_invalid :: "js_string \<Rightarrow> js_string option" where
  "first_invalid [] = None"
| "first_invalid (u # us) = (if name_unit u then first_invalid us else Some [u])"

definition checkAbiNameValid :: "js_string \<Rightarrow> js_string option" where
  "checkAbiNameValid name =
     (if length name \<le> 0 \<or> length name > 32
        then Some (js ''abi name invalid. abi name length should be between 1,32  got '' @ name)
      else if take 1 name = js ''_'' then Some (js ''abi name invalid. abi name shouldn'' @ js [CHR 0x27] @ js ''t start with _'')
      else
        (case first_invalid name of
           Some ch \<Rightarrow> Some (js ''abi name invalid. abi name contains invalid character '' @ ch)
         | None \<Rightarrow> None))"

fun is_string :: "jtree \<Rightarrow> bool" where
  "is_string (TStr s) = True"
| "is_string t = False"

text \<open>A limit is an object, which is printed as such.\<close>

fun checkAmountLimitValid :: "jtree list \<Rightarrow> js_string option" where
  "checkAmountLimitValid [] = None"
| "checkAmountLimitValid (limit # ls) =
     (if \<not> is_string (field limit ''token'')
        then Some (js ''amountLimit invalid. token in amountLimit should be string type. limit = [object Object]'')
      else if \<not> is_string (field limit ''val'')
        then Some (js ''amountLimit invalid. val in amountLimit should be string type. limit = [object Object]'')
      else checkAmountLimitValid ls)"

fun items :: "jtree \<Rightarrow> jtree list" where
  "items (TArr xs) = xs"
| "items t = []"

definition exports_message :: js_string where
  "exports_message = js ''last expression must be '' @ js [CHR 0x27] @ js ''module.exports = CLASS_IDENTIFIER;'' @ js [CHR 0x27]"

definition checkExports :: "jtree \<Rightarrow> js_string + jtree" where
  "checkExports ast =
     (let body = items (field ast ''body'') in
      if node_type ast \<noteq> ''Program'' \<or> length body \<le> 1 then Inl (js ''empty source code.'')
      else
        let lst = last body; exp = field lst ''expression''; left = field exp ''left''; right = field exp ''right'' in
        if node_type lst \<noteq> ''ExpressionStatement'' \<or> node_type exp \<noteq> ''AssignmentExpression'' \<or>
           field exp ''operator'' \<noteq> TStr (js ''='') \<or> node_type left \<noteq> ''MemberExpression'' \<or>
           node_type (field left ''object'') \<noteq> ''Identifier'' \<or> node_type (field left ''property'') \<noteq> ''Identifier'' \<or>
           field (field left ''object'') ''name'' \<noteq> TStr (js ''module'') \<or>
           field (field left ''property'') ''name'' \<noteq> TStr (js ''exports'') \<or> node_type right \<noteq> ''Identifier''
        then Inl exports_message
        else Inr (field right ''name''))"

type_synonym methods = "(js_string \<times> jtree) list"

definition arg_types :: "jtree list" where
  "arg_types = map (\<lambda>n. TStr (js n)) [''string'', ''bool'', ''number'', ''json'']"

fun checkArgs :: "jtree list \<Rightarrow> js_string option" where
  "checkArgs [] = None"
| "checkArgs (x # xs) =
     (if x \<notin> set arg_types
        then Some (js ''args should be one of ['' @ js [CHR 0x22] @ js ''string'' @ js [CHR 0x22] @ js '', '' @ js [CHR 0x22] @ js ''bool'' @
          js [CHR 0x22] @ js '', '' @ js [CHR 0x22] @ js ''number'' @ js [CHR 0x22] @ js '', '' @ js [CHR 0x22] @ js ''json'' @ js [CHR 0x22] @ js '']'')
      else checkArgs xs)"

definition checkOneAbi :: "abi \<Rightarrow> methods \<Rightarrow> js_string option" where
  "checkOneAbi a methodMap =
     (case checkAbiNameValid (ab_name a) of
        Some e \<Rightarrow> Some e
      | None \<Rightarrow>
          (case checkAmountLimitValid (ab_amountLimit a) of
             Some e \<Rightarrow> Some e
           | None \<Rightarrow>
               if ab_name a = js ''init'' then Some (js ''abi shouldn'' @ js [CHR 0x27] @ js ''t contain internal function: init'')
               else
                 (case map_of methodMap (ab_name a) of
                    Some (TArr params) \<Rightarrow>
                      if length (ab_args a) \<noteq> length params then Some (js ''args length not match: '' @ ab_name a)
                      else checkArgs (ab_args a)
                  | _ \<Rightarrow> Some (js ''abi not defined in source code: '' @ ab_name a))))"

definition is_method :: "jtree \<Rightarrow> bool" where
  "is_method m \<longleftrightarrow>
     node_type m = ''MethodDefinition'' \<and> node_type (field m ''key'') = ''Identifier'' \<and>
     node_type (field m ''value'') = ''FunctionExpression''"

fun collect_methods :: "jtree list \<Rightarrow> methods \<Rightarrow> js_string + methods" where
  "collect_methods [] methodMap = Inr methodMap"
| "collect_methods (m # ms) methodMap =
     (if \<not> is_method m then collect_methods ms methodMap
      else
        (case field (field m ''key'') ''name'' of
           TStr name \<Rightarrow>
             if name = js ''constructor''
               then Inl (js ''smart contract class shouldn'' @ js [CHR 0x27] @ js ''t contain constructor method!!'')
             else collect_methods ms (AList.update name (field (field m ''value'') ''params'') methodMap)
         | _ \<Rightarrow> collect_methods ms methodMap))"

fun check_all :: "('a \<Rightarrow> js_string option) \<Rightarrow> 'a list \<Rightarrow> js_string option" where
  "check_all f [] = None"
| "check_all f (x # xs) = (case f x of Some e \<Rightarrow> Some e | None \<Rightarrow> check_all f xs)"

definition is_class :: "jtree \<Rightarrow> jtree \<Rightarrow> bool" where
  "is_class cls node \<longleftrightarrow>
     node_type node = ''ClassDeclaration'' \<and> node_type (field node ''id'') = ''Identifier'' \<and>
     field (field node ''id'') ''name'' = cls \<and> node_type (field node ''body'') = ''ClassBody''"

definition checkOneClass :: "jtree \<Rightarrow> abi list \<Rightarrow> jtree \<Rightarrow> js_string + bool" where
  "checkOneClass node abis cls =
     (if \<not> is_class cls node then Inr False
      else
        (case collect_methods (items (field (field node ''body'') ''body'')) [] of
           Inl e \<Rightarrow> Inl e
         | Inr methodMap \<Rightarrow>
             if map_of methodMap (js ''init'') \<in> {None, Some TNull, Some TUndef} then Inl (js ''init not found!'')
             else
               (case check_all (\<lambda>a. checkOneAbi a methodMap) abis of Some e \<Rightarrow> Inl e | None \<Rightarrow> Inr True)))"

fun checkAbi :: "jtree list \<Rightarrow> abi list \<Rightarrow> jtree \<Rightarrow> js_string option" where
  "checkAbi [] abis cls = Some (js ''abi not match your source code.'')"
| "checkAbi (node # body) abis cls =
     (case checkOneClass node abis cls of
        Inl e \<Rightarrow> Some e
      | Inr True \<Rightarrow> None
      | Inr False \<Rightarrow> checkAbi body abis cls)"

text \<open>A source that does not parse throws out of the script, before the handler.\<close>

definition validate_js :: "(js_string \<Rightarrow> js_string + jtree) \<Rightarrow> js_string \<Rightarrow> abi list \<Rightarrow> js_string + js_string" where
  "validate_js parse source abis =
     (case parse source of
        Inl e \<Rightarrow> Inl e
      | Inr ast \<Rightarrow>
          (case (case checkExports ast of Inl e \<Rightarrow> Some e | Inr cls \<Rightarrow> checkAbi (items (field ast ''body'')) abis cls) of
             Some e \<Rightarrow> Inr (js ''Error: '' @ e)
           | None \<Rightarrow> Inr (js ''success'')))"

section \<open>What is accepted\<close>

text \<open>The specification: no order of checks and no messages.\<close>

definition name_ok :: "js_string \<Rightarrow> bool" where
  "name_ok name \<longleftrightarrow> 1 \<le> length name \<and> length name \<le> 32 \<and> hd name \<noteq> hd (js ''_'') \<and> (\<forall>u \<in> set name. name_unit u)"

definition abi_ok :: "methods \<Rightarrow> abi \<Rightarrow> bool" where
  "abi_ok methodMap a \<longleftrightarrow>
     name_ok (ab_name a) \<and> ab_name a \<noteq> js ''init'' \<and>
     (\<forall>l \<in> set (ab_amountLimit a). is_string (field l ''token'') \<and> is_string (field l ''val'')) \<and>
     (\<exists>params. map_of methodMap (ab_name a) = Some (TArr params) \<and> length params = length (ab_args a)) \<and>
     set (ab_args a) \<subseteq> set arg_types"

definition class_ok :: "abi list \<Rightarrow> jtree \<Rightarrow> bool" where
  "class_ok abis node \<longleftrightarrow>
     (\<exists>methodMap. collect_methods (items (field (field node ''body'') ''body'')) [] = Inr methodMap \<and>
        (\<exists>t. map_of methodMap (js ''init'') = Some t \<and> readable_value t) \<and> (\<forall>a \<in> set abis. abi_ok methodMap a))"

definition contract_ok :: "jtree \<Rightarrow> abi list \<Rightarrow> bool" where
  "contract_ok ast abis \<longleftrightarrow>
     (\<exists>cls c. checkExports ast = Inr cls \<and> find (is_class cls) (items (field ast ''body'')) = Some c \<and> class_ok abis c)"

lemma first_invalid_None: "first_invalid s = None \<longleftrightarrow> (\<forall>u \<in> set s. name_unit u)"
  by (induction s) auto

lemma take_1: "take 1 s = js [c] \<longleftrightarrow> s \<noteq> [] \<and> hd s = hd (js [c])"
  by (cases s) (auto simp: js_def)

lemma checkAbiNameValid_None: "checkAbiNameValid name = None \<longleftrightarrow> name_ok name"
  by (auto simp: checkAbiNameValid_def name_ok_def take_1 [unfolded One_nat_def] first_invalid_None [symmetric] Suc_le_eq split: option.splits)

lemma checkAmountLimitValid_None:
  "checkAmountLimitValid ls = None \<longleftrightarrow> (\<forall>l \<in> set ls. is_string (field l ''token'') \<and> is_string (field l ''val''))"
  by (induction ls) auto

lemma checkArgs_None: "checkArgs args = None \<longleftrightarrow> set args \<subseteq> set arg_types"
  by (induction args) auto

lemma checkOneAbi_None: "checkOneAbi a methodMap = None \<longleftrightarrow> abi_ok methodMap a"
proof -
  have "(case map_of methodMap (ab_name a) of
           Some (TArr params) \<Rightarrow> if length (ab_args a) \<noteq> length params then Some e1 else checkArgs (ab_args a)
         | _ \<Rightarrow> Some e2) = None \<longleftrightarrow>
        (\<exists>params. map_of methodMap (ab_name a) = Some (TArr params) \<and> length params = length (ab_args a)) \<and> checkArgs (ab_args a) = None"
    for e1 e2 by (auto split: option.splits jtree.splits)
  then show ?thesis
    by (auto simp: checkOneAbi_def abi_ok_def checkAbiNameValid_None [symmetric] checkAmountLimitValid_None [symmetric] checkArgs_None [symmetric]
        split: option.splits if_splits)
qed

lemma check_all_None: "check_all f xs = None \<longleftrightarrow> (\<forall>x \<in> set xs. f x = None)"
  by (induction xs) (auto split: option.splits)

lemma check_abis_None: "check_all (\<lambda>a. checkOneAbi a methodMap) abis = None \<longleftrightarrow> (\<forall>a \<in> set abis. abi_ok methodMap a)"
  by (simp add: check_all_None checkOneAbi_None)

lemma checkOneClass_cases:
  "\<not> is_class cls node \<Longrightarrow> checkOneClass node abis cls = Inr False"
  "is_class cls node \<Longrightarrow> checkOneClass node abis cls = Inr True \<longleftrightarrow> class_ok abis node"
  "is_class cls node \<Longrightarrow> checkOneClass node abis cls \<noteq> Inr False"
  by (auto simp: checkOneClass_def class_ok_def check_abis_None [symmetric] readable_value_def split: sum.splits option.splits)

lemma checkAbi_None: "checkAbi body abis cls = None \<longleftrightarrow> (\<exists>c. find (is_class cls) body = Some c \<and> class_ok abis c)"
proof (induction body)
  case (Cons node body)
  then show ?case
    using checkOneClass_cases [of cls node abis] by (cases "is_class cls node") (auto split: sum.splits bool.splits)
qed simp

lemma validate_success:
  assumes "parse source = Inr ast"
  shows "validate_js parse source abis = Inr (js ''success'') \<longleftrightarrow> contract_ok ast abis"
proof -
  have "js ''Error: '' @ e \<noteq> js ''success''" for e by (simp add: js_def)
  then show ?thesis
    using assms by (auto simp: validate_js_def contract_ok_def checkAbi_None [symmetric] split: sum.splits option.splits)
qed

end
