(* ===== verification/Bridge.thy ===== *)
theory Bridge
  imports Engine
begin

text \<open>
  Calling into Go. A Go function reached through a C function pointer takes \<^verbatim>\<open>CStr\<close> values
  and out-parameters, works on the C heap and on the state of the node, and returns an
  error message (a malloc'ed C string) or null. This theory has the call itself, the
  abstract call it stands for (byte strings in, an error or a value out, nothing of the
  heap left behind), and the rules by which a callback refines its abstract call.
\<close>

section \<open>The call\<close>

text \<open>
  An out-parameter is a cell; \<open>None\<close> is an indeterminate value, and reading it is
  undefined. \<open>'o\<close> is the out-parameter that carries the result.
\<close>

type_synonym 'a cell = "'a option"

type_synonym 'h genv = "c_heap \<times> 'h"

type_synonym ('o, 'h) gocall =
  "'o \<Rightarrow> size_t cell \<Rightarrow> 'h genv \<Rightarrow> (char_ptr \<times> 'o \<times> size_t cell \<times> 'h genv) option"

text \<open>
  The body that every method of \<^verbatim>\<open>IOSTContractStorage\<close> and \<^verbatim>\<open>IOSTBlockchain\<close> has: call
  the pointer, add the reported gas to the sandbox, hand on the return value. A null
  function pointer or a gas value that was never written is undefined behaviour.
\<close>

definition bridge_call ::
  "('o, 'h) gocall option \<Rightarrow> 'o \<Rightarrow> size_t cell \<Rightarrow> 'h world \<Rightarrow> (char_ptr \<times> 'o \<times> 'h world) option" where
  "bridge_call f out gas w =
     (case f of
        None \<Rightarrow> None
      | Some g \<Rightarrow>
          (case g out gas (w_heap w, w_host w) of
             None \<Rightarrow> None
           | Some (ret, out', gas', h, s) \<Rightarrow>
               (case gas' of
                  None \<Rightarrow> None
                | Some n \<Rightarrow> Some (ret, out', add_gas n (w\<lparr>w_heap := h, w_host := s\<rparr>)))))"

section \<open>How Go reads and returns C strings\<close>

text \<open>
  \<^verbatim>\<open>ctypes.go\<close>: \<open>GoString\<close> copies \<open>size\<close> bytes (a negative length panics), \<open>SetString\<close>
  and \<open>newCStr\<close> allocate a NUL-terminated copy; \<open>C.CString\<close> likewise for an error.
\<close>

definition GoString :: "c_heap \<Rightarrow> CStr \<Rightarrow> string option" where
  "GoString h c =
     (let n = sint (cstr_size c) in
      if n < 0 then None
      else if n = 0 then Some []
      else Option.bind (bytes_at h (cstr_data c))
             (\<lambda>bs. if nat n \<le> length bs then Some (take (nat n) bs) else None))"

definition newCStr :: "string \<Rightarrow> c_heap \<Rightarrow> CStr \<times> c_heap" where
  "newCStr str h =
     (\<lparr>cstr_data = Some (brk h), cstr_size = of_nat (length str)\<rparr>, alloc (Malloc (str @ [NUL])) h)"

definition SetString :: "CStr \<Rightarrow> string \<Rightarrow> c_heap \<Rightarrow> CStr \<times> c_heap" where
  "SetString c str h =
     (c\<lparr>cstr_data := Some (brk h), cstr_size := of_nat (length str)\<rparr>, alloc (Malloc (str @ [NUL])) h)"

definition CString :: "string \<Rightarrow> c_heap \<Rightarrow> char_ptr \<times> c_heap" where
  "CString str h = (Some (brk h), alloc (Malloc (str @ [NUL])) h)"

section \<open>Results other than strings\<close>

text \<open>
  \<^verbatim>\<open>GetReturnValue().Set(result)\<close> on an out-parameter; a count goes through a C \<open>int\<close>.
\<close>

definition ret_null :: "unit \<Rightarrow> 'h act" where
  "ret_null out = set_ret JNull"

definition ret_bool :: "bool cell \<Rightarrow> 'h act" where
  "ret_bool out = (case out of None \<Rightarrow> (\<lambda>w. None) | Some b \<Rightarrow> set_ret (JBool b))"

definition js_int :: "size_t \<Rightarrow> js_value" where
  "js_int n = JNumber (Fin (of_int (sint (ucast n :: c_int))))"

definition ret_int :: "size_t cell \<Rightarrow> 'h act" where
  "ret_int out = (case out of None \<Rightarrow> (\<lambda>w. None) | Some n \<Rightarrow> set_ret (js_int n))"

section \<open>The abstract call\<close>

text \<open>
  What a call means without the heap: given the state of the node, an error or a result,
  the gas it costs, and the next state; \<open>None\<close> when the Go code panics.
\<close>

type_synonym ('r, 'h) host_op = "'h \<Rightarrow> ((string + 'r) \<times> size_t \<times> 'h) option"

definition js_call :: "v8_api \<Rightarrow> ('r, 'h) host_op \<Rightarrow> ('r \<Rightarrow> js_value) \<Rightarrow> 'h act" where
  "js_call v m conv w =
     (case m (w_host w) of
        None \<Rightarrow> None
      | Some (r, g, s) \<Rightarrow>
          (case r of
             Inl e \<Rightarrow> throw_error v (c_trunc e) (add_gas g (w\<lparr>w_host := s\<rparr>))
           | Inr x \<Rightarrow> set_ret (conv x) (add_gas g (w\<lparr>w_host := s\<rparr>))))"

text \<open>
  A \<^verbatim>\<open>CStr\<close> in the heap that holds a byte string, as \<^verbatim>\<open>NewCStr\<close> makes it.
\<close>

definition cstr_holds :: "c_heap \<Rightarrow> CStr \<Rightarrow> string \<Rightarrow> bool" where
  "cstr_holds h c bs \<longleftrightarrow>
     (\<exists>a. cstr_data c = Some a \<and> blocks h a = Some (NewArr (bs @ [NUL]))) \<and>
     sint (cstr_size c) = int (length bs)"

text \<open>
  A Go function implements an abstract operation when, called with cells that are set to
  zero, it returns what the operation says: an error as a C string and no result, or a
  result of the kind the out-parameter can carry, and the gas in either case.
\<close>

definition out_nothing :: "unit \<Rightarrow> unit \<Rightarrow> c_heap \<Rightarrow> c_heap \<Rightarrow> bool" where
  "out_nothing x out h h' \<longleftrightarrow> h' = h"

definition out_bool :: "bool \<Rightarrow> bool cell \<Rightarrow> c_heap \<Rightarrow> c_heap \<Rightarrow> bool" where
  "out_bool x out h h' \<longleftrightarrow> out = Some x \<and> h' = h"

definition out_size :: "size_t \<Rightarrow> size_t cell \<Rightarrow> c_heap \<Rightarrow> c_heap \<Rightarrow> bool" where
  "out_size x out h h' \<longleftrightarrow> out = Some x \<and> h' = h"

definition out_string :: "string \<Rightarrow> CStr \<Rightarrow> c_heap \<Rightarrow> c_heap \<Rightarrow> bool" where
  "out_string x out h h' \<longleftrightarrow> (out, h') = newCStr x h"

definition out_string_opt :: "string option \<Rightarrow> CStr \<Rightarrow> c_heap \<Rightarrow> c_heap \<Rightarrow> bool" where
  "out_string_opt x out h h' \<longleftrightarrow>
     (case x of None \<Rightarrow> out = null_CStr \<and> h' = h | Some s \<Rightarrow> (out, h') = newCStr s h)"

definition implements ::
  "('r \<Rightarrow> 'o \<Rightarrow> c_heap \<Rightarrow> c_heap \<Rightarrow> bool) \<Rightarrow> ('o, 'h) gocall \<Rightarrow> 'o \<Rightarrow> c_heap \<Rightarrow> 'h \<Rightarrow> ('r, 'h) host_op \<Rightarrow> bool" where
  "implements R f out0 h s m \<longleftrightarrow>
     (case m s of
        None \<Rightarrow> f out0 (Some 0) (h, s) = None
      | Some (Inl e, g, s') \<Rightarrow>
          (\<exists>out. f out0 (Some 0) (h, s) = Some (Some (brk h), out, Some g, alloc (Malloc (e @ [NUL])) h, s'))
      | Some (Inr x, g, s') \<Rightarrow>
          (\<exists>out h'. f out0 (Some 0) (h, s) = Some (None, out, Some g, h', s') \<and> R x out h h'))"

section \<open>Refinement of a callback\<close>

text \<open>
  The abstract world is the world with the heap erased; a callback refines an abstract
  one when it does the same to it, leaves exactly the blocks live that were live before
  (it neither leaks nor frees what it does not own) and fails only where it does.
\<close>

definition heap_erase :: "'h world \<Rightarrow> 'h world" where
  "heap_erase w = w\<lparr>w_heap := empty_heap\<rparr>"

definition refines_at :: "'h act \<Rightarrow> 'h world \<Rightarrow> 'h world option \<Rightarrow> bool" where
  "refines_at f w r \<longleftrightarrow>
     (case r of
        None \<Rightarrow> f w = None
      | Some w2 \<Rightarrow>
          (\<exists>w1. f w = Some w1 \<and> heap_erase w1 = heap_erase w2 \<and>
                blocks (w_heap w1) = blocks (w_heap w) \<and> heap_ok (w_heap w1)))"

section \<open>Rules\<close>

lemma add_gas_simps [simp]:
  "w_heap (add_gas g w) = w_heap w"
  "w_host (add_gas g w) = w_host w"
  "w_fields (add_gas g w) = w_fields w"
  "w_exc (add_gas g w) = w_exc w"
  "w_ret (add_gas g w) = w_ret w"
  "w_out (add_gas g w) = w_out w"
  "gasUsed (w_sbx (add_gas g w)) = gasUsed (w_sbx w) + g"
  "gasLimit (w_sbx (add_gas g w)) = gasLimit (w_sbx w)"
  "memLimit (w_sbx (add_gas g w)) = memLimit (w_sbx w)"
  "inst_count (w_sbx (add_gas g w)) = inst_count (w_sbx w)"
  by (simp_all add: add_gas_def)

lemma add_gas_heap [simp]: "(add_gas g w)\<lparr>w_heap := h\<rparr> = add_gas g (w\<lparr>w_heap := h\<rparr>)"
  by (simp add: add_gas_def)

lemma heap_erase_heap [simp]: "heap_erase (w\<lparr>w_heap := h\<rparr>) = heap_erase w"
  by (simp add: heap_erase_def)

lemma heap_erase_fields [simp]:
  "w_fields (heap_erase w) = w_fields w" "w_host (heap_erase w) = w_host w"
  by (simp_all add: heap_erase_def)

lemma refines_atI:
  assumes "f w = Some w1" and "heap_erase w1 = heap_erase w2"
    and "blocks (w_heap w1) = blocks (w_heap w)" and "heap_ok (w_heap w1)"
  shows "refines_at f w (Some w2)"
  using assms by (auto simp: refines_at_def)

lemma refines_at_None: "f w = None \<Longrightarrow> refines_at f w None"
  by (simp add: refines_at_def)

lemma refines_at_SomeE:
  assumes "refines_at f w (Some w2)"
  obtains w1 where "f w = Some w1" and "heap_erase w1 = heap_erase w2"
    and "blocks (w_heap w1) = blocks (w_heap w)" and "heap_ok (w_heap w1)"
  using assms by (auto simp: refines_at_def)

lemma refines_at_throw:
  "heap_ok (w_heap w) \<Longrightarrow> refines_at (throw_error v msg) w (throw_error v msg w)"
  by (auto simp: refines_at_def throw_error_def ThrowException_def)

lemma refines_at_set_ret:
  "heap_ok (w_heap w) \<Longrightarrow> refines_at (set_ret x) w (set_ret x w)"
  by (auto simp: refines_at_def set_ret_def)

lemma refines_at_print:
  "heap_ok (w_heap w) \<Longrightarrow> refines_at (print_line s) w (print_line s w)"
  by (auto simp: refines_at_def print_line_def)

lemma cstr_holds_alloc:
  "heap_ok h \<Longrightarrow> cstr_holds h c bs \<Longrightarrow> cstr_holds (alloc b h) c bs"
  using heap_ok_fresh by (fastforce simp: cstr_holds_def heap_simps)

lemma sint_of_nat_small: "n < 2 ^ 31 \<Longrightarrow> sint (of_nat n :: c_int) = int n"
  by (simp add: sint_uint uint_nat unat_of_nat signed_take_bit_int_eq_self take_bit_nat_eq_self)

lemma cstr_holds_NewCStr:
  assumes "length bs < 2 ^ 31"
  shows "cstr_holds (alloc (NewArr (bs @ [NUL])) h)
           \<lparr>cstr_data = Some (brk h), cstr_size = of_nat (length bs)\<rparr> bs"
  using sint_of_nat_small [OF assms] by (simp add: cstr_holds_def heap_simps)

lemma GoString_cstr_holds: "cstr_holds h c bs \<Longrightarrow> GoString h c = Some bs"
  by (auto simp: cstr_holds_def GoString_def Let_def)

text \<open>A string argument: the copy lives during the rest of the callback and is gone after it.\<close>

lemma refines_at_NewCStr:
  assumes ok: "heap_ok (w_heap w)" and small: "length (utf8_of v s) < 2 ^ 31"
    and k: "\<And>c h. heap_ok h \<Longrightarrow> cstr_holds h c (utf8_of v s) \<Longrightarrow>
              h = alloc (NewArr (utf8_of v s @ [NUL])) (w_heap w) \<Longrightarrow>
              refines_at (k c) (w\<lparr>w_heap := h\<rparr>) r"
  shows "refines_at (NewCStr v s k) w r"
proof -
  let ?a = "brk (w_heap w)"
  let ?h = "alloc (NewArr (utf8_of v s @ [NUL])) (w_heap w)"
  let ?c = "\<lparr>cstr_data = Some ?a, cstr_size = of_nat (length (utf8_of v s))\<rparr>"
  have inner: "refines_at (k ?c) (w\<lparr>w_heap := ?h\<rparr>) r"
    using k [of ?h ?c] ok cstr_holds_NewCStr [OF small] by simp
  show ?thesis
  proof (cases r)
    case None
    with inner show ?thesis by (simp add: refines_at_def NewCStr_def Let_def)
  next
    case (Some w2)
    from inner [unfolded Some] obtain w1 where w1: "k ?c (w\<lparr>w_heap := ?h\<rparr>) = Some w1"
      "heap_erase w1 = heap_erase w2" "blocks (w_heap w1) = blocks ?h" "heap_ok (w_heap w1)"
      by (auto elim: refines_at_SomeE)
    let ?h' = "(w_heap w1)\<lparr>blocks := (blocks (w_heap w1))(?a := None)\<rparr>"
    have "delete_arr ?a (w_heap w1) = Some ?h'"
      using w1(3) by (simp add: delete_arr_def heap_simps)
    then have eq: "NewCStr v s k w = Some (w1\<lparr>w_heap := ?h'\<rparr>)"
      using w1(1) by (simp add: NewCStr_def Let_def)
    have bl: "blocks ?h' = blocks (w_heap w)"
      using w1(3) heap_ok_fresh [OF ok] by (auto simp: heap_simps)
    show ?thesis unfolding Some
      by (rule refines_atI [where f = "NewCStr v s k" and w = w, OF eq])
        (use w1(2) bl heap_ok_remove [OF w1(4), of ?a] in simp_all)
  qed
qed

text \<open>
  The engine's encoding is UTF-8: at most three bytes for a code unit. With the limit on
  the length of inputs, the size of an argument fits the C \<open>int\<close> that carries it.
\<close>

definition utf8_bound :: "v8_api \<Rightarrow> bool" where
  "utf8_bound v \<longleftrightarrow> (\<forall>s. length (utf8_of v s) \<le> 3 * length s)"

text \<open>An abstract action does not look at the heap.\<close>

definition heap_blind :: "'h act \<Rightarrow> bool" where
  "heap_blind g \<longleftrightarrow> (\<forall>w h. map_option heap_erase (g (w\<lparr>w_heap := h\<rparr>)) = map_option heap_erase (g w))"

lemma heap_blind_throw [simp]: "heap_blind (throw_error v msg)"
  by (simp add: heap_blind_def throw_error_def ThrowException_def heap_erase_def)

lemma heap_blind_js_call [simp]: "heap_blind (js_call v m conv)"
  by (simp add: heap_blind_def js_call_def throw_error_def ThrowException_def set_ret_def
      add_gas_def heap_erase_def split: option.split sum.split)

lemma refines_at_blind:
  assumes "refines_at f (w\<lparr>w_heap := h\<rparr>) (g (w\<lparr>w_heap := h\<rparr>))" and "heap_blind g"
  shows "refines_at f (w\<lparr>w_heap := h\<rparr>) (g w)"
proof -
  have "map_option heap_erase (g (w\<lparr>w_heap := h\<rparr>)) = map_option heap_erase (g w)"
    using assms(2) by (simp add: heap_blind_def)
  with assms(1) show ?thesis
    by (auto simp: refines_at_def split: option.splits)
qed

text \<open>All string arguments of a call go through the length check first.\<close>

definition limit_args :: "v8_api \<Rightarrow> js_string list \<Rightarrow> 'h act \<Rightarrow> 'h act" where
  "limit_args v ss g =
     (if list_ex (\<lambda>s. INPUT_MAX_LENGTH < length s) ss then throw_error v ''input string too long'' else g)"

lemma limit_args_Nil [simp]: "limit_args v [] g = g"
  by (simp add: limit_args_def)

lemma heap_blind_limit_args [simp]: "heap_blind g \<Longrightarrow> heap_blind (limit_args v ss g)"
  by (simp add: limit_args_def)

lemma refines_at_NewCStrChecked:
  assumes ok: "heap_ok (w_heap w)" and v: "utf8_bound v"
    and k: "\<And>c h. heap_ok h \<Longrightarrow> cstr_holds h c (utf8_of v s) \<Longrightarrow>
              h = alloc (NewArr (utf8_of v s @ [NUL])) (w_heap w) \<Longrightarrow>
              refines_at (k c) (w\<lparr>w_heap := h\<rparr>) (limit_args v ss g (w\<lparr>w_heap := h\<rparr>))"
    and g: "heap_blind g"
  shows "refines_at (NewCStrChecked v (JString s) k) w (limit_args v (s # ss) g w)"
proof (cases "INPUT_MAX_LENGTH < length s")
  case True
  with ok show ?thesis by (simp add: NewCStrChecked_def limit_args_def refines_at_throw)
next
  case False
  have "length (utf8_of v s) \<le> 3 * length s" using v by (simp add: utf8_bound_def)
  with False have "length (utf8_of v s) < 2 ^ 31" by (simp add: INPUT_MAX_LENGTH_def)
  moreover have "refines_at (k c) (w\<lparr>w_heap := h\<rparr>) (limit_args v ss g w)"
    if "heap_ok h" and "cstr_holds h c (utf8_of v s)"
      and "h = alloc (NewArr (utf8_of v s @ [NUL])) (w_heap w)" for c h
    by (rule refines_at_blind [where g = "limit_args v ss g", OF k [OF that]]) (simp add: g)
  ultimately have "refines_at (NewCStr v s k) w (limit_args v ss g w)"
    by (rule refines_at_NewCStr [OF ok])
  with False show ?thesis
    by (simp add: NewCStrChecked_def limit_args_def)
qed

text \<open>Blocks that are live in the first heap are live and unchanged in the second.\<close>

definition heap_ext :: "c_heap \<Rightarrow> c_heap \<Rightarrow> bool" where
  "heap_ext h h' \<longleftrightarrow> (\<forall>a b. blocks h a = Some b \<longrightarrow> blocks h' a = Some b)"

lemma heap_ext_refl [simp]: "heap_ext h h"
  by (simp add: heap_ext_def)

lemma heap_ext_alloc: "heap_ok h \<Longrightarrow> heap_ext (alloc b h) h' \<Longrightarrow> heap_ext h h'"
  unfolding heap_ext_def blocks_alloc by (metis fun_upd_apply heap_ok_fresh option.distinct(1))

lemma heap_ext_alloc_self [simp]: "heap_ok h \<Longrightarrow> heap_ext h (alloc b h)"
  by (rule heap_ext_alloc [of h b]) simp_all

lemma cstr_holds_ext: "cstr_holds h c bs \<Longrightarrow> heap_ext h h' \<Longrightarrow> cstr_holds h' c bs"
  by (auto simp: cstr_holds_def heap_ext_def)

lemma refines_args1:
  assumes ok: "heap_ok (w_heap w)" and v: "utf8_bound v" and g: "heap_blind g"
    and k: "\<And>c1 h. heap_ok h \<Longrightarrow> heap_ext (w_heap w) h \<Longrightarrow> cstr_holds h c1 (utf8_of v s1) \<Longrightarrow>
              refines_at (k c1) (w\<lparr>w_heap := h\<rparr>) (g (w\<lparr>w_heap := h\<rparr>))"
  shows "refines_at (NewCStrChecked v (JString s1) k) w (limit_args v [s1] g w)"
  by (rule refines_at_NewCStrChecked [OF ok v _ g]) (simp add: k ok)

lemma refines_args2:
  assumes ok: "heap_ok (w_heap w)" and v: "utf8_bound v" and g: "heap_blind g"
    and k: "\<And>c1 c2 h. heap_ok h \<Longrightarrow> heap_ext (w_heap w) h \<Longrightarrow> cstr_holds h c1 (utf8_of v s1) \<Longrightarrow> cstr_holds h c2 (utf8_of v s2) \<Longrightarrow>
              refines_at (k c1 c2) (w\<lparr>w_heap := h\<rparr>) (g (w\<lparr>w_heap := h\<rparr>))"
  shows "refines_at (NewCStrChecked v (JString s1) (\<lambda>c1. NewCStrChecked v (JString s2) (k c1))) w
           (limit_args v [s1, s2] g w)"
proof (rule refines_at_NewCStrChecked [OF ok v _ g])
  fix c h
  assume h: "heap_ok h" "cstr_holds h c (utf8_of v s1)"
    "h = alloc (NewArr (utf8_of v s1 @ [NUL])) (w_heap w)"
  have "heap_ext (w_heap w) h'" "cstr_holds h' c (utf8_of v s1)" if "heap_ext h h'" for h'
    using that h ok by (auto intro: heap_ext_alloc cstr_holds_ext)
  then show "refines_at (NewCStrChecked v (JString s2) (k c)) (w\<lparr>w_heap := h\<rparr>)
          (limit_args v [s2] g (w\<lparr>w_heap := h\<rparr>))"
    by (intro refines_args1 v g) (use h in \<open>simp_all add: k\<close>)
qed

lemma refines_args3:
  assumes ok: "heap_ok (w_heap w)" and v: "utf8_bound v" and g: "heap_blind g"
    and k: "\<And>c1 c2 c3 h. heap_ok h \<Longrightarrow> heap_ext (w_heap w) h \<Longrightarrow> cstr_holds h c1 (utf8_of v s1) \<Longrightarrow> cstr_holds h c2 (utf8_of v s2) \<Longrightarrow> cstr_holds h c3 (utf8_of v s3) \<Longrightarrow>
              refines_at (k c1 c2 c3) (w\<lparr>w_heap := h\<rparr>) (g (w\<lparr>w_heap := h\<rparr>))"
  shows "refines_at (NewCStrChecked v (JString s1) (\<lambda>c1. NewCStrChecked v (JString s2) (\<lambda>c2. NewCStrChecked v (JString s3) (k c1 c2)))) w
           (limit_args v [s1, s2, s3] g w)"
proof (rule refines_at_NewCStrChecked [OF ok v _ g])
  fix c h
  assume h: "heap_ok h" "cstr_holds h c (utf8_of v s1)"
    "h = alloc (NewArr (utf8_of v s1 @ [NUL])) (w_heap w)"
  have "heap_ext (w_heap w) h'" "cstr_holds h' c (utf8_of v s1)" if "heap_ext h h'" for h'
    using that h ok by (auto intro: heap_ext_alloc cstr_holds_ext)
  then show "refines_at (NewCStrChecked v (JString s2) (\<lambda>c2. NewCStrChecked v (JString s3) (k c c2))) (w\<lparr>w_heap := h\<rparr>)
          (limit_args v [s2, s3] g (w\<lparr>w_heap := h\<rparr>))"
    by (intro refines_args2 v g) (use h in \<open>simp_all add: k\<close>)
qed

lemma refines_args4:
  assumes ok: "heap_ok (w_heap w)" and v: "utf8_bound v" and g: "heap_blind g"
    and k: "\<And>c1 c2 c3 c4 h. heap_ok h \<Longrightarrow> heap_ext (w_heap w) h \<Longrightarrow> cstr_holds h c1 (utf8_of v s1) \<Longrightarrow> cstr_holds h c2 (utf8_of v s2) \<Longrightarrow> cstr_holds h c3 (utf8_of v s3) \<Longrightarrow> cstr_holds h c4 (utf8_of v s4) \<Longrightarrow>
              refines_at (k c1 c2 c3 c4) (w\<lparr>w_heap := h\<rparr>) (g (w\<lparr>w_heap := h\<rparr>))"
  shows "refines_at (NewCStrChecked v (JString s1) (\<lambda>c1. NewCStrChecked v (JString s2) (\<lambda>c2. NewCStrChecked v (JString s3) (\<lambda>c3. NewCStrChecked v (JString s4) (k c1 c2 c3))))) w
           (limit_args v [s1, s2, s3, s4] g w)"
proof (rule refines_at_NewCStrChecked [OF ok v _ g])
  fix c h
  assume h: "heap_ok h" "cstr_holds h c (utf8_of v s1)"
    "h = alloc (NewArr (utf8_of v s1 @ [NUL])) (w_heap w)"
  have "heap_ext (w_heap w) h'" "cstr_holds h' c (utf8_of v s1)" if "heap_ext h h'" for h'
    using that h ok by (auto intro: heap_ext_alloc cstr_holds_ext)
  then show "refines_at (NewCStrChecked v (JString s2) (\<lambda>c2. NewCStrChecked v (JString s3) (\<lambda>c3. NewCStrChecked v (JString s4) (k c c2 c3)))) (w\<lparr>w_heap := h\<rparr>)
          (limit_args v [s2, s3, s4] g (w\<lparr>w_heap := h\<rparr>))"
    by (intro refines_args3 v g) (use h in \<open>simp_all add: k\<close>)
qed

lemma refines_at_with_holder:
  assumes ok: "heap_ok (w_heap w)" and fld: "w_fields w (ci_holder info) = IFExternal c"
    and k: "refines_at k w r"
  shows "refines_at (with_holder c info msg k) w r"
  using k fld by (simp add: refines_at_def with_holder_def cong: option.case_cong)

lemma with_holder_unset:
  "w_fields w (ci_holder info) = IFUnset \<Longrightarrow> with_holder c info msg k w = print_line msg w"
  by (simp add: with_holder_def)

text \<open>
  The way a callback hands its result to the engine fits the out-parameter when it sets the
  converted value and gives back to the allocator whatever the out-parameter brought.
\<close>

definition delivers ::
  "('r \<Rightarrow> 'o \<Rightarrow> c_heap \<Rightarrow> c_heap \<Rightarrow> bool) \<Rightarrow> ('r \<Rightarrow> bool) \<Rightarrow> ('r \<Rightarrow> js_value) \<Rightarrow> ('o \<Rightarrow> 'h act) \<Rightarrow> bool" where
  "delivers R small conv k \<longleftrightarrow>
     (\<forall>x out h w. heap_ok h \<longrightarrow> R x out h (w_heap w) \<longrightarrow> small x \<longrightarrow>
        (\<exists>w1. k out w = Some w1 \<and> heap_erase w1 = heap_erase (w\<lparr>w_ret := conv x\<rparr>) \<and>
              blocks (w_heap w1) = blocks h \<and> heap_ok (w_heap w1)))"

definition small_result :: "('r \<Rightarrow> bool) \<Rightarrow> ('r, 'h) host_op \<Rightarrow> 'h \<Rightarrow> bool" where
  "small_result small m s =
     (case m s of Some (Inr x, _) \<Rightarrow> small x | _ \<Rightarrow> True)"

lemma throw_c_string_fresh:
  assumes ok: "heap_ok h" and w: "w_heap w = alloc (Malloc (e @ [NUL])) h"
  shows "\<exists>w1. throw_c_string v (brk h) w = Some w1 \<and>
           heap_erase w1 = heap_erase (w\<lparr>w_exc := Some (JErrorObj (js_of_utf8 v (c_trunc e)))\<rparr>) \<and>
           blocks (w_heap w1) = blocks h \<and> heap_ok (w_heap w1)"
proof -
  have "heap_ok (w_heap w)" using ok w by simp
  moreover have "(blocks h)(brk h := None) = blocks h"
    using heap_ok_fresh [OF ok] by auto
  ultimately show ?thesis
    using w by (simp add: throw_c_string_def c_string_at_def heap_simps c_free_def
        throw_error_def ThrowException_def heap_ok_remove heap_ok_def)
qed

lemma refines_at_finish_call:
  assumes ok: "heap_ok (w_heap w)"
    and f: "implements R f out0 (w_heap w) (w_host w) m"
    and d: "delivers R small conv k" and sm: "small_result small m (w_host w)"
  shows "refines_at (finish_call v (bridge_call (Some f) out0 (Some 0)) k) w (js_call v m conv w)"
proof (cases "m (w_host w)")
  case None
  with f show ?thesis
    by (simp add: refines_at_def js_call_def implements_def finish_call_def bridge_call_def)
next
  case (Some t)
  obtain r g s' where t: "t = (r, g, s')" by (cases t)
  let ?w = "\<lambda>h. add_gas g (w\<lparr>w_heap := h, w_host := s'\<rparr>)"
  show ?thesis
  proof (cases r)
    case (Inl e)
    let ?h = "alloc (Malloc (e @ [NUL])) (w_heap w)"
    obtain out where out: "f out0 (Some 0) (w_heap w, w_host w) =
        Some (Some (brk (w_heap w)), out, Some g, ?h, s')"
      using f Some t Inl by (auto simp: implements_def)
    obtain w1 where w1: "throw_c_string v (brk (w_heap w)) (?w ?h) = Some w1"
      "heap_erase w1 = heap_erase ((?w ?h)\<lparr>w_exc := Some (JErrorObj (js_of_utf8 v (c_trunc e)))\<rparr>)"
      "blocks (w_heap w1) = blocks (w_heap w)" "heap_ok (w_heap w1)"
      using throw_c_string_fresh [OF ok, of "?w ?h" e v] by auto
    show ?thesis
      using out w1 Some t Inl
      by (auto simp: refines_at_def js_call_def finish_call_def bridge_call_def throw_error_def
          ThrowException_def add_gas_def heap_erase_def)
  next
    case (Inr x)
    obtain out h' where out: "f out0 (Some 0) (w_heap w, w_host w) =
        Some (None, out, Some g, h', s')" and R: "R x out (w_heap w) h'"
      using f Some t Inr by (auto simp: implements_def)
    have "small x" using sm Some t Inr by (simp add: small_result_def)
    moreover have "w_heap (?w h') = h'" by simp
    ultimately obtain w1 where w1: "k out (?w h') = Some w1"
      "heap_erase w1 = heap_erase ((?w h')\<lparr>w_ret := conv x\<rparr>)"
      "blocks (w_heap w1) = blocks (w_heap w)" "heap_ok (w_heap w1)"
      using d ok R unfolding delivers_def by metis
    show ?thesis
      using out w1 Some t Inr
      by (auto simp: refines_at_def js_call_def finish_call_def bridge_call_def set_ret_def
          add_gas_def heap_erase_def)
  qed
qed

section \<open>The five ways of delivering a result\<close>

definition small_string :: "string \<Rightarrow> bool" where
  "small_string s \<longleftrightarrow> length s < 2 ^ 31"

definition js_result :: "v8_api \<Rightarrow> string \<Rightarrow> js_value" where
  "js_result v s = JString (if s = [] then [] else js_of_utf8 v s)"

lemma js_result_roundtrip: "codec_roundtrip v s \<Longrightarrow> js_result v (utf8_of v s) = JString s"
  by (auto simp: js_result_def codec_roundtrip_def)

definition js_result_opt :: "v8_api \<Rightarrow> string option \<Rightarrow> js_value" where
  "js_result_opt v r = (case r of None \<Rightarrow> JNull | Some s \<Rightarrow> js_result v s)"

lemma delivers_null: "delivers out_nothing (\<lambda>_. True) (\<lambda>_. JNull) ret_null"
  by (auto simp: delivers_def out_nothing_def ret_null_def set_ret_def)

lemma delivers_bool: "delivers out_bool (\<lambda>_. True) JBool ret_bool"
  by (auto simp: delivers_def out_bool_def ret_bool_def set_ret_def)

lemma delivers_int: "delivers out_size (\<lambda>_. True) js_int ret_int"
  by (auto simp: delivers_def out_size_def ret_int_def set_ret_def)

lemma ret_string_newCStr:
  assumes ok: "heap_ok h" and small: "small_string s" and w: "newCStr s h = (r, w_heap w)"
  shows "\<exists>w1. ret_string v r w = Some w1 \<and> heap_erase w1 = heap_erase (w\<lparr>w_ret := js_result v s\<rparr>) \<and>
           blocks (w_heap w1) = blocks h \<and> heap_ok (w_heap w1)"
proof -
  have r: "r = \<lparr>cstr_data = Some (brk h), cstr_size = of_nat (length s)\<rparr>"
    and wh: "w_heap w = alloc (Malloc (s @ [NUL])) h"
    using w by (simp_all add: newCStr_def)
  have n: "sint (of_nat (length s) :: c_int) = int (length s)"
    using small by (intro sint_of_nat_small) (simp add: small_string_def)
  have "NewFromUtf8 v (w_heap w) r = Some (if s = [] then [] else js_of_utf8 v s)"
    using wh n r by (auto simp: NewFromUtf8_def Let_def heap_simps)
  moreover have "(blocks h)(brk h := None) = blocks h"
    using heap_ok_fresh [OF ok] by auto
  moreover have "heap_ok (w_heap w)" using ok wh by simp
  ultimately show ?thesis
    using wh r by (simp add: ret_string_def seq_def set_ret_def free_data_def c_free_def heap_simps
        js_result_def heap_ok_def)
qed

lemma delivers_string: "delivers out_string small_string (js_result v) (ret_string v)"
  unfolding delivers_def out_string_def by (metis ret_string_newCStr)

definition small_string_opt :: "string option \<Rightarrow> bool" where
  "small_string_opt r = (case r of None \<Rightarrow> True | Some s \<Rightarrow> small_string s)"

lemma delivers_string_opt:
  "delivers out_string_opt small_string_opt (js_result_opt v) (ret_string_or_null v)"
  unfolding delivers_def
proof (intro allI impI)
  fix x out h and w :: "'h world"
  assume ok: "heap_ok h" and R: "out_string_opt x out h (w_heap w)" and sm: "small_string_opt x"
  show "\<exists>w1. ret_string_or_null v out w = Some w1 \<and>
          heap_erase w1 = heap_erase (w\<lparr>w_ret := js_result_opt v x\<rparr>) \<and>
          blocks (w_heap w1) = blocks h \<and> heap_ok (w_heap w1)"
  proof (cases x)
    case None
    with ok R show ?thesis
      by (auto simp: out_string_opt_def ret_string_or_null_def null_CStr_def set_ret_def js_result_opt_def)
  next
    case (Some s)
    with R have "newCStr s h = (out, w_heap w)" by (simp add: out_string_opt_def)
    moreover from this have "cstr_data out \<noteq> None" by (auto simp: newCStr_def)
    moreover have "small_string s" using sm Some by (simp add: small_string_opt_def)
    ultimately show ?thesis
      using ret_string_newCStr [OF ok, of s out w v] Some
      by (auto simp: ret_string_or_null_def js_result_opt_def)
  qed
qed

lemmas finish_null = refines_at_finish_call [OF _ _ delivers_null]
  and finish_bool = refines_at_finish_call [OF _ _ delivers_bool]
  and finish_int = refines_at_finish_call [OF _ _ delivers_int]
  and finish_string = refines_at_finish_call [OF _ _ delivers_string]
  and finish_string_opt = refines_at_finish_call [OF _ _ delivers_string_opt]

lemma small_result_True [simp]: "small_result (\<lambda>_. True) m s"
  by (simp add: small_result_def split: option.splits sum.splits)

section \<open>A whole callback\<close>

text \<open>
  Arguments copied, receiver checked, method called, result delivered: the callback refines
  the abstract call, whatever the number of arguments.
\<close>

lemma refines_holder_call:
  assumes ok: "heap_ok h" and fld: "w_fields w (ci_holder info) = IFExternal c"
    and f: "F = Some f" and i: "implements R (f (w_sbxPtr w)) out0 h (w_host w) m"
    and d: "delivers R small conv k" and sm: "small_result small m (w_host w)"
  shows "refines_at (with_holder c info msg
             (finish_call v (\<lambda>w. bridge_call (map_option (\<lambda>f. f (w_sbxPtr w)) F) out0 (Some 0) w) k))
           (w\<lparr>w_heap := h\<rparr>) (js_call v m conv (w\<lparr>w_heap := h\<rparr>))"
proof -
  let ?w = "w\<lparr>w_heap := h\<rparr>"
  have "refines_at (finish_call v (bridge_call (Some (f (w_sbxPtr w))) out0 (Some 0)) k) ?w (js_call v m conv ?w)"
    using ok i sm by (intro refines_at_finish_call [OF _ _ d]) simp_all
  then show ?thesis
    using fld by (simp add: refines_at_def with_holder_def finish_call_def f cong: option.case_cong)
qed

lemma callback_refines1:
  assumes ok: "heap_ok (w_heap w)" and v: "utf8_bound v"
    and fld: "w_fields w (ci_holder info) = IFExternal c"
    and law: "\<And>h c1. heap_ok h \<Longrightarrow> cstr_holds h c1 (utf8_of v s1) \<Longrightarrow>
                \<exists>f. F = Some f \<and> implements R (f (w_sbxPtr w) c1) out0 h (w_host w) m"
    and d: "delivers R small conv k" and sm: "small_result small m (w_host w)"
  shows "refines_at (NewCStrChecked v (JString s1) (\<lambda>c1. with_holder c info msg (finish_call v (\<lambda>w. bridge_call (map_option (\<lambda>f. f (w_sbxPtr w) c1) F) out0 (Some 0) w) k))) w
           (limit_args v [s1] (js_call v m conv) w)"
proof (rule refines_args1 [OF ok v])
  fix c1 h
  assume h: "heap_ok h" "cstr_holds h c1 (utf8_of v s1)"
  then obtain f where f: "F = Some f" and i: "implements R (f (w_sbxPtr w) c1) out0 h (w_host w) m"
    using law by blast
  show "refines_at (with_holder c info msg (finish_call v (\<lambda>w. bridge_call (map_option (\<lambda>f. f (w_sbxPtr w) c1) F) out0 (Some 0) w) k))
          (w\<lparr>w_heap := h\<rparr>) (js_call v m conv (w\<lparr>w_heap := h\<rparr>))"
    using refines_holder_call [where F = "Some (\<lambda>p. f p c1)" and f = "\<lambda>p. f p c1", OF h(1) fld refl _ d sm] i
    by (simp add: f)
qed simp

lemma callback_refines2:
  assumes ok: "heap_ok (w_heap w)" and v: "utf8_bound v"
    and fld: "w_fields w (ci_holder info) = IFExternal c"
    and law: "\<And>h c1 c2. heap_ok h \<Longrightarrow> cstr_holds h c1 (utf8_of v s1) \<Longrightarrow> cstr_holds h c2 (utf8_of v s2) \<Longrightarrow>
                \<exists>f. F = Some f \<and> implements R (f (w_sbxPtr w) c1 c2) out0 h (w_host w) m"
    and d: "delivers R small conv k" and sm: "small_result small m (w_host w)"
  shows "refines_at (NewCStrChecked v (JString s1) (\<lambda>c1. NewCStrChecked v (JString s2) (\<lambda>c2.
             with_holder c info msg (finish_call v (\<lambda>w. bridge_call (map_option (\<lambda>f. f (w_sbxPtr w) c1 c2) F) out0 (Some 0) w) k)))) w
           (limit_args v [s1, s2] (js_call v m conv) w)"
proof (rule refines_args2 [OF ok v])
  fix c1 c2 h
  assume h: "heap_ok h" "cstr_holds h c1 (utf8_of v s1)" "cstr_holds h c2 (utf8_of v s2)"
  then obtain f where f: "F = Some f" and i: "implements R (f (w_sbxPtr w) c1 c2) out0 h (w_host w) m"
    using law by blast
  show "refines_at (with_holder c info msg (finish_call v (\<lambda>w. bridge_call (map_option (\<lambda>f. f (w_sbxPtr w) c1 c2) F) out0 (Some 0) w) k))
          (w\<lparr>w_heap := h\<rparr>) (js_call v m conv (w\<lparr>w_heap := h\<rparr>))"
    using refines_holder_call [where F = "Some (\<lambda>p. f p c1 c2)" and f = "\<lambda>p. f p c1 c2", OF h(1) fld refl _ d sm] i
    by (simp add: f)
qed simp

lemma callback_refines3:
  assumes ok: "heap_ok (w_heap w)" and v: "utf8_bound v"
    and fld: "w_fields w (ci_holder info) = IFExternal c"
    and law: "\<And>h c1 c2 c3. heap_ok h \<Longrightarrow> cstr_holds h c1 (utf8_of v s1) \<Longrightarrow> cstr_holds h c2 (utf8_of v s2) \<Longrightarrow> cstr_holds h c3 (utf8_of v s3) \<Longrightarrow>
                \<exists>f. F = Some f \<and> implements R (f (w_sbxPtr w) c1 c2 c3) out0 h (w_host w) m"
    and d: "delivers R small conv k" and sm: "small_result small m (w_host w)"
  shows "refines_at (NewCStrChecked v (JString s1) (\<lambda>c1. NewCStrChecked v (JString s2) (\<lambda>c2.
             NewCStrChecked v (JString s3) (\<lambda>c3.
             with_holder c info msg (finish_call v (\<lambda>w. bridge_call (map_option (\<lambda>f. f (w_sbxPtr w) c1 c2 c3) F) out0 (Some 0) w) k))))) w
           (limit_args v [s1, s2, s3] (js_call v m conv) w)"
proof (rule refines_args3 [OF ok v])
  fix c1 c2 c3 h
  assume h: "heap_ok h" "cstr_holds h c1 (utf8_of v s1)" "cstr_holds h c2 (utf8_of v s2)" "cstr_holds h c3 (utf8_of v s3)"
  then obtain f where f: "F = Some f" and i: "implements R (f (w_sbxPtr w) c1 c2 c3) out0 h (w_host w) m"
    using law by blast
  show "refines_at (with_holder c info msg (finish_call v (\<lambda>w. bridge_call (map_option (\<lambda>f. f (w_sbxPtr w) c1 c2 c3) F) out0 (Some 0) w) k))
          (w\<lparr>w_heap := h\<rparr>) (js_call v m conv (w\<lparr>w_heap := h\<rparr>))"
    using refines_holder_call [where F = "Some (\<lambda>p. f p c1 c2 c3)" and f = "\<lambda>p. f p c1 c2 c3", OF h(1) fld refl _ d sm] i
    by (simp add: f)
qed simp

lemma callback_refines4:
  assumes ok: "heap_ok (w_heap w)" and v: "utf8_bound v"
    and fld: "w_fields w (ci_holder info) = IFExternal c"
    and law: "\<And>h c1 c2 c3 c4. heap_ok h \<Longrightarrow> cstr_holds h c1 (utf8_of v s1) \<Longrightarrow> cstr_holds h c2 (utf8_of v s2) \<Longrightarrow> cstr_holds h c3 (utf8_of v s3) \<Longrightarrow> cstr_holds h c4 (utf8_of v s4) \<Longrightarrow>
                \<exists>f. F = Some f \<and> implements R (f (w_sbxPtr w) c1 c2 c3 c4) out0 h (w_host w) m"
    and d: "delivers R small conv k" and sm: "small_result small m (w_host w)"
  shows "refines_at (NewCStrChecked v (JString s1) (\<lambda>c1. NewCStrChecked v (JString s2) (\<lambda>c2.
             NewCStrChecked v (JString s3) (\<lambda>c3.
             NewCStrChecked v (JString s4) (\<lambda>c4.
             with_holder c info msg (finish_call v (\<lambda>w. bridge_call (map_option (\<lambda>f. f (w_sbxPtr w) c1 c2 c3 c4) F) out0 (Some 0) w) k)))))) w
           (limit_args v [s1, s2, s3, s4] (js_call v m conv) w)"
proof (rule refines_args4 [OF ok v])
  fix c1 c2 c3 c4 h
  assume h: "heap_ok h" "cstr_holds h c1 (utf8_of v s1)" "cstr_holds h c2 (utf8_of v s2)" "cstr_holds h c3 (utf8_of v s3)" "cstr_holds h c4 (utf8_of v s4)"
  then obtain f where f: "F = Some f" and i: "implements R (f (w_sbxPtr w) c1 c2 c3 c4) out0 h (w_host w) m"
    using law by blast
  show "refines_at (with_holder c info msg (finish_call v (\<lambda>w. bridge_call (map_option (\<lambda>f. f (w_sbxPtr w) c1 c2 c3 c4) F) out0 (Some 0) w) k))
          (w\<lparr>w_heap := h\<rparr>) (js_call v m conv (w\<lparr>w_heap := h\<rparr>))"
    using refines_holder_call [where F = "Some (\<lambda>p. f p c1 c2 c3 c4)" and f = "\<lambda>p. f p c1 c2 c3 c4", OF h(1) fld refl _ d sm] i
    by (simp add: f)
qed simp

end
