(* ===== verification/Allocator.thy ===== *)
theory Allocator
  imports Engine
begin

text \<open>
  \<^verbatim>\<open>vm/v8vm/v8/allocator.h\<close> and \<^verbatim>\<open>allocator.cc\<close>: the allocator V8 uses for array buffers. It
  counts the bytes that are live and their peak, on \<^verbatim>\<open>size_t\<close> values that wrap around; the
  memory check of the instruction counter reads the peak.
\<close>

section \<open>The operations\<close>

definition ArrayBufferAllocator_new :: ArrayBufferAllocator where
  "ArrayBufferAllocator_new = \<lparr>current_allocated_size = 0, max_allocated_size = 0\<rparr>"

definition AddAllocatedSize :: "size_t \<Rightarrow> ArrayBufferAllocator \<Rightarrow> ArrayBufferAllocator" where
  "AddAllocatedSize len a =
     (let cur = current_allocated_size a + len in
      a\<lparr>current_allocated_size := cur,
        max_allocated_size := (if cur > max_allocated_size a then cur else max_allocated_size a)\<rparr>)"

text \<open>
  Whether the C library has the memory is an argument; without it the result is null, and
  the size has been counted all the same.
\<close>

definition Allocate ::
  "bool \<Rightarrow> size_t \<Rightarrow> ArrayBufferAllocator \<times> c_heap \<Rightarrow> char_ptr \<times> ArrayBufferAllocator \<times> c_heap" where
  "Allocate available len s =
     (let a = AddAllocatedSize len (fst s) in
      if available
      then (Some (brk (snd s)), a, alloc (Malloc (replicate (unat len) NUL)) (snd s))
      else (None, a, snd s))"

text \<open>\<open>junk\<close> is what the memory held before.\<close>

definition AllocateUninitialized ::
  "bool \<Rightarrow> (nat \<Rightarrow> char) \<Rightarrow> size_t \<Rightarrow> ArrayBufferAllocator \<times> c_heap \<Rightarrow>
     char_ptr \<times> ArrayBufferAllocator \<times> c_heap" where
  "AllocateUninitialized available junk len s =
     (let a = AddAllocatedSize len (fst s) in
      if available
      then (Some (brk (snd s)), a, alloc (Malloc (map junk [0..<unat len])) (snd s))
      else (None, a, snd s))"

definition Free ::
  "char_ptr \<Rightarrow> size_t \<Rightarrow> ArrayBufferAllocator \<times> c_heap \<Rightarrow> (ArrayBufferAllocator \<times> c_heap) option" where
  "Free data len s =
     (let a = (fst s)\<lparr>current_allocated_size := current_allocated_size (fst s) - len\<rparr> in
      Option.bind (c_free data (snd s)) (\<lambda>h. Some (a, h)))"

definition GetCurrentAllocatedMemSize :: "ArrayBufferAllocator \<Rightarrow> size_t" where
  "GetCurrentAllocatedMemSize a = current_allocated_size a"

definition GetMaxAllocatedMemSize :: "ArrayBufferAllocator \<Rightarrow> size_t" where
  "GetMaxAllocatedMemSize a = max_allocated_size a"

section \<open>Runs\<close>

text \<open>
  The engine allocates buffers and frees them with the size it asked for. \<open>run_allocs\<close>
  follows the buffers it holds: a free names one of them by its position.
\<close>

datatype alloc_event = EvAlloc size_t | EvAllocUninit size_t | EvFree nat

type_synonym alloc_state = "(nat \<times> size_t) list \<times> ArrayBufferAllocator \<times> c_heap"

fun alloc_step :: "alloc_event \<Rightarrow> alloc_state \<Rightarrow> alloc_state option" where
  "alloc_step (EvAlloc n) (bufs, s) =
     (case Allocate True n s of (Some p, s') \<Rightarrow> Some ((p, n) # bufs, s') | (None, s') \<Rightarrow> Some (bufs, s'))"
| "alloc_step (EvAllocUninit n) (bufs, s) =
     (case AllocateUninitialized True (\<lambda>_. NUL) n s of
        (Some p, s') \<Rightarrow> Some ((p, n) # bufs, s') | (None, s') \<Rightarrow> Some (bufs, s'))"
| "alloc_step (EvFree i) (bufs, s) =
     (if i < length bufs
      then map_option (\<lambda>s'. (take i bufs @ drop (Suc i) bufs, s')) (Free (Some (fst (bufs ! i))) (snd (bufs ! i)) s)
      else Some (bufs, s))"

fun run_allocs :: "alloc_event list \<Rightarrow> alloc_state \<Rightarrow> alloc_state option" where
  "run_allocs [] s = Some s"
| "run_allocs (e # es) s = Option.bind (alloc_step e s) (run_allocs es)"

text \<open>The bytes the engine holds, as a number, and their peak over a run.\<close>

definition held :: "(nat \<times> size_t) list \<Rightarrow> nat" where
  "held bufs = sum_list (map (\<lambda>b. unat (snd b)) bufs)"

fun peak :: "alloc_event list \<Rightarrow> alloc_state \<Rightarrow> nat \<Rightarrow> nat" where
  "peak [] s m = max m (held (fst s))"
| "peak (e # es) s m =
     (case alloc_step e s of
        None \<Rightarrow> m
      | Some s' \<Rightarrow> peak es s' (max m (held (fst s))))"

section \<open>Correctness\<close>

definition alloc_inv :: "alloc_state \<Rightarrow> bool" where
  "alloc_inv s \<longleftrightarrow>
     (case s of (bufs, a, h) \<Rightarrow>
        heap_ok h \<and> distinct (map fst bufs) \<and>
        (\<forall>(p, n) \<in> set bufs. \<exists>bs. blocks h p = Some (Malloc bs) \<and> length bs = unat n) \<and>
        current_allocated_size a = of_nat (held bufs))"

lemma held_Cons [simp]: "held (b # bufs) = unat (snd b) + held bufs"
  by (simp add: held_def)

lemma held_remove: "i < length bufs \<Longrightarrow> held bufs = unat (snd (bufs ! i)) + held (take i bufs @ drop (Suc i) bufs)"
  by (subst id_take_nth_drop [of i bufs]) (simp_all add: held_def)

lemma AddAllocatedSize_current [simp]:
  "current_allocated_size (AddAllocatedSize n a) = current_allocated_size a + n"
  by (simp add: AddAllocatedSize_def Let_def)

lemma alloc_inv_alloc:
  assumes "alloc_inv (bufs, a, h)" and "length bs = unat n"
  shows "alloc_inv ((brk h, n) # bufs, AddAllocatedSize n a, alloc (Malloc bs) h)"
proof -
  have "p \<noteq> brk h" if "(p, m) \<in> set bufs" for p m
    using assms(1) that heap_ok_fresh [of h] by (auto simp: alloc_inv_def)
  with assms show ?thesis
    by (fastforce simp: alloc_inv_def heap_simps)
qed

lemma alloc_inv_free:
  assumes inv: "alloc_inv (bufs, a, h)" and i: "i < length bufs"
  shows "\<exists>a' h'. Free (Some (fst (bufs ! i))) (snd (bufs ! i)) (a, h) = Some (a', h') \<and>
           max_allocated_size a' = max_allocated_size a \<and>
           alloc_inv (take i bufs @ drop (Suc i) bufs, a', h')"
proof -
  let ?p = "fst (bufs ! i)" and ?n = "snd (bufs ! i)"
  let ?a = "a\<lparr>current_allocated_size := current_allocated_size a - ?n\<rparr>"
  let ?h = "h\<lparr>blocks := (blocks h)(?p := None)\<rparr>"
  let ?rest = "take i bufs @ drop (Suc i) bufs"
  have mem: "bufs ! i \<in> set bufs" using i by simp
  then obtain bs where bs: "blocks h ?p = Some (Malloc bs)"
    using inv by (auto simp: alloc_inv_def split_beta)
  then have free: "Free (Some ?p) ?n (a, h) = Some (?a, ?h)"
    by (simp add: Free_def c_free_def)
  have split: "bufs = take i bufs @ bufs ! i # drop (Suc i) bufs"
    by (rule id_take_nth_drop [OF i])
  then have d: "distinct (map fst (take i bufs @ bufs ! i # drop (Suc i) bufs))"
    using inv by (simp add: alloc_inv_def)
  have rest: "(p, m) \<in> set bufs \<and> p \<noteq> ?p" if "(p, m) \<in> set ?rest" for p m
    using that d by (auto dest: in_set_takeD in_set_dropD simp: image_iff)
  have "current_allocated_size ?a = of_nat (held ?rest)"
    using inv held_remove [OF i] by (simp add: alloc_inv_def)
  moreover have "heap_ok ?h" using inv heap_ok_remove [of h] by (simp add: alloc_inv_def)
  ultimately have "alloc_inv (?rest, ?a, ?h)"
    using inv d rest by (fastforce simp: alloc_inv_def)
  with free show ?thesis by auto
qed

lemma alloc_step_inv:
  assumes "alloc_inv s"
  shows "\<exists>s'. alloc_step e s = Some s' \<and> alloc_inv s'"
proof -
  obtain bufs a h where s: "s = (bufs, a, h)" by (cases s) auto
  show ?thesis
  proof (cases e)
    case (EvAlloc n)
    with assms s show ?thesis
      by (simp add: Allocate_def Let_def alloc_inv_alloc)
  next
    case (EvAllocUninit n)
    with assms s show ?thesis
      by (simp add: AllocateUninitialized_def Let_def alloc_inv_alloc)
  next
    case (EvFree i)
    with assms s alloc_inv_free [of bufs a h i] show ?thesis by auto
  qed
qed

text \<open>The peak counter follows the true peak as long as the bytes held fit a \<^verbatim>\<open>size_t\<close>.\<close>

lemma alloc_step_max:
  assumes "alloc_inv s" and "alloc_step e s = Some s'" and "held (fst s') < 2 ^ 64"
    and "unat (max_allocated_size (fst (snd s))) = max m (held (fst s))"
  shows "unat (max_allocated_size (fst (snd s'))) = max (max m (held (fst s))) (held (fst s'))"
proof -
  obtain bufs a h where s: "s = (bufs, a, h)" by (cases s) auto
  have cur: "current_allocated_size a = of_nat (held bufs)"
    using assms(1) s by (simp add: alloc_inv_def)
  have grow: "unat (max_allocated_size (AddAllocatedSize n a)) = max (max m (held bufs)) (unat n + held bufs)"
    if "unat n + held bufs < 2 ^ 64" for n
  proof -
    have "unat (current_allocated_size a + n) = unat n + held bufs"
      using that cur by (simp add: unat_word_ariths unat_of_nat take_bit_nat_eq_self)
    then show ?thesis
      using assms(4) s by (auto simp: AddAllocatedSize_def Let_def word_less_nat_alt)
  qed
  show ?thesis
  proof (cases e)
    case (EvFree i)
    show ?thesis
    proof (cases "i < length bufs")
      case True
      then show ?thesis
        using EvFree assms s alloc_inv_free [of bufs a h i] held_remove [of i bufs] by auto
    qed (use EvFree assms s in auto)
  qed (use assms s grow in \<open>auto simp: Allocate_def AllocateUninitialized_def Let_def\<close>)
qed

lemma peak_mono: "m \<le> peak es s m \<and> (alloc_inv s \<longrightarrow> held (fst s) \<le> peak es s m)"
proof (induction es arbitrary: s m)
  case (Cons e es)
  show ?case
  proof (cases "alloc_step e s")
    case None
    then show ?thesis using alloc_step_inv [of s e] by auto
  next
    case (Some s')
    then show ?thesis using Cons [of "max m (held (fst s))" s'] by simp
  qed
qed simp

lemma run_allocs_peak:
  assumes "alloc_inv s" and "unat (max_allocated_size (fst (snd s))) = max m (held (fst s))"
    and "peak es s m < 2 ^ 64"
  shows "\<exists>s'. run_allocs es s = Some s' \<and> alloc_inv s' \<and> held (fst s') < 2 ^ 64 \<and>
           unat (max_allocated_size (fst (snd s'))) = peak es s m"
  using assms
proof (induction es arbitrary: s m)
  case (Cons e es)
  obtain s' where s': "alloc_step e s = Some s'" "alloc_inv s'"
    using alloc_step_inv [OF Cons.prems(1)] by blast
  let ?m = "max m (held (fst s))"
  have p: "peak es s' ?m < 2 ^ 64" using Cons.prems(3) s' by simp
  then have "held (fst s') < 2 ^ 64" using peak_mono [where es = es and s = s' and m = ?m] s'(2) by simp
  then have "unat (max_allocated_size (fst (snd s'))) = max ?m (held (fst s'))"
    using alloc_step_max [OF Cons.prems(1) s'(1) _ Cons.prems(2)] by simp
  then show ?case using Cons.IH [OF s'(2) _ p] s' by simp
qed auto

end
