(* ===== verification/Instruction.thy ===== *)
theory Instruction
  imports Bridge Allocator GoLib
begin

text \<open>
  \<^verbatim>\<open>vm/v8vm/v8/instruction.h\<close> and \<^verbatim>\<open>instruction.cc\<close>: the gas counter that injected code calls.
  \<^verbatim>\<open>incr\<close> takes a JavaScript number, adds it to the sandbox's gas if it is a valid amount and
  the sum fits, and checks the memory in use at every tenth call.
\<close>

section \<open>Doubles\<close>

text \<open>Comparison with an integer (false on NaN) and the cast to \<^verbatim>\<open>size_t\<close> (undefined out of range).\<close>

fun num_ge :: "js_number \<Rightarrow> int \<Rightarrow> bool" where
  "num_ge (Fin x) i = (of_int i \<le> x)"
| "num_ge PInf i = True"
| "num_ge x i = False"

fun num_lt :: "js_number \<Rightarrow> int \<Rightarrow> bool" where
  "num_lt (Fin x) i = (x < of_int i)"
| "num_lt NInf i = True"
| "num_lt x i = False"

fun isnan :: "js_number \<Rightarrow> bool" where
  "isnan NaN = True"
| "isnan x = False"

fun isinf :: "js_number \<Rightarrow> bool" where
  "isinf PInf = True"
| "isinf NInf = True"
| "isinf x = False"

fun size_t_of_double :: "js_number \<Rightarrow> size_t option" where
  "size_t_of_double (Fin x) =
     (if - 1 < x \<and> x < 2 ^ 64 then Some (of_nat (nat (if x < 0 then 0 else \<lfloor>x\<rfloor>))) else None)"
| "size_t_of_double x = None"

text \<open>\<^verbatim>\<open>(double)n\<close>: the nearest of the 53-bit numbers, the even one of two.\<close>

fun bit_length :: "nat \<Rightarrow> nat" where
  "bit_length n = (if n = 0 then 0 else Suc (bit_length (n div 2)))"

declare bit_length.simps [simp del]

definition round53 :: "nat \<Rightarrow> nat" where
  "round53 n =
     (if n < 2 ^ 53 then n
      else
        let e = bit_length n - 53; q = n div 2 ^ e; r = n mod 2 ^ e; half = 2 ^ (e - 1) in
        (if half < r \<or> (r = half \<and> odd q) then Suc q else q) * 2 ^ e)"

definition double_of_size_t :: "size_t \<Rightarrow> js_value" where
  "double_of_size_t n = JNumber (Fin (of_nat (round53 (unat n))))"

abbreviation INT_MAX :: int where
  "INT_MAX \<equiv> 2147483647"

abbreviation SIZE_MAX :: size_t where
  "SIZE_MAX \<equiv> - 1"

section \<open>The counter\<close>

definition IOSTContractInstruction_new :: "Sandbox \<Rightarrow> Sandbox" where
  "IOSTContractInstruction_new sbx = sbx\<lparr>inst_count := 0\<rparr>"

definition Instruction_Reset :: "Sandbox \<Rightarrow> Sandbox" where
  "Instruction_Reset sbx = sbx\<lparr>inst_count := 0\<rparr>"

text \<open>
  \<^verbatim>\<open>Incr\<close>: on overflow an exception is scheduled and 0 returned. \<^verbatim>\<open>count ++\<close> on the largest
  \<^verbatim>\<open>int\<close> is undefined.
\<close>

definition Instruction_Incr :: "v8_api \<Rightarrow> size_t \<Rightarrow> 'h world \<Rightarrow> (size_t \<times> 'h world) option" where
  "Instruction_Incr v num w =
     (if gasUsed (w_sbx w) > SIZE_MAX - num then
        Option.bind (throw_error v ''IOSTContractInstruction_Incr gas overflow size_t'' w)
          (\<lambda>w'. Some (0, w'))
      else if sint (inst_count (w_sbx w)) = INT_MAX then None
      else
        let sbx = (w_sbx w)\<lparr>gasUsed := gasUsed (w_sbx w) + num, inst_count := inst_count (w_sbx w) + 1\<rparr> in
        Some (gasUsed sbx, w\<lparr>w_sbx := sbx\<rparr>))"

definition Instruction_Count :: "'h world \<Rightarrow> size_t" where
  "Instruction_Count w = scast (inst_count (w_sbx w))"

text \<open>\<^verbatim>\<open>MemoryUsage\<close> of \<^verbatim>\<open>sandbox.cc\<close>: the engine's heap and the peak of the array buffers.\<close>

definition MemoryUsage :: "'h world \<Rightarrow> size_t" where
  "MemoryUsage w = w_v8_heap_size w + GetMaxAllocatedMemSize (allocator (w_sbx w))"

definition MemUsageCheck :: "v8_api \<Rightarrow> 'h act" where
  "MemUsageCheck v w =
     (let usedMem = MemoryUsage w in
      if usedMem > memLimit (w_sbx w) then
        throw_error v
          (''IOSTContractInstruction_Incr Memory Using too much! used: '' @ show_nat (unat usedMem) @
           '' Limit: '' @ show_nat (unat (memLimit (w_sbx w)))) w
      else Some w)"

section \<open>The callbacks\<close>

definition NewIOSTContractInstruction :: "callback_info \<Rightarrow> 'h act" where
  "NewIOSTContractInstruction args w =
     (case w_global w of
        IFUnset \<Rightarrow> print_line ''NewIOSTContractInstruction val error'' w
      | IFExternal c \<Rightarrow>
          if c = CSandbox
          then set_ret (JObject (ci_holder args)) (w\<lparr>w_fields := (w_fields w)(ci_holder args := IFExternal CInstruction)\<rparr>)
          else None)"

definition IOSTContractInstruction_Incr :: "v8_api \<Rightarrow> callback_info \<Rightarrow> 'h act" where
  "IOSTContractInstruction_Incr v args w =
     (if length (ci_args args) \<noteq> 1 then throw_error v ''IOSTContractInstruction_Incr invalid argument length'' w
      else
        case arg args 0 of
          JNumber valInt \<Rightarrow>
            if num_ge valInt INT_MAX then throw_error v ''IOSTContractInstruction_Incr gas overflow max int'' w
            else if num_lt valInt 0 \<or> isnan valInt \<or> isinf valInt
              then throw_error v ''IOSTContractInstruction_Incr invalid gas'' w
            else
              with_holder CInstruction args ''IOSTContractInstruction_Incr val error''
                (\<lambda>w. Option.bind (size_t_of_double valInt)
                  (\<lambda>num. Option.bind (Instruction_Incr v num w)
                    (\<lambda>(ret, w1). Option.bind (set_ret (double_of_size_t ret) w1)
                      (\<lambda>w2. if Instruction_Count w2 mod 10 = 0 then MemUsageCheck v w2 else Some w2)))) w
        | _ \<Rightarrow> throw_error v ''IOSTContractInstruction_Incr value must be number'' w)"

definition IOSTContractInstruction_Count :: "v8_api \<Rightarrow> callback_info \<Rightarrow> 'h act" where
  "IOSTContractInstruction_Count v args w =
     (if length (ci_args args) \<noteq> 0 then throw_error v ''IOSTContractInstruction_Count invalid argument length.'' w
      else
        with_holder CInstruction args ''IOSTContractInstruction_Count val error''
          (\<lambda>w. Option.bind (Instruction_Incr v 0 w)
            (\<lambda>(ret, w1). set_ret (double_of_size_t ret) w1)) w)"

definition InitInstruction :: "v8_api \<Rightarrow> 'h class_tpl" where
  "InitInstruction v =
     \<lparr>tpl_name = ''IOSTInstruction'', tpl_ctor = NewIOSTContractInstruction, tpl_field_count = 1,
      tpl_methods =
        [(''incr'', IOSTContractInstruction_Incr v), (''count'', IOSTContractInstruction_Count v)]\<rparr>"

section \<open>Gas never wraps and never decreases\<close>

text \<open>A number \<^verbatim>\<open>incr\<close> accepts and the gas it stands for.\<close>

fun gas_amount :: "js_value \<Rightarrow> nat option" where
  "gas_amount (JNumber (Fin x)) = (if 0 \<le> x \<and> x < 2147483647 then Some (nat \<lfloor>x\<rfloor>) else None)"
| "gas_amount x = None"

lemma no_wrap_iff: "g > SIZE_MAX - n \<longleftrightarrow> 2 ^ 64 \<le> unat g + unat n" for g n :: size_t
proof -
  have m: "unat SIZE_MAX = 2 ^ 64 - 1" by (simp add: unsigned_minus_1_eq_mask mask_eq_exp_minus_1)
  have n: "unat n < 2 ^ 64" using unsigned_less [of n] by simp
  then have "n \<le> SIZE_MAX" by (simp add: word_le_nat_alt m)
  then have "unat (SIZE_MAX - n) = 2 ^ 64 - 1 - unat n" using unat_sub [of n SIZE_MAX] m by simp
  then show ?thesis using n by (simp add: word_less_nat_alt) linarith
qed

lemma Instruction_Incr_ok:
  assumes "unat (gasUsed (w_sbx w)) + unat n < 2 ^ 64" and "sint (inst_count (w_sbx w)) < INT_MAX"
  shows "\<exists>w'. Instruction_Incr v n w = Some (gasUsed (w_sbx w'), w') \<and>
           unat (gasUsed (w_sbx w')) = unat (gasUsed (w_sbx w)) + unat n \<and>
           inst_count (w_sbx w') = inst_count (w_sbx w) + 1 \<and> w_exc w' = w_exc w \<and>
           w' = w\<lparr>w_sbx := (w_sbx w)\<lparr>gasUsed := gasUsed (w_sbx w) + n, inst_count := inst_count (w_sbx w) + 1\<rparr>\<rparr>"
proof -
  have "\<not> gasUsed (w_sbx w) > SIZE_MAX - n" using no_wrap_iff assms(1) by (metis not_less)
  moreover have "unat (gasUsed (w_sbx w) + n) = unat (gasUsed (w_sbx w)) + unat n"
    using assms(1) by (simp add: unat_word_ariths)
  ultimately show ?thesis using assms(2) by (simp add: Instruction_Incr_def Let_def)
qed

lemma gas_amount_size_t:
  assumes "gas_amount (JNumber y) = Some n"
  shows "\<not> num_ge y INT_MAX" "\<not> num_lt y 0" "\<not> isnan y" "\<not> isinf y"
    "size_t_of_double y = Some (of_nat n)" "n < 2 ^ 31"
proof -
  obtain x where y: "y = Fin x" and x: "0 \<le> x" "x < 2147483647" and n: "n = nat \<lfloor>x\<rfloor>"
    using assms by (cases y) (auto split: if_splits)
  have "\<lfloor>x\<rfloor> < 2147483647" using x(2) by (simp add: floor_less_iff)
  then have "nat \<lfloor>x\<rfloor> < nat 2147483648" by (subst nat_less_eq_zless) (use x(1) in simp_all)
  then show "n < 2 ^ 31" using n by simp
  show "\<not> num_ge y INT_MAX" "\<not> num_lt y 0" "\<not> isnan y" "\<not> isinf y"
    using x by (simp_all add: y)
  show "size_t_of_double y = Some (of_nat n)" using x n by (simp add: y)
qed

lemma gas_amount_None:
  assumes "gas_amount (JNumber y) = None"
  shows "num_ge y INT_MAX \<or> num_lt y 0 \<or> isnan y \<or> isinf y"
  using assms by (cases y) (auto split: if_splits)

lemma MemUsageCheck_effect:
  "\<exists>w'. MemUsageCheck v w = Some w' \<and> w_sbx w' = w_sbx w \<and> w_ret w' = w_ret w \<and> w_fields w' = w_fields w \<and>
     w_exc w' = (if MemoryUsage w > memLimit (w_sbx w)
                 then Some (JErrorObj (js_of_utf8 v
                   (''IOSTContractInstruction_Incr Memory Using too much! used: '' @ show_nat (unat (MemoryUsage w)) @
                    '' Limit: '' @ show_nat (unat (memLimit (w_sbx w))))))
                 else w_exc w)"
  by (simp add: MemUsageCheck_def Let_def throw_error_def ThrowException_def)

lemma incr_accepted:
  assumes args: "ci_args args = [x]" "w_fields w (ci_holder args) = IFExternal CInstruction"
    and x: "gas_amount x = Some n"
    and ok: "unat (gasUsed (w_sbx w)) + n < 2 ^ 64" "sint (inst_count (w_sbx w)) < INT_MAX"
  shows "\<exists>w'. IOSTContractInstruction_Incr v args w = Some w' \<and>
           unat (gasUsed (w_sbx w')) = unat (gasUsed (w_sbx w)) + n \<and>
           inst_count (w_sbx w') = inst_count (w_sbx w) + 1 \<and>
           w_ret w' = double_of_size_t (gasUsed (w_sbx w')) \<and> w_fields w' = w_fields w \<and>
           (w_exc w' = w_exc w \<or>
            Instruction_Count w' mod 10 = 0 \<and> MemoryUsage w > memLimit (w_sbx w))"
proof -
  obtain y where y: "x = JNumber y" using x by (cases x) auto
  note g = gas_amount_size_t [OF x [unfolded y]]
  have n: "unat (of_nat n :: size_t) = n" using g(6) by (simp add: unat_of_nat take_bit_nat_eq_self)
  let ?sbx = "(w_sbx w)\<lparr>gasUsed := gasUsed (w_sbx w) + of_nat n, inst_count := inst_count (w_sbx w) + 1\<rparr>"
  let ?w = "w\<lparr>w_sbx := ?sbx, w_ret := double_of_size_t (gasUsed ?sbx)\<rparr>"
  have incr: "Instruction_Incr v (of_nat n) w = Some (gasUsed ?sbx, w\<lparr>w_sbx := ?sbx\<rparr>)"
    and gas: "unat (gasUsed ?sbx) = unat (gasUsed (w_sbx w)) + n"
    using Instruction_Incr_ok [of w "of_nat n" v] ok n by auto
  have call: "IOSTContractInstruction_Incr v args w =
      (if Instruction_Count ?w mod 10 = 0 then MemUsageCheck v ?w else Some ?w)"
    using args g y incr by (simp add: IOSTContractInstruction_Incr_def arg_def with_holder_def set_ret_def)
  obtain w' where w': "MemUsageCheck v ?w = Some w'" "w_sbx w' = ?sbx"
    "w_ret w' = double_of_size_t (gasUsed ?sbx)" "w_fields w' = w_fields w"
    "w_exc w' = w_exc w \<or> MemoryUsage w > memLimit (w_sbx w)"
    using MemUsageCheck_effect [of v ?w] by (auto simp: MemoryUsage_def split: if_splits)
  show ?thesis
    using call gas w' by (cases "Instruction_Count ?w mod 10 = 0") (auto simp: Instruction_Count_def)
qed

lemma incr_refused:
  assumes args: "ci_args args = [x]" "w_fields w (ci_holder args) = IFExternal CInstruction"
    and x: "gas_amount x = None \<or> (\<exists>n. gas_amount x = Some n \<and> 2 ^ 64 \<le> unat (gasUsed (w_sbx w)) + n)"
  shows "\<exists>w'. IOSTContractInstruction_Incr v args w = Some w' \<and>
           w_sbx w' = w_sbx w \<and> w_fields w' = w_fields w \<and> w_exc w' \<noteq> None"
proof (cases "gas_amount x")
  case None
  show ?thesis
  proof (cases "\<exists>y. x = JNumber y")
    case True
    then obtain y where y: "x = JNumber y" by blast
    with None gas_amount_None [of y] args show ?thesis
      by (auto simp: IOSTContractInstruction_Incr_def arg_def throw_error_def ThrowException_def)
  next
    case False
    then show ?thesis
      using args by (cases x) (auto simp: IOSTContractInstruction_Incr_def arg_def throw_error_def ThrowException_def)
  qed
next
  case (Some n)
  then obtain y where y: "x = JNumber y" by (cases x) auto
  note g = gas_amount_size_t [OF Some [unfolded y]]
  have "gasUsed (w_sbx w) > SIZE_MAX - of_nat n"
    using x Some g(6) no_wrap_iff [of "of_nat n" "gasUsed (w_sbx w)"] by (simp add: unat_of_nat take_bit_nat_eq_self)
  then have "Instruction_Incr v (of_nat n) w =
      Some (0, w\<lparr>w_exc := Some (JErrorObj (js_of_utf8 v ''IOSTContractInstruction_Incr gas overflow size_t''))\<rparr>)"
    by (simp add: Instruction_Incr_def throw_error_def ThrowException_def)
  then show ?thesis
    using args g y
      MemUsageCheck_effect [of v "w\<lparr>w_exc := Some (JErrorObj (js_of_utf8 v ''IOSTContractInstruction_Incr gas overflow size_t'')), w_ret := double_of_size_t 0\<rparr>"]
    by (auto simp: IOSTContractInstruction_Incr_def arg_def with_holder_def set_ret_def)
qed

end
