(* ===== verification/Serializer.thy ===== *)
theory Serializer
  imports GoLib
begin

text \<open>
  \<^verbatim>\<open>vm/database/serializer.go\<close>: the text form in which a value is stored together with the
  account that pays for its storage, and \<^verbatim>\<open>common/fixed_num.go\<close>'s binary form of a
  fixed-point number. A value is \<^verbatim>\<open><prefix><body>@<payer>\<close>; the reader cuts at the last
  \<open>@\<close>.
\<close>

section \<open>Values\<close>

text \<open>
  What a stored value can be. \<open>GStrings\<close> and \<open>GError\<close> are results of reading only.
\<close>

datatype go_val =
    GInt int64
  | GString string
  | GNil
  | GBool bool
  | GJSON string
  | GFixed int64 int
  | GStrings "string list"
  | GError string

section \<open>common.Fixed\<close>

definition Fixed_Marshal :: "int64 \<Rightarrow> int \<Rightarrow> string" where
  "Fixed_Marshal value decimal = PutUint64 value @ PutUint32 (of_int decimal)"

definition UnmarshalFixed :: "string \<Rightarrow> go_val" where
  "UnmarshalFixed s =
     (if length s \<noteq> 8 + 4 then GError ''invalid length to unmarshal fix point number''
      else case (Uint64 (take 8 s), Uint32 (drop 8 s)) of
             (Some v, Some d) \<Rightarrow> GFixed v (sint d)
           | _ \<Rightarrow> GError ''invalid length to unmarshal fix point number'')"

section \<open>The serializer\<close>

abbreviation RAMOwnerSeparator :: char where
  "RAMOwnerSeparator \<equiv> CHR ''@''"

definition boolToString :: "bool \<Rightarrow> string" where
  "boolToString i = (if i then ''t'' else ''f'')"

definition int64ToRaw :: "int64 \<Rightarrow> string" where
  "int64ToRaw i = PutUint64 i"

definition rawToInt64 :: "string \<Rightarrow> int64 option" where
  "rawToInt64 s = Uint64 s"

text \<open>\<open>Marshal\<close> returns an error for a type it does not support.\<close>

definition Marshal :: "go_val \<Rightarrow> string list \<Rightarrow> string option" where
  "Marshal v extras =
     (let extra = (case extras of [] \<Rightarrow> [] | e # _ \<Rightarrow> e) in
      case v of
        GInt i \<Rightarrow> Some (CHR ''i'' # int64ToRaw i @ RAMOwnerSeparator # extra)
      | GString s \<Rightarrow> Some (CHR ''s'' # s @ RAMOwnerSeparator # extra)
      | GNil \<Rightarrow> Some ''n''
      | GBool b \<Rightarrow> Some (CHR ''b'' # boolToString b @ RAMOwnerSeparator # extra)
      | GJSON s \<Rightarrow> Some (CHR ''j'' # s @ RAMOwnerSeparator # extra)
      | GFixed i d \<Rightarrow> Some (CHR ''f'' # Fixed_Marshal i d @ RAMOwnerSeparator # extra)
      | _ \<Rightarrow> None)"

text \<open>
  \<open>unmarshalInner\<close> indexes into its argument: \<open>None\<close> is a panic, \<open>GError\<close> a returned
  error value.
\<close>

definition unmarshalInner :: "string \<Rightarrow> go_val option" where
  "unmarshalInner s =
     (case s of
        [] \<Rightarrow> Some (GError ''invalid data'')
      | c # r \<Rightarrow>
          if c = CHR ''i'' then map_option GInt (rawToInt64 r)
          else if c = CHR ''s'' then Some (GString r)
          else if c = CHR ''n'' then Some GNil
          else if c = CHR ''b'' then (case r of [] \<Rightarrow> None | x # _ \<Rightarrow> Some (GBool (x = CHR ''t'')))
          else if c = CHR ''j'' then Some (GJSON r)
          else if c = CHR ''@'' then Some (GStrings (tl (Split CHR ''@'' s)))
          else if c = CHR ''f'' then Some (UnmarshalFixed r)
          else Some (GError ''invalid data''))"

definition Unmarshal :: "string \<Rightarrow> go_val option" where
  "Unmarshal s =
     (case LastIndex RAMOwnerSeparator s of
        None \<Rightarrow> unmarshalInner s
      | Some idx \<Rightarrow> unmarshalInner (take idx s))"

definition UnmarshalWithExtra :: "string \<Rightarrow> (go_val \<times> string) option" where
  "UnmarshalWithExtra s =
     (case LastIndex RAMOwnerSeparator s of
        None \<Rightarrow> map_option (\<lambda>v. (v, [])) (unmarshalInner s)
      | Some idx \<Rightarrow> map_option (\<lambda>v. (v, drop (Suc idx) s)) (unmarshalInner (take idx s)))"

text \<open>The \<open>Must\<close> variants panic on an error value.\<close>

definition MustMarshal :: "go_val \<Rightarrow> string list \<Rightarrow> string option" where
  "MustMarshal v extras = Marshal v extras"

fun is_GError :: "go_val \<Rightarrow> bool" where
  "is_GError (GError e) = True"
| "is_GError v = False"

definition MustUnmarshal :: "string \<Rightarrow> go_val option" where
  "MustUnmarshal s =
     Option.bind (Unmarshal s) (\<lambda>v. if is_GError v then None else Some v)"

definition MustUnmarshalWithExtra :: "string \<Rightarrow> (go_val \<times> string) option" where
  "MustUnmarshalWithExtra s =
     Option.bind (UnmarshalWithExtra s) (\<lambda>(v, extra). if is_GError v then None else Some (v, extra))"

section \<open>Round trips\<close>

text \<open>The values the serializer accepts; a decimal goes through an \<^verbatim>\<open>int32\<close>.\<close>

fun storable :: "go_val \<Rightarrow> bool" where
  "storable (GStrings xs) = False"
| "storable (GError e) = False"
| "storable (GFixed i d) = (- (2 ^ 31) \<le> d \<and> d < 2 ^ 31)"
| "storable v = True"

fun stored_body :: "go_val \<Rightarrow> string" where
  "stored_body (GInt i) = CHR ''i'' # int64ToRaw i"
| "stored_body (GString s) = CHR ''s'' # s"
| "stored_body (GBool b) = CHR ''b'' # boolToString b"
| "stored_body (GJSON s) = CHR ''j'' # s"
| "stored_body (GFixed i d) = CHR ''f'' # Fixed_Marshal i d"
| "stored_body v = ''n''"

lemma UnmarshalFixed_Marshal:
  assumes "- (2 ^ 31) \<le> d" and "d < 2 ^ 31"
  shows "UnmarshalFixed (Fixed_Marshal i d) = GFixed i d"
proof -
  have "signed_take_bit 31 d = d"
    using assms by (intro signed_take_bit_int_eq_self) simp_all
  then have "sint (of_int d :: 32 word) = d"
    by (simp add: signed_of_int)
  then show ?thesis by (simp add: UnmarshalFixed_def Fixed_Marshal_def)
qed

lemma unmarshalInner_body: "storable v \<Longrightarrow> unmarshalInner (stored_body v) = Some v"
  by (cases v) (auto simp: unmarshalInner_def int64ToRaw_def rawToInt64_def boolToString_def
      UnmarshalFixed_Marshal)

lemma Marshal_body:
  "storable v \<Longrightarrow> v \<noteq> GNil \<Longrightarrow> Marshal v [payer] = Some (stored_body v @ RAMOwnerSeparator # payer)"
  by (cases v) (auto simp: Marshal_def)

lemma Marshal_nonempty: "Marshal v extras = Some s \<Longrightarrow> s \<noteq> []"
  by (auto simp: Marshal_def Let_def split: go_val.splits)

lemma UnmarshalWithExtra_body:
  assumes "RAMOwnerSeparator \<notin> set payer"
  shows "UnmarshalWithExtra (stored_body v @ RAMOwnerSeparator # payer) =
           map_option (\<lambda>x. (x, payer)) (unmarshalInner (stored_body v))"
  using LastIndex_append [OF assms, of "stored_body v"] by (simp add: UnmarshalWithExtra_def)

lemma Unmarshal_body:
  assumes "RAMOwnerSeparator \<notin> set payer"
  shows "Unmarshal (stored_body v @ RAMOwnerSeparator # payer) = unmarshalInner (stored_body v)"
  using LastIndex_append [OF assms, of "stored_body v"] by (simp add: Unmarshal_def)

lemma storable_not_error: "storable v \<Longrightarrow> \<not> is_GError v"
  by (cases v) auto

end
