(* ===== verification/Database.thy ===== *)
theory Database
  imports GoLib "HOL-Library.AList"
begin

text \<open>
  The state store under a contract's storage: \<^verbatim>\<open>db/mvccdb.go\<close> (a stage of uncommitted items
  over a key-value storage), \<^verbatim>\<open>vm/database/adapter.go\<close> (the \<^verbatim>\<open>state\<close> table of it),
  \<^verbatim>\<open>vm/database/write_cache.go\<close> (the writes of one transaction) and
  \<^verbatim>\<open>rollback_handler.go\<close>. All of them offer the interface \<^verbatim>\<open>database\<close> of \<^verbatim>\<open>adapter.go\<close>; here
  it is a record of operations, and the locale \<open>kv_database\<close> states its contract against
  a finite-map view of the state.
\<close>

section \<open>The interface\<close>

record rules =
  IsFork3_0_10 :: bool
  IsFork3_1_0 :: bool
  IsFork3_3_0 :: bool
  IsFork3_3_1 :: bool

record 'd database =
  db_Rules :: "'d \<Rightarrow> rules"
  db_Get :: "'d \<Rightarrow> string \<Rightarrow> string"
  db_Put :: "'d \<Rightarrow> string \<Rightarrow> string \<Rightarrow> 'd"
  db_Has :: "'d \<Rightarrow> string \<Rightarrow> bool"
  db_Del :: "'d \<Rightarrow> string \<Rightarrow> 'd"

abbreviation NilPrefix :: string where
  "NilPrefix \<equiv> ''n''"

section \<open>The multi-version store\<close>

record Item =
  item_table :: string
  item_key :: string
  item_value :: string
  item_deleted :: bool

record mvccdb =
  mv_stage :: "(string \<times> Item) list"
  mv_storage :: "(string \<times> string) list"

definition mv_key :: "string \<Rightarrow> string \<Rightarrow> string" where
  "mv_key table key = table @ CHR ''/'' # key"

definition isValidTable :: "string \<Rightarrow> bool" where
  "isValidTable table \<longleftrightarrow> table \<noteq> [] \<and> CHR ''/'' \<notin> set table"

text \<open>An invalid table is an error (\<open>None\<close>); the storage reads an absent key as the empty string.\<close>

definition mvcc_Get :: "mvccdb \<Rightarrow> string \<Rightarrow> string \<Rightarrow> string option" where
  "mvcc_Get m table key =
     (if \<not> isValidTable table then None
      else case map_of (mv_stage m) (mv_key table key) of
             None \<Rightarrow> Some (case map_of (mv_storage m) (mv_key table key) of None \<Rightarrow> [] | Some v \<Rightarrow> v)
           | Some i \<Rightarrow> Some (if item_deleted i then [] else item_value i))"

definition mvcc_Put :: "mvccdb \<Rightarrow> string \<Rightarrow> string \<Rightarrow> string \<Rightarrow> mvccdb option" where
  "mvcc_Put m table key value =
     (if \<not> isValidTable table then None
      else Some (m\<lparr>mv_stage := AList.update (mv_key table key)
                     \<lparr>item_table = table, item_key = key, item_value = value, item_deleted = False\<rparr> (mv_stage m)\<rparr>))"

definition mvcc_Del :: "mvccdb \<Rightarrow> string \<Rightarrow> string \<Rightarrow> mvccdb option" where
  "mvcc_Del m table key =
     (if \<not> isValidTable table then None
      else Some (m\<lparr>mv_stage := AList.update (mv_key table key)
                     \<lparr>item_table = table, item_key = key, item_value = [], item_deleted = True\<rparr> (mv_stage m)\<rparr>))"

definition mvcc_Has :: "mvccdb \<Rightarrow> string \<Rightarrow> string \<Rightarrow> bool option" where
  "mvcc_Has m table key =
     (if \<not> isValidTable table then None
      else case map_of (mv_stage m) (mv_key table key) of
             None \<Rightarrow> Some (map_of (mv_storage m) (mv_key table key) \<noteq> None)
           | Some i \<Rightarrow> Some (\<not> item_deleted i))"

section \<open>The adapter\<close>

text \<open>
  The adapter panics on an error; its one table is valid, so the errors do not arise and
  its operations are total.
\<close>

record chainbaseAdapter =
  ad_cb :: mvccdb
  ad_rules :: rules

definition StateTable :: string where
  "StateTable = ''state''"

definition adapter_Get :: "chainbaseAdapter \<Rightarrow> string \<Rightarrow> string" where
  "adapter_Get c key =
     (case mvcc_Get (ad_cb c) StateTable key of
        Some value \<Rightarrow> if value = [] then NilPrefix else value
      | None \<Rightarrow> [])"

definition adapter_Put :: "chainbaseAdapter \<Rightarrow> string \<Rightarrow> string \<Rightarrow> chainbaseAdapter" where
  "adapter_Put c key value =
     (case mvcc_Put (ad_cb c) StateTable key value of Some m \<Rightarrow> c\<lparr>ad_cb := m\<rparr> | None \<Rightarrow> c)"

definition adapter_Has :: "chainbaseAdapter \<Rightarrow> string \<Rightarrow> bool" where
  "adapter_Has c key = (mvcc_Has (ad_cb c) StateTable key = Some True)"

definition adapter_Del :: "chainbaseAdapter \<Rightarrow> string \<Rightarrow> chainbaseAdapter" where
  "adapter_Del c key =
     (case mvcc_Del (ad_cb c) StateTable key of Some m \<Rightarrow> c\<lparr>ad_cb := m\<rparr> | None \<Rightarrow> c)"

definition adapter_db :: "chainbaseAdapter database" where
  "adapter_db =
     \<lparr>db_Rules = ad_rules, db_Get = adapter_Get, db_Put = adapter_Put, db_Has = adapter_Has,
      db_Del = adapter_Del\<rparr>"

section \<open>The write cache\<close>

datatype Mode = Default | Delete

record Record =
  rec_value :: string
  rec_mode :: Mode

record 'b WriteCache =
  wc_m :: "(string \<times> Record) list"
  wc_db :: 'b

definition NewWriteCache :: "'b \<Rightarrow> 'b WriteCache" where
  "NewWriteCache db = \<lparr>wc_m = [], wc_db = db\<rparr>"

definition wc_Rules :: "'b database \<Rightarrow> 'b WriteCache \<Rightarrow> rules" where
  "wc_Rules B w = db_Rules B (wc_db w)"

definition wc_Get :: "'b database \<Rightarrow> 'b WriteCache \<Rightarrow> string \<Rightarrow> string" where
  "wc_Get B w key =
     (case map_of (wc_m w) key of
        Some v \<Rightarrow> if rec_mode v = Delete then ''n'' else rec_value v
      | None \<Rightarrow> db_Get B (wc_db w) key)"

definition wc_Put :: "'b WriteCache \<Rightarrow> string \<Rightarrow> string \<Rightarrow> 'b WriteCache" where
  "wc_Put w key value =
     w\<lparr>wc_m := AList.update key \<lparr>rec_value = value, rec_mode = Default\<rparr> (wc_m w)\<rparr>"

definition wc_Has :: "'b database \<Rightarrow> 'b WriteCache \<Rightarrow> string \<Rightarrow> bool" where
  "wc_Has B w key =
     (case map_of (wc_m w) key of
        Some v \<Rightarrow> rec_mode v \<noteq> Delete
      | None \<Rightarrow> db_Has B (wc_db w) key)"

definition wc_Del :: "'b WriteCache \<Rightarrow> string \<Rightarrow> 'b WriteCache" where
  "wc_Del w key =
     w\<lparr>wc_m := AList.update key \<lparr>rec_value = [], rec_mode = Delete\<rparr> (wc_m w)\<rparr>"

definition flush_one :: "'b database \<Rightarrow> string \<times> Record \<Rightarrow> 'b \<Rightarrow> 'b" where
  "flush_one B kv b =
     (if rec_mode (snd kv) = Delete then db_Del B b (fst kv)
      else db_Put B b (fst kv) (rec_value (snd kv)))"

definition wc_Flush :: "'b database \<Rightarrow> 'b WriteCache \<Rightarrow> 'b WriteCache" where
  "wc_Flush B w = w\<lparr>wc_db := fold (flush_one B) (wc_m w) (wc_db w)\<rparr>"

definition wc_Drop :: "'b WriteCache \<Rightarrow> 'b WriteCache" where
  "wc_Drop w = w\<lparr>wc_m := []\<rparr>"

definition wc_database :: "'b database \<Rightarrow> 'b WriteCache database" where
  "wc_database B =
     \<lparr>db_Rules = wc_Rules B, db_Get = wc_Get B, db_Put = wc_Put, db_Has = wc_Has B, db_Del = wc_Del\<rparr>"

text \<open>\<^verbatim>\<open>rollback_handler.go\<close>.\<close>

definition Commit :: "'b database \<Rightarrow> 'b WriteCache \<Rightarrow> 'b WriteCache" where
  "Commit B w = wc_Drop (wc_Flush B w)"

definition Rollback :: "'b WriteCache \<Rightarrow> 'b WriteCache" where
  "Rollback w = wc_Drop w"

section \<open>The contract of the interface\<close>

locale kv_database =
  fixes D :: "'d database" and view :: "'d \<Rightarrow> string \<Rightarrow> string option" and inv :: "'d \<Rightarrow> bool"
  assumes get_law: "inv d \<Longrightarrow> db_Get D d k = (case view d k of None \<Rightarrow> ''n'' | Some v \<Rightarrow> v)"
    and has_law: "inv d \<Longrightarrow> db_Has D d k = (view d k \<noteq> None)"
    and put_view: "inv d \<Longrightarrow> v \<noteq> [] \<Longrightarrow> view (db_Put D d k v) = (view d)(k := Some v)"
    and put_inv: "inv d \<Longrightarrow> v \<noteq> [] \<Longrightarrow> inv (db_Put D d k v)"
    and put_rules: "db_Rules D (db_Put D d k v) = db_Rules D d"
    and del_view: "inv d \<Longrightarrow> view (db_Del D d k) = (view d)(k := None)"
    and del_inv: "inv d \<Longrightarrow> inv (db_Del D d k)"
    and del_rules: "db_Rules D (db_Del D d k) = db_Rules D d"
    and view_nonempty: "inv d \<Longrightarrow> view d k \<noteq> Some []"
begin

lemmas kv_laws = get_law has_law put_view put_inv put_rules del_view del_inv del_rules

lemma get_put: "inv d \<Longrightarrow> v \<noteq> [] \<Longrightarrow> db_Get D (db_Put D d k v) k' = (if k' = k then v else db_Get D d k')"
  by (simp add: kv_laws)

lemma get_del: "inv d \<Longrightarrow> db_Get D (db_Del D d k) k' = (if k' = k then ''n'' else db_Get D d k')"
  by (simp add: kv_laws)

end

section \<open>The adapter keeps the contract\<close>

definition adapter_view :: "chainbaseAdapter \<Rightarrow> string \<Rightarrow> string option" where
  "adapter_view c k =
     (case map_of (mv_stage (ad_cb c)) (mv_key StateTable k) of
        None \<Rightarrow> map_of (mv_storage (ad_cb c)) (mv_key StateTable k)
      | Some i \<Rightarrow> if item_deleted i then None else Some (item_value i))"

definition adapter_inv :: "chainbaseAdapter \<Rightarrow> bool" where
  "adapter_inv c \<longleftrightarrow> (\<forall>k. adapter_view c k \<noteq> Some [])"

lemma StateTable_valid [simp]: "isValidTable StateTable"
  by (simp add: isValidTable_def StateTable_def)

lemma mv_key_inject [simp]: "mv_key t k = mv_key t k' \<longleftrightarrow> k = k'"
  by (simp add: mv_key_def)

lemma adapter_view_Put: "adapter_view (adapter_Put c k v) = (adapter_view c)(k := Some v)"
  by (simp add: adapter_view_def adapter_Put_def mvcc_Put_def update_conv' fun_eq_iff cong: option.case_cong)

lemma adapter_view_Del: "adapter_view (adapter_Del c k) = (adapter_view c)(k := None)"
  by (simp add: adapter_view_def adapter_Del_def mvcc_Del_def update_conv' fun_eq_iff cong: option.case_cong)

lemma adapter_Get_view:
  assumes "adapter_inv c"
  shows "adapter_Get c k = (case adapter_view c k of None \<Rightarrow> ''n'' | Some v \<Rightarrow> v)"
proof -
  have "adapter_view c k \<noteq> Some []" using assms by (simp add: adapter_inv_def)
  then show ?thesis
    by (auto simp: adapter_Get_def mvcc_Get_def adapter_view_def split: option.splits if_splits)
qed

interpretation adapter: kv_database adapter_db adapter_view adapter_inv
proof unfold_locales
  fix d k v
  show "adapter_inv d \<Longrightarrow> db_Get adapter_db d k = (case adapter_view d k of None \<Rightarrow> ''n'' | Some v \<Rightarrow> v)"
    by (simp add: adapter_db_def adapter_Get_view)
  show "db_Has adapter_db d k = (adapter_view d k \<noteq> None)"
    by (auto simp: adapter_db_def adapter_Has_def mvcc_Has_def adapter_view_def split: option.splits)
  show "adapter_view (db_Put adapter_db d k v) = (adapter_view d)(k := Some v)"
    "adapter_view (db_Del adapter_db d k) = (adapter_view d)(k := None)"
    by (simp_all add: adapter_db_def adapter_view_Put adapter_view_Del)
  show "db_Rules adapter_db (db_Put adapter_db d k v) = db_Rules adapter_db d"
    "db_Rules adapter_db (db_Del adapter_db d k) = db_Rules adapter_db d"
    by (simp_all add: adapter_db_def adapter_Put_def adapter_Del_def mvcc_Put_def mvcc_Del_def)
  show "adapter_inv d \<Longrightarrow> v \<noteq> [] \<Longrightarrow> adapter_inv (db_Put adapter_db d k v)"
    "adapter_inv d \<Longrightarrow> adapter_inv (db_Del adapter_db d k)"
    by (simp_all add: adapter_db_def adapter_inv_def adapter_view_Put adapter_view_Del)
  show "adapter_inv d \<Longrightarrow> adapter_view d k \<noteq> Some []"
    by (simp add: adapter_inv_def)
qed

section \<open>The write cache keeps the contract over any base that does\<close>

definition wc_view :: "('b \<Rightarrow> string \<Rightarrow> string option) \<Rightarrow> 'b WriteCache \<Rightarrow> string \<Rightarrow> string option" where
  "wc_view bview w k =
     (case map_of (wc_m w) k of
        None \<Rightarrow> bview (wc_db w) k
      | Some r \<Rightarrow> if rec_mode r = Delete then None else Some (rec_value r))"

definition wc_inv :: "('b \<Rightarrow> bool) \<Rightarrow> 'b WriteCache \<Rightarrow> bool" where
  "wc_inv binv w \<longleftrightarrow>
     binv (wc_db w) \<and> distinct (map fst (wc_m w)) \<and>
     (\<forall>(k, r) \<in> set (wc_m w). rec_mode r = Default \<longrightarrow> rec_value r \<noteq> [])"

lemma wc_inv_New: "wc_inv binv (NewWriteCache b) = binv b"
  by (simp add: wc_inv_def NewWriteCache_def)

lemma wc_inv_Drop: "wc_inv binv w \<Longrightarrow> wc_inv binv (wc_Drop w)"
  by (simp add: wc_inv_def wc_Drop_def)

lemma wc_view_New: "wc_view bview (NewWriteCache b) = bview b"
  by (simp add: wc_view_def NewWriteCache_def fun_eq_iff)

lemma wc_view_Drop: "wc_view bview (wc_Drop w) = bview (wc_db w)"
  by (simp add: wc_view_def wc_Drop_def fun_eq_iff)

lemma wc_view_Put: "wc_view bview (wc_Put w k v) = (wc_view bview w)(k := Some v)"
  by (simp add: wc_view_def wc_Put_def update_conv' fun_eq_iff cong: option.case_cong)

lemma wc_view_Del: "wc_view bview (wc_Del w k) = (wc_view bview w)(k := None)"
  by (simp add: wc_view_def wc_Del_def update_conv' fun_eq_iff cong: option.case_cong)

lemma set_update_sub: "set (AList.update k v al) \<subseteq> insert (k, v) (set al)"
  by (induction al) auto

lemma wc_inv_Put: "wc_inv binv w \<Longrightarrow> v \<noteq> [] \<Longrightarrow> wc_inv binv (wc_Put w k v)"
  using set_update_sub [of k "\<lparr>rec_value = v, rec_mode = Default\<rparr>" "wc_m w"]
  by (auto simp: wc_inv_def wc_Put_def distinct_update)

lemma wc_inv_Del: "wc_inv binv w \<Longrightarrow> wc_inv binv (wc_Del w k)"
  using set_update_sub [of k "\<lparr>rec_value = [], rec_mode = Delete\<rparr>" "wc_m w"]
  by (auto simp: wc_inv_def wc_Del_def distinct_update)

locale cached_database = base: kv_database B bview binv
  for B :: "'b database" and bview binv
begin

lemma view_cached:
  assumes "wc_inv binv w"
  shows "wc_view bview w k \<noteq> Some []"
proof (cases "map_of (wc_m w) k")
  case None
  then show ?thesis using assms base.view_nonempty by (simp add: wc_view_def wc_inv_def)
next
  case (Some r)
  then have "(k, r) \<in> set (wc_m w)" by (rule map_of_SomeD)
  then show ?thesis
    using assms Some by (cases "rec_mode r") (auto simp: wc_view_def wc_inv_def)
qed

lemma Mode_not_Delete: "m \<noteq> Delete \<longleftrightarrow> m = Default"
  by (cases m) auto

lemma flush_view:
  assumes "binv b" "distinct (map fst al)"
    and "\<forall>(k, r) \<in> set al. rec_mode r = Default \<longrightarrow> rec_value r \<noteq> []"
  shows "binv (fold (flush_one B) al b) \<and>
         bview (fold (flush_one B) al b) =
           (\<lambda>k. case map_of al k of None \<Rightarrow> bview b k
               | Some r \<Rightarrow> if rec_mode r = Delete then None else Some (rec_value r))"
  using assms
proof (induction al arbitrary: b)
  case (Cons kr al)
  obtain k r where [simp]: "kr = (k, r)" by (cases kr)
  have one: "binv (flush_one B kr b)"
    "bview (flush_one B kr b) = (bview b)(k := (if rec_mode r = Delete then None else Some (rec_value r)))"
    using Cons.prems by (auto simp: flush_one_def base.kv_laws Mode_not_Delete)
  moreover have "map_of al k = None"
    using Cons.prems by (simp add: map_of_eq_None_iff)
  ultimately show ?case
    using Cons.IH [of "flush_one B kr b"] Cons.prems
    by (auto simp: fun_eq_iff split: option.splits)
qed simp

lemma commit_base:
  assumes "wc_inv binv w"
  shows "bview (wc_db (Commit B w)) = wc_view bview w" "binv (wc_db (Commit B w))"
    "wc_m (Commit B w) = []"
  using flush_view [of "wc_db w" "wc_m w"] assms
  by (auto simp: Commit_def wc_Drop_def wc_Flush_def wc_inv_def wc_view_def fun_eq_iff)

lemma commit_view: "wc_inv binv w \<Longrightarrow> wc_view bview (Commit B w) = wc_view bview w"
  by (simp add: wc_view_def [of _ "Commit B w"] commit_base fun_eq_iff)

end

sublocale cached_database \<subseteq> cached: kv_database "wc_database B" "wc_view bview" "wc_inv binv"
proof unfold_locales
  fix w k v
  show "wc_inv binv w \<Longrightarrow> db_Get (wc_database B) w k = (case wc_view bview w k of None \<Rightarrow> ''n'' | Some v \<Rightarrow> v)"
    by (auto simp: wc_database_def wc_Get_def wc_view_def wc_inv_def base.get_law split: option.splits)
  show "wc_inv binv w \<Longrightarrow> db_Has (wc_database B) w k = (wc_view bview w k \<noteq> None)"
    by (auto simp: wc_database_def wc_Has_def wc_view_def wc_inv_def base.has_law split: option.splits)
  show "wc_view bview (db_Put (wc_database B) w k v) = (wc_view bview w)(k := Some v)"
    "wc_view bview (db_Del (wc_database B) w k) = (wc_view bview w)(k := None)"
    by (simp_all add: wc_database_def wc_view_Put wc_view_Del)
  show "wc_inv binv w \<Longrightarrow> v \<noteq> [] \<Longrightarrow> wc_inv binv (db_Put (wc_database B) w k v)"
    "wc_inv binv w \<Longrightarrow> wc_inv binv (db_Del (wc_database B) w k)"
    by (simp_all add: wc_database_def wc_inv_Put wc_inv_Del)
  show "db_Rules (wc_database B) (db_Put (wc_database B) w k v) = db_Rules (wc_database B) w"
    "db_Rules (wc_database B) (db_Del (wc_database B) w k) = db_Rules (wc_database B) w"
    by (simp_all add: wc_database_def wc_Rules_def wc_Put_def wc_Del_def)
  show "wc_inv binv w \<Longrightarrow> wc_view bview w k \<noteq> Some []"
    by (rule view_cached)
qed

interpretation visitor: cached_database adapter_db adapter_view adapter_inv
  by unfold_locales

text \<open>The store that \<^verbatim>\<open>NewVisitor\<close> hands to the handlers of a transaction.\<close>

abbreviation visitor_db :: "chainbaseAdapter WriteCache database" where
  "visitor_db \<equiv> wc_database adapter_db"

abbreviation visitor_view :: "chainbaseAdapter WriteCache \<Rightarrow> string \<Rightarrow> string option" where
  "visitor_view \<equiv> wc_view adapter_view"

abbreviation visitor_inv :: "chainbaseAdapter WriteCache \<Rightarrow> bool" where
  "visitor_inv \<equiv> wc_inv adapter_inv"

end
