(* ===== verification/MapStore.thy ===== *)
theory MapStore
  imports Database
begin

text \<open>
  \<^verbatim>\<open>vm/database/basic_handler.go\<close> and \<^verbatim>\<open>vm/database/map_handler.go\<close>: plain keys and maps of
  fields over the store. A map keeps its field names in one entry, each preceded by the
  separator; the second half of the theory relates that entry to the fields that are there.
\<close>

section \<open>BasicHandler\<close>

definition basic_key :: "string \<Rightarrow> string" where
  "basic_key key = ''b-'' @ key"

definition basic_Put :: "'d database \<Rightarrow> 'd \<Rightarrow> string \<Rightarrow> string \<Rightarrow> 'd" where
  "basic_Put D d key value = db_Put D d (basic_key key) value"

definition basic_Get :: "'d database \<Rightarrow> 'd \<Rightarrow> string \<Rightarrow> string" where
  "basic_Get D d key = db_Get D d (basic_key key)"

definition basic_Has :: "'d database \<Rightarrow> 'd \<Rightarrow> string \<Rightarrow> bool" where
  "basic_Has D d key = db_Has D d (basic_key key)"

definition basic_Del :: "'d database \<Rightarrow> 'd \<Rightarrow> string \<Rightarrow> 'd" where
  "basic_Del D d key = db_Del D d (basic_key key)"

section \<open>MapHandler\<close>

definition map_key :: "string \<Rightarrow> string" where
  "map_key key = ''m-'' @ key"

definition field_key :: "string \<Rightarrow> string \<Rightarrow> string" where
  "field_key key field = ''m-'' @ key @ ''-'' @ field"

definition fixed_key :: "string \<Rightarrow> string" where
  "fixed_key key = ''m-'' @ key @ ''@''"

definition MHas :: "'d database \<Rightarrow> 'd \<Rightarrow> string \<Rightarrow> string \<Rightarrow> bool" where
  "MHas D d key field = db_Has D d (field_key key field)"

definition MGet :: "'d database \<Rightarrow> 'd \<Rightarrow> string \<Rightarrow> string \<Rightarrow> string" where
  "MGet D d key field = db_Get D d (field_key key field)"

definition MKeys :: "'d database \<Rightarrow> 'd \<Rightarrow> string \<Rightarrow> string list" where
  "MKeys D d key = tl (Split CHR ''@'' (db_Get D d (map_key key)))"

definition addField :: "'d database \<Rightarrow> 'd \<Rightarrow> string \<Rightarrow> string \<Rightarrow> 'd" where
  "addField D d key field =
     (if MHas D d key field then d
      else
        let s = db_Get D d (map_key key) in
        if s = ''n'' then db_Put D d (map_key key) (CHR ''@'' # field)
        else if Count CHR ''@'' s > 256 then d
        else db_Put D d (map_key key) (s @ CHR ''@'' # field))"

definition MPut :: "'d database \<Rightarrow> 'd \<Rightarrow> string \<Rightarrow> string \<Rightarrow> string \<Rightarrow> 'd" where
  "MPut D d key field value = db_Put D (addField D d key field) (field_key key field) value"

text \<open>The loops of \<open>delField3_1_0\<close> rebuild the entry from the fields they keep.\<close>

definition join_fields :: "string list \<Rightarrow> string" where
  "join_fields fs = concat (map (\<lambda>f. CHR ''@'' # f) fs)"

definition delField3_1_0 :: "'d database \<Rightarrow> 'd \<Rightarrow> string \<Rightarrow> string \<Rightarrow> 'd" where
  "delField3_1_0 D d key field =
     (let s = db_Get D d (map_key key);
          fixed = db_Get D d (fixed_key key);
          fields = tl (Split CHR ''@'' s);
          s2 = (if fixed = ''n''
                then join_fields (filter (\<lambda>f. f \<noteq> field \<and> MHas D d key f) fields)
                else join_fields (filter (\<lambda>f. f \<noteq> field) fields));
          d' = (if fixed = ''n'' then db_Put D d (fixed_key key) ''1'' else d) in
      if s2 = [] then db_Del D d' (map_key key) else db_Put D d' (map_key key) s2)"

definition delField :: "'d database \<Rightarrow> 'd \<Rightarrow> string \<Rightarrow> string \<Rightarrow> 'd" where
  "delField D d key field =
     (let s2 = ReplaceFirst (CHR ''@'' # field) (db_Get D d (map_key key)) in
      if s2 = [] then db_Del D d (map_key key) else db_Put D d (map_key key) s2)"

definition MDel :: "'d database \<Rightarrow> 'd \<Rightarrow> string \<Rightarrow> string \<Rightarrow> 'd" where
  "MDel D d key field =
     (if \<not> MHas D d key field then d
      else
        let d' = db_Del D d (field_key key field) in
        if IsFork3_1_0 (db_Rules D d') then delField3_1_0 D d' key field
        else delField D d' key field)"

section \<open>Keys do not collide\<close>

lemma key_neq [simp]:
  "basic_key k \<noteq> map_key k'" "basic_key k \<noteq> field_key k' f" "basic_key k \<noteq> fixed_key k'"
  "map_key k' \<noteq> basic_key k" "field_key k' f \<noteq> basic_key k" "fixed_key k' \<noteq> basic_key k"
  "map_key k \<noteq> field_key k f" "field_key k f \<noteq> map_key k"
  "map_key k \<noteq> fixed_key k" "fixed_key k \<noteq> map_key k"
  "field_key k f \<noteq> fixed_key k" "fixed_key k \<noteq> field_key k f"
  by (auto simp: basic_key_def map_key_def field_key_def fixed_key_def)

lemma key_inject [simp]:
  "basic_key k = basic_key k' \<longleftrightarrow> k = k'" "map_key k = map_key k' \<longleftrightarrow> k = k'"
  "fixed_key k = fixed_key k' \<longleftrightarrow> k = k'" "field_key k f = field_key k f' \<longleftrightarrow> f = f'"
  by (auto simp: basic_key_def map_key_def field_key_def fixed_key_def)

section \<open>The entry of a map against its fields\<close>

text \<open>The fields a store has for a map, by its view.\<close>

definition listed :: "(string \<Rightarrow> string option) \<Rightarrow> string \<Rightarrow> string list" where
  "listed m key = (case m (map_key key) of None \<Rightarrow> [] | Some s \<Rightarrow> tl (Split CHR ''@'' s))"

definition fields_ok :: "(string \<Rightarrow> string option) \<Rightarrow> string \<Rightarrow> bool" where
  "fields_ok m key \<longleftrightarrow>
     m (map_key key) \<noteq> Some ''n'' \<and>
     (\<forall>s. m (map_key key) = Some s \<longrightarrow> s = join_fields (listed m key)) \<and>
     distinct (listed m key) \<and>
     (\<forall>f. CHR ''@'' \<notin> set f \<longrightarrow> (f \<in> set (listed m key) \<longleftrightarrow> m (field_key key f) \<noteq> None))"

lemma join_fields_simps [simp]:
  "join_fields [] = []" "join_fields (f # fs) = CHR ''@'' # f @ join_fields fs"
  "join_fields (fs @ gs) = join_fields fs @ join_fields gs"
  "join_fields fs = [] \<longleftrightarrow> fs = []"
  by (auto simp: join_fields_def)

lemma join_fields_not_n [simp]: "join_fields fs \<noteq> ''n''"
  by (cases fs) auto

lemma Split_join_aux:
  "\<forall>f \<in> set fs. c \<notin> set f \<Longrightarrow> c \<notin> set a \<Longrightarrow>
     Split c (a @ concat (map (\<lambda>f. c # f) fs)) = a # fs"
  by (induction fs arbitrary: a) (auto simp: Split_no_sep Split_append)

lemma Split_join_fields:
  "\<forall>f \<in> set fs. CHR ''@'' \<notin> set f \<Longrightarrow> Split CHR ''@'' (join_fields fs) = [] # fs"
  using Split_join_aux [of fs "CHR ''@''" "[]"] by (simp add: join_fields_def)

lemma Count_join_fields:
  "\<forall>f \<in> set fs. CHR ''@'' \<notin> set f \<Longrightarrow> Count CHR ''@'' (join_fields fs) = length fs"
proof (induction fs)
  case (Cons f fs)
  then have "filter (\<lambda>x. x = CHR ''@'') f = []" by (auto simp: filter_empty_conv)
  with Cons show ?case by (simp add: Count_def)
qed (simp add: Count_def)

lemma listed_clean: "f \<in> set (listed m key) \<Longrightarrow> CHR ''@'' \<notin> set f"
  by (auto simp: listed_def split: option.splits dest: list.set_sel(2) [rotated] Split_no_sep_in)

lemma listed_upd:
  "\<forall>f \<in> set fs. CHR ''@'' \<notin> set f \<Longrightarrow> listed (m(map_key key := Some (join_fields fs))) key = fs"
  by (simp add: listed_def Split_join_fields)

lemma listed_upd_None: "listed (m(map_key key := None)) key = []"
  by (simp add: listed_def)

lemma listed_other [simp]: "k \<noteq> map_key key \<Longrightarrow> listed (m(k := v)) key = listed m key"
  by (simp add: listed_def)

context kv_database
begin

lemma MKeys_view: "inv d \<Longrightarrow> MKeys D d key = listed (view d) key"
  by (auto simp: MKeys_def listed_def kv_laws split: option.splits)

lemma MHas_view: "inv d \<Longrightarrow> MHas D d key f = (view d (field_key key f) \<noteq> None)"
  by (simp add: MHas_def kv_laws)

lemma addField_inv: "inv d \<Longrightarrow> inv (addField D d key f)"
  by (auto simp: addField_def Let_def kv_laws)

lemma MPut_inv: "inv d \<Longrightarrow> v \<noteq> [] \<Longrightarrow> inv (MPut D d key f v)"
  by (simp add: MPut_def kv_laws addField_inv)

lemma addField_view:
  assumes "inv d" "fields_ok (view d) key" "CHR ''@'' \<notin> set f"
    and "view d (field_key key f) = None" and "length (listed (view d) key) \<le> 256"
  shows "view (addField D d key f) =
           (view d)(map_key key := Some (join_fields (listed (view d) key @ [f])))"
proof -
  let ?fs = "listed (view d) key"
  have clean: "\<forall>g \<in> set ?fs. CHR ''@'' \<notin> set g" by (simp add: listed_clean)
  show ?thesis
  proof (cases "view d (map_key key)")
    case None
    then have "?fs = []" by (simp add: listed_def)
    with None assms(1,4) show ?thesis
      by (simp add: addField_def Let_def MHas_view kv_laws)
  next
    case (Some s)
    then have s: "s = join_fields ?fs" using assms(2) by (simp add: fields_ok_def)
    then have "Count CHR ''@'' s = length ?fs" "s \<noteq> ''n''"
      using Count_join_fields [OF clean] by simp_all
    with Some s assms(1,4,5) show ?thesis
      by (simp add: addField_def Let_def MHas_view kv_laws)
  qed
qed

lemma addField_present:
  "inv d \<Longrightarrow> view d (field_key key f) \<noteq> None \<Longrightarrow> addField D d key f = d"
  by (simp add: addField_def MHas_view)

lemma MPut_view:
  assumes "inv d" "fields_ok (view d) key" "CHR ''@'' \<notin> set f" "v \<noteq> []"
    and "view d (field_key key f) \<noteq> None \<or> length (listed (view d) key) \<le> 256"
  shows "view (MPut D d key f v) =
           (if view d (field_key key f) \<noteq> None then (view d)(field_key key f := Some v)
            else (view d)(map_key key := Some (join_fields (listed (view d) key @ [f])),
                          field_key key f := Some v))"
  using assms addField_present [of d key f] addField_view [of d key f] addField_inv [of d key f]
  by (auto simp: MPut_def kv_laws)

lemma MPut_fields_ok:
  assumes "inv d" "fields_ok (view d) key" "CHR ''@'' \<notin> set f" "v \<noteq> []"
    and "view d (field_key key f) \<noteq> None \<or> length (listed (view d) key) \<le> 256"
  shows "fields_ok (view (MPut D d key f v)) key"
    and "listed (view (MPut D d key f v)) key =
           (if view d (field_key key f) \<noteq> None then listed (view d) key else listed (view d) key @ [f])"
proof -
  let ?fs = "listed (view d) key"
  have clean: "\<forall>g \<in> set (?fs @ [f]). CHR ''@'' \<notin> set g"
    using listed_clean assms(3) by auto
  show "listed (view (MPut D d key f v)) key =
           (if view d (field_key key f) \<noteq> None then ?fs else ?fs @ [f])"
    using MPut_view [OF assms] listed_upd [OF clean] by simp
  moreover have "f \<in> set ?fs \<longleftrightarrow> view d (field_key key f) \<noteq> None"
    using assms(2,3) by (simp add: fields_ok_def)
  ultimately show "fields_ok (view (MPut D d key f v)) key"
    using assms(2) unfolding fields_ok_def MPut_view [OF assms]
    by (auto simp del: join_fields_simps(3))
qed

lemma delField3_1_0_view:
  assumes "inv d" and fs: "fs = listed (view d) key"
    and "\<forall>g \<in> set fs. g \<noteq> f \<longrightarrow> view d (field_key key g) \<noteq> None"
  shows "inv (delField3_1_0 D d key f)"
    and "k \<noteq> fixed_key key \<Longrightarrow> k \<noteq> map_key key \<Longrightarrow> view (delField3_1_0 D d key f) k = view d k"
    and "view (delField3_1_0 D d key f) (map_key key) =
           (let gs = filter (\<lambda>g. g \<noteq> f) fs in if gs = [] then None else Some (join_fields gs))"
proof -
  have keys: "tl (Split CHR ''@'' (db_Get D d (map_key key))) = fs"
    using MKeys_view [OF assms(1), of key] by (simp add: MKeys_def fs)
  have live: "filter (\<lambda>g. g \<noteq> f \<and> MHas D d key g) fs = filter (\<lambda>g. g \<noteq> f) fs"
    using assms(3) by (intro filter_cong) (auto simp: MHas_view [OF assms(1)])
  have s2: "delField3_1_0 D d key f =
      (let d' = (if db_Get D d (fixed_key key) = ''n'' then db_Put D d (fixed_key key) ''1'' else d);
           gs = filter (\<lambda>g. g \<noteq> f) fs in
       if gs = [] then db_Del D d' (map_key key) else db_Put D d' (map_key key) (join_fields gs))"
    by (simp add: delField3_1_0_def keys live Let_def)
  show "inv (delField3_1_0 D d key f)"
    "k \<noteq> fixed_key key \<Longrightarrow> k \<noteq> map_key key \<Longrightarrow> view (delField3_1_0 D d key f) k = view d k"
    "view (delField3_1_0 D d key f) (map_key key) =
       (let gs = filter (\<lambda>g. g \<noteq> f) fs in if gs = [] then None else Some (join_fields gs))"
    using assms(1) by (simp_all add: s2 Let_def kv_laws)
qed

lemma MDel_view:
  assumes "inv d" "fields_ok (view d) key" "CHR ''@'' \<notin> set f" "IsFork3_1_0 (db_Rules D d)"
    and "view d (field_key key f) \<noteq> None"
  shows "inv (MDel D d key f)"
    and "k \<noteq> fixed_key key \<Longrightarrow> k \<noteq> map_key key \<Longrightarrow>
           view (MDel D d key f) k = ((view d)(field_key key f := None)) k"
    and "view (MDel D d key f) (map_key key) =
           (let gs = filter (\<lambda>g. g \<noteq> f) (listed (view d) key) in
            if gs = [] then None else Some (join_fields gs))"
proof -
  let ?d = "db_Del D d (field_key key f)"
  have MDel: "MDel D d key f = delField3_1_0 D ?d key f"
    using assms by (simp add: MDel_def MHas_view kv_laws)
  have live: "\<forall>g \<in> set (listed (view ?d) key). g \<noteq> f \<longrightarrow> view ?d (field_key key g) \<noteq> None"
    using assms(1,2) listed_clean [of _ "view d" key] by (auto simp: kv_laws fields_ok_def)
  note del = delField3_1_0_view [OF _ refl live]
  show "inv (MDel D d key f)"
    "k \<noteq> fixed_key key \<Longrightarrow> k \<noteq> map_key key \<Longrightarrow>
       view (MDel D d key f) k = ((view d)(field_key key f := None)) k"
    "view (MDel D d key f) (map_key key) =
       (let gs = filter (\<lambda>g. g \<noteq> f) (listed (view d) key) in
        if gs = [] then None else Some (join_fields gs))"
    using del assms(1) by (simp_all add: MDel kv_laws)
qed

lemma MDel_fields_ok:
  assumes "inv d" "fields_ok (view d) key" "CHR ''@'' \<notin> set f" "IsFork3_1_0 (db_Rules D d)"
  shows "fields_ok (view (MDel D d key f)) key"
    and "listed (view (MDel D d key f)) key = filter (\<lambda>g. g \<noteq> f) (listed (view d) key)"
    and "view (MDel D d key f) (field_key key f) = None"
proof -
  let ?fs = "listed (view d) key" and ?gs = "filter (\<lambda>g. g \<noteq> f) (listed (view d) key)"
  have clean: "\<forall>g \<in> set ?gs. CHR ''@'' \<notin> set g" using listed_clean by auto
  have "fields_ok (view (MDel D d key f)) key \<and> listed (view (MDel D d key f)) key = ?gs \<and>
        view (MDel D d key f) (field_key key f) = None"
  proof (cases "view d (field_key key f) = None")
    case True
    then have "MDel D d key f = d" using assms(1) by (simp add: MDel_def MHas_view)
    moreover have "f \<notin> set ?fs" using True assms(2,3) by (simp add: fields_ok_def)
    then have "?gs = ?fs" by (auto simp: filter_id_conv)
    ultimately show ?thesis using assms(2) True by simp
  next
    case False
    note del = MDel_view [OF assms False]
    have l: "listed (view (MDel D d key f)) key = ?gs"
      using del(3) Split_join_fields [OF clean] by (simp add: listed_def Let_def)
    then show ?thesis
      using assms(2) del by (auto simp: fields_ok_def Let_def)
  qed
  then show "fields_ok (view (MDel D d key f)) key" "listed (view (MDel D d key f)) key = ?gs"
    "view (MDel D d key f) (field_key key f) = None" by simp_all
qed

end

end
