(* ===== verification/HostDb.thy ===== *)
theory HostDb
  imports Serializer MapStore "HOL-Library.Monad_Syntax"
begin

text \<open>
  \<^verbatim>\<open>core/contract/cost.go\<close>, \<^verbatim>\<open>vm/host/costs.go\<close>, \<^verbatim>\<open>vm/host/context.go\<close> and
  \<^verbatim>\<open>vm/host/db_handler.go\<close>: what a storage access of a contract does to the node. The
  context gives the running contract's name, the key is prefixed with it, the value is
  stored with the account that pays for it, and the change in size is charged. \<open>None\<close> is
  a Go panic.
\<close>

section \<open>Costs\<close>

record DataItem =
  Payer :: string
  Val :: int64

record Cost =
  Data :: int64
  Net :: int64
  CPU :: int64
  DataList :: "DataItem list"

definition NewCost :: "int64 \<Rightarrow> int64 \<Rightarrow> int64 \<Rightarrow> DataItem list \<Rightarrow> Cost" where
  "NewCost data net cpu dataList = \<lparr>Data = data, Net = net, CPU = cpu, DataList = dataList\<rparr>"

definition Cost0 :: Cost where
  "Cost0 = \<lparr>Data = 0, Net = 0, CPU = 0, DataList = []\<rparr>"

definition ToGas :: "Cost \<Rightarrow> int64" where
  "ToGas c = 10 * Net c + CPU c"

definition AddAssign :: "Cost \<Rightarrow> Cost \<Rightarrow> Cost" where
  "AddAssign c a =
     \<lparr>Data = Data c + Data a, Net = Net c + Net a, CPU = CPU c + CPU a,
      DataList = DataList c @ DataList a\<rparr>"

text \<open>The product starts from the zero value and appends its own (empty) list to itself.\<close>

definition Multiply :: "Cost \<Rightarrow> int64 \<Rightarrow> Cost" where
  "Multiply c i = (let d = Cost0 in
     \<lparr>Data = i * Data c, Net = i * Net c, CPU = i * CPU c, DataList = DataList d @ DataList d\<rparr>)"

definition PutCost :: Cost where "PutCost = NewCost 0 0 300 []"
definition GetCost :: Cost where "GetCost = NewCost 0 0 300 []"
definition DelCost :: Cost where "DelCost = NewCost 0 0 300 []"
definition KeysCost :: Cost where "KeysCost = NewCost 0 0 300 []"
definition ContextCost :: Cost where "ContextCost = NewCost 0 0 10 []"
definition EventPrice :: Cost where "EventPrice = NewCost 0 0 1 []"
definition ReceiptPrice :: Cost where "ReceiptPrice = NewCost 0 1 0 []"
definition OpPrice :: Cost where "OpPrice = NewCost 0 0 1 []"
definition ErrPrice :: Cost where "ErrPrice = NewCost 0 0 1 []"

definition EventCost :: "nat \<Rightarrow> Cost" where
  "EventCost n = Multiply EventPrice (of_nat n)"

definition ReceiptCost :: "nat \<Rightarrow> Cost" where
  "ReceiptCost n = Multiply ReceiptPrice (of_nat n)"

definition CommonOpCost :: "int \<Rightarrow> Cost" where
  "CommonOpCost layer = Multiply OpPrice (of_int (layer * 10))"

definition CommonErrorCost :: "int \<Rightarrow> Cost" where
  "CommonErrorCost layer = Multiply ErrPrice (of_int (layer * 10))"

section \<open>The context\<close>

text \<open>
  Values of the context by their dynamic type; a failed type assertion is a panic. A
  \<^verbatim>\<open>map[string]int\<close> is a reference: its entries are in the host. \<open>CvOther\<close> is a value of any
  other type, with what \<^verbatim>\<open>json.Marshal\<close> makes of it. The frames run from the innermost context
  to the base, whose global values are \<open>ctx_gValue\<close>.
\<close>

datatype ctx_val =
    CvNil
  | CvString string
  | CvInt int64
  | CvGoInt int
  | CvCaller string bool
  | CvMap nat
  | CvSigners "(string \<times> bool) list"
  | CvReceipts "(string \<times> string) list"
  | CvOther "string option"

record Context =
  ctx_frames :: "(string \<times> ctx_val) list list"
  ctx_gValue :: "(string \<times> ctx_val) list"

fun lookup_frames :: "(string \<times> ctx_val) list list \<Rightarrow> string \<Rightarrow> ctx_val" where
  "lookup_frames [] key = CvNil"
| "lookup_frames (f # fs) key = (case map_of f key of Some v \<Rightarrow> v | None \<Rightarrow> lookup_frames fs key)"

definition ctx_Value :: "Context \<Rightarrow> string \<Rightarrow> ctx_val" where
  "ctx_Value c key = lookup_frames (ctx_frames c) key"

text \<open>\<^verbatim>\<open>v.(string)\<close>.\<close>

definition as_string :: "ctx_val \<Rightarrow> string option" where
  "as_string v = (case v of CvString s \<Rightarrow> Some s | _ \<Rightarrow> None)"

text \<open>
  The logger is what it was given so far, by level, or nil; \<open>h_posted\<close> is what was posted to the
  event collector, with its topic and its contract.
\<close>

record 'd Host =
  h_ctx :: Context
  h_db :: 'd
  h_cacheCost :: Cost
  h_logger :: "(string \<times> string) list option"
  h_rules :: rules
  h_maps :: "(string \<times> int) list list"
  h_posted :: "(string \<times> string \<times> string) list"

definition AddCacheCost :: "'d Host \<Rightarrow> Cost \<Rightarrow> 'd Host" where
  "AddCacheCost h c = h\<lparr>h_cacheCost := AddAssign (h_cacheCost h) c\<rparr>"

definition contract_name :: "'d Host \<Rightarrow> string option" where
  "contract_name h = as_string (ctx_Value (h_ctx h) ''contract_name'')"

section \<open>Keys and values\<close>

definition IsValidKey :: "string \<Rightarrow> string option" where
  "IsValidKey key =
     (if length key = 0 \<or> length key > 64
      then Some (''key or field length invalid. expected [1, 64], actual '' @ show_nat (length key))
      else map_option (\<lambda>c. ''key or field has invalid char, '' @ show_nat c)
             (find (\<lambda>c. c < 32 \<or> c > 126 \<or> c = of_char CHR ''-'' \<or> c = of_char CHR ''@'') (runes key)))"

definition modifyGlobalKey :: "string \<Rightarrow> string \<Rightarrow> string" where
  "modifyGlobalKey contractName key = contractName @ ''-'' @ key"

definition modifyKey :: "'d Host \<Rightarrow> string \<Rightarrow> string" where
  "modifyKey h key =
     (case contract_name h of None \<Rightarrow> [] | Some contractName \<Rightarrow> modifyGlobalKey contractName key)"

definition modifyValue :: "go_val \<Rightarrow> string \<Rightarrow> string option" where
  "modifyValue value payer = MustMarshal value [payer]"

definition parseValue :: "string \<Rightarrow> go_val option" where
  "parseValue value = MustUnmarshal value"

definition parseValuePayer :: "string \<Rightarrow> string option" where
  "parseValuePayer value = map_option snd (MustUnmarshalWithExtra value)"

section \<open>Paying for storage\<close>

definition owner_of :: "'d Host \<Rightarrow> string \<Rightarrow> string option" where
  "owner_of h oldV =
     do { payer \<leftarrow> parseValuePayer oldV;
          if payer = [] then contract_name h else Some payer }"

definition payRAMInner :: "'d Host \<Rightarrow> string \<Rightarrow> int64 \<Rightarrow> int64 \<Rightarrow> string \<Rightarrow> 'd Host option" where
  "payRAMInner h oldV oLen nLen payer =
     (if oldV = ''n'' then
        Some (AddCacheCost h (NewCost nLen 0 0 [\<lparr>Payer = payer, Val = nLen\<rparr>]))
      else
        do { oldPayer \<leftarrow> owner_of h oldV;
             Some (AddCacheCost h (NewCost (nLen - oLen) 0 0
               (if oldPayer = payer then [\<lparr>Payer = payer, Val = nLen - oLen\<rparr>]
                else [\<lparr>Payer = oldPayer, Val = - oLen\<rparr>, \<lparr>Payer = payer, Val = nLen\<rparr>]))) })"

definition payRAM :: "'d Host \<Rightarrow> string \<Rightarrow> string \<Rightarrow> string \<Rightarrow> string \<Rightarrow> 'd Host option" where
  "payRAM h k v oldV who =
     payRAMInner h oldV (of_nat (length oldV + length k)) (of_nat (length v + length k)) who"

definition payRAMForMap ::
  "'d Host \<Rightarrow> string \<Rightarrow> string \<Rightarrow> string \<Rightarrow> string \<Rightarrow> string \<Rightarrow> 'd Host option" where
  "payRAMForMap h k f v oldV who =
     payRAMInner h oldV (of_nat (length oldV + length k + 2 * length f))
       (of_nat (length v + length k + 2 * length f)) who"

definition releaseRAMInner :: "'d Host \<Rightarrow> string \<Rightarrow> int64 \<Rightarrow> 'd Host option" where
  "releaseRAMInner h oldV oLen =
     (if oldV = ''n'' then Some h
      else
        do { oldPayer \<leftarrow> parseValuePayer oldV;
             Some (AddCacheCost h (NewCost 0 0 0
               (if oldPayer \<noteq> [] then [\<lparr>Payer = oldPayer, Val = - oLen\<rparr>] else []))) })"

definition releaseRAM :: "'d database \<Rightarrow> 'd Host \<Rightarrow> string \<Rightarrow> 'd Host option" where
  "releaseRAM D h k =
     (let v = basic_Get D (h_db h) k in releaseRAMInner h v (of_nat (length k + length v)))"

definition releaseRAMForMap :: "'d database \<Rightarrow> 'd Host \<Rightarrow> string \<Rightarrow> string \<Rightarrow> 'd Host option" where
  "releaseRAMForMap D h k f =
     (let v = MGet D (h_db h) k f in
      releaseRAMInner h v (of_nat (length k + 2 * length f + length v)))"

section \<open>The handler\<close>

definition choose_payer :: "'d Host \<Rightarrow> string \<Rightarrow> string list \<Rightarrow> string option" where
  "choose_payer h oldV ramPayer =
     (case ramPayer of p # _ \<Rightarrow> Some p | [] \<Rightarrow> owner_of h oldV)"

definition put_cost :: "string \<Rightarrow> Cost" where
  "put_cost sv =
     (let cost = NewCost 0 0 (of_nat (length sv div 10)) [] in
      if sint (ToGas cost) < sint (ToGas PutCost) then PutCost else cost)"

definition dbh_Put ::
  "'d database \<Rightarrow> 'd Host \<Rightarrow> string \<Rightarrow> go_val \<Rightarrow> string list \<Rightarrow> (Cost \<times> string option \<times> 'd Host) option" where
  "dbh_Put D h key value ramPayer =
     (case IsValidKey key of
        Some err \<Rightarrow> Some (CommonErrorCost 1, Some err, h)
      | None \<Rightarrow>
          do { let mk = modifyKey h key;
               let oldV = basic_Get D (h_db h) mk;
               payer \<leftarrow> choose_payer h oldV ramPayer;
               sv \<leftarrow> modifyValue value payer;
               h' \<leftarrow> payRAM h mk sv oldV payer;
               Some (put_cost sv, None, h'\<lparr>h_db := basic_Put D (h_db h') mk sv\<rparr>) })"

definition dbh_Get :: "'d database \<Rightarrow> 'd Host \<Rightarrow> string \<Rightarrow> (go_val \<times> Cost) option" where
  "dbh_Get D h key =
     map_option (\<lambda>rtn. (rtn, GetCost)) (parseValue (basic_Get D (h_db h) (modifyKey h key)))"

definition dbh_Del ::
  "'d database \<Rightarrow> 'd Host \<Rightarrow> string \<Rightarrow> (Cost \<times> string option \<times> 'd Host) option" where
  "dbh_Del D h key =
     (case IsValidKey key of
        Some err \<Rightarrow> Some (CommonErrorCost 1, Some err, h)
      | None \<Rightarrow>
          do { let mk = modifyKey h key;
               h' \<leftarrow> releaseRAM D h mk;
               Some (DelCost, None, h'\<lparr>h_db := basic_Del D (h_db h') mk\<rparr>) })"

definition dbh_Has :: "'d database \<Rightarrow> 'd Host \<Rightarrow> string \<Rightarrow> bool \<times> Cost" where
  "dbh_Has D h key = (basic_Has D (h_db h) (modifyKey h key), GetCost)"

definition dbh_MapPut ::
  "'d database \<Rightarrow> 'd Host \<Rightarrow> string \<Rightarrow> string \<Rightarrow> go_val \<Rightarrow> string list \<Rightarrow> (Cost \<times> string option \<times> 'd Host) option" where
  "dbh_MapPut D h key field value ramPayer =
     (case IsValidKey key of
        Some err \<Rightarrow> Some (CommonErrorCost 1, Some err, h)
      | None \<Rightarrow>
     (case IsValidKey field of
        Some err \<Rightarrow> Some (CommonErrorCost 1, Some err, h)
      | None \<Rightarrow>
          do { let mk = modifyKey h key;
               let oldV = MGet D (h_db h) mk field;
               payer \<leftarrow> choose_payer h oldV ramPayer;
               sv \<leftarrow> modifyValue value payer;
               h' \<leftarrow> payRAMForMap h mk field sv oldV payer;
               Some (put_cost sv, None, h'\<lparr>h_db := MPut D (h_db h') mk field sv\<rparr>) }))"

definition dbh_MapGet :: "'d database \<Rightarrow> 'd Host \<Rightarrow> string \<Rightarrow> string \<Rightarrow> (go_val \<times> Cost) option" where
  "dbh_MapGet D h key field =
     map_option (\<lambda>rtn. (rtn, GetCost)) (parseValue (MGet D (h_db h) (modifyKey h key) field))"

definition dbh_MapKeys :: "'d database \<Rightarrow> 'd Host \<Rightarrow> string \<Rightarrow> string list \<times> Cost" where
  "dbh_MapKeys D h key = (MKeys D (h_db h) (modifyKey h key), KeysCost)"

definition dbh_MapDel ::
  "'d database \<Rightarrow> 'd Host \<Rightarrow> string \<Rightarrow> string \<Rightarrow> (Cost \<times> string option \<times> 'd Host) option" where
  "dbh_MapDel D h key field =
     (case IsValidKey key of
        Some err \<Rightarrow> Some (CommonErrorCost 1, Some err, h)
      | None \<Rightarrow>
     (case IsValidKey field of
        Some err \<Rightarrow> Some (CommonErrorCost 1, Some err, h)
      | None \<Rightarrow>
          do { let mk = modifyKey h key;
               h' \<leftarrow> releaseRAMForMap D h mk field;
               Some (DelCost, None, h'\<lparr>h_db := MDel D (h_db h') mk field\<rparr>) }))"

definition dbh_MapHas :: "'d database \<Rightarrow> 'd Host \<Rightarrow> string \<Rightarrow> string \<Rightarrow> bool \<times> Cost" where
  "dbh_MapHas D h key field = (MHas D (h_db h) (modifyKey h key) field, GetCost)"

definition dbh_MapLen :: "'d database \<Rightarrow> 'd Host \<Rightarrow> string \<Rightarrow> nat \<times> Cost" where
  "dbh_MapLen D h key = (let (keys, cost) = dbh_MapKeys D h key in (length keys, cost))"

definition dbh_GlobalHas :: "'d database \<Rightarrow> 'd Host \<Rightarrow> string \<Rightarrow> string \<Rightarrow> bool \<times> Cost" where
  "dbh_GlobalHas D h con key = (basic_Has D (h_db h) (modifyGlobalKey con key), GetCost)"

definition dbh_GlobalGet :: "'d database \<Rightarrow> 'd Host \<Rightarrow> string \<Rightarrow> string \<Rightarrow> (go_val \<times> Cost) option" where
  "dbh_GlobalGet D h con key =
     map_option (\<lambda>rtn. (rtn, GetCost)) (parseValue (basic_Get D (h_db h) (modifyGlobalKey con key)))"

definition dbh_GlobalMapHas :: "'d database \<Rightarrow> 'd Host \<Rightarrow> string \<Rightarrow> string \<Rightarrow> string \<Rightarrow> bool \<times> Cost" where
  "dbh_GlobalMapHas D h con key field = (MHas D (h_db h) (modifyGlobalKey con key) field, GetCost)"

definition dbh_GlobalMapGet ::
  "'d database \<Rightarrow> 'd Host \<Rightarrow> string \<Rightarrow> string \<Rightarrow> string \<Rightarrow> (go_val \<times> Cost) option" where
  "dbh_GlobalMapGet D h con key field =
     map_option (\<lambda>rtn. (rtn, GetCost)) (parseValue (MGet D (h_db h) (modifyGlobalKey con key) field))"

definition dbh_GlobalMapKeys :: "'d database \<Rightarrow> 'd Host \<Rightarrow> string \<Rightarrow> string \<Rightarrow> string list \<times> Cost" where
  "dbh_GlobalMapKeys D h con key = (MKeys D (h_db h) (modifyGlobalKey con key), GetCost)"

definition dbh_GlobalMapLen :: "'d database \<Rightarrow> 'd Host \<Rightarrow> string \<Rightarrow> string \<Rightarrow> nat \<times> Cost" where
  "dbh_GlobalMapLen D h con key = (let (k, cost) = dbh_GlobalMapKeys D h con key in (length k, cost))"

end
