(* ===== verification/StorageLaws.thy ===== *)
theory StorageLaws
  imports HostDb
begin

text \<open>
  Laws of \<^verbatim>\<open>vm/host/db_handler.go\<close> over any store that keeps the contract \<open>kv_database\<close>:
  which keys are valid and that they separate contracts, what a write leaves behind, that
  storing strings never leads to a panic, and that the charges for storage add up to the
  bytes stored, account by account.
\<close>

section \<open>Valid keys\<close>

lemma decode_rune_ascii:
  assumes "fst (decode_rune (c # s)) \<le> 126"
  shows "byte c \<le> 126 \<and> decode_rune (c # s) = (byte c, 1)"
proof (cases "byte c < 128")
  case True
  then show ?thesis using assms by simp
next
  case False
  then have "126 < fst (decode_rune (c # s))"
    by (auto simp: Let_def cont_def split: list.split)
  with assms show ?thesis by simp
qed

lemma runes_ascii: "\<forall>r \<in> set (runes s). r \<le> 126 \<Longrightarrow> runes s = map byte s"
proof (induction s)
  case (Cons c s)
  have "runes (c # s) = fst (decode_rune (c # s)) # runes (drop (snd (decode_rune (c # s))) (c # s))"
    by (subst runes.simps) simp
  with Cons decode_rune_ascii [of c s] show ?case by auto
qed (subst runes.simps, simp)

lemma valid_key_chars:
  assumes "IsValidKey key = None"
  shows "CHR ''-'' \<notin> set key" "CHR ''@'' \<notin> set key" "key \<noteq> []" "length key \<le> 64"
proof -
  have f: "find (\<lambda>c. c < 32 \<or> c > 126 \<or> c = of_char CHR ''-'' \<or> c = of_char CHR ''@'') (runes key) = None"
    and l: "key \<noteq> []" "length key \<le> 64"
    using assms by (auto simp: IsValidKey_def split: if_splits)
  have r: "\<forall>c \<in> set (runes key). 32 \<le> c \<and> c \<le> 126 \<and> c \<noteq> of_char CHR ''-'' \<and> c \<noteq> of_char CHR ''@''"
    using f by (auto simp: find_None_iff not_less)
  then have "runes key = map byte key" by (intro runes_ascii) auto
  with r have "\<forall>c \<in> set key. byte c \<noteq> of_char CHR ''-'' \<and> byte c \<noteq> of_char CHR ''@''" by auto
  then show "CHR ''-'' \<notin> set key" "CHR ''@'' \<notin> set key"
    by (auto simp: byte_def)
  show "key \<noteq> []" "length key \<le> 64" by (fact l)+
qed

lemma split_at_char:
  fixes c :: char
  assumes "c \<notin> set k" and "c \<notin> set k'" and eq: "a @ c # k = a' @ c # k'"
  shows "a = a' \<and> k = k'"
proof -
  have "length a = length a'"
    using LastIndex_append [OF assms(1), of a] LastIndex_append [OF assms(2), of a'] eq by simp
  with eq show ?thesis by simp
qed

lemma modifyGlobalKey_inject:
  "CHR ''-'' \<notin> set k \<Longrightarrow> CHR ''-'' \<notin> set k' \<Longrightarrow>
     modifyGlobalKey c k = modifyGlobalKey c' k' \<longleftrightarrow> c = c' \<and> k = k'"
  using split_at_char [of "CHR ''-''" k k' c c'] by (auto simp: modifyGlobalKey_def)

section \<open>Stored values\<close>

definition wf_value :: "string \<Rightarrow> bool" where
  "wf_value s \<longleftrightarrow> MustUnmarshalWithExtra s \<noteq> None"

lemma string_value_wf: "wf_value (CHR ''s'' # x)"
proof (cases "CHR ''@'' \<in> set x")
  case True
  then obtain a b where x: "x = a @ CHR ''@'' # b" and b: "CHR ''@'' \<notin> set b"
    by (meson split_list_last)
  have "LastIndex CHR ''@'' (CHR ''s'' # x) = Some (Suc (length a))"
    using LastIndex_append [OF b, of "CHR ''s'' # a"] x by simp
  then show ?thesis
    using x by (simp add: wf_value_def MustUnmarshalWithExtra_def UnmarshalWithExtra_def unmarshalInner_def)
next
  case False
  then have "LastIndex CHR ''@'' (CHR ''s'' # x) = None" by (simp add: LastIndex_None)
  then show ?thesis
    by (simp add: wf_value_def MustUnmarshalWithExtra_def UnmarshalWithExtra_def unmarshalInner_def)
qed

lemma nil_value_wf: "wf_value ''n''" "parseValuePayer ''n'' = Some []"
  by (simp_all add: wf_value_def parseValuePayer_def MustUnmarshalWithExtra_def UnmarshalWithExtra_def
      LastIndex_def unmarshalInner_def)

lemma parseValuePayer_wf: "wf_value s \<longleftrightarrow> parseValuePayer s \<noteq> None"
  by (simp add: wf_value_def parseValuePayer_def)

definition stored_string :: "string \<Rightarrow> string \<Rightarrow> string" where
  "stored_string s payer = CHR ''s'' # s @ CHR ''@'' # payer"

lemma stored_string_simps [simp]:
  "stored_string s payer \<noteq> []" "stored_string s payer \<noteq> ''n''" "wf_value (stored_string s payer)"
  "modifyValue (GString s) payer = Some (stored_string s payer)"
  by (simp_all add: stored_string_def string_value_wf modifyValue_def MustMarshal_def Marshal_def)

lemma stored_string_read:
  assumes "CHR ''@'' \<notin> set payer"
  shows "parseValue (stored_string s payer) = Some (GString s)"
    and "parseValuePayer (stored_string s payer) = Some payer"
proof -
  have eq: "stored_string s payer = stored_body (GString s) @ CHR ''@'' # payer"
    by (simp add: stored_string_def)
  show "parseValue (stored_string s payer) = Some (GString s)"
    using Unmarshal_body [OF assms, of "GString s"] unmarshalInner_body [of "GString s"]
    by (simp add: eq parseValue_def MustUnmarshal_def)
  show "parseValuePayer (stored_string s payer) = Some payer"
    using UnmarshalWithExtra_body [OF assms, of "GString s"] unmarshalInner_body [of "GString s"]
    by (simp add: eq parseValuePayer_def MustUnmarshalWithExtra_def)
qed

lemma owner_of_wf: "wf_value v \<Longrightarrow> contract_name h \<noteq> None \<Longrightarrow> owner_of h v \<noteq> None"
  by (auto simp: owner_of_def parseValuePayer_wf split: if_splits)

lemma AddCacheCost_simps [simp]:
  "h_ctx (AddCacheCost h c) = h_ctx h" "h_db (AddCacheCost h c) = h_db h"
  "h_cacheCost (AddCacheCost h c) = AddAssign (h_cacheCost h) c"
  by (simp_all add: AddCacheCost_def)

section \<open>The ledger\<close>

text \<open>
  What the cached cost charges an account, and what an account owns of one stored entry: the
  length of its key and value, if the account is the payer on record (the contract where none is).
\<close>

definition charged :: "Cost \<Rightarrow> string \<Rightarrow> int64" where
  "charged cost who = sum_list (map Val (filter (\<lambda>i. Payer i = who) (DataList cost)))"

definition owned :: "'d Host \<Rightarrow> nat \<Rightarrow> string option \<Rightarrow> string \<Rightarrow> int64" where
  "owned h overhead v who =
     (case v of
        None \<Rightarrow> 0
      | Some s \<Rightarrow> if owner_of h s = Some who then of_nat (length s + overhead) else 0)"

lemma charged_AddAssign: "charged (AddAssign a b) who = charged a who + charged b who"
  by (simp add: charged_def AddAssign_def)

lemma charged_NewCost: "charged (NewCost d n c l) who = sum_list (map Val (filter (\<lambda>i. Payer i = who) l))"
  by (simp add: charged_def NewCost_def)

lemma payRAMInner_ledger:
  fixes old :: "string option"
  assumes "contract_name h = Some c" and "old \<noteq> Some ''n''" and "\<And>s. old = Some s \<Longrightarrow> wf_value s"
    and "owner_of h v = Some payer"
    and oldV: "oldV = (case old of None \<Rightarrow> ''n'' | Some s \<Rightarrow> s)"
  shows "\<exists>h'. payRAMInner h oldV (of_nat (length oldV + k)) (of_nat (length v + k)) payer = Some h' \<and>
           h_ctx h' = h_ctx h \<and> h_db h' = h_db h \<and>
           charged (h_cacheCost h') who - charged (h_cacheCost h) who = owned h k (Some v) who - owned h k old who"
proof (cases old)
  case None
  then show ?thesis
    using assms by (simp add: payRAMInner_def charged_AddAssign charged_NewCost owned_def)
next
  case (Some s)
  then obtain q where q: "owner_of h s = Some q"
    using owner_of_wf [of s h] assms by auto
  have "oldV \<noteq> ''n''" using Some assms by simp
  then show ?thesis
    using Some assms q by (auto simp: payRAMInner_def charged_AddAssign charged_NewCost owned_def)
qed

lemma releaseRAMInner_ledger:
  fixes old :: "string option"
  assumes "contract_name h = Some c" and "old \<noteq> Some ''n''"
    and "\<And>s. old = Some s \<Longrightarrow> \<exists>q. parseValuePayer s = Some q \<and> q \<noteq> []"
    and oldV: "oldV = (case old of None \<Rightarrow> ''n'' | Some s \<Rightarrow> s)"
  shows "\<exists>h'. releaseRAMInner h oldV (of_nat (length oldV + k)) = Some h' \<and>
           h_ctx h' = h_ctx h \<and> h_db h' = h_db h \<and>
           charged (h_cacheCost h') who - charged (h_cacheCost h) who = - owned h k old who"
proof (cases old)
  case None
  then show ?thesis using assms by (simp add: releaseRAMInner_def owned_def)
next
  case (Some s)
  then obtain q where q: "parseValuePayer s = Some q" "q \<noteq> []" using assms(3) by blast
  moreover have "oldV \<noteq> ''n''" using Some assms by simp
  ultimately show ?thesis
    using Some assms by (auto simp: releaseRAMInner_def charged_AddAssign charged_NewCost owned_def owner_of_def)
qed

section \<open>The operations\<close>

text \<open>What a host must be for the running contract \<open>c\<close> to use one of its entries.\<close>

definition entry_ok :: "'d Host \<Rightarrow> string \<Rightarrow> string option \<Rightarrow> bool" where
  "entry_ok h c old \<longleftrightarrow>
     contract_name h = Some c \<and> old \<noteq> Some ''n'' \<and> (\<forall>s. old = Some s \<longrightarrow> wf_value s)"

lemma modifyKey_contract: "contract_name h = Some c \<Longrightarrow> modifyKey h key = modifyGlobalKey c key"
  by (simp add: modifyKey_def)

lemma choose_payer_total:
  assumes "entry_ok h c old" and "oldV = (case old of None \<Rightarrow> ''n'' | Some s \<Rightarrow> s)"
  shows "\<exists>payer. choose_payer h oldV ps = Some payer"
proof (cases ps)
  case Nil
  have "wf_value oldV" using assms nil_value_wf by (auto simp: entry_ok_def split: option.splits)
  then show ?thesis
    using Nil owner_of_wf [of oldV h] assms(1) by (auto simp: choose_payer_def entry_ok_def)
qed (simp add: choose_payer_def)

lemma payRAMInner_total:
  assumes "entry_ok h c old" and "oldV = (case old of None \<Rightarrow> ''n'' | Some s \<Rightarrow> s)"
  shows "\<exists>cost. payRAMInner h oldV oLen nLen payer = Some (AddCacheCost h cost)"
proof (cases old)
  case None
  then show ?thesis using assms by (auto simp: payRAMInner_def)
next
  case (Some s)
  then have "owner_of h oldV \<noteq> None" using assms owner_of_wf [of s h] by (auto simp: entry_ok_def)
  then show ?thesis using assms Some by (auto simp: payRAMInner_def)
qed

lemma releaseRAMInner_total:
  assumes "entry_ok h c old" and "oldV = (case old of None \<Rightarrow> ''n'' | Some s \<Rightarrow> s)"
  shows "\<exists>h'. releaseRAMInner h oldV oLen = Some h' \<and> h_ctx h' = h_ctx h \<and> h_db h' = h_db h"
proof (cases old)
  case None
  then show ?thesis using assms by (auto simp: releaseRAMInner_def)
next
  case (Some s)
  then have "parseValuePayer oldV \<noteq> None" using assms by (simp add: entry_ok_def parseValuePayer_wf)
  then show ?thesis using assms Some by (auto simp: releaseRAMInner_def)
qed

lemma contract_name_ctx: "h_ctx h' = h_ctx h \<Longrightarrow> contract_name h' = contract_name h"
  by (simp add: contract_name_def)

lemma owner_of_ctx: "h_ctx h' = h_ctx h \<Longrightarrow> owner_of h' v = owner_of h v"
  using contract_name_ctx [of h' h] by (simp add: owner_of_def cong: if_cong)

context kv_database
begin

lemma basic_Get_view: "inv d \<Longrightarrow> basic_Get D d k = (case view d (basic_key k) of None \<Rightarrow> ''n'' | Some s \<Rightarrow> s)"
  by (simp add: basic_Get_def kv_laws)

lemma MGet_view: "inv d \<Longrightarrow> MGet D d k f = (case view d (field_key k f) of None \<Rightarrow> ''n'' | Some s \<Rightarrow> s)"
  by (simp add: MGet_def kv_laws)

lemma dbh_Put_string:
  assumes "inv (h_db h)" and "IsValidKey key = None"
    and ok: "entry_ok h c (view (h_db h) (basic_key (modifyGlobalKey c key)))"
  obtains payer h' where
    "choose_payer h (basic_Get D (h_db h) (modifyGlobalKey c key)) ps = Some payer"
    "dbh_Put D h key (GString s) ps = Some (put_cost (stored_string s payer), None, h')"
    "view (h_db h') = (view (h_db h))(basic_key (modifyGlobalKey c key) := Some (stored_string s payer))"
    "inv (h_db h')" "h_ctx h' = h_ctx h" "db_Rules D (h_db h') = db_Rules D (h_db h)"
proof -
  let ?mk = "modifyGlobalKey c key" and ?oldV = "basic_Get D (h_db h) (modifyGlobalKey c key)"
  have oldV: "?oldV = (case view (h_db h) (basic_key ?mk) of None \<Rightarrow> ''n'' | Some s \<Rightarrow> s)"
    by (rule basic_Get_view [OF assms(1)])
  obtain payer where p: "choose_payer h ?oldV ps = Some payer"
    using choose_payer_total [OF ok oldV] by blast
  obtain cost where pay: "payRAM h ?mk (stored_string s payer) ?oldV payer = Some (AddCacheCost h cost)"
    using payRAMInner_total [OF ok oldV] unfolding payRAM_def by blast
  have mk: "modifyKey h key = ?mk" using ok by (simp add: entry_ok_def modifyKey_contract)
  let ?h = "(AddCacheCost h cost)\<lparr>h_db := basic_Put D (h_db h) ?mk (stored_string s payer)\<rparr>"
  have "dbh_Put D h key (GString s) ps = Some (put_cost (stored_string s payer), None, ?h)"
    using assms(2) p pay by (simp add: dbh_Put_def mk)
  moreover have "view (h_db ?h) = (view (h_db h))(basic_key ?mk := Some (stored_string s payer))"
    "inv (h_db ?h)" "db_Rules D (h_db ?h) = db_Rules D (h_db h)"
    using assms(1) by (simp_all add: basic_Put_def kv_laws)
  ultimately show ?thesis using p by (intro that [of payer ?h]) simp_all
qed

lemma dbh_Get_string:
  assumes "inv (h_db h)" "contract_name h = Some c" "CHR ''@'' \<notin> set payer"
    and "view (h_db h) (basic_key (modifyGlobalKey c key)) = Some (stored_string s payer)"
  shows "dbh_Get D h key = Some (GString s, GetCost)"
  using assms by (simp add: dbh_Get_def modifyKey_contract basic_Get_view stored_string_read)

lemma dbh_Put_ledger:
  assumes "inv (h_db h)" and "IsValidKey key = None"
    and ok: "entry_ok h c (view (h_db h) (basic_key (modifyGlobalKey c key)))"
    and p: "choose_payer h (basic_Get D (h_db h) (modifyGlobalKey c key)) ps = Some payer"
      "payer \<noteq> []" "CHR ''@'' \<notin> set payer"
    and put: "dbh_Put D h key (GString s) ps = Some (cost, None, h')"
  shows "charged (h_cacheCost h') who - charged (h_cacheCost h) who =
           owned h (length (modifyGlobalKey c key)) (view (h_db h') (basic_key (modifyGlobalKey c key))) who
         - owned h (length (modifyGlobalKey c key)) (view (h_db h) (basic_key (modifyGlobalKey c key))) who"
proof -
  let ?mk = "modifyGlobalKey c key" and ?v = "stored_string s payer"
  let ?oldV = "basic_Get D (h_db h) (modifyGlobalKey c key)"
  have oldV: "?oldV = (case view (h_db h) (basic_key ?mk) of None \<Rightarrow> ''n'' | Some s \<Rightarrow> s)"
    by (rule basic_Get_view [OF assms(1)])
  have own: "owner_of h ?v = Some payer"
    using p by (simp add: owner_of_def stored_string_read)
  obtain h1 where h1: "payRAM h ?mk ?v ?oldV payer = Some h1" "h_db h1 = h_db h"
    "charged (h_cacheCost h1) who - charged (h_cacheCost h) who =
       owned h (length ?mk) (Some ?v) who - owned h (length ?mk) (view (h_db h) (basic_key ?mk)) who"
    using payRAMInner_ledger [OF _ _ _ own oldV, of c "length ?mk" who] ok
    unfolding payRAM_def entry_ok_def by blast
  have "h' = h1\<lparr>h_db := basic_Put D (h_db h) ?mk ?v\<rparr>"
    using put assms(2) p h1(1,2) ok by (auto simp: dbh_Put_def entry_ok_def modifyKey_contract)
  then show ?thesis
    using h1(3) assms(1) by (simp add: basic_Put_def kv_laws)
qed

lemma dbh_Del_view:
  assumes "inv (h_db h)" and "IsValidKey key = None"
    and ok: "entry_ok h c (view (h_db h) (basic_key (modifyGlobalKey c key)))"
  obtains h' where
    "dbh_Del D h key = Some (DelCost, None, h')"
    "view (h_db h') = (view (h_db h))(basic_key (modifyGlobalKey c key) := None)"
    "inv (h_db h')" "h_ctx h' = h_ctx h"
proof -
  let ?mk = "modifyGlobalKey c key"
  obtain h1 where h1: "releaseRAM D h ?mk = Some h1" "h_ctx h1 = h_ctx h" "h_db h1 = h_db h"
    using releaseRAMInner_total [OF ok basic_Get_view [OF assms(1)]]
    unfolding releaseRAM_def Let_def by blast
  moreover have "modifyKey h key = ?mk" using ok by (simp add: entry_ok_def modifyKey_contract)
  ultimately have "dbh_Del D h key = Some (DelCost, None, h1\<lparr>h_db := basic_Del D (h_db h) ?mk\<rparr>)"
    using assms(2) by (simp add: dbh_Del_def)
  then show ?thesis
    by (rule that) (use assms(1) h1 in \<open>simp_all add: basic_Del_def kv_laws\<close>)
qed

lemma dbh_Del_ledger:
  assumes "inv (h_db h)" and "IsValidKey key = None"
    and ok: "entry_ok h c (view (h_db h) (basic_key (modifyGlobalKey c key)))"
    and q: "\<And>s. view (h_db h) (basic_key (modifyGlobalKey c key)) = Some s \<Longrightarrow>
              \<exists>q. parseValuePayer s = Some q \<and> q \<noteq> []"
    and del: "dbh_Del D h key = Some (cost, None, h')"
  shows "charged (h_cacheCost h') who - charged (h_cacheCost h) who =
           - owned h (length (modifyGlobalKey c key)) (view (h_db h) (basic_key (modifyGlobalKey c key))) who"
proof -
  let ?mk = "modifyGlobalKey c key"
  have len: "length ?mk + n = n + length ?mk" for n by simp
  obtain h1 where h1: "releaseRAM D h ?mk = Some h1"
    "charged (h_cacheCost h1) who - charged (h_cacheCost h) who =
       - owned h (length ?mk) (view (h_db h) (basic_key ?mk)) who"
    using releaseRAMInner_ledger [where k = "length ?mk" and who = who, OF _ _ q basic_Get_view [OF assms(1)]] ok
    unfolding releaseRAM_def Let_def entry_ok_def len by blast
  have "h_cacheCost h' = h_cacheCost h1"
    using del assms(2) h1(1) ok by (auto simp: dbh_Del_def entry_ok_def modifyKey_contract)
  then show ?thesis using h1(2) by simp
qed

end

end
