(* ===== verification/StorageApi.thy ===== *)
theory StorageApi
  imports Bridge
begin

text \<open>
  \<^verbatim>\<open>vm/v8vm/v8/storage.h\<close> and \<^verbatim>\<open>storage.cc\<close>: the \<^verbatim>\<open>IOSTStorage\<close> object through which a
  contract reads and writes its state. The sixteen function pointers that Go installs are
  a table (null until \<^verbatim>\<open>InitGoStorage\<close> runs); each has a method that calls it and
  accounts its gas, and a callback that checks the JavaScript arguments, calls the method
  and delivers the result. The locale \<open>storage_callbacks\<close> states what the callbacks rely
  on; in it each callback is proved to refine its abstract call.
\<close>

section \<open>The function pointers\<close>

type_synonym 'h putFunc = "nat \<Rightarrow> CStr \<Rightarrow> CStr \<Rightarrow> CStr \<Rightarrow> (unit, 'h) gocall"
type_synonym 'h hasFunc = "nat \<Rightarrow> CStr \<Rightarrow> CStr \<Rightarrow> (bool cell, 'h) gocall"
type_synonym 'h getFunc = "nat \<Rightarrow> CStr \<Rightarrow> CStr \<Rightarrow> (CStr, 'h) gocall"
type_synonym 'h delFunc = "nat \<Rightarrow> CStr \<Rightarrow> CStr \<Rightarrow> (unit, 'h) gocall"
type_synonym 'h mapPutFunc = "nat \<Rightarrow> CStr \<Rightarrow> CStr \<Rightarrow> CStr \<Rightarrow> CStr \<Rightarrow> (unit, 'h) gocall"
type_synonym 'h mapHasFunc = "nat \<Rightarrow> CStr \<Rightarrow> CStr \<Rightarrow> CStr \<Rightarrow> (bool cell, 'h) gocall"
type_synonym 'h mapGetFunc = "nat \<Rightarrow> CStr \<Rightarrow> CStr \<Rightarrow> CStr \<Rightarrow> (CStr, 'h) gocall"
type_synonym 'h mapDelFunc = "nat \<Rightarrow> CStr \<Rightarrow> CStr \<Rightarrow> CStr \<Rightarrow> (unit, 'h) gocall"
type_synonym 'h mapKeysFunc = "nat \<Rightarrow> CStr \<Rightarrow> CStr \<Rightarrow> (CStr, 'h) gocall"
type_synonym 'h mapLenFunc = "nat \<Rightarrow> CStr \<Rightarrow> CStr \<Rightarrow> (size_t cell, 'h) gocall"
type_synonym 'h globalHasFunc = "nat \<Rightarrow> CStr \<Rightarrow> CStr \<Rightarrow> CStr \<Rightarrow> (bool cell, 'h) gocall"
type_synonym 'h globalGetFunc = "nat \<Rightarrow> CStr \<Rightarrow> CStr \<Rightarrow> CStr \<Rightarrow> (CStr, 'h) gocall"
type_synonym 'h globalMapHasFunc = "nat \<Rightarrow> CStr \<Rightarrow> CStr \<Rightarrow> CStr \<Rightarrow> CStr \<Rightarrow> (bool cell, 'h) gocall"
type_synonym 'h globalMapGetFunc = "nat \<Rightarrow> CStr \<Rightarrow> CStr \<Rightarrow> CStr \<Rightarrow> CStr \<Rightarrow> (CStr, 'h) gocall"
type_synonym 'h globalMapKeysFunc = "nat \<Rightarrow> CStr \<Rightarrow> CStr \<Rightarrow> CStr \<Rightarrow> (CStr, 'h) gocall"
type_synonym 'h globalMapLenFunc = "nat \<Rightarrow> CStr \<Rightarrow> CStr \<Rightarrow> CStr \<Rightarrow> (size_t cell, 'h) gocall"

record 'h storage_table =
  CPut :: "'h putFunc option"
  CHas :: "'h hasFunc option"
  CGet :: "'h getFunc option"
  CDel :: "'h delFunc option"
  CMapPut :: "'h mapPutFunc option"
  CMapHas :: "'h mapHasFunc option"
  CMapGet :: "'h mapGetFunc option"
  CMapDel :: "'h mapDelFunc option"
  CMapKeys :: "'h mapKeysFunc option"
  CMapLen :: "'h mapLenFunc option"
  CGHas :: "'h globalHasFunc option"
  CGGet :: "'h globalGetFunc option"
  CGMapHas :: "'h globalMapHasFunc option"
  CGMapGet :: "'h globalMapGetFunc option"
  CGMapKeys :: "'h globalMapKeysFunc option"
  CGMapLen :: "'h globalMapLenFunc option"

text \<open>The static pointers before and after the node has installed its functions.\<close>

definition null_storage_table :: "'h storage_table" where
  "null_storage_table =
     \<lparr>CPut = None, CHas = None, CGet = None, CDel = None, CMapPut = None, CMapHas = None, CMapGet = None, CMapDel = None, CMapKeys = None, CMapLen = None, CGHas = None, CGGet = None, CGMapHas = None, CGMapGet = None, CGMapKeys = None, CGMapLen = None\<rparr>"

definition InitGoStorage ::
  "'h putFunc \<Rightarrow> 'h hasFunc \<Rightarrow> 'h getFunc \<Rightarrow> 'h delFunc \<Rightarrow> 'h mapPutFunc \<Rightarrow> 'h mapHasFunc \<Rightarrow> 'h mapGetFunc \<Rightarrow> 'h mapDelFunc \<Rightarrow> 'h mapKeysFunc \<Rightarrow> 'h mapLenFunc \<Rightarrow> 'h globalHasFunc \<Rightarrow> 'h globalGetFunc \<Rightarrow> 'h globalMapHasFunc \<Rightarrow> 'h globalMapGetFunc \<Rightarrow> 'h globalMapKeysFunc \<Rightarrow> 'h globalMapLenFunc \<Rightarrow> 'h storage_table" where
  "InitGoStorage put has get del mput mhas mget mdel mkeys mlen ghas gget gmhas gmget gmkeys gmlen =
     \<lparr>CPut = Some put, CHas = Some has, CGet = Some get, CDel = Some del, CMapPut = Some mput, CMapHas = Some mhas, CMapGet = Some mget, CMapDel = Some mdel, CMapKeys = Some mkeys, CMapLen = Some mlen, CGHas = Some ghas, CGGet = Some gget, CGMapHas = Some gmhas, CGMapGet = Some gmget, CGMapKeys = Some gmkeys, CGMapLen = Some gmlen\<rparr>"

section \<open>The methods of IOSTContractStorage\<close>

definition ics_Put ::
  "'h storage_table \<Rightarrow> CStr \<Rightarrow> CStr \<Rightarrow> CStr \<Rightarrow> 'h world \<Rightarrow> (char_ptr \<times> unit \<times> 'h world) option" where
  "ics_Put C key value ramPayer w =
     bridge_call (map_option (\<lambda>f. f (w_sbxPtr w) key value ramPayer) (CPut C)) () (Some 0) w"

definition ics_Has ::
  "'h storage_table \<Rightarrow> CStr \<Rightarrow> CStr \<Rightarrow> 'h world \<Rightarrow> (char_ptr \<times> bool cell \<times> 'h world) option" where
  "ics_Has C key ramPayer w =
     bridge_call (map_option (\<lambda>f. f (w_sbxPtr w) key ramPayer) (CHas C)) None (Some 0) w"

definition ics_Get ::
  "'h storage_table \<Rightarrow> CStr \<Rightarrow> CStr \<Rightarrow> 'h world \<Rightarrow> (char_ptr \<times> CStr \<times> 'h world) option" where
  "ics_Get C key ramPayer w =
     bridge_call (map_option (\<lambda>f. f (w_sbxPtr w) key ramPayer) (CGet C)) null_CStr (Some 0) w"

definition ics_Del ::
  "'h storage_table \<Rightarrow> CStr \<Rightarrow> CStr \<Rightarrow> 'h world \<Rightarrow> (char_ptr \<times> unit \<times> 'h world) option" where
  "ics_Del C key ramPayer w =
     bridge_call (map_option (\<lambda>f. f (w_sbxPtr w) key ramPayer) (CDel C)) () (Some 0) w"

definition ics_MapPut ::
  "'h storage_table \<Rightarrow> CStr \<Rightarrow> CStr \<Rightarrow> CStr \<Rightarrow> CStr \<Rightarrow> 'h world \<Rightarrow> (char_ptr \<times> unit \<times> 'h world) option" where
  "ics_MapPut C key field value ramPayer w =
     bridge_call (map_option (\<lambda>f. f (w_sbxPtr w) key field value ramPayer) (CMapPut C)) () (Some 0) w"

definition ics_MapHas ::
  "'h storage_table \<Rightarrow> CStr \<Rightarrow> CStr \<Rightarrow> CStr \<Rightarrow> 'h world \<Rightarrow> (char_ptr \<times> bool cell \<times> 'h world) option" where
  "ics_MapHas C key field ramPayer w =
     bridge_call (map_option (\<lambda>f. f (w_sbxPtr w) key field ramPayer) (CMapHas C)) None (Some 0) w"

definition ics_MapGet ::
  "'h storage_table \<Rightarrow> CStr \<Rightarrow> CStr \<Rightarrow> CStr \<Rightarrow> 'h world \<Rightarrow> (char_ptr \<times> CStr \<times> 'h world) option" where
  "ics_MapGet C key field ramPayer w =
     bridge_call (map_option (\<lambda>f. f (w_sbxPtr w) key field ramPayer) (CMapGet C)) null_CStr (Some 0) w"

definition ics_MapDel ::
  "'h storage_table \<Rightarrow> CStr \<Rightarrow> CStr \<Rightarrow> CStr \<Rightarrow> 'h world \<Rightarrow> (char_ptr \<times> unit \<times> 'h world) option" where
  "ics_MapDel C key field ramPayer w =
     bridge_call (map_option (\<lambda>f. f (w_sbxPtr w) key field ramPayer) (CMapDel C)) () (Some 0) w"

definition ics_MapKeys ::
  "'h storage_table \<Rightarrow> CStr \<Rightarrow> CStr \<Rightarrow> 'h world \<Rightarrow> (char_ptr \<times> CStr \<times> 'h world) option" where
  "ics_MapKeys C key ramPayer w =
     bridge_call (map_option (\<lambda>f. f (w_sbxPtr w) key ramPayer) (CMapKeys C)) null_CStr (Some 0) w"

definition ics_MapLen ::
  "'h storage_table \<Rightarrow> CStr \<Rightarrow> CStr \<Rightarrow> 'h world \<Rightarrow> (char_ptr \<times> size_t cell \<times> 'h world) option" where
  "ics_MapLen C key ramPayer w =
     bridge_call (map_option (\<lambda>f. f (w_sbxPtr w) key ramPayer) (CMapLen C)) None (Some 0) w"

definition ics_GlobalHas ::
  "'h storage_table \<Rightarrow> CStr \<Rightarrow> CStr \<Rightarrow> CStr \<Rightarrow> 'h world \<Rightarrow> (char_ptr \<times> bool cell \<times> 'h world) option" where
  "ics_GlobalHas C contract key ramPayer w =
     bridge_call (map_option (\<lambda>f. f (w_sbxPtr w) contract key ramPayer) (CGHas C)) None (Some 0) w"

definition ics_GlobalGet ::
  "'h storage_table \<Rightarrow> CStr \<Rightarrow> CStr \<Rightarrow> CStr \<Rightarrow> 'h world \<Rightarrow> (char_ptr \<times> CStr \<times> 'h world) option" where
  "ics_GlobalGet C contract key ramPayer w =
     bridge_call (map_option (\<lambda>f. f (w_sbxPtr w) contract key ramPayer) (CGGet C)) null_CStr (Some 0) w"

definition ics_GlobalMapHas ::
  "'h storage_table \<Rightarrow> CStr \<Rightarrow> CStr \<Rightarrow> CStr \<Rightarrow> CStr \<Rightarrow> 'h world \<Rightarrow> (char_ptr \<times> bool cell \<times> 'h world) option" where
  "ics_GlobalMapHas C contract key field ramPayer w =
     bridge_call (map_option (\<lambda>f. f (w_sbxPtr w) contract key field ramPayer) (CGMapHas C)) None (Some 0) w"

definition ics_GlobalMapGet ::
  "'h storage_table \<Rightarrow> CStr \<Rightarrow> CStr \<Rightarrow> CStr \<Rightarrow> CStr \<Rightarrow> 'h world \<Rightarrow> (char_ptr \<times> CStr \<times> 'h world) option" where
  "ics_GlobalMapGet C contract key field ramPayer w =
     bridge_call (map_option (\<lambda>f. f (w_sbxPtr w) contract key field ramPayer) (CGMapGet C)) null_CStr (Some 0) w"

definition ics_GlobalMapKeys ::
  "'h storage_table \<Rightarrow> CStr \<Rightarrow> CStr \<Rightarrow> CStr \<Rightarrow> 'h world \<Rightarrow> (char_ptr \<times> CStr \<times> 'h world) option" where
  "ics_GlobalMapKeys C contract key ramPayer w =
     bridge_call (map_option (\<lambda>f. f (w_sbxPtr w) contract key ramPayer) (CGMapKeys C)) null_CStr (Some 0) w"

definition ics_GlobalMapLen ::
  "'h storage_table \<Rightarrow> CStr \<Rightarrow> CStr \<Rightarrow> CStr \<Rightarrow> 'h world \<Rightarrow> (char_ptr \<times> size_t cell \<times> 'h world) option" where
  "ics_GlobalMapLen C contract key ramPayer w =
     bridge_call (map_option (\<lambda>f. f (w_sbxPtr w) contract key ramPayer) (CGMapLen C)) None (Some 0) w"

section \<open>The callbacks\<close>

text \<open>
  The constructor: the global object's internal field leads to the sandbox, whose storage
  component becomes the new object's internal field.
\<close>

definition NewIOSTContractStorage :: "callback_info \<Rightarrow> 'h act" where
  "NewIOSTContractStorage args w =
     (case w_global w of
        IFUnset \<Rightarrow> print_line ''NewIOSTContractStorage val error'' w
      | IFExternal c \<Rightarrow>
          if c = CSandbox
          then set_ret (JObject (ci_holder args))
                 (w\<lparr>w_fields := (w_fields w)(ci_holder args := IFExternal CStorage)\<rparr>)
          else None)"

definition IOSTContractStorage_Put :: "v8_api \<Rightarrow> 'h storage_table \<Rightarrow> callback_info \<Rightarrow> 'h act" where
  "IOSTContractStorage_Put v C args =
     (let key = arg args 0; val = arg args 1; ramPayer = arg args 2 in
      if length (ci_args args) \<noteq> 3 then throw_error v ''IOSTContractStorage_Put invalid argument length.''
      else if \<not> IsString key then throw_error v ''IOSTContractStorage_Put key must be string.''
      else if \<not> IsString val then throw_error v ''IOSTContractStorage_Put value must be string.''
      else if \<not> IsString val then throw_error v ''IOSTContractStorage_Put ramPayer must be string.''
      else
        NewCStrChecked v key (\<lambda>keyStr.
        NewCStrChecked v val (\<lambda>valStr.
        NewCStrChecked v ramPayer (\<lambda>ramPayerStr.
        with_holder CStorage args ''IOSTContractStorage_Put val error''
          (finish_call v (ics_Put C keyStr valStr ramPayerStr) ret_null)))))"

definition IOSTContractStorage_Has :: "v8_api \<Rightarrow> 'h storage_table \<Rightarrow> callback_info \<Rightarrow> 'h act" where
  "IOSTContractStorage_Has v C args =
     (let key = arg args 0; ramPayer = arg args 1 in
      if length (ci_args args) \<noteq> 2 then throw_error v ''IOSTContractStorage_Has invalid argument length''
      else if \<not> IsString key then throw_error v ''IOSTContractStorage_Has key must be string''
      else if \<not> IsString ramPayer then throw_error v ''IOSTContractStorage_Has ramPayer must be string.''
      else
        NewCStrChecked v key (\<lambda>keyStr.
        NewCStrChecked v ramPayer (\<lambda>ramPayerStr.
        with_holder CStorage args ''IOSTContractStorage_Has val error''
          (finish_call v (ics_Has C keyStr ramPayerStr) ret_bool))))"

definition IOSTContractStorage_Get :: "v8_api \<Rightarrow> 'h storage_table \<Rightarrow> callback_info \<Rightarrow> 'h act" where
  "IOSTContractStorage_Get v C args =
     (let key = arg args 0; ramPayer = arg args 1 in
      if length (ci_args args) \<noteq> 2 then throw_error v ''IOSTContractStorage_Get invalid argument length''
      else if \<not> IsString key then throw_error v ''IOSTContractStorage_Get key must be string''
      else if \<not> IsString ramPayer then throw_error v ''IOSTContractStorage_Get ramPayer must be string.''
      else
        NewCStrChecked v key (\<lambda>keyStr.
        NewCStrChecked v ramPayer (\<lambda>ramPayerStr.
        with_holder CStorage args ''IOSTContractStorage_Get val error''
          (finish_call v (ics_Get C keyStr ramPayerStr) (ret_string_or_null v)))))"

definition IOSTContractStorage_Del :: "v8_api \<Rightarrow> 'h storage_table \<Rightarrow> callback_info \<Rightarrow> 'h act" where
  "IOSTContractStorage_Del v C args =
     (let key = arg args 0; ramPayer = arg args 1 in
      if length (ci_args args) \<noteq> 2 then throw_error v ''IOSTContractStorage_Del invalid argument length.''
      else if \<not> IsString key then throw_error v ''IOSTContractStorage_Del key must be string.''
      else if \<not> IsString ramPayer then throw_error v ''IOSTContractStorage_Del ramPayer must be string.''
      else
        NewCStrChecked v key (\<lambda>keyStr.
        NewCStrChecked v ramPayer (\<lambda>ramPayerStr.
        with_holder CStorage args ''IOSTContractStorage_Del val error''
          (finish_call v (ics_Del C keyStr ramPayerStr) ret_null))))"

definition IOSTContractStorage_MapPut :: "v8_api \<Rightarrow> 'h storage_table \<Rightarrow> callback_info \<Rightarrow> 'h act" where
  "IOSTContractStorage_MapPut v C args =
     (let key = arg args 0; field = arg args 1; val = arg args 2; ramPayer = arg args 3 in
      if length (ci_args args) \<noteq> 4 then throw_error v ''IOSTContractStorage_MapPut invalid argument length.''
      else if \<not> IsString key then throw_error v ''IOSTContractStorage_MapPut key must be string.''
      else if \<not> IsString field then throw_error v ''IOSTContractStorage_MapPut key must be string.''
      else if \<not> IsString val then throw_error v ''IOSTContractStorage_MapPut value must be string.''
      else if \<not> IsString val then throw_error v ''IOSTContractStorage_MapPut ramPayer must be string.''
      else
        NewCStrChecked v key (\<lambda>keyStr.
        NewCStrChecked v field (\<lambda>fieldStr.
        NewCStrChecked v val (\<lambda>valStr.
        NewCStrChecked v ramPayer (\<lambda>ramPayerStr.
        with_holder CStorage args ''IOSTContractStorage_MapPut val error''
          (finish_call v (ics_MapPut C keyStr fieldStr valStr ramPayerStr) ret_null))))))"

definition IOSTContractStorage_MapHas :: "v8_api \<Rightarrow> 'h storage_table \<Rightarrow> callback_info \<Rightarrow> 'h act" where
  "IOSTContractStorage_MapHas v C args =
     (let key = arg args 0; field = arg args 1; ramPayer = arg args 2 in
      if length (ci_args args) \<noteq> 3 then throw_error v ''IOSTContractStorage_MapHas invalid argument length''
      else if \<not> IsString key then throw_error v ''IOSTContractStorage_MapHas key must be string''
      else if \<not> IsString field then throw_error v ''IOSTContractStorage_MapHas key must be string''
      else if \<not> IsString ramPayer then throw_error v ''IOSTContractStorage_MapHas ramPayer must be string.''
      else
        NewCStrChecked v key (\<lambda>keyStr.
        NewCStrChecked v field (\<lambda>fieldStr.
        NewCStrChecked v ramPayer (\<lambda>ramPayerStr.
        with_holder CStorage args ''IOSTContractStorage_MapHas val error''
          (finish_call v (ics_MapHas C keyStr fieldStr ramPayerStr) ret_bool)))))"

definition IOSTContractStorage_MapGet :: "v8_api \<Rightarrow> 'h storage_table \<Rightarrow> callback_info \<Rightarrow> 'h act" where
  "IOSTContractStorage_MapGet v C args =
     (let key = arg args 0; field = arg args 1; ramPayer = arg args 2 in
      if length (ci_args args) \<noteq> 3 then throw_error v ''IOSTContractStorage_MapGet invalid argument length''
      else if \<not> IsString key then throw_error v ''IOSTContractStorage_MapGet key must be string''
      else if \<not> IsString field then throw_error v ''IOSTContractStorage_MapGet key must be string''
      else if \<not> IsString ramPayer then throw_error v ''IOSTContractStorage_MapGet ramPayer must be string.''
      else
        NewCStrChecked v key (\<lambda>keyStr.
        NewCStrChecked v field (\<lambda>fieldStr.
        NewCStrChecked v ramPayer (\<lambda>ramPayerStr.
        with_holder CStorage args ''IOSTContractStorage_MapGet val error''
          (finish_call v (ics_MapGet C keyStr fieldStr ramPayerStr) (ret_string_or_null v))))))"

definition IOSTContractStorage_MapDel :: "v8_api \<Rightarrow> 'h storage_table \<Rightarrow> callback_info \<Rightarrow> 'h act" where
  "IOSTContractStorage_MapDel v C args =
     (let key = arg args 0; field = arg args 1; ramPayer = arg args 2 in
      if length (ci_args args) \<noteq> 3 then throw_error v ''IOSTContractStorage_MapDel invalid argument length''
      else if \<not> IsString key then throw_error v ''IOSTContractStorage_MapDel key must be string''
      else if \<not> IsString field then throw_error v ''IOSTContractStorage_MapDel key must be string''
      else if \<not> IsString ramPayer then throw_error v ''IOSTContractStorage_MapDel ramPayer must be string.''
      else
        NewCStrChecked v key (\<lambda>keyStr.
        NewCStrChecked v field (\<lambda>fieldStr.
        NewCStrChecked v ramPayer (\<lambda>ramPayerStr.
        with_holder CStorage args ''IOSTContractStorage_MapDel val error''
          (finish_call v (ics_MapDel C keyStr fieldStr ramPayerStr) ret_null)))))"

definition IOSTContractStorage_MapKeys :: "v8_api \<Rightarrow> 'h storage_table \<Rightarrow> callback_info \<Rightarrow> 'h act" where
  "IOSTContractStorage_MapKeys v C args =
     (let key = arg args 0; ramPayer = arg args 1 in
      if length (ci_args args) \<noteq> 2 then throw_error v ''IOSTContractStorage_MapKeys invalid argument length''
      else if \<not> IsString key then throw_error v ''IOSTContractStorage_MapKeys key must be string''
      else if \<not> IsString ramPayer then throw_error v ''IOSTContractStorage_MapKeys ramPayer must be string.''
      else
        NewCStrChecked v key (\<lambda>keyStr.
        NewCStrChecked v ramPayer (\<lambda>ramPayerStr.
        with_holder CStorage args ''IOSTContractStorage_MapKeys val error''
          (finish_call v (ics_MapKeys C keyStr ramPayerStr) (ret_string v)))))"

definition IOSTContractStorage_MapLen :: "v8_api \<Rightarrow> 'h storage_table \<Rightarrow> callback_info \<Rightarrow> 'h act" where
  "IOSTContractStorage_MapLen v C args =
     (let key = arg args 0; ramPayer = arg args 1 in
      if length (ci_args args) \<noteq> 2 then throw_error v ''IOSTContractStorage_MapLen invalid argument length''
      else if \<not> IsString key then throw_error v ''IOSTContractStorage_MapLen key must be string''
      else if \<not> IsString ramPayer then throw_error v ''IOSTContractStorage_MapLen ramPayer must be string.''
      else
        NewCStrChecked v key (\<lambda>keyStr.
        NewCStrChecked v ramPayer (\<lambda>ramPayerStr.
        with_holder CStorage args ''IOSTContractStorage_MapLen val error''
          (finish_call v (ics_MapLen C keyStr ramPayerStr) ret_int))))"

definition IOSTContractStorage_GlobalHas :: "v8_api \<Rightarrow> 'h storage_table \<Rightarrow> callback_info \<Rightarrow> 'h act" where
  "IOSTContractStorage_GlobalHas v C args =
     (let contract = arg args 0; key = arg args 1; ramPayer = arg args 2 in
      if length (ci_args args) \<noteq> 3 then throw_error v ''IOSTContractStorage_GlobalHas invalid argument length''
      else if \<not> IsString contract then throw_error v ''IOSTContractStorage_GlobalHas contract must be string''
      else if \<not> IsString key then throw_error v ''IOSTContractStorage_GlobalHas key must be string''
      else if \<not> IsString ramPayer then throw_error v ''IOSTContractStorage_GlobalHas ramPayer must be string.''
      else
        NewCStrChecked v contract (\<lambda>contractStr.
        NewCStrChecked v key (\<lambda>keyStr.
        NewCStrChecked v ramPayer (\<lambda>ramPayerStr.
        with_holder CStorage args ''IOSTContractStorage_GlobalHas val error''
          (finish_call v (ics_GlobalHas C contractStr keyStr ramPayerStr) ret_bool)))))"

definition IOSTContractStorage_GlobalGet :: "v8_api \<Rightarrow> 'h storage_table \<Rightarrow> callback_info \<Rightarrow> 'h act" where
  "IOSTContractStorage_GlobalGet v C args =
     (let contract = arg args 0; key = arg args 1; ramPayer = arg args 2 in
      if length (ci_args args) \<noteq> 3 then throw_error v ''IOSTContractStorage_GlobalGet invalid argument length''
      else if \<not> IsString contract then throw_error v ''IOSTContractStorage_GlobalGet contract must be string''
      else if \<not> IsString key then throw_error v ''IOSTContractStorage_GlobalGet key must be string''
      else if \<not> IsString ramPayer then throw_error v ''IOSTContractStorage_GlobalGet ramPayer must be string.''
      else
        NewCStrChecked v contract (\<lambda>contractStr.
        NewCStrChecked v key (\<lambda>keyStr.
        NewCStrChecked v ramPayer (\<lambda>ramPayerStr.
        with_holder CStorage args ''IOSTContractStorage_GlobalGet val error''
          (finish_call v (ics_GlobalGet C contractStr keyStr ramPayerStr) (ret_string_or_null v))))))"

definition IOSTContractStorage_GlobalMapHas :: "v8_api \<Rightarrow> 'h storage_table \<Rightarrow> callback_info \<Rightarrow> 'h act" where
  "IOSTContractStorage_GlobalMapHas v C args =
     (let contract = arg args 0; key = arg args 1; field = arg args 2; ramPayer = arg args 3 in
      if length (ci_args args) \<noteq> 4 then throw_error v ''IOSTContractStorage_GlobalMapHas invalid argument length''
      else if \<not> IsString contract then throw_error v ''IOSTContractStorage_GlobalMapHas contract must be string''
      else if \<not> IsString key then throw_error v ''IOSTContractStorage_GlobalMapHas key must be string''
      else if \<not> IsString field then throw_error v ''IOSTContractStorage_GlobalMapHas field must be string''
      else if \<not> IsString ramPayer then throw_error v ''IOSTContractStorage_GlobalMapHas ramPayer must be string.''
      else
        NewCStrChecked v contract (\<lambda>contractStr.
        NewCStrChecked v key (\<lambda>keyStr.
        NewCStrChecked v field (\<lambda>fieldStr.
        NewCStrChecked v ramPayer (\<lambda>ramPayerStr.
        with_holder CStorage args ''IOSTContractStorage_GlobalMapHas val error''
          (finish_call v (ics_GlobalMapHas C contractStr keyStr fieldStr ramPayerStr) ret_bool))))))"

definition IOSTContractStorage_GlobalMapGet :: "v8_api \<Rightarrow> 'h storage_table \<Rightarrow> callback_info \<Rightarrow> 'h act" where
  "IOSTContractStorage_GlobalMapGet v C args =
     (let contract = arg args 0; key = arg args 1; field = arg args 2; ramPayer = arg args 3 in
      if length (ci_args args) \<noteq> 4 then throw_error v ''IOSTContractStorage_GlobalMapGet invalid argument length''
      else if \<not> IsString contract then throw_error v ''IOSTContractStorage_GlobalMapGet contract must be string''
      else if \<not> IsString key then throw_error v ''IOSTContractStorage_GlobalMapGet key must be string''
      else if \<not> IsString field then throw_error v ''IOSTContractStorage_GlobalMapGet field must be string''
      else if \<not> IsString ramPayer then throw_error v ''IOSTContractStorage_GlobalMapGet ramPayer must be string.''
      else
        NewCStrChecked v contract (\<lambda>contractStr.
        NewCStrChecked v key (\<lambda>keyStr.
        NewCStrChecked v field (\<lambda>fieldStr.
        NewCStrChecked v ramPayer (\<lambda>ramPayerStr.
        with_holder CStorage args ''IOSTContractStorage_GlobalMapGet val error''
          (finish_call v (ics_GlobalMapGet C contractStr keyStr fieldStr ramPayerStr) (ret_string_or_null v)))))))"

definition IOSTContractStorage_GlobalMapKeys :: "v8_api \<Rightarrow> 'h storage_table \<Rightarrow> callback_info \<Rightarrow> 'h act" where
  "IOSTContractStorage_GlobalMapKeys v C args =
     (let contract = arg args 0; key = arg args 1; ramPayer = arg args 2 in
      if length (ci_args args) \<noteq> 3 then throw_error v ''IOSTContractStorage_GlobalMapKeys invalid argument length''
      else if \<not> IsString contract then throw_error v ''IOSTContractStorage_GlobalMapKeys contract must be string''
      else if \<not> IsString key then throw_error v ''IOSTContractStorage_GlobalMapKeys key must be string''
      else if \<not> IsString ramPayer then throw_error v ''IOSTContractStorage_GlobalMapKeys ramPayer must be string.''
      else
        NewCStrChecked v contract (\<lambda>contractStr.
        NewCStrChecked v key (\<lambda>keyStr.
        NewCStrChecked v ramPayer (\<lambda>ramPayerStr.
        with_holder CStorage args ''IOSTContractStorage_GlobalMapKeys val error''
          (finish_call v (ics_GlobalMapKeys C contractStr keyStr ramPayerStr) (ret_string v))))))"

definition IOSTContractStorage_GlobalMapLen :: "v8_api \<Rightarrow> 'h storage_table \<Rightarrow> callback_info \<Rightarrow> 'h act" where
  "IOSTContractStorage_GlobalMapLen v C args =
     (let contract = arg args 0; key = arg args 1; ramPayer = arg args 2 in
      if length (ci_args args) \<noteq> 3 then throw_error v ''IOSTContractStorage_GlobalMapLen invalid argument length''
      else if \<not> IsString contract then throw_error v ''IOSTContractStorage_GlobalMapLen contract must be string''
      else if \<not> IsString key then throw_error v ''IOSTContractStorage_GlobalMapLen key must be string''
      else if \<not> IsString ramPayer then throw_error v ''IOSTContractStorage_GlobalMapLen ramPayer must be string.''
      else
        NewCStrChecked v contract (\<lambda>contractStr.
        NewCStrChecked v key (\<lambda>keyStr.
        NewCStrChecked v ramPayer (\<lambda>ramPayerStr.
        with_holder CStorage args ''IOSTContractStorage_GlobalMapLen val error''
          (finish_call v (ics_GlobalMapLen C contractStr keyStr ramPayerStr) ret_int)))))"

text \<open>The class template that the sandbox's global template gets.\<close>

definition InitStorage :: "v8_api \<Rightarrow> 'h storage_table \<Rightarrow> 'h class_tpl" where
  "InitStorage v C =
     \<lparr>tpl_name = ''IOSTStorage'', tpl_ctor = NewIOSTContractStorage, tpl_field_count = 1,
      tpl_methods =
        [(''put'', IOSTContractStorage_Put v C),
         (''has'', IOSTContractStorage_Has v C),
         (''get'', IOSTContractStorage_Get v C),
         (''del'', IOSTContractStorage_Del v C),
         (''mapPut'', IOSTContractStorage_MapPut v C),
         (''mapHas'', IOSTContractStorage_MapHas v C),
         (''mapGet'', IOSTContractStorage_MapGet v C),
         (''mapDel'', IOSTContractStorage_MapDel v C),
         (''mapKeys'', IOSTContractStorage_MapKeys v C),
         (''mapLen'', IOSTContractStorage_MapLen v C),
         (''globalGet'', IOSTContractStorage_GlobalGet v C),
         (''globalHas'', IOSTContractStorage_GlobalHas v C),
         (''globalMapHas'', IOSTContractStorage_GlobalMapHas v C),
         (''globalMapGet'', IOSTContractStorage_GlobalMapGet v C),
         (''globalMapKeys'', IOSTContractStorage_GlobalMapKeys v C),
         (''globalMapLen'', IOSTContractStorage_GlobalMapLen v C)]\<rparr>"

section \<open>What the callbacks rely on\<close>

text \<open>
  The abstract operations behind the pointers: on byte strings, in the order of the
  C parameters.
\<close>

record 'h storage_ops =
  op_Put :: "nat \<Rightarrow> string \<Rightarrow> string \<Rightarrow> string \<Rightarrow> (unit, 'h) host_op"
  op_Has :: "nat \<Rightarrow> string \<Rightarrow> string \<Rightarrow> (bool, 'h) host_op"
  op_Get :: "nat \<Rightarrow> string \<Rightarrow> string \<Rightarrow> (string option, 'h) host_op"
  op_Del :: "nat \<Rightarrow> string \<Rightarrow> string \<Rightarrow> (unit, 'h) host_op"
  op_MapPut :: "nat \<Rightarrow> string \<Rightarrow> string \<Rightarrow> string \<Rightarrow> string \<Rightarrow> (unit, 'h) host_op"
  op_MapHas :: "nat \<Rightarrow> string \<Rightarrow> string \<Rightarrow> string \<Rightarrow> (bool, 'h) host_op"
  op_MapGet :: "nat \<Rightarrow> string \<Rightarrow> string \<Rightarrow> string \<Rightarrow> (string option, 'h) host_op"
  op_MapDel :: "nat \<Rightarrow> string \<Rightarrow> string \<Rightarrow> string \<Rightarrow> (unit, 'h) host_op"
  op_MapKeys :: "nat \<Rightarrow> string \<Rightarrow> string \<Rightarrow> (string, 'h) host_op"
  op_MapLen :: "nat \<Rightarrow> string \<Rightarrow> string \<Rightarrow> (size_t, 'h) host_op"
  op_GlobalHas :: "nat \<Rightarrow> string \<Rightarrow> string \<Rightarrow> string \<Rightarrow> (bool, 'h) host_op"
  op_GlobalGet :: "nat \<Rightarrow> string \<Rightarrow> string \<Rightarrow> string \<Rightarrow> (string option, 'h) host_op"
  op_GlobalMapHas :: "nat \<Rightarrow> string \<Rightarrow> string \<Rightarrow> string \<Rightarrow> string \<Rightarrow> (bool, 'h) host_op"
  op_GlobalMapGet :: "nat \<Rightarrow> string \<Rightarrow> string \<Rightarrow> string \<Rightarrow> string \<Rightarrow> (string option, 'h) host_op"
  op_GlobalMapKeys :: "nat \<Rightarrow> string \<Rightarrow> string \<Rightarrow> string \<Rightarrow> (string, 'h) host_op"
  op_GlobalMapLen :: "nat \<Rightarrow> string \<Rightarrow> string \<Rightarrow> string \<Rightarrow> (size_t, 'h) host_op"

locale storage_callbacks =
  fixes C :: "'h storage_table" and S :: "'h storage_ops"
  assumes
    Put_law: "heap_ok h \<Longrightarrow> cstr_holds h c1 b1 \<Longrightarrow> cstr_holds h c2 b2 \<Longrightarrow> cstr_holds h c3 b3 \<Longrightarrow>
      \<exists>f. CPut C = Some f \<and> implements out_nothing (f p c1 c2 c3) () h s (op_Put S p b1 b2 b3)"
    and Has_law: "heap_ok h \<Longrightarrow> cstr_holds h c1 b1 \<Longrightarrow> cstr_holds h c2 b2 \<Longrightarrow>
      \<exists>f. CHas C = Some f \<and> implements out_bool (f p c1 c2) None h s (op_Has S p b1 b2)"
    and Get_law: "heap_ok h \<Longrightarrow> cstr_holds h c1 b1 \<Longrightarrow> cstr_holds h c2 b2 \<Longrightarrow>
      \<exists>f. CGet C = Some f \<and> implements out_string_opt (f p c1 c2) null_CStr h s (op_Get S p b1 b2)"
    and Del_law: "heap_ok h \<Longrightarrow> cstr_holds h c1 b1 \<Longrightarrow> cstr_holds h c2 b2 \<Longrightarrow>
      \<exists>f. CDel C = Some f \<and> implements out_nothing (f p c1 c2) () h s (op_Del S p b1 b2)"
    and MapPut_law: "heap_ok h \<Longrightarrow> cstr_holds h c1 b1 \<Longrightarrow> cstr_holds h c2 b2 \<Longrightarrow> cstr_holds h c3 b3 \<Longrightarrow> cstr_holds h c4 b4 \<Longrightarrow>
      \<exists>f. CMapPut C = Some f \<and> implements out_nothing (f p c1 c2 c3 c4) () h s (op_MapPut S p b1 b2 b3 b4)"
    and MapHas_law: "heap_ok h \<Longrightarrow> cstr_holds h c1 b1 \<Longrightarrow> cstr_holds h c2 b2 \<Longrightarrow> cstr_holds h c3 b3 \<Longrightarrow>
      \<exists>f. CMapHas C = Some f \<and> implements out_bool (f p c1 c2 c3) None h s (op_MapHas S p b1 b2 b3)"
    and MapGet_law: "heap_ok h \<Longrightarrow> cstr_holds h c1 b1 \<Longrightarrow> cstr_holds h c2 b2 \<Longrightarrow> cstr_holds h c3 b3 \<Longrightarrow>
      \<exists>f. CMapGet C = Some f \<and> implements out_string_opt (f p c1 c2 c3) null_CStr h s (op_MapGet S p b1 b2 b3)"
    and MapDel_law: "heap_ok h \<Longrightarrow> cstr_holds h c1 b1 \<Longrightarrow> cstr_holds h c2 b2 \<Longrightarrow> cstr_holds h c3 b3 \<Longrightarrow>
      \<exists>f. CMapDel C = Some f \<and> implements out_nothing (f p c1 c2 c3) () h s (op_MapDel S p b1 b2 b3)"
    and MapKeys_law: "heap_ok h \<Longrightarrow> cstr_holds h c1 b1 \<Longrightarrow> cstr_holds h c2 b2 \<Longrightarrow>
      \<exists>f. CMapKeys C = Some f \<and> implements out_string (f p c1 c2) null_CStr h s (op_MapKeys S p b1 b2)"
    and MapLen_law: "heap_ok h \<Longrightarrow> cstr_holds h c1 b1 \<Longrightarrow> cstr_holds h c2 b2 \<Longrightarrow>
      \<exists>f. CMapLen C = Some f \<and> implements out_size (f p c1 c2) None h s (op_MapLen S p b1 b2)"
    and GlobalHas_law: "heap_ok h \<Longrightarrow> cstr_holds h c1 b1 \<Longrightarrow> cstr_holds h c2 b2 \<Longrightarrow> cstr_holds h c3 b3 \<Longrightarrow>
      \<exists>f. CGHas C = Some f \<and> implements out_bool (f p c1 c2 c3) None h s (op_GlobalHas S p b1 b2 b3)"
    and GlobalGet_law: "heap_ok h \<Longrightarrow> cstr_holds h c1 b1 \<Longrightarrow> cstr_holds h c2 b2 \<Longrightarrow> cstr_holds h c3 b3 \<Longrightarrow>
      \<exists>f. CGGet C = Some f \<and> implements out_string_opt (f p c1 c2 c3) null_CStr h s (op_GlobalGet S p b1 b2 b3)"
    and GlobalMapHas_law: "heap_ok h \<Longrightarrow> cstr_holds h c1 b1 \<Longrightarrow> cstr_holds h c2 b2 \<Longrightarrow> cstr_holds h c3 b3 \<Longrightarrow> cstr_holds h c4 b4 \<Longrightarrow>
      \<exists>f. CGMapHas C = Some f \<and> implements out_bool (f p c1 c2 c3 c4) None h s (op_GlobalMapHas S p b1 b2 b3 b4)"
    and GlobalMapGet_law: "heap_ok h \<Longrightarrow> cstr_holds h c1 b1 \<Longrightarrow> cstr_holds h c2 b2 \<Longrightarrow> cstr_holds h c3 b3 \<Longrightarrow> cstr_holds h c4 b4 \<Longrightarrow>
      \<exists>f. CGMapGet C = Some f \<and> implements out_string_opt (f p c1 c2 c3 c4) null_CStr h s (op_GlobalMapGet S p b1 b2 b3 b4)"
    and GlobalMapKeys_law: "heap_ok h \<Longrightarrow> cstr_holds h c1 b1 \<Longrightarrow> cstr_holds h c2 b2 \<Longrightarrow> cstr_holds h c3 b3 \<Longrightarrow>
      \<exists>f. CGMapKeys C = Some f \<and> implements out_string (f p c1 c2 c3) null_CStr h s (op_GlobalMapKeys S p b1 b2 b3)"
    and GlobalMapLen_law: "heap_ok h \<Longrightarrow> cstr_holds h c1 b1 \<Longrightarrow> cstr_holds h c2 b2 \<Longrightarrow> cstr_holds h c3 b3 \<Longrightarrow>
      \<exists>f. CGMapLen C = Some f \<and> implements out_size (f p c1 c2 c3) None h s (op_GlobalMapLen S p b1 b2 b3)"
begin

lemma Put_refines:
  assumes "heap_ok (w_heap w)" and "utf8_bound v"
    and args: "ci_args args = [JString s1, JString s2, JString s3]" and "w_fields w (ci_holder args) = IFExternal CStorage"
  shows "refines_at (IOSTContractStorage_Put v C args) w
           (limit_args v [s1, s2, s3] (js_call v (op_Put S (w_sbxPtr w) (utf8_of v s1) (utf8_of v s2) (utf8_of v s3)) (\<lambda>_. JNull)) w)"
  using callback_refines3 [OF assms(1,2,4) Put_law delivers_null]  args
  by (simp add: IOSTContractStorage_Put_def arg_def ics_Put_def [abs_def])

lemma Has_refines:
  assumes "heap_ok (w_heap w)" and "utf8_bound v"
    and args: "ci_args args = [JString s1, JString s2]" and "w_fields w (ci_holder args) = IFExternal CStorage"
  shows "refines_at (IOSTContractStorage_Has v C args) w
           (limit_args v [s1, s2] (js_call v (op_Has S (w_sbxPtr w) (utf8_of v s1) (utf8_of v s2)) JBool) w)"
  using callback_refines2 [OF assms(1,2,4) Has_law delivers_bool]  args
  by (simp add: IOSTContractStorage_Has_def arg_def ics_Has_def [abs_def])

lemma Get_refines:
  assumes "heap_ok (w_heap w)" and "utf8_bound v"
    and args: "ci_args args = [JString s1, JString s2]" and "w_fields w (ci_holder args) = IFExternal CStorage"
    and "small_result small_string_opt (op_Get S (w_sbxPtr w) (utf8_of v s1) (utf8_of v s2)) (w_host w)"
  shows "refines_at (IOSTContractStorage_Get v C args) w
           (limit_args v [s1, s2] (js_call v (op_Get S (w_sbxPtr w) (utf8_of v s1) (utf8_of v s2)) (js_result_opt v)) w)"
  using callback_refines2 [OF assms(1,2,4) Get_law delivers_string_opt] assms(5) args
  by (simp add: IOSTContractStorage_Get_def arg_def ics_Get_def [abs_def])

lemma Del_refines:
  assumes "heap_ok (w_heap w)" and "utf8_bound v"
    and args: "ci_args args = [JString s1, JString s2]" and "w_fields w (ci_holder args) = IFExternal CStorage"
  shows "refines_at (IOSTContractStorage_Del v C args) w
           (limit_args v [s1, s2] (js_call v (op_Del S (w_sbxPtr w) (utf8_of v s1) (utf8_of v s2)) (\<lambda>_. JNull)) w)"
  using callback_refines2 [OF assms(1,2,4) Del_law delivers_null]  args
  by (simp add: IOSTContractStorage_Del_def arg_def ics_Del_def [abs_def])

lemma MapPut_refines:
  assumes "heap_ok (w_heap w)" and "utf8_bound v"
    and args: "ci_args args = [JString s1, JString s2, JString s3, JString s4]" and "w_fields w (ci_holder args) = IFExternal CStorage"
  shows "refines_at (IOSTContractStorage_MapPut v C args) w
           (limit_args v [s1, s2, s3, s4] (js_call v (op_MapPut S (w_sbxPtr w) (utf8_of v s1) (utf8_of v s2) (utf8_of v s3) (utf8_of v s4)) (\<lambda>_. JNull)) w)"
  using callback_refines4 [OF assms(1,2,4) MapPut_law delivers_null]  args
  by (simp add: IOSTContractStorage_MapPut_def arg_def ics_MapPut_def [abs_def])

lemma MapHas_refines:
  assumes "heap_ok (w_heap w)" and "utf8_bound v"
    and args: "ci_args args = [JString s1, JString s2, JString s3]" and "w_fields w (ci_holder args) = IFExternal CStorage"
  shows "refines_at (IOSTContractStorage_MapHas v C args) w
           (limit_args v [s1, s2, s3] (js_call v (op_MapHas S (w_sbxPtr w) (utf8_of v s1) (utf8_of v s2) (utf8_of v s3)) JBool) w)"
  using callback_refines3 [OF assms(1,2,4) MapHas_law delivers_bool]  args
  by (simp add: IOSTContractStorage_MapHas_def arg_def ics_MapHas_def [abs_def])

lemma MapGet_refines:
  assumes "heap_ok (w_heap w)" and "utf8_bound v"
    and args: "ci_args args = [JString s1, JString s2, JString s3]" and "w_fields w (ci_holder args) = IFExternal CStorage"
    and "small_result small_string_opt (op_MapGet S (w_sbxPtr w) (utf8_of v s1) (utf8_of v s2) (utf8_of v s3)) (w_host w)"
  shows "refines_at (IOSTContractStorage_MapGet v C args) w
           (limit_args v [s1, s2, s3] (js_call v (op_MapGet S (w_sbxPtr w) (utf8_of v s1) (utf8_of v s2) (utf8_of v s3)) (js_result_opt v)) w)"
  using callback_refines3 [OF assms(1,2,4) MapGet_law delivers_string_opt] assms(5) args
  by (simp add: IOSTContractStorage_MapGet_def arg_def ics_MapGet_def [abs_def])

lemma MapDel_refines:
  assumes "heap_ok (w_heap w)" and "utf8_bound v"
    and args: "ci_args args = [JString s1, JString s2, JString s3]" and "w_fields w (ci_holder args) = IFExternal CStorage"
  shows "refines_at (IOSTContractStorage_MapDel v C args) w
           (limit_args v [s1, s2, s3] (js_call v (op_MapDel S (w_sbxPtr w) (utf8_of v s1) (utf8_of v s2) (utf8_of v s3)) (\<lambda>_. JNull)) w)"
  using callback_refines3 [OF assms(1,2,4) MapDel_law delivers_null]  args
  by (simp add: IOSTContractStorage_MapDel_def arg_def ics_MapDel_def [abs_def])

lemma MapKeys_refines:
  assumes "heap_ok (w_heap w)" and "utf8_bound v"
    and args: "ci_args args = [JString s1, JString s2]" and "w_fields w (ci_holder args) = IFExternal CStorage"
    and "small_result small_string (op_MapKeys S (w_sbxPtr w) (utf8_of v s1) (utf8_of v s2)) (w_host w)"
  shows "refines_at (IOSTContractStorage_MapKeys v C args) w
           (limit_args v [s1, s2] (js_call v (op_MapKeys S (w_sbxPtr w) (utf8_of v s1) (utf8_of v s2)) (js_result v)) w)"
  using callback_refines2 [OF assms(1,2,4) MapKeys_law delivers_string] assms(5) args
  by (simp add: IOSTContractStorage_MapKeys_def arg_def ics_MapKeys_def [abs_def])

lemma MapLen_refines:
  assumes "heap_ok (w_heap w)" and "utf8_bound v"
    and args: "ci_args args = [JString s1, JString s2]" and "w_fields w (ci_holder args) = IFExternal CStorage"
  shows "refines_at (IOSTContractStorage_MapLen v C args) w
           (limit_args v [s1, s2] (js_call v (op_MapLen S (w_sbxPtr w) (utf8_of v s1) (utf8_of v s2)) js_int) w)"
  using callback_refines2 [OF assms(1,2,4) MapLen_law delivers_int]  args
  by (simp add: IOSTContractStorage_MapLen_def arg_def ics_MapLen_def [abs_def])

lemma GlobalHas_refines:
  assumes "heap_ok (w_heap w)" and "utf8_bound v"
    and args: "ci_args args = [JString s1, JString s2, JString s3]" and "w_fields w (ci_holder args) = IFExternal CStorage"
  shows "refines_at (IOSTContractStorage_GlobalHas v C args) w
           (limit_args v [s1, s2, s3] (js_call v (op_GlobalHas S (w_sbxPtr w) (utf8_of v s1) (utf8_of v s2) (utf8_of v s3)) JBool) w)"
  using callback_refines3 [OF assms(1,2,4) GlobalHas_law delivers_bool]  args
  by (simp add: IOSTContractStorage_GlobalHas_def arg_def ics_GlobalHas_def [abs_def])

lemma GlobalGet_refines:
  assumes "heap_ok (w_heap w)" and "utf8_bound v"
    and args: "ci_args args = [JString s1, JString s2, JString s3]" and "w_fields w (ci_holder args) = IFExternal CStorage"
    and "small_result small_string_opt (op_GlobalGet S (w_sbxPtr w) (utf8_of v s1) (utf8_of v s2) (utf8_of v s3)) (w_host w)"
  shows "refines_at (IOSTContractStorage_GlobalGet v C args) w
           (limit_args v [s1, s2, s3] (js_call v (op_GlobalGet S (w_sbxPtr w) (utf8_of v s1) (utf8_of v s2) (utf8_of v s3)) (js_result_opt v)) w)"
  using callback_refines3 [OF assms(1,2,4) GlobalGet_law delivers_string_opt] assms(5) args
  by (simp add: IOSTContractStorage_GlobalGet_def arg_def ics_GlobalGet_def [abs_def])

lemma GlobalMapHas_refines:
  assumes "heap_ok (w_heap w)" and "utf8_bound v"
    and args: "ci_args args = [JString s1, JString s2, JString s3, JString s4]" and "w_fields w (ci_holder args) = IFExternal CStorage"
  shows "refines_at (IOSTContractStorage_GlobalMapHas v C args) w
           (limit_args v [s1, s2, s3, s4] (js_call v (op_GlobalMapHas S (w_sbxPtr w) (utf8_of v s1) (utf8_of v s2) (utf8_of v s3) (utf8_of v s4)) JBool) w)"
  using callback_refines4 [OF assms(1,2,4) GlobalMapHas_law delivers_bool]  args
  by (simp add: IOSTContractStorage_GlobalMapHas_def arg_def ics_GlobalMapHas_def [abs_def])

lemma GlobalMapGet_refines:
  assumes "heap_ok (w_heap w)" and "utf8_bound v"
    and args: "ci_args args = [JString s1, JString s2, JString s3, JString s4]" and "w_fields w (ci_holder args) = IFExternal CStorage"
    and "small_result small_string_opt (op_GlobalMapGet S (w_sbxPtr w) (utf8_of v s1) (utf8_of v s2) (utf8_of v s3) (utf8_of v s4)) (w_host w)"
  shows "refines_at (IOSTContractStorage_GlobalMapGet v C args) w
           (limit_args v [s1, s2, s3, s4] (js_call v (op_GlobalMapGet S (w_sbxPtr w) (utf8_of v s1) (utf8_of v s2) (utf8_of v s3) (utf8_of v s4)) (js_result_opt v)) w)"
  using callback_refines4 [OF assms(1,2,4) GlobalMapGet_law delivers_string_opt] assms(5) args
  by (simp add: IOSTContractStorage_GlobalMapGet_def arg_def ics_GlobalMapGet_def [abs_def])

lemma GlobalMapKeys_refines:
  assumes "heap_ok (w_heap w)" and "utf8_bound v"
    and args: "ci_args args = [JString s1, JString s2, JString s3]" and "w_fields w (ci_holder args) = IFExternal CStorage"
    and "small_result small_string (op_GlobalMapKeys S (w_sbxPtr w) (utf8_of v s1) (utf8_of v s2) (utf8_of v s3)) (w_host w)"
  shows "refines_at (IOSTContractStorage_GlobalMapKeys v C args) w
           (limit_args v [s1, s2, s3] (js_call v (op_GlobalMapKeys S (w_sbxPtr w) (utf8_of v s1) (utf8_of v s2) (utf8_of v s3)) (js_result v)) w)"
  using callback_refines3 [OF assms(1,2,4) GlobalMapKeys_law delivers_string] assms(5) args
  by (simp add: IOSTContractStorage_GlobalMapKeys_def arg_def ics_GlobalMapKeys_def [abs_def])

lemma GlobalMapLen_refines:
  assumes "heap_ok (w_heap w)" and "utf8_bound v"
    and args: "ci_args args = [JString s1, JString s2, JString s3]" and "w_fields w (ci_holder args) = IFExternal CStorage"
  shows "refines_at (IOSTContractStorage_GlobalMapLen v C args) w
           (limit_args v [s1, s2, s3] (js_call v (op_GlobalMapLen S (w_sbxPtr w) (utf8_of v s1) (utf8_of v s2) (utf8_of v s3)) js_int) w)"
  using callback_refines3 [OF assms(1,2,4) GlobalMapLen_law delivers_int]  args
  by (simp add: IOSTContractStorage_GlobalMapLen_def arg_def ics_GlobalMapLen_def [abs_def])

end

end
