(* ===== verification/GoStorage.thy ===== *)
theory GoStorage
  imports HostDb StorageApi
begin

text \<open>
  \<^verbatim>\<open>vm/v8vm/storage.go\<close>: the functions Go installs behind the storage pointers. Each looks
  its sandbox up, copies its arguments out of C memory, calls the host, reports the CPU
  cost as gas and returns its result through the out-parameter, or an error as a C string.
  The second half interprets the locale \<open>storage_callbacks\<close> on them.
\<close>

section \<open>The sandboxes Go knows\<close>

text \<open>
  \<open>sbxMap\<close> maps the C pointer to the Go sandbox, whose host is a pointer (nil until
  \<^verbatim>\<open>SetHost\<close>); several sandboxes can share a host, so the hosts are in a store of their own.
\<close>

record go_sandbox =
  sb_host :: "nat option"

record 'd go_state =
  sbxMap :: "nat \<Rightarrow> go_sandbox option"
  gs_hosts :: "nat \<Rightarrow> 'd Host option"

definition ErrGetSandbox :: string where
  "ErrGetSandbox = ''get sandbox failed''"

definition GetSandbox :: "'d go_state \<Rightarrow> nat \<Rightarrow> go_sandbox option" where
  "GetSandbox s cSbx = sbxMap s cSbx"

text \<open>\<open>sbx.host\<close>: reading through nil is a panic.\<close>

definition sbx_host :: "'d go_state \<Rightarrow> go_sandbox \<Rightarrow> 'd Host option" where
  "sbx_host s sbx = Option.bind (sb_host sbx) (gs_hosts s)"

definition set_sbx_host :: "'d go_state \<Rightarrow> go_sandbox \<Rightarrow> 'd Host \<Rightarrow> 'd go_state" where
  "set_sbx_host s sbx h =
     (case sb_host sbx of None \<Rightarrow> s | Some a \<Rightarrow> s\<lparr>gs_hosts := (gs_hosts s)(a := Some h)\<rparr>)"

text \<open>The first lines of every function.\<close>

definition go_entry ::
  "nat \<Rightarrow> (go_sandbox \<Rightarrow> ('o, 'd go_state) gocall) \<Rightarrow> ('o, 'd go_state) gocall" where
  "go_entry cSbx body out gas env =
     (case GetSandbox (snd env) cSbx of
        None \<Rightarrow>
          (let (err, h) = CString ErrGetSandbox (fst env) in Some (err, out, gas, h, snd env))
      | Some sbx \<Rightarrow> body sbx out gas env)"

text \<open>\<^verbatim>\<open>*gasUsed = C.size_t(cost.CPU)\<close> and the return of an error or of nil.\<close>

definition go_return ::
  "go_sandbox \<Rightarrow> 'o \<Rightarrow> Cost \<Rightarrow> string option \<Rightarrow> 'd Host \<Rightarrow> 'd go_state genv \<Rightarrow>
     (char_ptr \<times> 'o \<times> size_t cell \<times> 'd go_state genv) option" where
  "go_return sbx out cost err hst env =
     (case err of
        Some e \<Rightarrow>
          (let (p, h) = CString e (fst env) in Some (p, out, Some (CPU cost), h, set_sbx_host (snd env) sbx hst))
      | None \<Rightarrow> Some (None, out, Some (CPU cost), fst env, set_sbx_host (snd env) sbx hst))"

definition ErrInvalidDBValType :: string where
  "ErrInvalidDBValType = ''invalid db value type''"

definition dbValToString :: "go_val \<Rightarrow> string + string" where
  "dbValToString val =
     (case val of
        GInt i \<Rightarrow> Inr (FormatInt i)
      | GString s \<Rightarrow> Inr s
      | GBool b \<Rightarrow> Inr (FormatBool b)
      | GJSON s \<Rightarrow> Inr s
      | _ \<Rightarrow> Inl ErrInvalidDBValType)"

text \<open>An absent payer: a null pointer or the empty string.\<close>

definition ram_payer :: "c_heap \<Rightarrow> CStr \<Rightarrow> string list option" where
  "ram_payer h ramPayer =
     (if cstr_data ramPayer = None then Some []
      else do { py \<leftarrow> GoString h ramPayer; Some (if py = [] then [] else [py]) })"

section \<open>The functions\<close>

definition goPut :: "'d database \<Rightarrow> 'd go_state putFunc" where
  "goPut D cSbx key val ramPayer =
     go_entry cSbx (\<lambda>sbx out gas env.
       do {
         k \<leftarrow> GoString (fst env) key;
         v \<leftarrow> GoString (fst env) val;
         hst \<leftarrow> sbx_host (snd env) sbx;
         py \<leftarrow> ram_payer (fst env) ramPayer;
         (cost, err, hst') \<leftarrow> dbh_Put D hst k (GString v) py;
         go_return sbx out cost err hst' env })"

definition goHas :: "'d database \<Rightarrow> 'd go_state hasFunc" where
  "goHas D cSbx key ramPayer =
     go_entry cSbx (\<lambda>sbx out gas env.
       do {
         k \<leftarrow> GoString (fst env) key;
         hst \<leftarrow> sbx_host (snd env) sbx;
         let (ret, cost) = dbh_Has D hst k;
         go_return sbx (Some ret) cost None hst env })"

definition goGet :: "'d database \<Rightarrow> 'd go_state getFunc" where
  "goGet D cSbx key ramPayer =
     go_entry cSbx (\<lambda>sbx out gas env.
       do {
         k \<leftarrow> GoString (fst env) key;
         hst \<leftarrow> sbx_host (snd env) sbx;
         (val, cost) \<leftarrow> dbh_Get D hst k;
         if val = GNil then go_return sbx out cost None hst env
         else case dbValToString val of
           Inl e \<Rightarrow> go_return sbx out cost (Some e) hst env
         | Inr valStr \<Rightarrow> (let (r, h) = SetString out valStr (fst env) in go_return sbx r cost None hst (h, snd env)) })"

definition goDel :: "'d database \<Rightarrow> 'd go_state delFunc" where
  "goDel D cSbx key ramPayer =
     go_entry cSbx (\<lambda>sbx out gas env.
       do {
         k \<leftarrow> GoString (fst env) key;
         hst \<leftarrow> sbx_host (snd env) sbx;
         (cost, err, hst') \<leftarrow> dbh_Del D hst k;
         go_return sbx out cost err hst' env })"

definition goMapPut :: "'d database \<Rightarrow> 'd go_state mapPutFunc" where
  "goMapPut D cSbx key field val ramPayer =
     go_entry cSbx (\<lambda>sbx out gas env.
       do {
         k \<leftarrow> GoString (fst env) key;
         f \<leftarrow> GoString (fst env) field;
         v \<leftarrow> GoString (fst env) val;
         hst \<leftarrow> sbx_host (snd env) sbx;
         py \<leftarrow> ram_payer (fst env) ramPayer;
         (cost, err, hst') \<leftarrow> dbh_MapPut D hst k f (GString v) py;
         go_return sbx out cost err hst' env })"

definition goMapHas :: "'d database \<Rightarrow> 'd go_state mapHasFunc" where
  "goMapHas D cSbx key field ramPayer =
     go_entry cSbx (\<lambda>sbx out gas env.
       do {
         k \<leftarrow> GoString (fst env) key;
         f \<leftarrow> GoString (fst env) field;
         hst \<leftarrow> sbx_host (snd env) sbx;
         let (ret, cost) = dbh_MapHas D hst k f;
         go_return sbx (Some ret) cost None hst env })"

definition goMapGet :: "'d database \<Rightarrow> 'd go_state mapGetFunc" where
  "goMapGet D cSbx key field ramPayer =
     go_entry cSbx (\<lambda>sbx out gas env.
       do {
         k \<leftarrow> GoString (fst env) key;
         f \<leftarrow> GoString (fst env) field;
         hst \<leftarrow> sbx_host (snd env) sbx;
         (val, cost) \<leftarrow> dbh_MapGet D hst k f;
         if val = GNil then go_return sbx out cost None hst env
         else case dbValToString val of
           Inl e \<Rightarrow> (let (r, h) = SetString out [] (fst env) in go_return sbx r cost None hst (h, snd env))
         | Inr valStr \<Rightarrow> (let (r, h) = SetString out valStr (fst env) in go_return sbx r cost None hst (h, snd env)) })"

definition goMapDel :: "'d database \<Rightarrow> 'd go_state mapDelFunc" where
  "goMapDel D cSbx key field ramPayer =
     go_entry cSbx (\<lambda>sbx out gas env.
       do {
         k \<leftarrow> GoString (fst env) key;
         f \<leftarrow> GoString (fst env) field;
         hst \<leftarrow> sbx_host (snd env) sbx;
         (cost, err, hst') \<leftarrow> dbh_MapDel D hst k f;
         go_return sbx out cost err hst' env })"

definition goMapKeys :: "'d database \<Rightarrow> 'd go_state mapKeysFunc" where
  "goMapKeys D cSbx key ramPayer =
     go_entry cSbx (\<lambda>sbx out gas env.
       do {
         k \<leftarrow> GoString (fst env) key;
         hst \<leftarrow> sbx_host (snd env) sbx;
         let (fstr, cost) = dbh_MapKeys D hst k;
         let (r, h) = SetString out (json_strings fstr) (fst env);
         go_return sbx r cost None hst (h, snd env) })"

definition goMapLen :: "'d database \<Rightarrow> 'd go_state mapLenFunc" where
  "goMapLen D cSbx key ramPayer =
     go_entry cSbx (\<lambda>sbx out gas env.
       do {
         k \<leftarrow> GoString (fst env) key;
         hst \<leftarrow> sbx_host (snd env) sbx;
         let (len, cost) = dbh_MapLen D hst k;
         go_return sbx (Some (of_nat len)) cost None hst env })"

definition goGlobalHas :: "'d database \<Rightarrow> 'd go_state globalHasFunc" where
  "goGlobalHas D cSbx contractName key ramPayer =
     go_entry cSbx (\<lambda>sbx out gas env.
       do {
         c \<leftarrow> GoString (fst env) contractName;
         k \<leftarrow> GoString (fst env) key;
         hst \<leftarrow> sbx_host (snd env) sbx;
         let (ret, cost) = dbh_GlobalHas D hst c k;
         go_return sbx (Some ret) cost None hst env })"

definition goGlobalGet :: "'d database \<Rightarrow> 'd go_state globalGetFunc" where
  "goGlobalGet D cSbx contractName key ramPayer =
     go_entry cSbx (\<lambda>sbx out gas env.
       do {
         c \<leftarrow> GoString (fst env) contractName;
         k \<leftarrow> GoString (fst env) key;
         hst \<leftarrow> sbx_host (snd env) sbx;
         (val, cost) \<leftarrow> dbh_GlobalGet D hst c k;
         if val = GNil then go_return sbx out cost None hst env
         else case dbValToString val of
           Inl e \<Rightarrow> (let (r, h) = SetString out [] (fst env) in go_return sbx r cost None hst (h, snd env))
         | Inr valStr \<Rightarrow> (let (r, h) = SetString out valStr (fst env) in go_return sbx r cost None hst (h, snd env)) })"

definition goGlobalMapHas :: "'d database \<Rightarrow> 'd go_state globalMapHasFunc" where
  "goGlobalMapHas D cSbx contractName key field ramPayer =
     go_entry cSbx (\<lambda>sbx out gas env.
       do {
         c \<leftarrow> GoString (fst env) contractName;
         k \<leftarrow> GoString (fst env) key;
         f \<leftarrow> GoString (fst env) field;
         hst \<leftarrow> sbx_host (snd env) sbx;
         let (ret, cost) = dbh_GlobalMapHas D hst c k f;
         go_return sbx (Some ret) cost None hst env })"

definition goGlobalMapGet :: "'d database \<Rightarrow> 'd go_state globalMapGetFunc" where
  "goGlobalMapGet D cSbx contractName key field ramPayer =
     go_entry cSbx (\<lambda>sbx out gas env.
       do {
         c \<leftarrow> GoString (fst env) contractName;
         k \<leftarrow> GoString (fst env) key;
         f \<leftarrow> GoString (fst env) field;
         hst \<leftarrow> sbx_host (snd env) sbx;
         (val, cost) \<leftarrow> dbh_GlobalMapGet D hst c k f;
         if val = GNil then go_return sbx out cost None hst env
         else case dbValToString val of
           Inl e \<Rightarrow> (let (r, h) = SetString out [] (fst env) in go_return sbx r cost None hst (h, snd env))
         | Inr valStr \<Rightarrow> (let (r, h) = SetString out valStr (fst env) in go_return sbx r cost None hst (h, snd env)) })"

definition goGlobalMapKeys :: "'d database \<Rightarrow> 'd go_state globalMapKeysFunc" where
  "goGlobalMapKeys D cSbx contractName key ramPayer =
     go_entry cSbx (\<lambda>sbx out gas env.
       do {
         c \<leftarrow> GoString (fst env) contractName;
         k \<leftarrow> GoString (fst env) key;
         hst \<leftarrow> sbx_host (snd env) sbx;
         let (fstr, cost) = dbh_GlobalMapKeys D hst c k;
         let (r, h) = SetString out (json_strings fstr) (fst env);
         go_return sbx r cost None hst (h, snd env) })"

definition goGlobalMapLen :: "'d database \<Rightarrow> 'd go_state globalMapLenFunc" where
  "goGlobalMapLen D cSbx contractName key ramPayer =
     go_entry cSbx (\<lambda>sbx out gas env.
       do {
         c \<leftarrow> GoString (fst env) contractName;
         k \<leftarrow> GoString (fst env) key;
         hst \<leftarrow> sbx_host (snd env) sbx;
         let (len, cost) = dbh_GlobalMapLen D hst c k;
         go_return sbx (Some (of_nat len)) cost None hst env })"

section \<open>What the functions mean\<close>

text \<open>The same operations on byte strings, with no C memory in sight.\<close>

definition with_sandbox ::
  "nat \<Rightarrow> ('d Host \<Rightarrow> ((string + 'r) \<times> Cost \<times> 'd Host) option) \<Rightarrow> ('r, 'd go_state) host_op" where
  "with_sandbox cSbx f s =
     (case GetSandbox s cSbx of
        None \<Rightarrow> Some (Inl ErrGetSandbox, 0, s)
      | Some sbx \<Rightarrow>
          do { hst \<leftarrow> sbx_host s sbx;
               (r, cost, hst') \<leftarrow> f hst;
               Some (r, CPU cost, set_sbx_host s sbx hst') })"

definition as_write :: "Cost \<times> string option \<times> 'd Host \<Rightarrow> (string + unit) \<times> Cost \<times> 'd Host" where
  "as_write r = (case r of (cost, err, h) \<Rightarrow>
     (case err of None \<Rightarrow> Inr () | Some e \<Rightarrow> Inl e, cost, h))"

definition read_val :: "go_val \<Rightarrow> string option" where
  "read_val val =
     (if val = GNil then None
      else case dbValToString val of Inl e \<Rightarrow> Some [] | Inr s \<Rightarrow> Some s)"

definition read_val_err :: "go_val \<Rightarrow> string + string option" where
  "read_val_err val =
     (if val = GNil then Inr None
      else case dbValToString val of Inl e \<Rightarrow> Inl e | Inr s \<Rightarrow> Inr (Some s))"

definition payer_arg :: "string \<Rightarrow> string list" where
  "payer_arg py = (if py = [] then [] else [py])"

definition go_storage_ops :: "'d database \<Rightarrow> 'd go_state storage_ops" where
  "go_storage_ops D =
     \<lparr>
op_Put = \<lambda>p k v py. with_sandbox p (\<lambda>hst. map_option as_write (dbh_Put D hst k (GString v) (payer_arg py))),
      op_Has = \<lambda>p k py. with_sandbox p (\<lambda>hst. (let (ret, cost) = dbh_Has D hst k in Some (Inr ret, cost, hst))),
      op_Get = \<lambda>p k py. with_sandbox p (\<lambda>hst. map_option (\<lambda>(val, cost). (read_val_err val, cost, hst)) (dbh_Get D hst k)),
      op_Del = \<lambda>p k py. with_sandbox p (\<lambda>hst. map_option as_write (dbh_Del D hst k)),
      op_MapPut = \<lambda>p k f v py. with_sandbox p (\<lambda>hst. map_option as_write (dbh_MapPut D hst k f (GString v) (payer_arg py))),
      op_MapHas = \<lambda>p k f py. with_sandbox p (\<lambda>hst. (let (ret, cost) = dbh_MapHas D hst k f in Some (Inr ret, cost, hst))),
      op_MapGet = \<lambda>p k f py. with_sandbox p (\<lambda>hst. map_option (\<lambda>(val, cost). (Inr (read_val val), cost, hst)) (dbh_MapGet D hst k f)),
      op_MapDel = \<lambda>p k f py. with_sandbox p (\<lambda>hst. map_option as_write (dbh_MapDel D hst k f)),
      op_MapKeys = \<lambda>p k py. with_sandbox p (\<lambda>hst. (let (ks, cost) = dbh_MapKeys D hst k in Some (Inr (json_strings ks), cost, hst))),
      op_MapLen = \<lambda>p k py. with_sandbox p (\<lambda>hst. (let (n, cost) = dbh_MapLen D hst k in Some (Inr (of_nat n), cost, hst))),
      op_GlobalHas = \<lambda>p c k py. with_sandbox p (\<lambda>hst. (let (ret, cost) = dbh_GlobalHas D hst c k in Some (Inr ret, cost, hst))),
      op_GlobalGet = \<lambda>p c k py. with_sandbox p (\<lambda>hst. map_option (\<lambda>(val, cost). (Inr (read_val val), cost, hst)) (dbh_GlobalGet D hst c k)),
      op_GlobalMapHas = \<lambda>p c k f py. with_sandbox p (\<lambda>hst. (let (ret, cost) = dbh_GlobalMapHas D hst c k f in Some (Inr ret, cost, hst))),
      op_GlobalMapGet = \<lambda>p c k f py. with_sandbox p (\<lambda>hst. map_option (\<lambda>(val, cost). (Inr (read_val val), cost, hst)) (dbh_GlobalMapGet D hst c k f)),
      op_GlobalMapKeys = \<lambda>p c k py. with_sandbox p (\<lambda>hst. (let (ks, cost) = dbh_GlobalMapKeys D hst c k in Some (Inr (json_strings ks), cost, hst))),
      op_GlobalMapLen = \<lambda>p c k py. with_sandbox p (\<lambda>hst. (let (n, cost) = dbh_GlobalMapLen D hst c k in Some (Inr (of_nat n), cost, hst)))\<rparr>"

definition go_storage_table :: "'d database \<Rightarrow> 'd go_state storage_table" where
  "go_storage_table D =
     InitGoStorage (goPut D) (goHas D) (goGet D) (goDel D) (goMapPut D) (goMapHas D) (goMapGet D) (goMapDel D) (goMapKeys D) (goMapLen D) (goGlobalHas D) (goGlobalGet D) (goGlobalMapHas D) (goGlobalMapGet D) (goGlobalMapKeys D) (goGlobalMapLen D)"

section \<open>The functions implement their meaning\<close>

lemma SetString_null: "SetString null_CStr s h = newCStr s h"
  by (simp add: SetString_def newCStr_def null_CStr_def)

lemma ram_payer_holds: "cstr_holds h c py \<Longrightarrow> ram_payer h c = Some (payer_arg py)"
  by (auto simp: ram_payer_def payer_arg_def GoString_cstr_holds) (auto simp: cstr_holds_def)

lemma implements_entry:
  assumes "\<And>sbx. sbx_host s sbx = None \<Longrightarrow> body sbx out0 (Some 0) (h, s) = None"
    and "\<And>sbx hst. sbx_host s sbx = Some hst \<Longrightarrow>
      (case f hst of
         None \<Rightarrow> body sbx out0 (Some 0) (h, s) = None
       | Some (Inl e, cost, hst') \<Rightarrow>
           (\<exists>out. body sbx out0 (Some 0) (h, s) =
              Some (Some (brk h), out, Some (CPU cost), alloc (Malloc (e @ [NUL])) h, set_sbx_host s sbx hst'))
       | Some (Inr x, cost, hst') \<Rightarrow>
           (\<exists>out h'. body sbx out0 (Some 0) (h, s) =
              Some (None, out, Some (CPU cost), h', set_sbx_host s sbx hst') \<and> R x out h h'))"
  shows "implements R (go_entry p body) out0 h s (with_sandbox p f)"
proof (cases "GetSandbox s p")
  case None
  then show ?thesis by (simp add: implements_def go_entry_def with_sandbox_def CString_def)
next
  case (Some sbx)
  show ?thesis
  proof (cases "sbx_host s sbx")
    case None
    with Some assms(1) show ?thesis by (simp add: implements_def go_entry_def with_sandbox_def)
  next
    case (Some hst)
    with \<open>GetSandbox s p = Some sbx\<close> assms(2) [OF Some] show ?thesis
      by (auto simp: implements_def go_entry_def with_sandbox_def split: option.splits sum.splits)
  qed
qed

lemmas go_impl = go_return_def CString_def GoString_cstr_holds ram_payer_holds as_write_def
  read_val_def read_val_err_def SetString_null
  out_nothing_def out_bool_def out_size_def out_string_def out_string_opt_def

lemma goPut_implements:
  "cstr_holds h c1 b1 \<Longrightarrow> cstr_holds h c2 b2 \<Longrightarrow> cstr_holds h c3 b3 \<Longrightarrow>
     implements out_nothing (goPut D p c1 c2 c3) () h s (op_Put (go_storage_ops D) p b1 b2 b3)"
  unfolding goPut_def go_storage_ops_def storage_ops.simps
  by (rule implements_entry) (auto simp: go_impl split: option.split sum.split prod.split)

lemma goHas_implements:
  "cstr_holds h c1 b1 \<Longrightarrow> cstr_holds h c2 b2 \<Longrightarrow>
     implements out_bool (goHas D p c1 c2) None h s (op_Has (go_storage_ops D) p b1 b2)"
  unfolding goHas_def go_storage_ops_def storage_ops.simps
  by (rule implements_entry) (auto simp: go_impl split: option.split sum.split prod.split)

lemma goGet_implements:
  "cstr_holds h c1 b1 \<Longrightarrow> cstr_holds h c2 b2 \<Longrightarrow>
     implements out_string_opt (goGet D p c1 c2) null_CStr h s (op_Get (go_storage_ops D) p b1 b2)"
  unfolding goGet_def go_storage_ops_def storage_ops.simps
  by (rule implements_entry) (auto simp: go_impl split: option.split sum.split prod.split)

lemma goDel_implements:
  "cstr_holds h c1 b1 \<Longrightarrow> cstr_holds h c2 b2 \<Longrightarrow>
     implements out_nothing (goDel D p c1 c2) () h s (op_Del (go_storage_ops D) p b1 b2)"
  unfolding goDel_def go_storage_ops_def storage_ops.simps
  by (rule implements_entry) (auto simp: go_impl split: option.split sum.split prod.split)

lemma goMapPut_implements:
  "cstr_holds h c1 b1 \<Longrightarrow> cstr_holds h c2 b2 \<Longrightarrow> cstr_holds h c3 b3 \<Longrightarrow> cstr_holds h c4 b4 \<Longrightarrow>
     implements out_nothing (goMapPut D p c1 c2 c3 c4) () h s (op_MapPut (go_storage_ops D) p b1 b2 b3 b4)"
  unfolding goMapPut_def go_storage_ops_def storage_ops.simps
  by (rule implements_entry) (auto simp: go_impl split: option.split sum.split prod.split)

lemma goMapHas_implements:
  "cstr_holds h c1 b1 \<Longrightarrow> cstr_holds h c2 b2 \<Longrightarrow> cstr_holds h c3 b3 \<Longrightarrow>
     implements out_bool (goMapHas D p c1 c2 c3) None h s (op_MapHas (go_storage_ops D) p b1 b2 b3)"
  unfolding goMapHas_def go_storage_ops_def storage_ops.simps
  by (rule implements_entry) (auto simp: go_impl split: option.split sum.split prod.split)

lemma goMapGet_implements:
  "cstr_holds h c1 b1 \<Longrightarrow> cstr_holds h c2 b2 \<Longrightarrow> cstr_holds h c3 b3 \<Longrightarrow>
     implements out_string_opt (goMapGet D p c1 c2 c3) null_CStr h s (op_MapGet (go_storage_ops D) p b1 b2 b3)"
  unfolding goMapGet_def go_storage_ops_def storage_ops.simps
  by (rule implements_entry) (auto simp: go_impl split: option.split sum.split prod.split)

lemma goMapDel_implements:
  "cstr_holds h c1 b1 \<Longrightarrow> cstr_holds h c2 b2 \<Longrightarrow> cstr_holds h c3 b3 \<Longrightarrow>
     implements out_nothing (goMapDel D p c1 c2 c3) () h s (op_MapDel (go_storage_ops D) p b1 b2 b3)"
  unfolding goMapDel_def go_storage_ops_def storage_ops.simps
  by (rule implements_entry) (auto simp: go_impl split: option.split sum.split prod.split)

lemma goMapKeys_implements:
  "cstr_holds h c1 b1 \<Longrightarrow> cstr_holds h c2 b2 \<Longrightarrow>
     implements out_string (goMapKeys D p c1 c2) null_CStr h s (op_MapKeys (go_storage_ops D) p b1 b2)"
  unfolding goMapKeys_def go_storage_ops_def storage_ops.simps
  by (rule implements_entry) (auto simp: go_impl split: option.split sum.split prod.split)

lemma goMapLen_implements:
  "cstr_holds h c1 b1 \<Longrightarrow> cstr_holds h c2 b2 \<Longrightarrow>
     implements out_size (goMapLen D p c1 c2) None h s (op_MapLen (go_storage_ops D) p b1 b2)"
  unfolding goMapLen_def go_storage_ops_def storage_ops.simps
  by (rule implements_entry) (auto simp: go_impl split: option.split sum.split prod.split)

lemma goGlobalHas_implements:
  "cstr_holds h c1 b1 \<Longrightarrow> cstr_holds h c2 b2 \<Longrightarrow> cstr_holds h c3 b3 \<Longrightarrow>
     implements out_bool (goGlobalHas D p c1 c2 c3) None h s (op_GlobalHas (go_storage_ops D) p b1 b2 b3)"
  unfolding goGlobalHas_def go_storage_ops_def storage_ops.simps
  by (rule implements_entry) (auto simp: go_impl split: option.split sum.split prod.split)

lemma goGlobalGet_implements:
  "cstr_holds h c1 b1 \<Longrightarrow> cstr_holds h c2 b2 \<Longrightarrow> cstr_holds h c3 b3 \<Longrightarrow>
     implements out_string_opt (goGlobalGet D p c1 c2 c3) null_CStr h s (op_GlobalGet (go_storage_ops D) p b1 b2 b3)"
  unfolding goGlobalGet_def go_storage_ops_def storage_ops.simps
  by (rule implements_entry) (auto simp: go_impl split: option.split sum.split prod.split)

lemma goGlobalMapHas_implements:
  "cstr_holds h c1 b1 \<Longrightarrow> cstr_holds h c2 b2 \<Longrightarrow> cstr_holds h c3 b3 \<Longrightarrow> cstr_holds h c4 b4 \<Longrightarrow>
     implements out_bool (goGlobalMapHas D p c1 c2 c3 c4) None h s (op_GlobalMapHas (go_storage_ops D) p b1 b2 b3 b4)"
  unfolding goGlobalMapHas_def go_storage_ops_def storage_ops.simps
  by (rule implements_entry) (auto simp: go_impl split: option.split sum.split prod.split)

lemma goGlobalMapGet_implements:
  "cstr_holds h c1 b1 \<Longrightarrow> cstr_holds h c2 b2 \<Longrightarrow> cstr_holds h c3 b3 \<Longrightarrow> cstr_holds h c4 b4 \<Longrightarrow>
     implements out_string_opt (goGlobalMapGet D p c1 c2 c3 c4) null_CStr h s (op_GlobalMapGet (go_storage_ops D) p b1 b2 b3 b4)"
  unfolding goGlobalMapGet_def go_storage_ops_def storage_ops.simps
  by (rule implements_entry) (auto simp: go_impl split: option.split sum.split prod.split)

lemma goGlobalMapKeys_implements:
  "cstr_holds h c1 b1 \<Longrightarrow> cstr_holds h c2 b2 \<Longrightarrow> cstr_holds h c3 b3 \<Longrightarrow>
     implements out_string (goGlobalMapKeys D p c1 c2 c3) null_CStr h s (op_GlobalMapKeys (go_storage_ops D) p b1 b2 b3)"
  unfolding goGlobalMapKeys_def go_storage_ops_def storage_ops.simps
  by (rule implements_entry) (auto simp: go_impl split: option.split sum.split prod.split)

lemma goGlobalMapLen_implements:
  "cstr_holds h c1 b1 \<Longrightarrow> cstr_holds h c2 b2 \<Longrightarrow> cstr_holds h c3 b3 \<Longrightarrow>
     implements out_size (goGlobalMapLen D p c1 c2 c3) None h s (op_GlobalMapLen (go_storage_ops D) p b1 b2 b3)"
  unfolding goGlobalMapLen_def go_storage_ops_def storage_ops.simps
  by (rule implements_entry) (auto simp: go_impl split: option.split sum.split prod.split)

lemmas go_implements =
  goPut_implements goHas_implements goGet_implements goDel_implements goMapPut_implements goMapHas_implements goMapGet_implements goMapDel_implements goMapKeys_implements goMapLen_implements goGlobalHas_implements goGlobalGet_implements goGlobalMapHas_implements goGlobalMapGet_implements goGlobalMapKeys_implements goGlobalMapLen_implements

interpretation go_storage: storage_callbacks "go_storage_table D" "go_storage_ops D" for D
  by unfold_locales (simp_all add: go_storage_table_def InitGoStorage_def go_implements)

end
