(* ===== verification/StorageEnd.thy ===== *)
theory StorageEnd
  imports StorageLaws GoStorage
begin

text \<open>
  Storage from end to end: what a contract that calls \<^verbatim>\<open>put\<close> and then \<^verbatim>\<open>get\<close> or \<^verbatim>\<open>del\<close> on its storage object sees,
  through the C++ callback, the Go function, the handler and the store; which entries of other
  contracts an operation can reach; and which arguments the callbacks turn away.
\<close>

section \<open>From one call to the next\<close>

lemma heap_erase_eqD:
  assumes "heap_erase w1 = heap_erase w2"
  shows "w_host w1 = w_host w2" "w_fields w1 = w_fields w2" "w_exc w1 = w_exc w2" "w_ret w1 = w_ret w2"
    "w_sbxPtr w1 = w_sbxPtr w2" "w_sbx w1 = w_sbx w2"
proof -
  have "w_host (heap_erase w1) = w_host (heap_erase w2)" "w_fields (heap_erase w1) = w_fields (heap_erase w2)"
    "w_exc (heap_erase w1) = w_exc (heap_erase w2)" "w_ret (heap_erase w1) = w_ret (heap_erase w2)"
    "w_sbxPtr (heap_erase w1) = w_sbxPtr (heap_erase w2)" "w_sbx (heap_erase w1) = w_sbx (heap_erase w2)"
    using assms by simp_all
  then show "w_host w1 = w_host w2" "w_fields w1 = w_fields w2" "w_exc w1 = w_exc w2" "w_ret w1 = w_ret w2"
    "w_sbxPtr w1 = w_sbxPtr w2" "w_sbx w1 = w_sbx w2"
    by (simp_all add: heap_erase_def)
qed

text \<open>A callback that refines a successful call leaves its result and the next state of the node.\<close>

lemma refines_success:
  assumes ref: "refines_at f w (limit_args v ss (js_call v m conv) w)"
    and len: "\<forall>s \<in> set ss. length s \<le> INPUT_MAX_LENGTH" and m: "m (w_host w) = Some (Inr x, g, s')"
  shows "\<exists>w1. f w = Some w1 \<and> w_host w1 = s' \<and> w_ret w1 = conv x \<and> w_exc w1 = w_exc w \<and>
           w_fields w1 = w_fields w \<and> w_sbxPtr w1 = w_sbxPtr w \<and>
           gasUsed (w_sbx w1) = gasUsed (w_sbx w) + g \<and> blocks (w_heap w1) = blocks (w_heap w) \<and> heap_ok (w_heap w1)"
proof -
  let ?w = "(add_gas g (w\<lparr>w_host := s'\<rparr>))\<lparr>w_ret := conv x\<rparr>"
  have "limit_args v ss (js_call v m conv) w = Some ?w"
    using len m by (auto simp: limit_args_def list_ex_iff js_call_def set_ret_def)
  then obtain w1 where w1: "f w = Some w1" "heap_erase w1 = heap_erase ?w"
    "blocks (w_heap w1) = blocks (w_heap w)" "heap_ok (w_heap w1)"
    using ref by (auto elim: refines_at_SomeE)
  show ?thesis using w1 heap_erase_eqD [OF w1(2)] by (intro exI [of _ w1]) (simp add: add_gas_def)
qed

text \<open>The sandbox of a world and its host.\<close>

definition runs_in :: "'d go_state world \<Rightarrow> 'd Host \<Rightarrow> bool" where
  "runs_in w hst \<longleftrightarrow>
     (\<exists>sbx a. GetSandbox (w_host w) (w_sbxPtr w) = Some sbx \<and> sb_host sbx = Some a \<and> gs_hosts (w_host w) a = Some hst)"

lemma with_sandbox_runs:
  assumes "runs_in w hst" and "f hst = Some (r, cost, hst')"
  shows "\<exists>s'. with_sandbox (w_sbxPtr w) f (w_host w) = Some (r, CPU cost, s') \<and>
    (\<forall>w1. w_host w1 = s' \<longrightarrow> w_sbxPtr w1 = w_sbxPtr w \<longrightarrow> runs_in w1 hst')"
proof -
  obtain sbx a where "GetSandbox (w_host w) (w_sbxPtr w) = Some sbx" "sb_host sbx = Some a" "gs_hosts (w_host w) a = Some hst"
    using assms(1) by (auto simp: runs_in_def)
  then show ?thesis
    using assms(2) by (auto simp: with_sandbox_def sbx_host_def set_sbx_host_def runs_in_def GetSandbox_def)
qed

context kv_database
begin

lemma put_runs:
  assumes ok: "heap_ok (w_heap w)" and v: "utf8_bound v" and fld: "w_fields w (ci_holder args) = IFExternal CStorage"
    and args: "ci_args args = [JString k, JString x, JString p]"
    and len: "length k \<le> INPUT_MAX_LENGTH" "length x \<le> INPUT_MAX_LENGTH" "length p \<le> INPUT_MAX_LENGTH"
    and host: "runs_in w hst" "inv (h_db hst)" and key: "IsValidKey (utf8_of v k) = None"
    and entry: "entry_ok hst c (view (h_db hst) (basic_key (modifyGlobalKey c (utf8_of v k))))"
  shows "\<exists>w1 payer hst1. IOSTContractStorage_Put v (go_storage_table D) args w = Some w1 \<and>
    choose_payer hst (basic_Get D (h_db hst) (modifyGlobalKey c (utf8_of v k))) (payer_arg (utf8_of v p)) = Some payer \<and>
    w_ret w1 = JNull \<and> w_exc w1 = w_exc w \<and> w_fields w1 = w_fields w \<and>
    blocks (w_heap w1) = blocks (w_heap w) \<and> heap_ok (w_heap w1) \<and>
    runs_in w1 hst1 \<and> inv (h_db hst1) \<and> h_ctx hst1 = h_ctx hst \<and>
    view (h_db hst1) = (view (h_db hst))
      (basic_key (modifyGlobalKey c (utf8_of v k)) := Some (stored_string (utf8_of v x) payer))"
proof -
  obtain payer h1 where p: "choose_payer hst (basic_Get D (h_db hst) (modifyGlobalKey c (utf8_of v k))) (payer_arg (utf8_of v p)) = Some payer"
    and put: "dbh_Put D hst (utf8_of v k) (GString (utf8_of v x)) (payer_arg (utf8_of v p)) =
      Some (put_cost (stored_string (utf8_of v x) payer), None, h1)"
    and h1: "view (h_db h1) = (view (h_db hst))(basic_key (modifyGlobalKey c (utf8_of v k)) := Some (stored_string (utf8_of v x) payer))"
      "inv (h_db h1)" "h_ctx h1 = h_ctx hst"
    by (rule dbh_Put_string [OF host(2) key entry, where ps = "payer_arg (utf8_of v p)" and s = "utf8_of v x"]) blast
  let ?op = "op_Put (go_storage_ops D) (w_sbxPtr w) (utf8_of v k) (utf8_of v x) (utf8_of v p)"
  obtain s' where s': "?op (w_host w) = Some (Inr (), CPU (put_cost (stored_string (utf8_of v x) payer)), s')"
    "\<And>w1. w_host w1 = s' \<Longrightarrow> w_sbxPtr w1 = w_sbxPtr w \<Longrightarrow> runs_in w1 h1"
    using with_sandbox_runs [OF host(1), where
      f = "\<lambda>hst. map_option as_write (dbh_Put D hst (utf8_of v k) (GString (utf8_of v x)) (payer_arg (utf8_of v p)))"] put
    by (fastforce simp: go_storage_ops_def as_write_def)
  have "\<forall>s \<in> set [k, x, p]. length s \<le> INPUT_MAX_LENGTH" using len by simp
  from refines_success [OF go_storage.Put_refines [OF ok v args fld] this s'(1)] s'(2) p h1
  show ?thesis by blast
qed

lemma get_runs:
  assumes ok: "heap_ok (w_heap w)" and v: "utf8_bound v" and fld: "w_fields w (ci_holder args) = IFExternal CStorage"
    and args: "ci_args args = [JString k, JString p]"
    and len: "length k \<le> INPUT_MAX_LENGTH" "length p \<le> INPUT_MAX_LENGTH"
    and host: "runs_in w hst" "inv (h_db hst)" "contract_name hst = Some c"
    and entry: "view (h_db hst) (basic_key (modifyGlobalKey c (utf8_of v k))) = Some (stored_string s payer)"
    and s: "CHR ''@'' \<notin> set payer" "length s < 2 ^ 31"
  shows "\<exists>w1. IOSTContractStorage_Get v (go_storage_table D) args w = Some w1 \<and>
    w_ret w1 = js_result v s \<and> w_exc w1 = w_exc w \<and> blocks (w_heap w1) = blocks (w_heap w)"
proof -
  have get: "dbh_Get D hst (utf8_of v k) = Some (GString s, GetCost)"
    using dbh_Get_string [OF host(2,3) s(1) entry] .
  let ?op = "op_Get (go_storage_ops D) (w_sbxPtr w) (utf8_of v k) (utf8_of v p)"
  obtain s' where s': "?op (w_host w) = Some (Inr (Some s), CPU GetCost, s')"
    using with_sandbox_runs [OF host(1), where
      f = "\<lambda>hst. map_option (\<lambda>(val, cost). (read_val_err val, cost, hst)) (dbh_Get D hst (utf8_of v k))"] get
    by (fastforce simp: go_storage_ops_def read_val_err_def dbValToString_def)
  have small: "small_result small_string_opt ?op (w_host w)"
    using s' s(2) by (simp add: small_result_def small_string_opt_def small_string_def)
  have "\<forall>s \<in> set [k, p]. length s \<le> INPUT_MAX_LENGTH" using len by simp
  from refines_success [OF go_storage.Get_refines [OF ok v args fld small] this s']
  show ?thesis by (auto simp: js_result_opt_def)
qed

lemma put_get:
  assumes ok: "heap_ok (w_heap w)" and v: "utf8_bound v"
    and fld: "w_fields w (ci_holder pargs) = IFExternal CStorage" "w_fields w (ci_holder gargs) = IFExternal CStorage"
    and args: "ci_args pargs = [JString k, JString x, JString p]" "ci_args gargs = [JString k, JString q]"
    and len: "length k \<le> INPUT_MAX_LENGTH" "length x \<le> INPUT_MAX_LENGTH" "length p \<le> INPUT_MAX_LENGTH"
      "length q \<le> INPUT_MAX_LENGTH"
    and host: "runs_in w hst" "inv (h_db hst)" and key: "IsValidKey (utf8_of v k) = None"
    and entry: "entry_ok hst c (view (h_db hst) (basic_key (modifyGlobalKey c (utf8_of v k))))"
    and codec: "codec_roundtrip v x"
    and payer: "\<And>payer. choose_payer hst (basic_Get D (h_db hst) (modifyGlobalKey c (utf8_of v k))) (payer_arg (utf8_of v p)) = Some payer \<Longrightarrow>
      CHR ''@'' \<notin> set payer"
  shows "\<exists>w1 w2. IOSTContractStorage_Put v (go_storage_table D) pargs w = Some w1 \<and>
    IOSTContractStorage_Get v (go_storage_table D) gargs w1 = Some w2 \<and>
    w_ret w2 = JString x \<and> w_exc w2 = w_exc w \<and> blocks (w_heap w2) = blocks (w_heap w)"
proof -
  obtain w1 py hst1 where 1: "IOSTContractStorage_Put v (go_storage_table D) pargs w = Some w1"
    "choose_payer hst (basic_Get D (h_db hst) (modifyGlobalKey c (utf8_of v k))) (payer_arg (utf8_of v p)) = Some py"
    "w_exc w1 = w_exc w" "w_fields w1 = w_fields w" "blocks (w_heap w1) = blocks (w_heap w)" "heap_ok (w_heap w1)"
    and h: "runs_in w1 hst1" "inv (h_db hst1)" "h_ctx hst1 = h_ctx hst"
      "view (h_db hst1) (basic_key (modifyGlobalKey c (utf8_of v k))) = Some (stored_string (utf8_of v x) py)"
    using put_runs [OF ok v fld(1) args(1) len(1-3) host key entry] by fastforce
  have name: "contract_name hst1 = Some c"
    using entry contract_name_ctx [OF h(3)] by (simp add: entry_ok_def)
  have small: "length (utf8_of v x) < 2 ^ 31"
    using v [unfolded utf8_bound_def, rule_format, of x] len(2) by (simp add: INPUT_MAX_LENGTH_def)
  have fld1: "w_fields w1 (ci_holder gargs) = IFExternal CStorage" using fld(2) 1(4) by simp
  show ?thesis
    using get_runs [OF 1(6) v fld1 args(2) len(1,4) h(1,2) name h(4) payer [OF 1(2)] small]
      js_result_roundtrip [OF codec] 1 by auto
qed

end

section \<open>A contract reaches its own entries only\<close>

text \<open>The keys of the store that belong to a contract, and the four operations that write.\<close>

definition of_contract :: "string \<Rightarrow> string \<Rightarrow> bool" where
  "of_contract c kk \<longleftrightarrow> (\<exists>s. kk = basic_key (modifyGlobalKey c s) \<or> kk = map_key (modifyGlobalKey c s))"

datatype write_op =
    WPut string go_val "string list"
  | WDel string
  | WMapPut string string go_val "string list"
  | WMapDel string string

fun run_write :: "'d database \<Rightarrow> write_op \<Rightarrow> 'd Host \<Rightarrow> (Cost \<times> string option \<times> 'd Host) option" where
  "run_write D (WPut k x ps) h = dbh_Put D h k x ps"
| "run_write D (WDel k) h = dbh_Del D h k"
| "run_write D (WMapPut k f x ps) h = dbh_MapPut D h k f x ps"
| "run_write D (WMapDel k f) h = dbh_MapDel D h k f"

lemma of_contract_keys [simp]:
  "of_contract c (basic_key (modifyGlobalKey c k))" "of_contract c (map_key (modifyGlobalKey c k))"
  "of_contract c (field_key (modifyGlobalKey c k) f)" "of_contract c (fixed_key (modifyGlobalKey c k))"
proof -
  have "field_key (modifyGlobalKey c k) f = map_key (modifyGlobalKey c (k @ ''-'' @ f))"
    "fixed_key (modifyGlobalKey c k) = map_key (modifyGlobalKey c (k @ ''@''))"
    by (simp_all add: field_key_def fixed_key_def map_key_def modifyGlobalKey_def)
  then show "of_contract c (basic_key (modifyGlobalKey c k))" "of_contract c (map_key (modifyGlobalKey c k))"
    "of_contract c (field_key (modifyGlobalKey c k) f)" "of_contract c (fixed_key (modifyGlobalKey c k))"
    by (auto simp: of_contract_def)
qed

lemma first_part:
  assumes "c \<notin> set a" and "c \<notin> set b" and "a @ c # s = b @ c # t"
  shows "a = b"
proof -
  have "takeWhile (\<lambda>x. x \<noteq> c) (xs @ c # ys) = xs" if "c \<notin> set xs" for xs ys
    using that by (induction xs) auto
  then show ?thesis using assms by metis
qed

lemma of_contract_disjoint:
  assumes "of_contract c kk" and "of_contract c' kk" and "CHR ''-'' \<notin> set c" and "CHR ''-'' \<notin> set c'"
  shows "c = c'"
  using assms first_part [of "CHR ''-''" c c']
  by (auto simp: of_contract_def basic_key_def map_key_def modifyGlobalKey_def)

lemma modifyValue_nonempty: "modifyValue x payer = Some sv \<Longrightarrow> sv \<noteq> []"
  by (auto simp: modifyValue_def MustMarshal_def Marshal_nonempty split: option.splits)

lemma payRAMInner_db: "payRAMInner h oldV a b who = Some h' \<Longrightarrow> h_db h' = h_db h \<and> h_ctx h' = h_ctx h"
  by (auto simp: payRAMInner_def bind_eq_Some_conv split: if_splits)

lemma releaseRAMInner_db: "releaseRAMInner h oldV a = Some h' \<Longrightarrow> h_db h' = h_db h \<and> h_ctx h' = h_ctx h"
  by (auto simp: releaseRAMInner_def bind_eq_Some_conv split: if_splits)

context kv_database
begin

definition only_touches :: "string \<Rightarrow> 'd \<Rightarrow> 'd \<Rightarrow> bool" where
  "only_touches c d d' \<longleftrightarrow> inv d' \<and> (\<forall>kk. \<not> of_contract c kk \<longrightarrow> view d' kk = view d kk)"

lemma touches_refl: "inv d \<Longrightarrow> only_touches c d d"
  by (simp add: only_touches_def)

lemma touches_trans: "only_touches c d d1 \<Longrightarrow> only_touches c d1 d2 \<Longrightarrow> only_touches c d d2"
  by (simp add: only_touches_def)

lemma touches_put: "only_touches c d0 d \<Longrightarrow> v \<noteq> [] \<Longrightarrow> of_contract c kk \<Longrightarrow> only_touches c d0 (db_Put D d kk v)"
  by (auto simp: only_touches_def kv_laws)

lemma touches_del: "only_touches c d0 d \<Longrightarrow> of_contract c kk \<Longrightarrow> only_touches c d0 (db_Del D d kk)"
  by (auto simp: only_touches_def kv_laws)

lemma addField_touches: "inv d \<Longrightarrow> only_touches c d (addField D d (modifyGlobalKey c k) f)"
  by (simp add: addField_def Let_def touches_put touches_refl)

lemma MPut_touches: "inv d \<Longrightarrow> v \<noteq> [] \<Longrightarrow> only_touches c d (MPut D d (modifyGlobalKey c k) f v)"
  by (simp add: MPut_def touches_put addField_touches)

lemma delField_touches:
  assumes "only_touches c d0 d"
  shows "only_touches c d0 (delField D d (modifyGlobalKey c k) f)"
    "only_touches c d0 (delField3_1_0 D d (modifyGlobalKey c k) f)"
  using assms by (simp_all add: delField_def delField3_1_0_def Let_def touches_put touches_del)

lemma MDel_touches: "inv d \<Longrightarrow> only_touches c d (MDel D d (modifyGlobalKey c k) f)"
  by (simp add: MDel_def Let_def delField_touches touches_del touches_refl)

lemma run_write_touches:
  assumes "inv (h_db h)" and "contract_name h = Some c" and "run_write D x h = Some (cost, err, h')"
  shows "only_touches c (h_db h) (h_db h')"
proof (cases x)
  case (WPut k v ps)
  then show ?thesis
    using assms by (auto simp: dbh_Put_def modifyKey_contract basic_Put_def payRAM_def Let_def bind_eq_Some_conv touches_put touches_refl
        dest!: payRAMInner_db modifyValue_nonempty split: option.splits)
next
  case (WDel k)
  then show ?thesis
    using assms by (auto simp: dbh_Del_def modifyKey_contract basic_Del_def releaseRAM_def Let_def bind_eq_Some_conv touches_del touches_refl
        dest!: releaseRAMInner_db split: option.splits)
next
  case (WMapPut k f v ps)
  then show ?thesis
    using assms by (auto simp: dbh_MapPut_def modifyKey_contract payRAMForMap_def Let_def bind_eq_Some_conv MPut_touches touches_refl
        dest!: payRAMInner_db modifyValue_nonempty split: option.splits)
next
  case (WMapDel k f)
  then show ?thesis
    using assms by (auto simp: dbh_MapDel_def modifyKey_contract releaseRAMForMap_def Let_def bind_eq_Some_conv MDel_touches touches_refl
        dest!: releaseRAMInner_db split: option.splits)
qed

lemma write_isolated:
  assumes "inv (h_db h)" and "contract_name h = Some c" and "run_write D x h = Some (cost, err, h')"
    and "CHR ''-'' \<notin> set c" and "CHR ''-'' \<notin> set c'" and "c' \<noteq> c"
  shows "dbh_GlobalHas D h' c' k = dbh_GlobalHas D h c' k" "dbh_GlobalGet D h' c' k = dbh_GlobalGet D h c' k"
    "dbh_GlobalMapHas D h' c' k f = dbh_GlobalMapHas D h c' k f" "dbh_GlobalMapGet D h' c' k f = dbh_GlobalMapGet D h c' k f"
    "dbh_GlobalMapKeys D h' c' k = dbh_GlobalMapKeys D h c' k"
proof -
  note t = run_write_touches [OF assms(1-3)]
  have i: "inv (h_db h')" using t by (simp add: only_touches_def)
  have "view (h_db h') kk = view (h_db h) kk" if "of_contract c' kk" for kk
    using t that of_contract_disjoint [of c kk c'] assms(4-6) unfolding only_touches_def by blast
  then have same: "db_Get D (h_db h') kk = db_Get D (h_db h) kk" "db_Has D (h_db h') kk = db_Has D (h_db h) kk"
    if "of_contract c' kk" for kk
    using that by (simp_all add: get_law [OF i] get_law [OF assms(1)] has_law [OF i] has_law [OF assms(1)])
  show "dbh_GlobalHas D h' c' k = dbh_GlobalHas D h c' k" "dbh_GlobalGet D h' c' k = dbh_GlobalGet D h c' k"
    "dbh_GlobalMapHas D h' c' k f = dbh_GlobalMapHas D h c' k f" "dbh_GlobalMapGet D h' c' k f = dbh_GlobalMapGet D h c' k f"
    "dbh_GlobalMapKeys D h' c' k = dbh_GlobalMapKeys D h c' k"
    by (simp_all add: dbh_GlobalHas_def dbh_GlobalGet_def dbh_GlobalMapHas_def dbh_GlobalMapGet_def dbh_GlobalMapKeys_def
        basic_Has_def basic_Get_def MHas_def MGet_def MKeys_def same)
qed

end

section \<open>Arguments that are turned away\<close>

text \<open>How many arguments each method takes.\<close>

definition storage_arity :: "(string \<times> nat) list" where
  "storage_arity =
     [(''put'', 3), (''has'', 2), (''get'', 2), (''del'', 2), (''mapPut'', 4), (''mapHas'', 3), (''mapGet'', 3),
      (''mapDel'', 3), (''mapKeys'', 2), (''mapLen'', 2), (''globalHas'', 3), (''globalGet'', 3), (''globalMapHas'', 4),
      (''globalMapGet'', 4), (''globalMapKeys'', 3), (''globalMapLen'', 3)]"

text \<open>An error is scheduled and nothing else has changed.\<close>

definition only_throws :: "v8_api \<Rightarrow> 'h act \<Rightarrow> 'h world \<Rightarrow> bool" where
  "only_throws v f w \<longleftrightarrow> (\<exists>msg. f w = Some (w\<lparr>w_exc := Some (JErrorObj (js_of_utf8 v msg))\<rparr>))"

lemma only_throws_error [simp]: "only_throws v (throw_error v msg) w"
  by (auto simp: only_throws_def throw_error_def ThrowException_def)

lemmas storage_callbacks_defs =
  IOSTContractStorage_Put_def IOSTContractStorage_Has_def IOSTContractStorage_Get_def IOSTContractStorage_Del_def
  IOSTContractStorage_MapPut_def IOSTContractStorage_MapHas_def IOSTContractStorage_MapGet_def IOSTContractStorage_MapDel_def
  IOSTContractStorage_MapKeys_def IOSTContractStorage_MapLen_def IOSTContractStorage_GlobalHas_def
  IOSTContractStorage_GlobalGet_def IOSTContractStorage_GlobalMapHas_def IOSTContractStorage_GlobalMapGet_def
  IOSTContractStorage_GlobalMapKeys_def IOSTContractStorage_GlobalMapLen_def

lemma wrong_arity:
  assumes "(name, f) \<in> set (tpl_methods (InitStorage v C))" and "map_of storage_arity name = Some n"
    and "length (ci_args args) \<noteq> n"
  shows "only_throws v (f args) w"
  using assms by (auto simp: InitStorage_def storage_arity_def storage_callbacks_defs)

lemma wrong_type:
  assumes "(name, f) \<in> set (tpl_methods (InitStorage v C))" and "map_of storage_arity name = Some n"
    and "length (ci_args args) = n" and "i < n" and "\<not> IsString (ci_args args ! i)"
    and "name \<in> {''put'', ''mapPut''} \<Longrightarrow> Suc i < n"
  shows "only_throws v (f args) w"
proof -
  have "n = 2 \<or> n = 3 \<or> n = 4" using assms(2) by (auto simp: storage_arity_def split: if_splits)
  then consider a b where "n = 2" "ci_args args = [a, b]" | a b c where "n = 3" "ci_args args = [a, b, c]"
    | a b c d where "n = 4" "ci_args args = [a, b, c, d]"
    using assms(3) by (auto simp: numeral_eq_Suc length_Suc_conv)
  then show ?thesis
  proof cases
    case (1 a b)
    then have "\<not> IsString a \<or> \<not> IsString b" using assms(4,5) by (auto simp: less_2_cases_iff)
    moreover have "f \<in> {IOSTContractStorage_Has v C, IOSTContractStorage_Get v C, IOSTContractStorage_Del v C,
        IOSTContractStorage_MapKeys v C, IOSTContractStorage_MapLen v C}"
      using assms(1,2) 1(1) by (auto simp: InitStorage_def storage_arity_def)
    ultimately show ?thesis
      using 1(2) by (elim insertE emptyE) (simp_all add: storage_callbacks_defs arg_def)
  next
    case (2 a b c)
    have "\<not> IsString a \<or> \<not> IsString b \<or> (\<not> IsString c \<and> name \<noteq> ''put'')"
      using assms(4-6) 2 by (auto simp: numeral_eq_Suc less_Suc_eq)
    moreover have "f \<in> {IOSTContractStorage_MapHas v C, IOSTContractStorage_MapGet v C, IOSTContractStorage_MapDel v C,
        IOSTContractStorage_GlobalHas v C, IOSTContractStorage_GlobalGet v C, IOSTContractStorage_GlobalMapKeys v C,
        IOSTContractStorage_GlobalMapLen v C} \<or> f = IOSTContractStorage_Put v C \<and> name = ''put''"
      using assms(1,2) 2(1) by (auto simp: InitStorage_def storage_arity_def)
    ultimately show ?thesis
      using 2(2) by (elim insertE emptyE disjE [of "f \<in> A" for A] conjE) (simp_all add: storage_callbacks_defs arg_def)
  next
    case (3 a b c d)
    have "\<not> IsString a \<or> \<not> IsString b \<or> \<not> IsString c \<or> (\<not> IsString d \<and> name \<noteq> ''mapPut'')"
      using assms(4-6) 3 by (auto simp: numeral_eq_Suc less_Suc_eq)
    moreover have "f \<in> {IOSTContractStorage_GlobalMapHas v C, IOSTContractStorage_GlobalMapGet v C} \<or>
        f = IOSTContractStorage_MapPut v C \<and> name = ''mapPut''"
      using assms(1,2) 3(1) by (auto simp: InitStorage_def storage_arity_def)
    ultimately show ?thesis
      using 3(2) by (elim insertE emptyE disjE [of "f \<in> A" for A] conjE) (simp_all add: storage_callbacks_defs arg_def)
  qed
qed

text \<open>The payer of a write is the one argument whose type no test looks at.\<close>

lemma put_payer_unchecked:
  assumes "ci_args args = [JString k, JString x, p]" and "\<not> IsString p"
    and "length k \<le> INPUT_MAX_LENGTH" and "length x \<le> INPUT_MAX_LENGTH"
  shows "IOSTContractStorage_Put v C args w = None"
  using assms by (cases p) (simp_all add: IOSTContractStorage_Put_def arg_def NewCStrChecked_def NewCStr_def Let_def not_less)

lemma mapPut_payer_unchecked:
  assumes "ci_args args = [JString k, JString f, JString x, p]" and "\<not> IsString p"
    and "length k \<le> INPUT_MAX_LENGTH" and "length f \<le> INPUT_MAX_LENGTH" and "length x \<le> INPUT_MAX_LENGTH"
  shows "IOSTContractStorage_MapPut v C args w = None"
  using assms by (cases p) (simp_all add: IOSTContractStorage_MapPut_def arg_def NewCStrChecked_def NewCStr_def Let_def not_less)

end
