(* ===== verification/StorageJs.thy ===== *)
theory StorageJs
  imports StorageEnd JsTree
begin

text \<open>
  \<^verbatim>\<open>libjs/storage.js\<close>: the object that contracts use as \<^verbatim>\<open>storage\<close>. It calls the methods of an \<^verbatim>\<open>IOSTStorage\<close> object,
  which are the callbacks of \<open>StorageApi\<close>, and fills in the payer. A call of a method starts with an undefined
  result; an exception it schedules leaves the calling function at once.
\<close>

section \<open>Methods\<close>

definition js_throw :: "js_string \<Rightarrow> 'h act" where
  "js_throw msg = ThrowException (JErrorObj msg)"

text \<open>\<open>holder\<close> is the object made by \<^verbatim>\<open>new IOSTStorage\<close>, and \<open>T\<close> its class.\<close>

definition method_call :: "'h class_tpl \<Rightarrow> nat \<Rightarrow> string \<Rightarrow> js_value list \<Rightarrow> 'h act" where
  "method_call T holder name xs w =
     (case map_of (tpl_methods T) name of
        Some f \<Rightarrow> f \<lparr>ci_args = xs, ci_holder = holder\<rparr> (w\<lparr>w_ret := JUndefined\<rparr>)
      | None \<Rightarrow> js_throw (js name @ js '' is not a function'') w)"

text \<open>\<^verbatim>\<open>JSON.parse\<close> of a result, which is the parameter \<open>parse\<close>: a syntax error or a value.\<close>

definition parse_result :: "(js_value \<Rightarrow> js_string + js_value) \<Rightarrow> 'h act \<Rightarrow> 'h act" where
  "parse_result parse f w =
     Option.bind (f w) (\<lambda>w1.
       if w_exc w1 \<noteq> None then Some w1
       else
         (case parse (w_ret w1) of
            Inl e \<Rightarrow> js_throw e w1
          | Inr x \<Rightarrow> set_ret x w1))"

definition payer_or_empty :: "js_value \<Rightarrow> js_value" where
  "payer_or_empty p = (if p = JUndefined then JString [] else p)"

section \<open>The object\<close>

definition js_put :: "'h class_tpl \<Rightarrow> nat \<Rightarrow> js_value \<Rightarrow> js_value \<Rightarrow> js_value \<Rightarrow> 'h act" where
  "js_put T holder k v p =
     (if \<not> IsString v then js_throw (js ''storage put must be string'')
      else method_call T holder ''put'' [k, v, payer_or_empty p])"

definition js_get :: "'h class_tpl \<Rightarrow> nat \<Rightarrow> js_value \<Rightarrow> 'h act" where
  "js_get T holder k = method_call T holder ''get'' [k, JString []]"

definition js_has :: "'h class_tpl \<Rightarrow> nat \<Rightarrow> js_value \<Rightarrow> 'h act" where
  "js_has T holder k = method_call T holder ''has'' [k, JString []]"

definition js_del :: "'h class_tpl \<Rightarrow> nat \<Rightarrow> js_value \<Rightarrow> 'h act" where
  "js_del T holder k = method_call T holder ''del'' [k, JString []]"

definition js_mapPut :: "'h class_tpl \<Rightarrow> nat \<Rightarrow> js_value \<Rightarrow> js_value \<Rightarrow> js_value \<Rightarrow> js_value \<Rightarrow> 'h act" where
  "js_mapPut T holder k f v p =
     (if \<not> IsString v then js_throw (js ''storage mapPut must be string'')
      else method_call T holder ''mapPut'' [k, f, v, payer_or_empty p])"

definition js_mapHas :: "'h class_tpl \<Rightarrow> nat \<Rightarrow> js_value \<Rightarrow> js_value \<Rightarrow> 'h act" where
  "js_mapHas T holder k f = method_call T holder ''mapHas'' [k, f, JString []]"

definition js_mapGet :: "'h class_tpl \<Rightarrow> nat \<Rightarrow> js_value \<Rightarrow> js_value \<Rightarrow> 'h act" where
  "js_mapGet T holder k f = method_call T holder ''mapGet'' [k, f, JString []]"

definition js_mapKeys :: "(js_value \<Rightarrow> js_string + js_value) \<Rightarrow> 'h class_tpl \<Rightarrow> nat \<Rightarrow> js_value \<Rightarrow> 'h act" where
  "js_mapKeys parse T holder k = parse_result parse (method_call T holder ''mapKeys'' [k, JString []])"

definition js_mapLen :: "'h class_tpl \<Rightarrow> nat \<Rightarrow> js_value \<Rightarrow> 'h act" where
  "js_mapLen T holder k = method_call T holder ''mapLen'' [k, JString []]"

definition js_mapDel :: "'h class_tpl \<Rightarrow> nat \<Rightarrow> js_value \<Rightarrow> js_value \<Rightarrow> 'h act" where
  "js_mapDel T holder k f = method_call T holder ''mapDel'' [k, f, JString []]"

definition js_globalGet :: "'h class_tpl \<Rightarrow> nat \<Rightarrow> js_value \<Rightarrow> js_value \<Rightarrow> 'h act" where
  "js_globalGet T holder c k = method_call T holder ''globalGet'' [c, k, JString []]"

definition js_globalHas :: "'h class_tpl \<Rightarrow> nat \<Rightarrow> js_value \<Rightarrow> js_value \<Rightarrow> 'h act" where
  "js_globalHas T holder c k = method_call T holder ''globalHas'' [c, k, JString []]"

definition js_globalMapHas :: "'h class_tpl \<Rightarrow> nat \<Rightarrow> js_value \<Rightarrow> js_value \<Rightarrow> js_value \<Rightarrow> 'h act" where
  "js_globalMapHas T holder c k f = method_call T holder ''globalMapHas'' [c, k, f, JString []]"

definition js_globalMapGet :: "'h class_tpl \<Rightarrow> nat \<Rightarrow> js_value \<Rightarrow> js_value \<Rightarrow> js_value \<Rightarrow> 'h act" where
  "js_globalMapGet T holder c k f = method_call T holder ''globalMapGet'' [c, k, f, JString []]"

definition js_globalMapKeys :: "(js_value \<Rightarrow> js_string + js_value) \<Rightarrow> 'h class_tpl \<Rightarrow> nat \<Rightarrow> js_value \<Rightarrow> js_value \<Rightarrow> 'h act" where
  "js_globalMapKeys parse T holder c k = parse_result parse (method_call T holder ''globalMapKeys'' [c, k, JString []])"

definition js_globalMapLen :: "'h class_tpl \<Rightarrow> nat \<Rightarrow> js_value \<Rightarrow> js_value \<Rightarrow> 'h act" where
  "js_globalMapLen T holder c k = method_call T holder ''globalMapLen'' [c, k, JString []]"

section \<open>From the contract to the database\<close>

lemma put_method [simp]:
  "method_call (InitStorage v C) holder ''put'' xs w = IOSTContractStorage_Put v C \<lparr>ci_args = xs, ci_holder = holder\<rparr> (w\<lparr>w_ret := JUndefined\<rparr>)"
  by (simp add: method_call_def InitStorage_def)

lemma get_method [simp]:
  "method_call (InitStorage v C) holder ''get'' xs w = IOSTContractStorage_Get v C \<lparr>ci_args = xs, ci_holder = holder\<rparr> (w\<lparr>w_ret := JUndefined\<rparr>)"
  by (simp add: method_call_def InitStorage_def)

lemma mapPut_method [simp]:
  "method_call (InitStorage v C) holder ''mapPut'' xs w =
     IOSTContractStorage_MapPut v C \<lparr>ci_args = xs, ci_holder = holder\<rparr> (w\<lparr>w_ret := JUndefined\<rparr>)"
  by (simp add: method_call_def InitStorage_def)

lemma runs_in_ret [simp]: "runs_in (w\<lparr>w_ret := x\<rparr>) hst = runs_in w hst"
  by (simp add: runs_in_def)

context kv_database
begin

text \<open>A contract gets back what it put, whoever pays.\<close>

lemma js_put_get:
  assumes ok: "heap_ok (w_heap w)" and v: "utf8_bound v" and fld: "w_fields w holder = IFExternal CStorage"
    and len: "length k \<le> INPUT_MAX_LENGTH" "length x \<le> INPUT_MAX_LENGTH"
    and p: "p = JUndefined \<or> (\<exists>s. p = JString s \<and> length s \<le> INPUT_MAX_LENGTH)"
    and host: "runs_in w hst" "inv (h_db hst)" and key: "IsValidKey (utf8_of v k) = None"
    and entry: "entry_ok hst c (view (h_db hst) (basic_key (modifyGlobalKey c (utf8_of v k))))"
    and codec: "codec_roundtrip v x"
    and payer: "\<And>q payer. payer_or_empty p = JString q \<Longrightarrow>
      choose_payer hst (basic_Get D (h_db hst) (modifyGlobalKey c (utf8_of v k))) (payer_arg (utf8_of v q)) = Some payer \<Longrightarrow>
      CHR ''@'' \<notin> set payer"
  shows "\<exists>w1 w2. js_put (InitStorage v (go_storage_table D)) holder (JString k) (JString x) p w = Some w1 \<and>
    js_get (InitStorage v (go_storage_table D)) holder (JString k) w1 = Some w2 \<and>
    w_ret w2 = JString x \<and> w_exc w2 = w_exc w \<and> blocks (w_heap w2) = blocks (w_heap w)"
proof -
  obtain q where q: "payer_or_empty p = JString q" "length q \<le> INPUT_MAX_LENGTH"
    using p by (auto simp: payer_or_empty_def split: if_splits)
  let ?w = "w\<lparr>w_ret := JUndefined\<rparr>" and ?a = "\<lparr>ci_args = [JString k, JString x, JString q], ci_holder = holder\<rparr>"
  obtain w1 py hst1 where 1: "IOSTContractStorage_Put v (go_storage_table D) ?a ?w = Some w1"
    "choose_payer hst (basic_Get D (h_db hst) (modifyGlobalKey c (utf8_of v k))) (payer_arg (utf8_of v q)) = Some py"
    "w_exc w1 = w_exc w" "w_fields w1 = w_fields w" "blocks (w_heap w1) = blocks (w_heap w)" "heap_ok (w_heap w1)"
    and h: "runs_in w1 hst1" "inv (h_db hst1)" "h_ctx hst1 = h_ctx hst"
      "view (h_db hst1) (basic_key (modifyGlobalKey c (utf8_of v k))) = Some (stored_string (utf8_of v x) py)"
    using put_runs [of ?w v ?a k x q hst c] ok v fld len q host key entry by fastforce
  have name: "contract_name hst1 = Some c"
    using entry contract_name_ctx [OF h(3)] by (simp add: entry_ok_def)
  have small: "length (utf8_of v x) < 2 ^ 31"
    using v [unfolded utf8_bound_def, rule_format, of x] len(2) by (simp add: INPUT_MAX_LENGTH_def)
  let ?w1 = "w1\<lparr>w_ret := JUndefined\<rparr>" and ?b = "\<lparr>ci_args = [JString k, JString []], ci_holder = holder\<rparr>"
  obtain w2 where 2: "IOSTContractStorage_Get v (go_storage_table D) ?b ?w1 = Some w2" "w_ret w2 = js_result v (utf8_of v x)"
    "w_exc w2 = w_exc w1" "blocks (w_heap w2) = blocks (w_heap w1)"
    using get_runs [of ?w1 v ?b k "[]" hst1 c "utf8_of v x" py] 1 v fld len(1) h name payer [OF q(1) 1(2)] small by auto
  show ?thesis using 1 2 q(1) js_result_roundtrip [OF codec] by (simp add: js_put_def js_get_def)
qed

end

text \<open>
  The script lets a payer of any other type through to the callback, which casts it: a contract can bring
  the engine into an undefined state.
\<close>

lemma js_payer_unchecked:
  assumes "\<not> IsString p" and "p \<noteq> JUndefined" and "length k \<le> INPUT_MAX_LENGTH" and "length x \<le> INPUT_MAX_LENGTH"
  shows "js_put (InitStorage v C) holder (JString k) (JString x) p w = None"
  using assms put_payer_unchecked [of "\<lparr>ci_args = [JString k, JString x, p], ci_holder = holder\<rparr>" k x p]
  by (simp add: js_put_def payer_or_empty_def)

lemma js_mapPut_payer_unchecked:
  assumes "\<not> IsString p" and "p \<noteq> JUndefined" and "length k \<le> INPUT_MAX_LENGTH" and "length f \<le> INPUT_MAX_LENGTH"
    and "length x \<le> INPUT_MAX_LENGTH"
  shows "js_mapPut (InitStorage v C) holder (JString k) (JString f) (JString x) p w = None"
  using assms mapPut_payer_unchecked [of "\<lparr>ci_args = [JString k, JString f, JString x, p], ci_holder = holder\<rparr>" k f x p]
  by (simp add: js_mapPut_def payer_or_empty_def)

end
