(* ===== verification/NumbersJs.thy ===== *)
theory NumbersJs
  imports JsTree "HOL-Library.Signed_Division"
begin

text \<open>
  \<^verbatim>\<open>libjs/int64.js\<close> and \<^verbatim>\<open>libjs/float64.js\<close>: the number classes of contracts, which wrap a \<^verbatim>\<open>BigNumber\<close> and check it
  in the constructor. \<^verbatim>\<open>bignumber.js\<close> is the third-party library of that name; its operations are the fields of a
  parameter record. A thrown \<^verbatim>\<open>Error\<close> is its message on the left of a sum. An object of one of the two classes
  is the \<^verbatim>\<open>BigNumber\<close> in its field \<^verbatim>\<open>number\<close>; contracts that derive their own classes from them are not covered.
  The accessors that only hand on to the \<^verbatim>\<open>BigNumber\<close> (\<^verbatim>\<open>isZero\<close>, \<^verbatim>\<open>toString\<close> and the like) are left out.
\<close>

section \<open>The library\<close>

text \<open>
  What a method is given: an object of its own class, a \<^verbatim>\<open>BigNumber\<close>, or any other value.
\<close>

datatype 'b operand = Same 'b | Big 'b | Plain js_value

record 'b bignumber =
  bn_new :: "'b operand \<Rightarrow> js_value \<Rightarrow> js_string + 'b"
  bn_isInteger :: "'b \<Rightarrow> bool"
  bn_eq :: "'b \<Rightarrow> 'b \<Rightarrow> bool"
  bn_gt :: "'b \<Rightarrow> 'b \<Rightarrow> bool"
  bn_gte :: "'b \<Rightarrow> 'b \<Rightarrow> bool"
  bn_lt :: "'b \<Rightarrow> 'b \<Rightarrow> bool"
  bn_lte :: "'b \<Rightarrow> 'b \<Rightarrow> bool"
  bn_plus :: "'b \<Rightarrow> 'b \<Rightarrow> 'b"
  bn_minus :: "'b \<Rightarrow> 'b \<Rightarrow> 'b"
  bn_times :: "'b \<Rightarrow> 'b \<Rightarrow> 'b"
  bn_div :: "'b \<Rightarrow> 'b \<Rightarrow> 'b"
  bn_idiv :: "'b \<Rightarrow> 'b \<Rightarrow> 'b"
  bn_mod :: "'b \<Rightarrow> 'b \<Rightarrow> 'b"
  bn_pow :: "'b \<Rightarrow> 'b \<Rightarrow> js_string + 'b"
  bn_shiftedBy :: "'b \<Rightarrow> js_value \<Rightarrow> js_string + 'b"
  bn_negated :: "'b \<Rightarrow> 'b"
  bn_toString :: "'b \<Rightarrow> js_string"

fun and_then :: "'e + 'a \<Rightarrow> ('a \<Rightarrow> 'e + 'c) \<Rightarrow> 'e + 'c" where
  "and_then (Inl e) f = Inl e"
| "and_then (Inr x) f = f x"

lemma and_then_Inr: "and_then r f = Inr y \<longleftrightarrow> (\<exists>x. r = Inr x \<and> f x = Inr y)"
  by (cases r) auto

text \<open>
  The documented behaviour the properties rely on. \<open>val\<close> is the number an object stands for: sums,
  differences, products and copies are exact, \<^verbatim>\<open>idiv\<close> cuts off the fraction, \<^verbatim>\<open>mod\<close> has the sign of the dividend,
  dividing by zero gives no finite number, and comparisons with NaN are false.
\<close>

fun num_less :: "js_number \<Rightarrow> js_number \<Rightarrow> bool" where
  "num_less (Fin a) (Fin b) = (a < b)"
| "num_less (Fin a) PInf = True"
| "num_less NInf (Fin b) = True"
| "num_less NInf PInf = True"
| "num_less a b = False"

definition num_int :: "int \<Rightarrow> js_number" where
  "num_int i = Fin (of_int i)"

lemma num_int_eq [simp]: "num_int i = num_int j \<longleftrightarrow> i = j"
  by (simp add: num_int_def)

lemma num_less_int [simp]: "num_less (num_int i) (num_int j) \<longleftrightarrow> i < j"
  by (simp add: num_int_def)

definition is_finite :: "js_number \<Rightarrow> bool" where
  "is_finite a = (case a of Fin x \<Rightarrow> True | _ \<Rightarrow> False)"

definition bn_numbers :: "'b bignumber \<Rightarrow> ('b \<Rightarrow> js_number) \<Rightarrow> bool" where
  "bn_numbers B val \<longleftrightarrow>
     (\<forall>x. \<exists>y. bn_new B (Big x) JUndefined = Inr y \<and> val y = val x) \<and>
     (\<exists>y. bn_new B (Plain (JString (js ''9223372036854775807''))) JUndefined = Inr y \<and> val y = num_int 9223372036854775807) \<and>
     (\<exists>y. bn_new B (Plain (JString (js ''-9223372036854775808''))) JUndefined = Inr y \<and> val y = num_int (- 9223372036854775808)) \<and>
     (\<forall>x. bn_isInteger B x \<longleftrightarrow> (\<exists>i. val x = num_int i)) \<and>
     (\<forall>x y. bn_gt B x y = num_less (val y) (val x)) \<and>
     (\<forall>x y. bn_lt B x y = num_less (val x) (val y))"

definition bn_arithmetic :: "'b bignumber \<Rightarrow> ('b \<Rightarrow> js_number) \<Rightarrow> bool" where
  "bn_arithmetic B val \<longleftrightarrow>
     (\<forall>x y a b. val x = num_int a \<and> val y = num_int b \<longrightarrow>
        val (bn_plus B x y) = num_int (a + b) \<and> val (bn_minus B x y) = num_int (a - b) \<and>
        val (bn_times B x y) = num_int (a * b) \<and> val (bn_negated B x) = num_int (- a) \<and>
        (if b = 0 then \<not> is_finite (val (bn_idiv B x y)) \<and> \<not> is_finite (val (bn_mod B x y))
         else val (bn_idiv B x y) = num_int (a sdiv b) \<and> val (bn_mod B x y) = num_int (a smod b)))"

section \<open>Int64\<close>

text \<open>The two limits are made once when the script is loaded, and a failure there would leave no class.\<close>

definition MaxInt64 :: "'b bignumber \<Rightarrow> js_string + 'b" where
  "MaxInt64 B = bn_new B (Plain (JString (js ''9223372036854775807''))) JUndefined"

definition MinInt64 :: "'b bignumber \<Rightarrow> js_string + 'b" where
  "MinInt64 B = bn_new B (Plain (JString (js ''-9223372036854775808''))) JUndefined"

definition Int64_validate :: "'b bignumber \<Rightarrow> 'b \<Rightarrow> js_string + unit" where
  "Int64_validate B x =
     and_then (MaxInt64 B) (\<lambda>mx. and_then (MinInt64 B) (\<lambda>mn.
       if \<not> bn_isInteger B x then Inl (js ''Int64: '' @ bn_toString B x @ js '' is not an integer'')
       else if bn_gt B x mx then Inl (js ''Int64: '' @ bn_toString B x @ js '' overflow int64'')
       else if bn_lt B x mn then Inl (js ''Int64: '' @ bn_toString B x @ js '' underflow int64'')
       else Inr ()))"

definition Int64_constructor :: "'b bignumber \<Rightarrow> 'b operand \<Rightarrow> js_value \<Rightarrow> js_string + 'b" where
  "Int64_constructor B n base =
     and_then (bn_new B n base) (\<lambda>x. and_then (Int64_validate B x) (\<lambda>_. Inr x))"

definition Int64_checkArgument :: "'b bignumber \<Rightarrow> 'b operand \<Rightarrow> js_string + 'b" where
  "Int64_checkArgument B a =
     (case a of
        Plain JUndefined \<Rightarrow> Inl (js ''Int64 argument: undefined is empty'')
      | Plain JNull \<Rightarrow> Inl (js ''Int64 argument: null is empty'')
      | Same y \<Rightarrow> and_then (Int64_validate B y) (\<lambda>_. Inr y)
      | _ \<Rightarrow>
          and_then (Int64_constructor B a JUndefined) (\<lambda>y. and_then (Int64_validate B y) (\<lambda>_. Inr y)))"

definition Int64_plus :: "'b bignumber \<Rightarrow> 'b \<Rightarrow> 'b operand \<Rightarrow> js_string + 'b" where
  "Int64_plus B x n = and_then (Int64_checkArgument B n) (\<lambda>y. Int64_constructor B (Big (bn_plus B x y)) JUndefined)"

definition Int64_minus :: "'b bignumber \<Rightarrow> 'b \<Rightarrow> 'b operand \<Rightarrow> js_string + 'b" where
  "Int64_minus B x n = and_then (Int64_checkArgument B n) (\<lambda>y. Int64_constructor B (Big (bn_minus B x y)) JUndefined)"

definition Int64_multi :: "'b bignumber \<Rightarrow> 'b \<Rightarrow> 'b operand \<Rightarrow> js_string + 'b" where
  "Int64_multi B x n = and_then (Int64_checkArgument B n) (\<lambda>y. Int64_constructor B (Big (bn_times B x y)) JUndefined)"

definition Int64_div :: "'b bignumber \<Rightarrow> 'b \<Rightarrow> 'b operand \<Rightarrow> js_string + 'b" where
  "Int64_div B x n = and_then (Int64_checkArgument B n) (\<lambda>y. Int64_constructor B (Big (bn_idiv B x y)) JUndefined)"

definition Int64_mod :: "'b bignumber \<Rightarrow> 'b \<Rightarrow> 'b operand \<Rightarrow> js_string + 'b" where
  "Int64_mod B x n = and_then (Int64_checkArgument B n) (\<lambda>y. Int64_constructor B (Big (bn_mod B x y)) JUndefined)"

definition Int64_shift :: "'b bignumber \<Rightarrow> 'b \<Rightarrow> js_value \<Rightarrow> js_string + 'b" where
  "Int64_shift B x n = and_then (bn_shiftedBy B x n) (\<lambda>rs. Int64_constructor B (Big rs) JUndefined)"

definition Int64_pow :: "'b bignumber \<Rightarrow> 'b \<Rightarrow> 'b operand \<Rightarrow> js_string + 'b" where
  "Int64_pow B x n =
     and_then (Int64_checkArgument B n) (\<lambda>y. and_then (bn_pow B x y) (\<lambda>rs. Int64_constructor B (Big rs) JUndefined))"

definition Int64_eq :: "'b bignumber \<Rightarrow> 'b \<Rightarrow> 'b operand \<Rightarrow> js_string + bool" where
  "Int64_eq B x n = and_then (Int64_checkArgument B n) (\<lambda>y. Inr (bn_eq B x y))"

definition Int64_gt :: "'b bignumber \<Rightarrow> 'b \<Rightarrow> 'b operand \<Rightarrow> js_string + bool" where
  "Int64_gt B x n = and_then (Int64_checkArgument B n) (\<lambda>y. Inr (bn_gt B x y))"

definition Int64_gte :: "'b bignumber \<Rightarrow> 'b \<Rightarrow> 'b operand \<Rightarrow> js_string + bool" where
  "Int64_gte B x n = and_then (Int64_checkArgument B n) (\<lambda>y. Inr (bn_gte B x y))"

definition Int64_lt :: "'b bignumber \<Rightarrow> 'b \<Rightarrow> 'b operand \<Rightarrow> js_string + bool" where
  "Int64_lt B x n = and_then (Int64_checkArgument B n) (\<lambda>y. Inr (bn_lt B x y))"

definition Int64_lte :: "'b bignumber \<Rightarrow> 'b \<Rightarrow> 'b operand \<Rightarrow> js_string + bool" where
  "Int64_lte B x n = and_then (Int64_checkArgument B n) (\<lambda>y. Inr (bn_lte B x y))"

definition Int64_negated :: "'b bignumber \<Rightarrow> 'b \<Rightarrow> js_string + 'b" where
  "Int64_negated B x = Int64_constructor B (Big (bn_negated B x)) JUndefined"

section \<open>Float64\<close>

definition MaxFloat64 :: "'b bignumber \<Rightarrow> js_string + 'b" where
  "MaxFloat64 B = bn_new B (Plain (JString (js ''9223372036854775807''))) JUndefined"

definition MinFloat64 :: "'b bignumber \<Rightarrow> js_string + 'b" where
  "MinFloat64 B = bn_new B (Plain (JString (js ''-9223372036854775808''))) JUndefined"

definition Float64_validate :: "'b bignumber \<Rightarrow> 'b \<Rightarrow> js_string + unit" where
  "Float64_validate B x =
     and_then (MaxFloat64 B) (\<lambda>mx. and_then (MinFloat64 B) (\<lambda>mn.
       if bn_gt B x mx then Inl (js ''Float64: '' @ bn_toString B x @ js '' overflow float64'')
       else if bn_lt B x mn then Inl (js ''Float64: '' @ bn_toString B x @ js '' underflow float64'')
       else Inr ()))"

definition Float64_constructor :: "'b bignumber \<Rightarrow> 'b operand \<Rightarrow> js_value \<Rightarrow> js_string + 'b" where
  "Float64_constructor B n base =
     and_then (bn_new B n base) (\<lambda>x. and_then (Float64_validate B x) (\<lambda>_. Inr x))"

definition Float64_checkArgument :: "'b bignumber \<Rightarrow> 'b operand \<Rightarrow> js_string + 'b" where
  "Float64_checkArgument B a =
     (case a of
        Plain JUndefined \<Rightarrow> Inl (js ''float64 argument: undefined is empty'')
      | Plain JNull \<Rightarrow> Inl (js ''float64 argument: null is empty'')
      | Same y \<Rightarrow> and_then (Float64_validate B y) (\<lambda>_. Inr y)
      | _ \<Rightarrow>
          and_then (Float64_constructor B a JUndefined) (\<lambda>y. and_then (Float64_validate B y) (\<lambda>_. Inr y)))"

definition Float64_plus :: "'b bignumber \<Rightarrow> 'b \<Rightarrow> 'b operand \<Rightarrow> js_string + 'b" where
  "Float64_plus B x n = and_then (Float64_checkArgument B n) (\<lambda>y. Float64_constructor B (Big (bn_plus B x y)) JUndefined)"

definition Float64_minus :: "'b bignumber \<Rightarrow> 'b \<Rightarrow> 'b operand \<Rightarrow> js_string + 'b" where
  "Float64_minus B x n = and_then (Float64_checkArgument B n) (\<lambda>y. Float64_constructor B (Big (bn_minus B x y)) JUndefined)"

definition Float64_multi :: "'b bignumber \<Rightarrow> 'b \<Rightarrow> 'b operand \<Rightarrow> js_string + 'b" where
  "Float64_multi B x n = and_then (Float64_checkArgument B n) (\<lambda>y. Float64_constructor B (Big (bn_times B x y)) JUndefined)"

definition Float64_div :: "'b bignumber \<Rightarrow> 'b \<Rightarrow> 'b operand \<Rightarrow> js_string + 'b" where
  "Float64_div B x n = and_then (Float64_checkArgument B n) (\<lambda>y. Float64_constructor B (Big (bn_div B x y)) JUndefined)"

definition Float64_mod :: "'b bignumber \<Rightarrow> 'b \<Rightarrow> 'b operand \<Rightarrow> js_string + 'b" where
  "Float64_mod B x n = and_then (Float64_checkArgument B n) (\<lambda>y. Float64_constructor B (Big (bn_mod B x y)) JUndefined)"

definition Float64_pow :: "'b bignumber \<Rightarrow> 'b \<Rightarrow> 'b operand \<Rightarrow> js_string + 'b" where
  "Float64_pow B x n =
     and_then (Float64_checkArgument B n) (\<lambda>y. and_then (bn_pow B x y) (\<lambda>rs. Float64_constructor B (Big rs) JUndefined))"

definition Float64_eq :: "'b bignumber \<Rightarrow> 'b \<Rightarrow> 'b operand \<Rightarrow> js_string + bool" where
  "Float64_eq B x n = and_then (Float64_checkArgument B n) (\<lambda>y. Inr (bn_eq B x y))"

definition Float64_gt :: "'b bignumber \<Rightarrow> 'b \<Rightarrow> 'b operand \<Rightarrow> js_string + bool" where
  "Float64_gt B x n = and_then (Float64_checkArgument B n) (\<lambda>y. Inr (bn_gt B x y))"

definition Float64_gte :: "'b bignumber \<Rightarrow> 'b \<Rightarrow> 'b operand \<Rightarrow> js_string + bool" where
  "Float64_gte B x n = and_then (Float64_checkArgument B n) (\<lambda>y. Inr (bn_gte B x y))"

definition Float64_lt :: "'b bignumber \<Rightarrow> 'b \<Rightarrow> 'b operand \<Rightarrow> js_string + bool" where
  "Float64_lt B x n = and_then (Float64_checkArgument B n) (\<lambda>y. Inr (bn_lt B x y))"

definition Float64_lte :: "'b bignumber \<Rightarrow> 'b \<Rightarrow> 'b operand \<Rightarrow> js_string + bool" where
  "Float64_lte B x n = and_then (Float64_checkArgument B n) (\<lambda>y. Inr (bn_lte B x y))"

definition Float64_negated :: "'b bignumber \<Rightarrow> 'b \<Rightarrow> js_string + 'b" where
  "Float64_negated B x = Float64_constructor B (Big (bn_negated B x)) JUndefined"

section \<open>Every object is in range\<close>

definition in_int64 :: "int \<Rightarrow> bool" where
  "in_int64 i \<longleftrightarrow> - (2 ^ 63) \<le> i \<and> i < 2 ^ 63"

definition is_int64 :: "('b \<Rightarrow> js_number) \<Rightarrow> 'b \<Rightarrow> bool" where
  "is_int64 val x \<longleftrightarrow> (\<exists>i. val x = num_int i \<and> in_int64 i)"

definition is_float64 :: "('b \<Rightarrow> js_number) \<Rightarrow> 'b \<Rightarrow> bool" where
  "is_float64 val x \<longleftrightarrow> val x = NaN \<or> (\<exists>a. val x = Fin a \<and> - (2 ^ 63) \<le> a \<and> a \<le> 2 ^ 63 - 1)"

lemma Int64_validate_iff:
  assumes "bn_numbers B val"
  shows "Int64_validate B x = Inr () \<longleftrightarrow> is_int64 val x"
proof -
  obtain mx mn where "MaxInt64 B = Inr mx" "val mx = num_int 9223372036854775807"
    "MinInt64 B = Inr mn" "val mn = num_int (- 9223372036854775808)"
    using assms unfolding bn_numbers_def MaxInt64_def MinInt64_def by blast
  moreover have "bn_isInteger B x \<longleftrightarrow> (\<exists>i. val x = num_int i)" "bn_gt B x mx = num_less (val mx) (val x)"
    "bn_lt B x mn = num_less (val x) (val mn)"
    using assms unfolding bn_numbers_def by blast+
  ultimately show ?thesis by (auto simp: Int64_validate_def is_int64_def in_int64_def)
qed

lemma Float64_validate_iff:
  assumes "bn_numbers B val"
  shows "Float64_validate B x = Inr () \<longleftrightarrow> is_float64 val x"
proof -
  obtain mx mn where "MaxFloat64 B = Inr mx" "val mx = num_int 9223372036854775807"
    "MinFloat64 B = Inr mn" "val mn = num_int (- 9223372036854775808)"
    using assms unfolding bn_numbers_def MaxFloat64_def MinFloat64_def by blast
  moreover have "bn_gt B x mx = num_less (val mx) (val x)" "bn_lt B x mn = num_less (val x) (val mn)"
    using assms unfolding bn_numbers_def by blast+
  ultimately show ?thesis
    by (cases "val x") (auto simp: Float64_validate_def is_float64_def num_int_def)
qed

lemma Int64_constructor_ok:
  assumes "bn_numbers B val" and "Int64_constructor B n base = Inr u"
  shows "is_int64 val u"
  using assms(2) Int64_validate_iff [OF assms(1)] by (auto simp: Int64_constructor_def and_then_Inr)

lemma Float64_constructor_ok:
  assumes "bn_numbers B val" and "Float64_constructor B n base = Inr u"
  shows "is_float64 val u"
  using assms(2) Float64_validate_iff [OF assms(1)] by (auto simp: Float64_constructor_def and_then_Inr)

lemmas Int64_ops = Int64_plus_def Int64_minus_def Int64_multi_def Int64_div_def Int64_mod_def Int64_shift_def
  Int64_pow_def Int64_negated_def

lemmas Float64_ops = Float64_plus_def Float64_minus_def Float64_multi_def Float64_div_def Float64_mod_def
  Float64_pow_def Float64_negated_def

definition Int64_results :: "'b bignumber \<Rightarrow> 'b \<Rightarrow> 'b operand \<Rightarrow> js_value \<Rightarrow> (js_string + 'b) list" where
  "Int64_results B x n k =
     [Int64_constructor B n k, Int64_plus B x n, Int64_minus B x n, Int64_multi B x n, Int64_div B x n,
      Int64_mod B x n, Int64_shift B x k, Int64_pow B x n, Int64_negated B x]"

definition Float64_results :: "'b bignumber \<Rightarrow> 'b \<Rightarrow> 'b operand \<Rightarrow> js_value \<Rightarrow> (js_string + 'b) list" where
  "Float64_results B x n k =
     [Float64_constructor B n k, Float64_plus B x n, Float64_minus B x n, Float64_multi B x n, Float64_div B x n,
      Float64_mod B x n, Float64_pow B x n, Float64_negated B x]"

lemma Int64_results_ok:
  assumes "bn_numbers B val" and "Inr u \<in> set (Int64_results B x n k)"
  shows "is_int64 val u"
  using assms(2) unfolding Int64_results_def Int64_ops
  by (auto simp: and_then_Inr dest!: sym [of "Inr u"] dest: Int64_constructor_ok [OF assms(1)])

lemma Float64_results_ok:
  assumes "bn_numbers B val" and "Inr u \<in> set (Float64_results B x n k)"
  shows "is_float64 val u"
  using assms(2) unfolding Float64_results_def Float64_ops
  by (auto simp: and_then_Inr dest!: sym [of "Inr u"] dest: Float64_constructor_ok [OF assms(1)])

section \<open>Arithmetic is exact or refused\<close>

definition exactly :: "('b \<Rightarrow> js_number) \<Rightarrow> js_string + 'b \<Rightarrow> int \<Rightarrow> bool" where
  "exactly val r i \<longleftrightarrow> (if in_int64 i then \<exists>u. r = Inr u \<and> val u = num_int i else \<exists>e. r = Inl e)"

lemma Int64_constructor_Big:
  assumes "bn_numbers B val"
  shows "\<exists>y. val y = val z \<and>
    (if is_int64 val z then Int64_constructor B (Big z) JUndefined = Inr y else \<exists>e. Int64_constructor B (Big z) JUndefined = Inl e)"
proof -
  obtain y where y: "bn_new B (Big z) JUndefined = Inr y" "val y = val z"
    using assms unfolding bn_numbers_def by blast
  then have "Int64_validate B y = Inr () \<longleftrightarrow> is_int64 val z"
    using Int64_validate_iff [OF assms, of y] by (simp add: is_int64_def)
  then show ?thesis using y by (cases "Int64_validate B y") (auto simp: Int64_constructor_def)
qed

lemma exactly_Big:
  assumes "bn_numbers B val" and "val z = num_int i"
  shows "exactly val (Int64_constructor B (Big z) JUndefined) i"
  using Int64_constructor_Big [OF assms(1), of z] assms(2) by (auto simp: exactly_def is_int64_def split: if_splits)

lemma not_finite_Big:
  assumes "bn_numbers B val" and "\<not> is_finite (val z)"
  shows "\<exists>e. Int64_constructor B (Big z) JUndefined = Inl e"
  using Int64_constructor_Big [OF assms(1), of z] assms(2)
  by (auto simp: is_int64_def is_finite_def num_int_def split: if_splits)

lemma Int64_checkArgument_Same:
  assumes "bn_numbers B val" and "is_int64 val y"
  shows "Int64_checkArgument B (Same y) = Inr y"
  using Int64_validate_iff [OF assms(1), of y] assms(2) by (simp add: Int64_checkArgument_def)

lemma Int64_exact:
  assumes B: "bn_numbers B val" "bn_arithmetic B val"
    and x: "val x = num_int a" and y: "val y = num_int b" "in_int64 b"
  shows "exactly val (Int64_plus B x (Same y)) (a + b)"
    and "exactly val (Int64_minus B x (Same y)) (a - b)"
    and "exactly val (Int64_multi B x (Same y)) (a * b)"
    and "exactly val (Int64_negated B x) (- a)"
    and "b \<noteq> 0 \<Longrightarrow> exactly val (Int64_div B x (Same y)) (a sdiv b)"
    and "b \<noteq> 0 \<Longrightarrow> exactly val (Int64_mod B x (Same y)) (a smod b)"
    and "b = 0 \<Longrightarrow> \<exists>e. Int64_div B x (Same y) = Inl e"
    and "b = 0 \<Longrightarrow> \<exists>e. Int64_mod B x (Same y) = Inl e"
proof -
  have c: "Int64_checkArgument B (Same y) = Inr y"
    using Int64_checkArgument_Same [OF B(1)] y by (auto simp: is_int64_def)
  note v = B(2) [unfolded bn_arithmetic_def, rule_format, OF conjI [OF x y(1)]]
  show "exactly val (Int64_plus B x (Same y)) (a + b)" "exactly val (Int64_minus B x (Same y)) (a - b)"
    "exactly val (Int64_multi B x (Same y)) (a * b)" "exactly val (Int64_negated B x) (- a)"
    using v by (simp_all add: Int64_ops c exactly_Big [OF B(1)])
  show "b \<noteq> 0 \<Longrightarrow> exactly val (Int64_div B x (Same y)) (a sdiv b)"
    "b \<noteq> 0 \<Longrightarrow> exactly val (Int64_mod B x (Same y)) (a smod b)"
    using v by (simp_all add: Int64_ops c exactly_Big [OF B(1)])
  show "b = 0 \<Longrightarrow> \<exists>e. Int64_div B x (Same y) = Inl e" "b = 0 \<Longrightarrow> \<exists>e. Int64_mod B x (Same y) = Inl e"
    using v by (simp_all add: Int64_ops c not_finite_Big [OF B(1)])
qed

end
