(* ===== verification/VmJs.thy ===== *)
theory VmJs
  imports Instruction StorageJs NumbersJs
begin

text \<open>
  The operators of \<^verbatim>\<open>libjs/vm.js\<close>: injected code calls \<^verbatim>\<open>_IOSTBinaryOp\<close>, \<^verbatim>\<open>_IOSTTemplateTag\<close> and \<^verbatim>\<open>_IOSTSpreadElement\<close>
  in place of the operators of the language, and these charge for the work with the instruction counter. What
  the engine does for an operator, a conversion to a string or the length of an array is a parameter, since on
  objects it may run code of the contract. An exception leaves the function.
\<close>

section \<open>Statements\<close>

definition and_next :: "'h act \<Rightarrow> 'h act \<Rightarrow> 'h act" where
  "and_next f g w = Option.bind (f w) (\<lambda>w1. if w_exc w1 \<noteq> None then Some w1 else g w1)"

text \<open>\<open>read f k\<close> goes on with the value that \<open>f\<close> leaves.\<close>

definition read :: "'h act \<Rightarrow> (js_value \<Rightarrow> 'h act) \<Rightarrow> 'h act" where
  "read f k = and_next f (\<lambda>w. k (w_ret w) w)"

record 'h js_engine =
  op_of :: "string \<Rightarrow> js_value \<Rightarrow> js_value \<Rightarrow> 'h act"
  text_of :: "js_value \<Rightarrow> 'h act"
  string_of :: "js_value \<Rightarrow> 'h act"
  length_of :: "js_value \<Rightarrow> 'h act"
  max_string :: nat

text \<open>
  The cases of the language that do not run other code are written out: equality of primitive values, sums of
  strings, comparisons of numbers, and the length of a string. \<open>text_of\<close> is a call of the method
  \<^verbatim>\<open>toString\<close> and \<open>string_of\<close> the conversion of the language.
\<close>

fun primitive :: "js_value \<Rightarrow> bool" where
  "primitive (JObject n) = False"
| "primitive (JErrorObj s) = False"
| "primitive x = True"

fun strict_eq :: "js_value \<Rightarrow> js_value \<Rightarrow> bool" where
  "strict_eq (JNumber NaN) (JNumber NaN) = False"
| "strict_eq x y = (x = y)"

definition js_concat :: "'h js_engine \<Rightarrow> js_string \<Rightarrow> js_string \<Rightarrow> 'h act" where
  "js_concat E a b =
     (if length a + length b \<le> max_string E then set_ret (JString (a @ b)) else js_throw (js ''Invalid string length''))"

definition js_op :: "'h js_engine \<Rightarrow> string \<Rightarrow> js_value \<Rightarrow> js_value \<Rightarrow> 'h act" where
  "js_op E opr l r =
     (if opr = ''==='' \<and> primitive l \<and> primitive r then set_ret (JBool (strict_eq l r))
      else if opr = ''!=='' \<and> primitive l \<and> primitive r then set_ret (JBool (\<not> strict_eq l r))
      else
        case (l, r) of
          (JString a, JString b) \<Rightarrow> if opr = ''+'' then js_concat E a b else op_of E opr l r
        | (JNumber a, JNumber b) \<Rightarrow>
            if opr = ''>'' then set_ret (JBool (num_less b a))
            else if opr = ''<='' then set_ret (JBool (a \<noteq> NaN \<and> b \<noteq> NaN \<and> \<not> num_less b a))
            else op_of E opr l r
        | _ \<Rightarrow> op_of E opr l r)"

definition number :: "nat \<Rightarrow> js_value" where
  "number n = JNumber (Fin (of_nat n))"

definition js_length :: "'h js_engine \<Rightarrow> js_value \<Rightarrow> 'h act" where
  "js_length E x = (case x of JString s \<Rightarrow> set_ret (number (length s)) | _ \<Rightarrow> length_of E x)"

definition js_string_of :: "'h js_engine \<Rightarrow> js_value \<Rightarrow> 'h act" where
  "js_string_of E x = (case x of JString s \<Rightarrow> set_ret x | _ \<Rightarrow> string_of E x)"

definition counter_incr :: "v8_api \<Rightarrow> nat \<Rightarrow> js_value \<Rightarrow> 'h act" where
  "counter_incr v counter x = method_call (InitInstruction v) counter ''incr'' [x]"

section \<open>Operators\<close>

definition compares :: "string list" where
  "compares = [''=='', ''!='', ''==='', ''!=='', ''<'', ''<='', ''>'', ''>='']"

text \<open>
  The length of an operand as text; \<^verbatim>\<open>null\<close> and \<^verbatim>\<open>undefined\<close> count as nothing. The text is taken twice when it is
  not empty.
\<close>

definition text_length :: "'h js_engine \<Rightarrow> js_value \<Rightarrow> (js_value \<Rightarrow> 'h act) \<Rightarrow> 'h act" where
  "text_length E x k =
     (if x = JNull \<or> x = JUndefined then k (number 0)
      else
        read (text_of E x) (\<lambda>s. read (js_length E s) (\<lambda>n. read (js_op E ''<='' n (number 0)) (\<lambda>none.
          if none = JBool True then k (number 0)
          else read (text_of E x) (\<lambda>s. read (js_length E s) k)))))"

definition binary_ops :: "string list" where
  "binary_ops =
     [''-'', ''*'', ''/'', ''%'', ''**'', ''|'', ''&'', ''^'', ''>>'', ''>>>'', ''<<'', ''==='', ''!=='', ''>'', ''>='', ''<'', ''<='']"

definition IOSTBinaryOp :: "v8_api \<Rightarrow> nat \<Rightarrow> 'h js_engine \<Rightarrow> js_value \<Rightarrow> js_value \<Rightarrow> string \<Rightarrow> 'h act" where
  "IOSTBinaryOp v counter E left right opr =
     and_next
       (if (IsString left \<or> IsString right) \<and> opr \<in> set compares
        then and_next (text_length E left (counter_incr v counter)) (text_length E right (counter_incr v counter))
        else Some)
       (and_next (counter_incr v counter (number 3))
          (if opr = ''+'' then
             read (js_op E ''+'' left right) (\<lambda>ret.
               case ret of
                 JString s \<Rightarrow> and_next (counter_incr v counter (number (length s))) (set_ret ret)
               | _ \<Rightarrow> set_ret ret)
           else if opr = ''=='' then js_op E ''==='' left right
           else if opr = ''!='' then js_op E ''!=='' left right
           else if opr \<in> set binary_ops then js_op E opr left right
           else set_ret JUndefined))"

section \<open>Templates and spread elements\<close>

text \<open>
  \<^verbatim>\<open>res.concat(strings[i], keys[i])\<close> for the strings and the values of a template; a missing value is
  \<^verbatim>\<open>undefined\<close>.
\<close>

fun template_loop :: "v8_api \<Rightarrow> nat \<Rightarrow> 'h js_engine \<Rightarrow> js_string \<Rightarrow> js_string list \<Rightarrow> js_value list \<Rightarrow> 'h act" where
  "template_loop v counter E res (s # t # strings) keys =
     and_next (counter_incr v counter (number 8))
       (read (js_string_of E (case keys of [] \<Rightarrow> JUndefined | k # _ \<Rightarrow> k)) (\<lambda>x.
          case x of
            JString r \<Rightarrow>
              if length res + length s + length r \<le> max_string E
              then template_loop v counter E (res @ s @ r) (t # strings) (tl keys)
              else js_throw (js ''Invalid string length'')
          | _ \<Rightarrow> (\<lambda>w. None)))"
| "template_loop v counter E res [s] keys = js_concat E res s"
| "template_loop v counter E res [] keys = js_concat E res (js ''undefined'')"

definition IOSTTemplateTag :: "v8_api \<Rightarrow> nat \<Rightarrow> 'h js_engine \<Rightarrow> js_string list \<Rightarrow> js_value list \<Rightarrow> 'h act" where
  "IOSTTemplateTag v counter E strings keys =
     and_next (counter_incr v counter (number 4)) (template_loop v counter E [] strings keys)"

definition IOSTSpreadElement :: "v8_api \<Rightarrow> nat \<Rightarrow> 'h js_engine \<Rightarrow> js_value \<Rightarrow> 'h act" where
  "IOSTSpreadElement v counter E xs =
     (if xs = JUndefined \<or> xs = JNull then set_ret xs
      else
        read (js_length E xs) (\<lambda>n. read (js_op E ''>'' n (number 0)) (\<lambda>more.
          if more = JBool True
          then read (js_length E xs) (\<lambda>n. and_next (counter_incr v counter n) (set_ret xs))
          else set_ret xs)))"

section \<open>What is charged\<close>

text \<open>The counter can take \<open>n\<close> more units in \<open>k\<close> calls, and the memory check passes.\<close>

definition can_charge :: "nat \<Rightarrow> nat \<Rightarrow> nat \<Rightarrow> 'h world \<Rightarrow> bool" where
  "can_charge counter n k w \<longleftrightarrow>
     w_fields w counter = IFExternal CInstruction \<and> w_exc w = None \<and> MemoryUsage w \<le> memLimit (w_sbx w) \<and>
     unat (gasUsed (w_sbx w)) + n < 2 ^ 64 \<and> sint (inst_count (w_sbx w)) + int k \<le> INT_MAX"

definition charge_once :: "nat \<Rightarrow> 'h world \<Rightarrow> 'h world" where
  "charge_once n w = w\<lparr>w_sbx := (w_sbx w)\<lparr>gasUsed := gasUsed (w_sbx w) + of_nat n, inst_count := inst_count (w_sbx w) + 1\<rparr>\<rparr>"

definition gas_of :: "'h world \<Rightarrow> nat" where
  "gas_of w = unat (gasUsed (w_sbx w))"

lemma can_charge_ret [simp]: "can_charge counter n k (w\<lparr>w_ret := x\<rparr>) = can_charge counter n k w"
  by (simp add: can_charge_def MemoryUsage_def)

lemma gas_of_ret [simp]: "gas_of (w\<lparr>w_ret := x\<rparr>) = gas_of w"
  by (simp add: gas_of_def)

lemma counter_incr_ok:
  assumes w: "can_charge counter (m + n) (Suc k) w" and n: "n < 2147483647"
  shows "counter_incr v counter (number n) w =
      Some ((charge_once n w)\<lparr>w_ret := double_of_size_t (gasUsed (w_sbx (charge_once n w)))\<rparr>)" (is "_ = Some ?w")
    and "can_charge counter m k (charge_once n w)" and "gas_of (charge_once n w) = gas_of w + n"
proof -
  have amount: "gas_amount (JNumber (Fin (of_nat n))) = Some n" using n by simp
  note g = gas_amount_size_t [OF amount]
  have u: "unat (of_nat n :: size_t) = n" using g(6) by (simp add: unat_of_nat take_bit_nat_eq_self)
  have fits: "unat (gasUsed (w_sbx w)) + unat (of_nat n :: size_t) < 2 ^ 64" "sint (inst_count (w_sbx w)) < INT_MAX"
    using w u by (auto simp: can_charge_def)
  then have incr: "Instruction_Incr v (of_nat n) (w\<lparr>w_ret := JUndefined\<rparr>) =
      Some (gasUsed (w_sbx (charge_once n w)), (charge_once n w)\<lparr>w_ret := JUndefined\<rparr>)"
    and gas: "unat (gasUsed (w_sbx (charge_once n w))) = unat (gasUsed (w_sbx w)) + n"
    using Instruction_Incr_ok [of "w\<lparr>w_ret := JUndefined\<rparr>" "of_nat n" v] u by (auto simp: charge_once_def)
  have "\<not> MemoryUsage ?w > memLimit (w_sbx ?w)" using w by (simp add: can_charge_def charge_once_def MemoryUsage_def not_less)
  then have mem: "MemUsageCheck v ?w = Some ?w" unfolding MemUsageCheck_def Let_def by (simp only: if_False)
  have fld: "w_fields w counter = IFExternal CInstruction" using w by (simp add: can_charge_def)
  show "counter_incr v counter (number n) w = Some ?w"
    using g fld incr mem
    by (simp add: counter_incr_def method_call_def InitInstruction_def number_def IOSTContractInstruction_Incr_def
        arg_def with_holder_def set_ret_def charge_once_def)
  show "gas_of (charge_once n w) = gas_of w + n" using gas by (simp add: gas_of_def)
  have "sint (inst_count (w_sbx w) + 1) = sint (inst_count (w_sbx w)) + 1"
    using fits(2) sint_greater_eq [of "inst_count (w_sbx w)"] by (simp add: sint_word_ariths signed_take_bit_int_eq_self)
  then show "can_charge counter m k (charge_once n w)"
    using w gas by (simp add: can_charge_def charge_once_def MemoryUsage_def)
qed

lemma and_next_Some: "f w = Some w1 \<Longrightarrow> w_exc w1 = None \<Longrightarrow> and_next f g w = g w1"
  by (simp add: and_next_def)

lemma read_set_ret: "w_exc w = None \<Longrightarrow> read (set_ret x) k w = k x (w\<lparr>w_ret := x\<rparr>)"
  by (simp add: read_def and_next_def set_ret_def)

text \<open>The method \<^verbatim>\<open>toString\<close> of strings, which a contract could replace.\<close>

definition plain_strings :: "'h js_engine \<Rightarrow> bool" where
  "plain_strings E \<longleftrightarrow> (\<forall>s. text_of E (JString s) = set_ret (JString s))"

lemma can_charge_exc: "can_charge counter n k w \<Longrightarrow> w_exc w = None"
  by (simp add: can_charge_def)

lemma text_length_string:
  assumes "plain_strings E" and "w_exc w = None"
  shows "\<exists>x. text_length E (JString s) k w = k (number (length s)) (w\<lparr>w_ret := x\<rparr>)"
  using assms
  by (cases "s = []") (auto simp: text_length_def plain_strings_def read_set_ret js_length_def js_op_def number_def)

text \<open>One charge of a sequence of statements.\<close>

lemma charge_then:
  assumes "can_charge counter (m + n) (Suc k) w" and "n < 2147483647"
  shows "\<exists>w'. (\<forall>g. and_next (counter_incr v counter (number n)) g w = g w') \<and> can_charge counter m k w' \<and> gas_of w' = gas_of w + n"
proof -
  note c = counter_incr_ok(1) [OF assms, of v] counter_incr_ok(2,3) [OF assms]
  have "w_exc (charge_once n w) = None" using can_charge_exc [OF c(2)] .
  then have "and_next (counter_incr v counter (number n)) g w =
      g ((charge_once n w)\<lparr>w_ret := double_of_size_t (gasUsed (w_sbx (charge_once n w)))\<rparr>)" for g
    by (simp add: and_next_def c(1))
  then show ?thesis using c(2,3) by (metis can_charge_ret gas_of_ret)
qed

lemma charge_text_then:
  assumes E: "plain_strings E" and w: "can_charge counter (m + length s) (Suc k) w" and s: "length s < 2147483647"
  shows "\<exists>w'. (\<forall>g. and_next (text_length E (JString s) (counter_incr v counter)) g w = g w') \<and> can_charge counter m k w' \<and>
    gas_of w' = gas_of w + length s"
proof -
  obtain x where x: "text_length E (JString s) (counter_incr v counter) w = counter_incr v counter (number (length s)) (w\<lparr>w_ret := x\<rparr>)"
    using text_length_string [OF E can_charge_exc [OF w]] by blast
  have "and_next (text_length E (JString s) (counter_incr v counter)) g w =
      and_next (counter_incr v counter (number (length s))) g (w\<lparr>w_ret := x\<rparr>)" for g
    by (simp only: and_next_def x)
  then show ?thesis using charge_then [of counter m "length s" k "w\<lparr>w_ret := x\<rparr>" v] w s by simp
qed

lemma and_next_assoc: "and_next (and_next f g) h = and_next f (and_next g h)"
  by (rule ext) (auto simp: and_next_def split: bind_splits)

lemma BinaryOp_concat:
  assumes w: "can_charge counter (3 + (length a + length b)) 2 w"
    and len: "length a + length b \<le> max_string E" "length a + length b < 2147483647"
  shows "\<exists>w'. IOSTBinaryOp v counter E (JString a) (JString b) ''+'' w = Some w' \<and> w_ret w' = JString (a @ b) \<and> w_exc w' = None \<and>
    gas_of w' = gas_of w + 3 + (length a + length b)"
proof -
  obtain w1 where 1: "\<forall>g. and_next (counter_incr v counter (number 3)) g w = g w1" "can_charge counter (length a + length b) 1 w1"
    "gas_of w1 = gas_of w + 3"
    using charge_then [of counter "length a + length b" 3 1 w v] w by (auto simp: numeral_2_eq_2 add.commute)
  obtain w2 where 2: "\<forall>g. and_next (counter_incr v counter (number (length a + length b))) g (w1\<lparr>w_ret := JString (a @ b)\<rparr>) = g w2"
    "can_charge counter 0 0 w2" "gas_of w2 = gas_of w1 + (length a + length b)"
    using charge_then [of counter 0 "length a + length b" 0 "w1\<lparr>w_ret := JString (a @ b)\<rparr>" v] 1(2) len(2) by auto
  have start: "and_next Some g w = g w" for g :: "'a act" using can_charge_exc [OF w] by (simp add: and_next_def)
  show ?thesis
    using 1 2 len(1) can_charge_exc [OF 1(2)] can_charge_exc [OF 2(2)]
    by (simp add: IOSTBinaryOp_def compares_def start js_op_def js_concat_def read_set_ret set_ret_def [of "JString (a @ b)" w2])
qed

lemma BinaryOp_equals_unfold:
  assumes "opr = ''=='' \<or> opr = ''===''"
  shows "IOSTBinaryOp v counter E (JString a) (JString b) opr =
    and_next (text_length E (JString a) (counter_incr v counter)) (and_next (text_length E (JString b) (counter_incr v counter))
      (and_next (counter_incr v counter (number 3)) (set_ret (JBool (a = b)))))"
proof -
  have "opr \<in> set compares" using assms by (auto simp: compares_def)
  moreover have "opr \<noteq> ''+''" "opr \<noteq> ''!=''" "opr \<noteq> ''=='' \<Longrightarrow> opr = ''===''" "''==='' \<in> set binary_ops"
    using assms by (auto simp: binary_ops_def)
  moreover have "js_op E ''==='' (JString a) (JString b) = set_ret (JBool (a = b))" by (simp add: js_op_def)
  ultimately show ?thesis by (cases "opr = ''==''") (simp_all add: IOSTBinaryOp_def and_next_assoc)
qed

lemma BinaryOp_equals:
  assumes E: "plain_strings E" and w: "can_charge counter (3 + length b + length a) 3 w"
    and len: "length a < 2147483647" "length b < 2147483647" and opr: "opr = ''=='' \<or> opr = ''===''"
  shows "\<exists>w'. IOSTBinaryOp v counter E (JString a) (JString b) opr w = Some w' \<and> w_ret w' = JBool (a = b) \<and> w_exc w' = None \<and>
    gas_of w' = gas_of w + 3 + (length a + length b)"
proof -
  obtain w1 where 1: "\<forall>g. and_next (text_length E (JString a) (counter_incr v counter)) g w = g w1"
    "can_charge counter (3 + length b) 2 w1" "gas_of w1 = gas_of w + length a"
    using charge_text_then [OF E _ len(1), of counter "3 + length b" "Suc (Suc 0)" w v] w by (auto simp: numeral_3_eq_3 numeral_2_eq_2)
  obtain w2 where 2: "\<forall>g. and_next (text_length E (JString b) (counter_incr v counter)) g w1 = g w2"
    "can_charge counter 3 1 w2" "gas_of w2 = gas_of w1 + length b"
    using charge_text_then [OF E _ len(2), of counter 3 "Suc 0" w1 v] 1(2) by (auto simp: numeral_2_eq_2)
  obtain w3 where 3: "\<forall>g. and_next (counter_incr v counter (number 3)) g w2 = g w3"
    "can_charge counter 0 0 w3" "gas_of w3 = gas_of w2 + 3"
    using charge_then [of counter 0 3 0 w2 v] 2(2) by auto
  show ?thesis
    using can_charge_exc [OF 3(2)] 1(3) 2(3) 3(3)
    by (simp add: BinaryOp_equals_unfold [OF opr] 1(1) 2(1) 3(1) set_ret_def)
qed

text \<open>A template pays for its holes.\<close>

lemma template_loop_gas:
  assumes "can_charge counter (8 * length keys) (length keys) w" and "length strings = Suc (length keys)"
    and "length res + length (concat strings) + length (concat keys) \<le> max_string E"
  shows "\<exists>w'. template_loop v counter E res strings (map JString keys) w = Some w' \<and> w_exc w' = None \<and>
    gas_of w' = gas_of w + 8 * length keys \<and>
    w_ret w' = JString (res @ concat (map2 (@) (butlast strings) keys) @ last strings)"
  using assms
proof (induction keys arbitrary: res strings w)
  case Nil
  then obtain s where "strings = [s]" by (cases strings) auto
  with Nil show ?case using can_charge_exc [OF Nil(1)] by (simp add: js_concat_def set_ret_def)
next
  case (Cons k keys)
  then obtain s t ss where strings: "strings = s # t # ss" by (cases strings; cases "tl strings") auto
  obtain w1 where 1: "\<forall>g. and_next (counter_incr v counter (number 8)) g w = g w1"
    "can_charge counter (8 * length keys) (length keys) w1" "gas_of w1 = gas_of w + 8"
    using charge_then [of counter "8 * length keys" 8 "length keys" w v] Cons.prems(1) by (auto simp: add.commute)
  have "\<exists>w'. template_loop v counter E (res @ s @ k) (t # ss) (map JString keys) (w1\<lparr>w_ret := JString k\<rparr>) = Some w' \<and> w_exc w' = None \<and>
    gas_of w' = gas_of w1 + 8 * length keys \<and>
    w_ret w' = JString ((res @ s @ k) @ concat (map2 (@) (butlast (t # ss)) keys) @ last (t # ss))"
    using Cons.IH [of "w1\<lparr>w_ret := JString k\<rparr>" "t # ss" "res @ s @ k"] Cons.prems 1(2) strings by simp
  then show ?case
    using 1 Cons.prems(3) strings can_charge_exc [OF 1(2)] by (auto simp: js_string_of_def read_set_ret)
qed

lemma TemplateTag_gas:
  assumes "can_charge counter (8 * length keys + 4) (Suc (length keys)) w" and "length strings = Suc (length keys)"
    and "length (concat strings) + length (concat keys) \<le> max_string E"
  shows "\<exists>w'. IOSTTemplateTag v counter E strings (map JString keys) w = Some w' \<and> w_exc w' = None \<and>
    gas_of w' = gas_of w + 4 + 8 * length keys \<and> w_ret w' = JString (concat (map2 (@) (butlast strings) keys) @ last strings)"
proof -
  obtain w1 where 1: "\<forall>g. and_next (counter_incr v counter (number 4)) g w = g w1"
    "can_charge counter (8 * length keys) (length keys) w1" "gas_of w1 = gas_of w + 4"
    using charge_then [of counter "8 * length keys" 4 "length keys" w v] assms(1) by auto
  then show ?thesis
    using template_loop_gas [OF 1(2) assms(2), of "[]" E v] assms(3) by (auto simp: IOSTTemplateTag_def)
qed

end
