(* ===== verification/EmbeddedJs.thy ===== *)
theory EmbeddedJs
  imports Prelude
begin

text \<open>
  The JavaScript libraries that are compiled into the bridge and read by name or on start-up:
  the byte arrays of \<^verbatim>\<open>libjs/include/storage.js.h\<close>, \<^verbatim>\<open>blockchain.js.h\<close> and \<^verbatim>\<open>vm.js.h\<close>, line by line.
  Each array ends with a NUL byte, so the C code can read it as a C string.
\<close>

definition libjs_storage_js :: string where
  "libjs_storage_js = concat [
     ''let IOSTContractStorage = (function () {'' @ [CHR 0x0A],
     [CHR 0x0A],
     ''    let storage = new IOSTStorage;'' @ [CHR 0x0A],
     [CHR 0x0A],
     ''    let simpleStorage = function () {'' @ [CHR 0x0A],
     ''        this.put = function (k, v, p) {'' @ [CHR 0x0A],
     ''            if (typeof v !== '' @ [CHR 0x27] @ ''string'' @ [CHR 0x27] @ '') {'' @ [CHR 0x0A],
     ''                throw new Error('' @ [CHR 0x22] @ ''storage put must be string'' @ [CHR 0x22] @ '');'' @ [CHR 0x0A],
     ''            }'' @ [CHR 0x0A],
     ''            if (p === undefined) {'' @ [CHR 0x0A],
     ''                p = '' @ [CHR 0x22] @ [CHR 0x22] @ '';'' @ [CHR 0x0A],
     ''            }'' @ [CHR 0x0A],
     ''            return storage.put(k, v, p);'' @ [CHR 0x0A],
     ''        };'' @ [CHR 0x0A],
     ''        // payer not used'' @ [CHR 0x0A],
     ''        this.get = function (k) {'' @ [CHR 0x0A],
     ''            let p = '' @ [CHR 0x22] @ [CHR 0x22] @ '';'' @ [CHR 0x0A],
     ''            return storage.get(k, p);'' @ [CHR 0x0A],
     ''        };'' @ [CHR 0x0A],
     ''        this.has = function (k) {'' @ [CHR 0x0A],
     ''            let p = '' @ [CHR 0x22] @ [CHR 0x22] @ '';'' @ [CHR 0x0A],
     ''            return storage.has(k, p);'' @ [CHR 0x0A],
     ''        };'' @ [CHR 0x0A],
     ''        this.del = function (k) {'' @ [CHR 0x0A],
     ''            let p = '' @ [CHR 0x22] @ [CHR 0x22] @ '';'' @ [CHR 0x0A],
     ''            return storage.del(k, p);'' @ [CHR 0x0A],
     ''        }'' @ [CHR 0x0A],
     ''    };'' @ [CHR 0x0A],
     ''    let simpleStorageObj = new simpleStorage;'' @ [CHR 0x0A],
     [CHR 0x0A],
     ''    let mapStorage = function () {'' @ [CHR 0x0A],
     ''        this.mapPut = function (k, f, v, p) {'' @ [CHR 0x0A],
     ''            if (typeof v !== '' @ [CHR 0x27] @ ''string'' @ [CHR 0x27] @ '') {'' @ [CHR 0x0A],
     ''                throw new Error('' @ [CHR 0x22] @ ''storage mapPut must be string'' @ [CHR 0x22] @ '');'' @ [CHR 0x0A],
     ''            }'' @ [CHR 0x0A],
     ''            if (p === undefined) {'' @ [CHR 0x0A],
     ''                p = '' @ [CHR 0x22] @ [CHR 0x22] @ '';'' @ [CHR 0x0A],
     ''            }'' @ [CHR 0x0A],
     ''            return storage.mapPut(k, f, v, p);'' @ [CHR 0x0A],
     ''        };'' @ [CHR 0x0A],
     ''        // payer not used'' @ [CHR 0x0A],
     ''        this.mapHas = function (k, f) {'' @ [CHR 0x0A],
     ''            let p = '' @ [CHR 0x22] @ [CHR 0x22] @ '';'' @ [CHR 0x0A],
     ''            return storage.mapHas(k, f, p);'' @ [CHR 0x0A],
     ''        };'' @ [CHR 0x0A],
     ''        this.mapGet = function (k, f) {'' @ [CHR 0x0A],
     ''            let p = '' @ [CHR 0x22] @ [CHR 0x22] @ '';'' @ [CHR 0x0A],
     ''            return storage.mapGet(k, f, p);'' @ [CHR 0x0A],
     ''        };'' @ [CHR 0x0A],
     ''        this.mapKeys = function (k) {'' @ [CHR 0x0A],
     ''            let p = '' @ [CHR 0x22] @ [CHR 0x22] @ '';'' @ [CHR 0x0A],
     ''            return JSON.parse(storage.mapKeys(k, p));'' @ [CHR 0x0A],
     ''        };'' @ [CHR 0x0A],
     ''        this.mapLen = function (k) {'' @ [CHR 0x0A],
     ''            let p = '' @ [CHR 0x22] @ [CHR 0x22] @ '';'' @ [CHR 0x0A],
     ''            return storage.mapLen(k, p);'' @ [CHR 0x0A],
     ''        };'' @ [CHR 0x0A],
     ''        this.mapDel = function (k, f) {'' @ [CHR 0x0A],
     ''            let p = '' @ [CHR 0x22] @ [CHR 0x22] @ '';'' @ [CHR 0x0A],
     ''            return storage.mapDel(k, f, p);'' @ [CHR 0x0A],
     ''        }'' @ [CHR 0x0A],
     ''    };'' @ [CHR 0x0A],
     ''    let mapStorageObj = new mapStorage;'' @ [CHR 0x0A],
     [CHR 0x0A],
     ''    let globalStorage = function () {'' @ [CHR 0x0A],
     ''        // payer not used'' @ [CHR 0x0A],
     ''        this.globalGet = function (c, k) {'' @ [CHR 0x0A],
     ''            let p = '' @ [CHR 0x22] @ [CHR 0x22] @ '';'' @ [CHR 0x0A],
     ''            return storage.globalGet(c, k, p);'' @ [CHR 0x0A],
     ''        }'' @ [CHR 0x0A],
     ''        this.globalHas = function (c, k) {'' @ [CHR 0x0A],
     ''            let p = '' @ [CHR 0x22] @ [CHR 0x22] @ '';'' @ [CHR 0x0A],
     ''            return storage.globalHas(c, k, p);'' @ [CHR 0x0A],
     ''        }'' @ [CHR 0x0A],
     ''        this.globalMapHas = function (c, k, f) {'' @ [CHR 0x0A],
     ''            let p = '' @ [CHR 0x22] @ [CHR 0x22] @ '';'' @ [CHR 0x0A],
     ''            return storage.globalMapHas(c, k, f, p);'' @ [CHR 0x0A],
     ''        };'' @ [CHR 0x0A],
     ''        this.globalMapGet = function (c, k, f) {'' @ [CHR 0x0A],
     ''            let p = '' @ [CHR 0x22] @ [CHR 0x22] @ '';'' @ [CHR 0x0A],
     ''            return storage.globalMapGet(c, k, f, p);'' @ [CHR 0x0A],
     ''        };'' @ [CHR 0x0A],
     ''        this.globalMapKeys = function (c, k) {'' @ [CHR 0x0A],
     ''            let p = '' @ [CHR 0x22] @ [CHR 0x22] @ '';'' @ [CHR 0x0A],
     ''            return JSON.parse(storage.globalMapKeys(c, k, p));'' @ [CHR 0x0A],
     ''        };'' @ [CHR 0x0A],
     ''        this.globalMapLen = function (c, k) {'' @ [CHR 0x0A],
     ''            let p = '' @ [CHR 0x22] @ [CHR 0x22] @ '';'' @ [CHR 0x0A],
     ''            return storage.globalMapLen(c, k, p);'' @ [CHR 0x0A],
     ''        };'' @ [CHR 0x0A],
     ''    };'' @ [CHR 0x0A],
     ''    let globalStorageObj = new globalStorage;'' @ [CHR 0x0A],
     [CHR 0x0A],
     ''    return {'' @ [CHR 0x0A],
     ''        // simply put a k-v pair, value must be string!'' @ [CHR 0x0A],
     ''        // put(key, value)'' @ [CHR 0x0A],
     ''        put: simpleStorageObj.put,'' @ [CHR 0x0A],
     ''        // simply get a value using key.'' @ [CHR 0x0A],
     ''        // get(key)'' @ [CHR 0x0A],
     ''        get: simpleStorageObj.get,'' @ [CHR 0x0A],
     ''        has: simpleStorageObj.has,'' @ [CHR 0x0A],
     ''        // simply del a k-v pair using key.'' @ [CHR 0x0A],
     ''        // del(key)'' @ [CHR 0x0A],
     ''        del: simpleStorageObj.del,'' @ [CHR 0x0A],
     ''        // map put a (k, f, value) pair. use k + f to find value.'' @ [CHR 0x0A],
     ''        // mapPut(key, field, value)'' @ [CHR 0x0A],
     ''        mapPut: mapStorageObj.mapPut,'' @ [CHR 0x0A],
     ''        // map check a (k, f) pair existence. use k + f to check.'' @ [CHR 0x0A],
     ''        // mapHas(key, field)'' @ [CHR 0x0A],
     ''        mapHas: mapStorageObj.mapHas,'' @ [CHR 0x0A],
     ''        // map Get a (k, f) pair. use k + f to find value.'' @ [CHR 0x0A],
     ''        // mapGet(key, field)'' @ [CHR 0x0A],
     ''        mapGet: mapStorageObj.mapGet,'' @ [CHR 0x0A],
     ''        // map Get fields inside a key.'' @ [CHR 0x0A],
     ''        // mapKeys(key)'' @ [CHR 0x0A],
     ''        mapKeys: mapStorageObj.mapKeys,'' @ [CHR 0x0A],
     ''        mapLen: mapStorageObj.mapLen,'' @ [CHR 0x0A],
     ''        // map Delete a (k, f) pair. use k + f to delete value.'' @ [CHR 0x0A],
     ''        // mapDel(key, field)'' @ [CHR 0x0A],
     ''        mapDel: mapStorageObj.mapDel,'' @ [CHR 0x0A],
     [CHR 0x0A],
     ''        globalGet: globalStorageObj.globalGet,'' @ [CHR 0x0A],
     ''        globalHas: globalStorageObj.globalHas,'' @ [CHR 0x0A],
     ''        globalMapHas: globalStorageObj.globalMapHas,'' @ [CHR 0x0A],
     ''        globalMapGet: globalStorageObj.globalMapGet,'' @ [CHR 0x0A],
     ''        globalMapKeys: globalStorageObj.globalMapKeys,'' @ [CHR 0x0A],
     ''        globalMapLen: globalStorageObj.globalMapLen,'' @ [CHR 0x0A],
     ''    }'' @ [CHR 0x0A],
     ''})();'' @ [CHR 0x0A],
     [CHR 0x0A],
     ''module.exports = IOSTContractStorage;'' @ [CHR 0x0A]] @ [NUL]"

definition libjs_blockchain_js :: string where
  "libjs_blockchain_js = concat [
     ''let BlockChain = (function () {'' @ [CHR 0x0A],
     ''    let bc = new IOSTBlockchain;'' @ [CHR 0x0A],
     ''    let storage = new IOSTStorage;'' @ [CHR 0x0A],
     ''    // get contractName'' @ [CHR 0x0A],
     ''    let contractName = function () {'' @ [CHR 0x0A],
     ''        let ctxInfo = JSON.parse(bc.contextInfo());'' @ [CHR 0x0A],
     ''        return ctxInfo['' @ [CHR 0x22] @ ''contract_name'' @ [CHR 0x22] @ ''];'' @ [CHR 0x0A],
     ''    };'' @ [CHR 0x0A],
     ''    // get publisher'' @ [CHR 0x0A],
     ''    let publisher = function () {'' @ [CHR 0x0A],
     ''        let ctxInfo = JSON.parse(bc.contextInfo());'' @ [CHR 0x0A],
     ''        return ctxInfo['' @ [CHR 0x22] @ ''publisher'' @ [CHR 0x22] @ ''];'' @ [CHR 0x0A],
     ''    };'' @ [CHR 0x0A],
     ''    // transfer IOSToken'' @ [CHR 0x0A],
     ''    let transfer = function (from, to, amount, memo) {'' @ [CHR 0x0A],
     ''        if (!(amount instanceof Float64)) {'' @ [CHR 0x0A],
     ''            amount = new Float64(amount);'' @ [CHR 0x0A],
     ''        }'' @ [CHR 0x0A],
     ''        const args = ['' @ [CHR 0x22] @ ''iost'' @ [CHR 0x22] @ '', from, to, amount.toString(), memo.toString()];'' @ [CHR 0x0A],
     ''        return JSON.parse(bc.callWithAuth('' @ [CHR 0x22] @ ''token.iost'' @ [CHR 0x22] @ '', '' @ [CHR 0x22] @ ''transfer'' @ [CHR 0x22] @ '', JSON.stringify(args)));'' @ [CHR 0x0A],
     ''    };'' @ [CHR 0x0A],
     ''    return {'' @ [CHR 0x0A],
     ''        // transfer IOSToken'' @ [CHR 0x0A],
     ''        transfer: transfer,'' @ [CHR 0x0A],
     ''        // withdraw IOSToken'' @ [CHR 0x0A],
     ''        withdraw: function (to, amount, memo) {'' @ [CHR 0x0A],
     ''            return transfer(contractName(), to, amount, memo);'' @ [CHR 0x0A],
     ''        },'' @ [CHR 0x0A],
     ''        // deposit IOSToken'' @ [CHR 0x0A],
     ''        deposit: function (from, amount, memo) {'' @ [CHR 0x0A],
     ''            return transfer(from, contractName(), amount, memo);'' @ [CHR 0x0A],
     ''        },'' @ [CHR 0x0A],
     ''        // get blockInfo'' @ [CHR 0x0A],
     ''        blockInfo: function () {'' @ [CHR 0x0A],
     ''            return bc.blockInfo();'' @ [CHR 0x0A],
     ''        },'' @ [CHR 0x0A],
     ''        // get transactionInfo'' @ [CHR 0x0A],
     ''        txInfo: function () {'' @ [CHR 0x0A],
     ''            return bc.txInfo();'' @ [CHR 0x0A],
     ''        },'' @ [CHR 0x0A],
     ''        // get transactionInfo'' @ [CHR 0x0A],
     ''        contextInfo: function () {'' @ [CHR 0x0A],
     ''            return bc.contextInfo();'' @ [CHR 0x0A],
     ''        },'' @ [CHR 0x0A],
     ''        // get contractName'' @ [CHR 0x0A],
     ''        contractName: contractName,'' @ [CHR 0x0A],
     ''        // get publisher'' @ [CHR 0x0A],
     ''        publisher: publisher,'' @ [CHR 0x0A],
     ''        // get contractOwner'' @ [CHR 0x0A],
     ''        contractOwner: function() {'' @ [CHR 0x0A],
     ''            return storage.globalMapGet('' @ [CHR 0x22] @ ''system.iost'' @ [CHR 0x22] @ '', '' @ [CHR 0x22] @ ''contract_owner'' @ [CHR 0x22] @ '', contractName(), '' @ [CHR 0x22] @ [CHR 0x22] @ '')'' @ [CHR 0x0A],
     ''        },'' @ [CHR 0x0A],
     ''        // call contract'' @ [CHR 0x27] @ ''s api using args'' @ [CHR 0x0A],
     ''        call: function (contract, api, args) {'' @ [CHR 0x0A],
     ''            if (typeof args == '' @ [CHR 0x22] @ ''object'' @ [CHR 0x22] @ '') {'' @ [CHR 0x0A],
     ''                args = JSON.stringify(args);'' @ [CHR 0x0A],
     ''            }'' @ [CHR 0x0A],
     ''            return JSON.parse(bc.call(contract, api, args));'' @ [CHR 0x0A],
     ''        },'' @ [CHR 0x0A],
     ''        // call contract'' @ [CHR 0x27] @ ''s api using args with auth'' @ [CHR 0x0A],
     ''        callWithAuth: function (contract, api, args) {'' @ [CHR 0x0A],
     ''            if (typeof args == '' @ [CHR 0x22] @ ''object'' @ [CHR 0x22] @ '') {'' @ [CHR 0x0A],
     ''                args = JSON.stringify(args);'' @ [CHR 0x0A],
     ''            }'' @ [CHR 0x0A],
     ''            return JSON.parse(bc.callWithAuth(contract, api, args));'' @ [CHR 0x0A],
     ''        },'' @ [CHR 0x0A],
     ''        // check account'' @ [CHR 0x27] @ ''s permission'' @ [CHR 0x0A],
     ''        requireAuth: function (accountID, permission) {'' @ [CHR 0x0A],
     ''            return bc.requireAuth(accountID, permission);'' @ [CHR 0x0A],
     ''        },'' @ [CHR 0x0A],
     ''        // generate receipt'' @ [CHR 0x0A],
     ''        receipt: function (content) {'' @ [CHR 0x0A],
     ''            return bc.receipt(content);'' @ [CHR 0x0A],
     ''        },'' @ [CHR 0x0A],
     ''        // post event'' @ [CHR 0x0A],
     ''        event: function (content) {'' @ [CHR 0x0A],
     ''            return bc.event(content);'' @ [CHR 0x0A],
     ''        },'' @ [CHR 0x0A],
     ''    }'' @ [CHR 0x0A],
     ''})();'' @ [CHR 0x0A],
     [CHR 0x0A],
     ''module.exports = BlockChain;'' @ [CHR 0x0A]] @ [NUL]"

definition libjs_vm_js :: string where
  "libjs_vm_js = concat [
     [CHR 0x27] @ ''use strict'' @ [CHR 0x27] @ '';'' @ [CHR 0x0A],
     [CHR 0x0A],
     ''const require = (function(){'' @ [CHR 0x0A],
     ''    const inner_native_require = _native_require;'' @ [CHR 0x0A],
     ''    const inner_native_run = _native_run;'' @ [CHR 0x0A],
     ''    let NativeModule = function(id) {'' @ [CHR 0x0A],
     ''        this.filename = id + '' @ [CHR 0x27] @ ''.js'' @ [CHR 0x27] @ '';'' @ [CHR 0x0A],
     ''        this.id = id;'' @ [CHR 0x0A],
     ''        this.exports = {};'' @ [CHR 0x0A],
     ''        this.loaded = false;'' @ [CHR 0x0A],
     ''    }'' @ [CHR 0x0A],
     [CHR 0x0A],
     ''    NativeModule._cache = {};'' @ [CHR 0x0A],
     [CHR 0x0A],
     ''    NativeModule.require = function (id) {'' @ [CHR 0x0A],
     ''        const cached = NativeModule.getCached(id);'' @ [CHR 0x0A],
     ''        if (cached) {'' @ [CHR 0x0A],
     ''            return cached.exports;'' @ [CHR 0x0A],
     ''        }'' @ [CHR 0x0A],
     [CHR 0x0A],
     ''        const nativeModule = new NativeModule(id);'' @ [CHR 0x0A],
     ''        nativeModule.compile();'' @ [CHR 0x0A],
     ''        nativeModule.cache();'' @ [CHR 0x0A],
     [CHR 0x0A],
     ''        return nativeModule.exports;'' @ [CHR 0x0A],
     ''    };'' @ [CHR 0x0A],
     [CHR 0x0A],
     ''    NativeModule.getCached = function(id) {'' @ [CHR 0x0A],
     ''        return NativeModule._cache[id];'' @ [CHR 0x0A],
     ''    };'' @ [CHR 0x0A],
     [CHR 0x0A],
     ''    NativeModule.getSource = function(id) {'' @ [CHR 0x0A],
     ''        return inner_native_require(id);'' @ [CHR 0x0A],
     ''    };'' @ [CHR 0x0A],
     [CHR 0x0A],
     ''    NativeModule.wrap = function(script) {'' @ [CHR 0x0A],
     ''        return NativeModule.wrapper[0] + script + NativeModule.wrapper[1];'' @ [CHR 0x0A],
     ''    };'' @ [CHR 0x0A],
     [CHR 0x0A],
     ''    NativeModule.wrapper = ['' @ [CHR 0x0A],
     ''        '' @ [CHR 0x27] @ ''(function (exports, require, module, __filename, __dirname) {'' @ [CHR 0x5C] @ ''n'' @ [CHR 0x27] @ '','' @ [CHR 0x0A],
     ''        '' @ [CHR 0x27] @ [CHR 0x5C] @ ''n});'' @ [CHR 0x27] @ [CHR 0x0A],
     ''    ];'' @ [CHR 0x0A],
     [CHR 0x0A],
     ''    NativeModule.prototype.compile = function () {'' @ [CHR 0x0A],
     ''        let source = NativeModule.getSource(this.id);'' @ [CHR 0x0A],
     ''        source = NativeModule.wrap(source);'' @ [CHR 0x0A],
     [CHR 0x0A],
     ''        const fn = inner_native_run(source, this.filename);'' @ [CHR 0x0A],
     ''        fn(this.exports, NativeModule.require, this, this.filename);'' @ [CHR 0x0A],
     [CHR 0x0A],
     ''        this.loaded = true;'' @ [CHR 0x0A],
     ''    };'' @ [CHR 0x0A],
     [CHR 0x0A],
     ''    NativeModule.prototype.cache = function() {'' @ [CHR 0x0A],
     ''        NativeModule._cache[this.id] = this;'' @ [CHR 0x0A],
     ''    };'' @ [CHR 0x0A],
     [CHR 0x0A],
     ''    return NativeModule.require;'' @ [CHR 0x0A],
     ''})();'' @ [CHR 0x0A],
     [CHR 0x0A],
     ''// storage'' @ [CHR 0x0A],
     ''const storage = require('' @ [CHR 0x27] @ ''storage'' @ [CHR 0x27] @ '');'' @ [CHR 0x0A],
     [CHR 0x0A],
     ''// blockchain'' @ [CHR 0x0A],
     ''const blockchain = require('' @ [CHR 0x27] @ ''blockchain'' @ [CHR 0x27] @ '');'' @ [CHR 0x0A],
     [CHR 0x0A],
     ''// other helper functions'' @ [CHR 0x0A],
     ''// var BigNumber = require('' @ [CHR 0x27] @ ''bignumber'' @ [CHR 0x27] @ '');'' @ [CHR 0x0A],
     ''// var Int64 = require('' @ [CHR 0x27] @ ''int64'' @ [CHR 0x27] @ '');'' @ [CHR 0x0A],
     [CHR 0x0A],
     ''// var injectGas = require('' @ [CHR 0x27] @ ''inject_gas'' @ [CHR 0x27] @ '');'' @ [CHR 0x0A],
     [CHR 0x0A],
     ''// crypto'' @ [CHR 0x0A],
     ''const IOSTCrypto = new _IOSTCrypto;'' @ [CHR 0x0A],
     [CHR 0x0A],
     ''const _IOSTInstruction_counter = new IOSTInstruction;'' @ [CHR 0x0A],
     [CHR 0x0A],
     ''// + - * / % **, | & ^ >> >>> <<, || &&, == != === !== > >= < <=, instanceOf in'' @ [CHR 0x0A],
     ''const _IOSTBinaryOp = function(left, right, op) {'' @ [CHR 0x0A],
     ''    if ((typeof left === '' @ [CHR 0x22] @ ''string'' @ [CHR 0x22] @ '' || typeof right === '' @ [CHR 0x22] @ ''string'' @ [CHR 0x22] @ '') &&'' @ [CHR 0x0A],
     ''        (op === '' @ [CHR 0x22] @ ''=='' @ [CHR 0x22] @ '' || op === '' @ [CHR 0x22] @ ''!='' @ [CHR 0x22] @ '' || op === '' @ [CHR 0x22] @ ''==='' @ [CHR 0x22] @ '' || op === '' @ [CHR 0x22] @ ''!=='' @ [CHR 0x22] @ '' || op === '' @ [CHR 0x22] @ ''<'' @ [CHR 0x22] @ '' || op === '' @ [CHR 0x22] @ ''<='' @ [CHR 0x22] @ '' || op === '' @ [CHR 0x22] @ ''>'' @ [CHR 0x22] @ '' || op === '' @ [CHR 0x22] @ ''>='' @ [CHR 0x22] @ '')) {'' @ [CHR 0x0A],
     ''        _IOSTInstruction_counter.incr(left === null || left === undefined || left.toString().length <= 0 ? 0 : left.toString().length);'' @ [CHR 0x0A],
     ''        _IOSTInstruction_counter.incr(right === null || right === undefined || right.toString().length <= 0 ? 0 : right.toString().length);'' @ [CHR 0x0A],
     ''    }'' @ [CHR 0x0A],
     ''    _IOSTInstruction_counter.incr(3);'' @ [CHR 0x0A],
     ''    switch (op) {'' @ [CHR 0x0A],
     ''        case '' @ [CHR 0x27] @ ''+'' @ [CHR 0x27] @ '':'' @ [CHR 0x0A],
     ''            const ret = left + right;'' @ [CHR 0x0A],
     ''            if (typeof ret === '' @ [CHR 0x22] @ ''string'' @ [CHR 0x22] @ '') {'' @ [CHR 0x0A],
     ''                _IOSTInstruction_counter.incr(ret.length);'' @ [CHR 0x0A],
     ''            }'' @ [CHR 0x0A],
     ''            return ret;'' @ [CHR 0x0A],
     ''        case '' @ [CHR 0x27] @ ''-'' @ [CHR 0x27] @ '':'' @ [CHR 0x0A],
     ''            return left - right;'' @ [CHR 0x0A],
     ''        case '' @ [CHR 0x27] @ ''*'' @ [CHR 0x27] @ '':'' @ [CHR 0x0A],
     ''            return left * right;'' @ [CHR 0x0A],
     ''        case '' @ [CHR 0x27] @ ''/'' @ [CHR 0x27] @ '':'' @ [CHR 0x0A],
     ''            return left / right;'' @ [CHR 0x0A],
     ''        case '' @ [CHR 0x27] @ ''%'' @ [CHR 0x27] @ '':'' @ [CHR 0x0A],
     ''            return left % right;'' @ [CHR 0x0A],
     ''        case '' @ [CHR 0x27] @ ''**'' @ [CHR 0x27] @ '':'' @ [CHR 0x0A],
     ''            return left ** right;'' @ [CHR 0x0A],
     ''        case '' @ [CHR 0x27] @ ''|'' @ [CHR 0x27] @ '':'' @ [CHR 0x0A],
     ''            return left | right;'' @ [CHR 0x0A],
     ''        case '' @ [CHR 0x27] @ ''&'' @ [CHR 0x27] @ '':'' @ [CHR 0x0A],
     ''            return left & right;'' @ [CHR 0x0A],
     ''        case '' @ [CHR 0x27] @ ''^'' @ [CHR 0x27] @ '':'' @ [CHR 0x0A],
     ''            return left ^ right;'' @ [CHR 0x0A],
     ''        case '' @ [CHR 0x27] @ ''>>'' @ [CHR 0x27] @ '':'' @ [CHR 0x0A],
     ''            return left >> right;'' @ [CHR 0x0A],
     ''        case '' @ [CHR 0x27] @ ''>>>'' @ [CHR 0x27] @ '':'' @ [CHR 0x0A],
     ''            return left >>> right;'' @ [CHR 0x0A],
     ''        case '' @ [CHR 0x27] @ ''<<'' @ [CHR 0x27] @ '':'' @ [CHR 0x0A],
     ''            return left << right;'' @ [CHR 0x0A],
     ''        case '' @ [CHR 0x27] @ ''=='' @ [CHR 0x27] @ '':'' @ [CHR 0x0A],
     ''            return left === right;'' @ [CHR 0x0A],
     ''        case '' @ [CHR 0x27] @ ''!='' @ [CHR 0x27] @ '':'' @ [CHR 0x0A],
     ''            return left !== right;'' @ [CHR 0x0A],
     ''        case '' @ [CHR 0x27] @ ''==='' @ [CHR 0x27] @ '':'' @ [CHR 0x0A],
     ''            return left === right;'' @ [CHR 0x0A],
     ''        case '' @ [CHR 0x27] @ ''!=='' @ [CHR 0x27] @ '':'' @ [CHR 0x0A],
     ''            return left !== right;'' @ [CHR 0x0A],
     ''        case '' @ [CHR 0x27] @ ''>'' @ [CHR 0x27] @ '':'' @ [CHR 0x0A],
     ''            return left > right;'' @ [CHR 0x0A],
     ''        case '' @ [CHR 0x27] @ ''>='' @ [CHR 0x27] @ '':'' @ [CHR 0x0A],
     ''            return left >= right;'' @ [CHR 0x0A],
     ''        case '' @ [CHR 0x27] @ ''<'' @ [CHR 0x27] @ '':'' @ [CHR 0x0A],
     ''            return left < right;'' @ [CHR 0x0A],
     ''        case '' @ [CHR 0x27] @ ''<='' @ [CHR 0x27] @ '':'' @ [CHR 0x0A],
     ''            return left <= right;'' @ [CHR 0x0A],
     ''    }'' @ [CHR 0x0A],
     ''};'' @ [CHR 0x0A],
     [CHR 0x0A],
     ''const _IOSTTemplateTag = function(strings, ...keys) {'' @ [CHR 0x0A],
     ''    _IOSTInstruction_counter.incr(4);'' @ [CHR 0x0A],
     ''    let res = new String('' @ [CHR 0x22] @ [CHR 0x22] @ '');'' @ [CHR 0x0A],
     ''    for (let i = 0; i < strings.length - 1; i++) {'' @ [CHR 0x0A],
     ''        _IOSTInstruction_counter.incr(8);'' @ [CHR 0x0A],
     ''        res = res.concat(strings[i], keys[i]);'' @ [CHR 0x0A],
     ''    }'' @ [CHR 0x0A],
     ''    res = res.concat(strings[strings.length - 1]);'' @ [CHR 0x0A],
     ''    return res.toString();'' @ [CHR 0x0A],
     ''};'' @ [CHR 0x0A],
     [CHR 0x0A],
     ''const _IOSTSpreadElement = function (args) {'' @ [CHR 0x0A],
     ''    if (args !== undefined && args !== null && args.length > 0) {'' @ [CHR 0x0A],
     ''        _IOSTInstruction_counter.incr(args.length);'' @ [CHR 0x0A],
     ''    }'' @ [CHR 0x0A],
     ''    return args;'' @ [CHR 0x0A],
     ''}'' @ [CHR 0x0A],
     ''const console = new Console;'' @ [CHR 0x0A]] @ [NUL]"

lemma libjs_terminated:
  "\<exists>s. libjs_storage_js = s @ [NUL] \<and> NUL \<notin> set s"
  "\<exists>s. libjs_blockchain_js = s @ [NUL] \<and> NUL \<notin> set s"
  "\<exists>s. libjs_vm_js = s @ [NUL] \<and> NUL \<notin> set s"
  unfolding libjs_storage_js_def libjs_blockchain_js_def libjs_vm_js_def by (rule exI, rule conjI [OF refl], simp)+

end
