(* ===== verification/ConsoleRequire.thy ===== *)
theory ConsoleRequire
  imports GoStorage EmbeddedJs
begin

text \<open>
  \<^verbatim>\<open>vm/v8vm/v8/console.cc\<close> and \<^verbatim>\<open>require.cc\<close>: the two callbacks that are part of the start-up
  snapshot, \<^verbatim>\<open>_cLog\<close> and \<^verbatim>\<open>_native_require\<close>, with \<^verbatim>\<open>goConsoleLog\<close> of \<^verbatim>\<open>vm/v8vm/console.go\<close>.
  The modules that can be required are the arrays of \<open>EmbeddedJs\<close>.
\<close>

section \<open>Console\<close>

type_synonym 'h consoleFunc = "nat \<Rightarrow> CStr \<Rightarrow> CStr \<Rightarrow> 'h genv \<Rightarrow> (char_ptr \<times> 'h genv) option"

definition InitGoConsole :: "'h consoleFunc \<Rightarrow> 'h consoleFunc option" where
  "InitGoConsole console = Some console"

text \<open>\<^verbatim>\<open>CConsole(sbxPtr, levelStr, logStr);\<close> The pointer it returns is dropped.\<close>

definition call_console :: "'h consoleFunc option \<Rightarrow> CStr \<Rightarrow> CStr \<Rightarrow> 'h act" where
  "call_console CConsole levelStr logStr w =
     (case CConsole of
        None \<Rightarrow> None
      | Some f \<Rightarrow>
          (case f (w_sbxPtr w) levelStr logStr (w_heap w, w_host w) of
             None \<Rightarrow> None
           | Some (ret, h, s) \<Rightarrow> Some (w\<lparr>w_heap := h, w_host := s\<rparr>)))"

definition NewConsoleLog :: "v8_api \<Rightarrow> 'h consoleFunc option \<Rightarrow> callback_info \<Rightarrow> 'h act" where
  "NewConsoleLog v CConsole args w =
     (case w_global w of
        IFUnset \<Rightarrow> throw_error v ''consoleLog val error'' w
      | IFExternal c \<Rightarrow>
          if c \<noteq> CSandbox then None
          else if length (ci_args args) \<noteq> 2 then throw_error v ''consoleLog invalid argument length'' w
          else if \<not> IsString (arg args 0) then throw_error v ''consoleLog log level must be string'' w
          else if \<not> IsString (arg args 1) then throw_error v ''consoleLog log message must be string'' w
          else
            NewCStrChecked v (arg args 0) (\<lambda>levelStr.
            NewCStrChecked v (arg args 1) (\<lambda>logStr.
              call_console CConsole levelStr logStr)) w)"

definition InitConsole :: "v8_api \<Rightarrow> 'h consoleFunc option \<Rightarrow> string \<times> (callback_info \<Rightarrow> 'h act)" where
  "InitConsole v CConsole = (''_cLog'', NewConsoleLog v CConsole)"

section \<open>Require\<close>

type_synonym 'h requireFunc = "nat \<Rightarrow> CStr \<Rightarrow> 'h genv \<Rightarrow> (char_ptr \<times> 'h genv) option"

definition InitGoRequire :: "'h requireFunc \<Rightarrow> 'h requireFunc option" where
  "InitGoRequire require = Some require"

definition libJS :: "(string \<times> string) list" where
  "libJS = [(''storage'', libjs_storage_js), (''blockchain'', libjs_blockchain_js)]"

text \<open>
  The name is looked up as a C string, up to its first NUL; the text of the module is read the
  same way. An unknown module leaves the result undefined.
\<close>

definition NewNativeRequire :: "v8_api \<Rightarrow> callback_info \<Rightarrow> 'h act" where
  "NewNativeRequire v info w =
     (case w_global w of
        IFUnset \<Rightarrow> throw_error v ''nativeRequire val error'' w
      | IFExternal c \<Rightarrow>
          if c \<noteq> CSandbox then None
          else
            (case arg info 0 of
               JString path \<Rightarrow>
                 NewCStr v path (\<lambda>pathStr w.
                   Option.bind (c_string_at (w_heap w) (cstr_data pathStr))
                     (\<lambda>name. case map_of libJS name of
                        None \<Rightarrow> Some w
                      | Some text \<Rightarrow> set_ret (JString (js_of_utf8 v (c_trunc text))) w)) w
             | _ \<Rightarrow> throw_error v ''require empty module'' w))"

definition InitRequire :: "v8_api \<Rightarrow> string \<times> (callback_info \<Rightarrow> 'h act)" where
  "InitRequire v = (''_native_require'', NewNativeRequire v)"

section \<open>goConsoleLog\<close>

definition ErrConsoleNoLogger :: string where
  "ErrConsoleNoLogger = ''no logger error''"

definition ErrConsoleInvalidLogLevel :: string where
  "ErrConsoleInvalidLogLevel = ''log invalid level''"

definition validLogLevel :: "string \<Rightarrow> bool" where
  "validLogLevel level \<longleftrightarrow> level \<in> {''Debug'', ''Info'', ''Warn'', ''Error''}"

definition goConsoleLog :: "'d go_state consoleFunc" where
  "goConsoleLog cSbx logLevel logDetail env =
     (case GetSandbox (snd env) cSbx of
        None \<Rightarrow> (let (p, h) = CString ErrGetSandbox (fst env) in Some (p, h, snd env))
      | Some sbx \<Rightarrow>
          do { levelStr \<leftarrow> GoString (fst env) logLevel;
               detailStr \<leftarrow> GoString (fst env) logDetail;
               hst \<leftarrow> sbx_host (snd env) sbx;
               case h_logger hst of
                 None \<Rightarrow> (let (p, h) = CString ErrConsoleNoLogger (fst env) in Some (p, h, snd env))
               | Some lines \<Rightarrow>
                   if \<not> validLogLevel levelStr
                   then (let (p, h) = CString ErrConsoleInvalidLogLevel (fst env) in Some (p, h, snd env))
                   else Some (None, fst env,
                     set_sbx_host (snd env) sbx (hst\<lparr>h_logger := Some (lines @ [(levelStr, detailStr)])\<rparr>)) })"

section \<open>Laws\<close>

text \<open>What logging means without the heap.\<close>

definition op_console :: "nat \<Rightarrow> string \<Rightarrow> string \<Rightarrow> 'd go_state \<Rightarrow> 'd go_state option" where
  "op_console cSbx level detail s =
     (case GetSandbox s cSbx of
        None \<Rightarrow> Some s
      | Some sbx \<Rightarrow>
          do { hst \<leftarrow> sbx_host s sbx;
               case h_logger hst of
                 None \<Rightarrow> Some s
               | Some lines \<Rightarrow>
                   Some (if validLogLevel level
                     then set_sbx_host s sbx (hst\<lparr>h_logger := Some (lines @ [(level, detail)])\<rparr>) else s) })"

text \<open>The error, if any, that \<^verbatim>\<open>goConsoleLog\<close> reports.\<close>

definition console_error :: "nat \<Rightarrow> string \<Rightarrow> 'd go_state \<Rightarrow> string option" where
  "console_error cSbx level s =
     (case GetSandbox s cSbx of
        None \<Rightarrow> Some ErrGetSandbox
      | Some sbx \<Rightarrow>
          (case sbx_host s sbx of
             None \<Rightarrow> None
           | Some hst \<Rightarrow>
               if h_logger hst = None then Some ErrConsoleNoLogger
               else if \<not> validLogLevel level then Some ErrConsoleInvalidLogLevel else None))"

lemma goConsoleLog_meaning:
  assumes "cstr_holds h c1 level" and "cstr_holds h c2 detail"
  shows "goConsoleLog p c1 c2 (h, s) =
           map_option
             (\<lambda>s'. case console_error p level s of
                None \<Rightarrow> (None, h, s')
              | Some e \<Rightarrow> (Some (brk h), alloc (Malloc (e @ [NUL])) h, s'))
             (op_console p level detail s)"
  using GoString_cstr_holds [OF assms(1)] GoString_cstr_holds [OF assms(2)]
  by (auto simp: goConsoleLog_def op_console_def console_error_def CString_def split: option.split)

lemma two_strings:
  assumes ok: "heap_ok (w_heap w)" and len: "length l \<le> INPUT_MAX_LENGTH" "length m \<le> INPUT_MAX_LENGTH"
    and v: "utf8_bound v"
    and k: "\<And>c1 c2 h. heap_ok h \<Longrightarrow> cstr_holds h c1 (utf8_of v l) \<Longrightarrow> cstr_holds h c2 (utf8_of v m) \<Longrightarrow>
              k c1 c2 (w\<lparr>w_heap := h\<rparr>) = Some (w'\<lparr>w_heap := f h\<rparr>)"
    and f: "\<And>h a b. blocks h a = Some b \<Longrightarrow> heap_ok h \<Longrightarrow> blocks (f h) a = Some b"
  shows "\<exists>h. NewCStrChecked v (JString l) (\<lambda>c1. NewCStrChecked v (JString m) (k c1)) w = Some (w'\<lparr>w_heap := h\<rparr>) \<and>
     blocks h = (blocks (f (alloc (NewArr (utf8_of v m @ [NUL])) (alloc (NewArr (utf8_of v l @ [NUL])) (w_heap w)))))
       (brk (w_heap w) := None, Suc (brk (w_heap w)) := None)"
proof -
  let ?l = "NewArr (utf8_of v l @ [NUL])" and ?m = "NewArr (utf8_of v m @ [NUL])"
  let ?h1 = "alloc ?l (w_heap w)" and ?h2 = "alloc ?m (alloc ?l (w_heap w))"
  let ?c1 = "\<lparr>cstr_data = Some (brk (w_heap w)), cstr_size = of_nat (length (utf8_of v l))\<rparr>"
  let ?c2 = "\<lparr>cstr_data = Some (Suc (brk (w_heap w))), cstr_size = of_nat (length (utf8_of v m))\<rparr>"
  have small: "length (utf8_of v l) < 2 ^ 31" "length (utf8_of v m) < 2 ^ 31"
    using v [unfolded utf8_bound_def, rule_format, of l] v [unfolded utf8_bound_def, rule_format, of m] len
    by (simp_all add: INPUT_MAX_LENGTH_def)
  have "cstr_holds ?h1 ?c1 (utf8_of v l)" by (rule cstr_holds_NewCStr [OF small(1)])
  then have c1: "cstr_holds ?h2 ?c1 (utf8_of v l)" using ok by (intro cstr_holds_alloc [of ?h1]) simp_all
  have c2: "cstr_holds ?h2 ?c2 (utf8_of v m)"
    using cstr_holds_NewCStr [OF small(2), of ?h1] by (simp add: heap_simps)
  have ok2: "heap_ok ?h2" using ok by simp
  have bl: "blocks (f ?h2) (brk (w_heap w)) = Some ?l" "blocks (f ?h2) (Suc (brk (w_heap w))) = Some ?m"
    using f [OF _ ok2] by (simp_all add: heap_simps)
  show ?thesis
    using k [OF ok2 c1 c2] len bl
    by (intro exI [of _ "(f ?h2)\<lparr>blocks := (blocks (f ?h2))(brk (w_heap w) := None, Suc (brk (w_heap w)) := None)\<rparr>"])
      (simp add: NewCStrChecked_def NewCStr_def Let_def brk_alloc delete_arr_def fun_upd_twist)
qed

lemma console_log_effect:
  assumes ok: "heap_ok (w_heap w)" and v: "utf8_bound v" and g: "w_global w = IFExternal CSandbox"
    and args: "ci_args args = [JString l, JString m]"
    and len: "length l \<le> INPUT_MAX_LENGTH" "length m \<le> INPUT_MAX_LENGTH"
    and op: "op_console (w_sbxPtr w) (utf8_of v l) (utf8_of v m) (w_host w) = Some s'"
  shows "\<exists>h. NewConsoleLog v (InitGoConsole goConsoleLog) args w = Some (w\<lparr>w_host := s', w_heap := h\<rparr>) \<and>
           blocks h = (case console_error (w_sbxPtr w) (utf8_of v l) (w_host w) of
              None \<Rightarrow> blocks (w_heap w)
            | Some e \<Rightarrow> (blocks (w_heap w))(brk (w_heap w) + 2 := Some (Malloc (e @ [NUL]))))"
proof -
  let ?e = "console_error (w_sbxPtr w) (utf8_of v l) (w_host w)"
  let ?f = "\<lambda>h. case ?e of None \<Rightarrow> h | Some e \<Rightarrow> alloc (Malloc (e @ [NUL])) h"
  have k: "call_console (InitGoConsole goConsoleLog) c1 c2 (w\<lparr>w_heap := h\<rparr>) =
      Some (w\<lparr>w_host := s'\<rparr>\<lparr>w_heap := ?f h\<rparr>)"
    if "cstr_holds h c1 (utf8_of v l)" "cstr_holds h c2 (utf8_of v m)" for c1 c2 h
    using goConsoleLog_meaning [OF that, of "w_sbxPtr w" "w_host w"] op
    by (simp add: call_console_def InitGoConsole_def split: option.split)
  have f: "blocks (?f h) a = Some b" if "blocks h a = Some b" "heap_ok h" for h a b
    using that heap_ok_fresh [of h] by (auto simp: heap_simps split: option.split)
  have fresh: "blocks (w_heap w) (brk (w_heap w)) = None" "blocks (w_heap w) (Suc (brk (w_heap w))) = None"
    using ok by (simp_all add: heap_ok_def)
  show ?thesis
    using two_strings [where f = ?f and w' = "w\<lparr>w_host := s'\<rparr>" and k = "call_console (InitGoConsole goConsoleLog)",
        OF ok len v k f] args g fresh
    by (auto simp: NewConsoleLog_def arg_def heap_simps fun_upd_idem fun_eq_iff split: option.split)
qed

text \<open>A module is handed out in full, up to the NUL byte that ends its array.\<close>

lemma libJS_text:
  assumes "map_of libJS name = Some text"
  shows "text = c_trunc text @ [NUL]"
proof -
  have "text = libjs_storage_js \<or> text = libjs_blockchain_js"
    using assms by (auto simp: libJS_def split: if_splits)
  then obtain s where "text = s @ [NUL]" "NUL \<notin> set s" using libjs_terminated by metis
  then show ?thesis by simp
qed

lemma require_refines:
  assumes ok: "heap_ok (w_heap w)" and g: "w_global w = IFExternal CSandbox" and args: "ci_args info = [JString path]"
  shows "refines_at (NewNativeRequire v info) w
           (case map_of libJS (c_trunc (utf8_of v path)) of
              None \<Rightarrow> Some w
            | Some text \<Rightarrow> set_ret (JString (js_of_utf8 v (butlast text))) w)"
proof -
  let ?h = "alloc (NewArr (utf8_of v path @ [NUL])) (w_heap w)"
  have fresh: "blocks (w_heap w) (brk (w_heap w)) = None" using heap_ok_fresh [OF ok] .
  have full: "c_trunc t = butlast t" if "map_of libJS name = Some t" for name t
    using libJS_text [OF that] by (metis butlast_snoc)
  have run: "NewNativeRequire v info w = Some (w1\<lparr>w_heap := ?h\<lparr>blocks := (blocks ?h)(brk (w_heap w) := None)\<rparr>\<rparr>)"
    if "(case map_of libJS (c_trunc (utf8_of v path)) of None \<Rightarrow> Some w
         | Some text \<Rightarrow> set_ret (JString (js_of_utf8 v (butlast text))) w) = Some w1" for w1
    using that args g full
    by (auto simp: NewNativeRequire_def arg_def NewCStr_def Let_def c_string_at_def heap_simps set_ret_def delete_arr_def
        split: option.splits)
  have "(blocks ?h)(brk (w_heap w) := None) = blocks (w_heap w)"
    using fresh by (simp add: heap_simps fun_eq_iff)
  then show ?thesis
    using run heap_ok_remove [of ?h "brk (w_heap w)"] ok
    by (auto simp: refines_at_def set_ret_def heap_erase_def split: option.splits)
qed

end
