(* ===== verification/BlockchainApi.thy ===== *)
theory BlockchainApi
  imports Bridge
begin

text \<open>
  \<^verbatim>\<open>vm/v8vm/v8/blockchain.h\<close> and \<^verbatim>\<open>blockchain.cc\<close>: the \<^verbatim>\<open>IOSTBlockchain\<close> object through which a
  contract reads the block, the transaction and its context, calls other contracts, checks
  authority and posts receipts and events. As for the storage, each function pointer has a
  method that calls it and accounts its gas and a callback that checks the arguments and
  delivers the result. \<open>blockInfo\<close>, \<open>txInfo\<close> and \<open>contextInfo\<close> take no arguments and check none.
\<close>

section \<open>The function pointers\<close>

type_synonym 'h blockInfoFunc = "nat \<Rightarrow> (CStr, 'h) gocall"
type_synonym 'h txInfoFunc = "nat \<Rightarrow> (CStr, 'h) gocall"
type_synonym 'h contextInfoFunc = "nat \<Rightarrow> (CStr, 'h) gocall"
type_synonym 'h callFunc = "nat \<Rightarrow> CStr \<Rightarrow> CStr \<Rightarrow> CStr \<Rightarrow> (CStr, 'h) gocall"
type_synonym 'h callWithAuthFunc = "nat \<Rightarrow> CStr \<Rightarrow> CStr \<Rightarrow> CStr \<Rightarrow> (CStr, 'h) gocall"
type_synonym 'h requireAuthFunc = "nat \<Rightarrow> CStr \<Rightarrow> CStr \<Rightarrow> (bool cell, 'h) gocall"
type_synonym 'h receiptFunc = "nat \<Rightarrow> CStr \<Rightarrow> (unit, 'h) gocall"
type_synonym 'h eventFunc = "nat \<Rightarrow> CStr \<Rightarrow> (unit, 'h) gocall"

record 'h blockchain_table =
  CBlkInfo :: "'h blockInfoFunc option"
  CTxInfo :: "'h txInfoFunc option"
  CCtxInfo :: "'h contextInfoFunc option"
  CCall :: "'h callFunc option"
  CCallWA :: "'h callWithAuthFunc option"
  CRequireAuth :: "'h requireAuthFunc option"
  CReceipt :: "'h receiptFunc option"
  CEvent :: "'h eventFunc option"

definition null_blockchain_table :: "'h blockchain_table" where
  "null_blockchain_table =
     \<lparr>CBlkInfo = None, CTxInfo = None, CCtxInfo = None, CCall = None, CCallWA = None, CRequireAuth = None, CReceipt = None, CEvent = None\<rparr>"

definition InitGoBlockchain ::
  "'h blockInfoFunc \<Rightarrow> 'h txInfoFunc \<Rightarrow> 'h contextInfoFunc \<Rightarrow> 'h callFunc \<Rightarrow> 'h callWithAuthFunc \<Rightarrow> 'h requireAuthFunc \<Rightarrow> 'h receiptFunc \<Rightarrow> 'h eventFunc \<Rightarrow>
     'h blockchain_table" where
  "InitGoBlockchain blkInfo txInfo contextInfo call callWA requireAuth receipt event =
     \<lparr>CBlkInfo = Some blkInfo, CTxInfo = Some txInfo, CCtxInfo = Some contextInfo, CCall = Some call, CCallWA = Some callWA, CRequireAuth = Some requireAuth, CReceipt = Some receipt, CEvent = Some event\<rparr>"

section \<open>The methods of IOSTBlockchain\<close>

definition ibc_BlockInfo ::
  "'h blockchain_table \<Rightarrow> 'h world \<Rightarrow> (char_ptr \<times> CStr \<times> 'h world) option" where
  "ibc_BlockInfo C w =
     bridge_call (map_option (\<lambda>f. f (w_sbxPtr w)) (CBlkInfo C)) null_CStr (Some 0) w"

definition ibc_TxInfo ::
  "'h blockchain_table \<Rightarrow> 'h world \<Rightarrow> (char_ptr \<times> CStr \<times> 'h world) option" where
  "ibc_TxInfo C w =
     bridge_call (map_option (\<lambda>f. f (w_sbxPtr w)) (CTxInfo C)) null_CStr (Some 0) w"

definition ibc_ContextInfo ::
  "'h blockchain_table \<Rightarrow> 'h world \<Rightarrow> (char_ptr \<times> CStr \<times> 'h world) option" where
  "ibc_ContextInfo C w =
     bridge_call (map_option (\<lambda>f. f (w_sbxPtr w)) (CCtxInfo C)) null_CStr (Some 0) w"

definition ibc_Call ::
  "'h blockchain_table \<Rightarrow> CStr \<Rightarrow> CStr \<Rightarrow> CStr \<Rightarrow> 'h world \<Rightarrow> (char_ptr \<times> CStr \<times> 'h world) option" where
  "ibc_Call C contract api argv w =
     bridge_call (map_option (\<lambda>f. f (w_sbxPtr w) contract api argv) (CCall C)) null_CStr (Some 0) w"

definition ibc_CallWithAuth ::
  "'h blockchain_table \<Rightarrow> CStr \<Rightarrow> CStr \<Rightarrow> CStr \<Rightarrow> 'h world \<Rightarrow> (char_ptr \<times> CStr \<times> 'h world) option" where
  "ibc_CallWithAuth C contract api argv w =
     bridge_call (map_option (\<lambda>f. f (w_sbxPtr w) contract api argv) (CCallWA C)) null_CStr (Some 0) w"

definition ibc_RequireAuth ::
  "'h blockchain_table \<Rightarrow> CStr \<Rightarrow> CStr \<Rightarrow> 'h world \<Rightarrow> (char_ptr \<times> bool cell \<times> 'h world) option" where
  "ibc_RequireAuth C accountID permission w =
     bridge_call (map_option (\<lambda>f. f (w_sbxPtr w) accountID permission) (CRequireAuth C)) None (Some 0) w"

definition ibc_Receipt ::
  "'h blockchain_table \<Rightarrow> CStr \<Rightarrow> 'h world \<Rightarrow> (char_ptr \<times> unit \<times> 'h world) option" where
  "ibc_Receipt C content w =
     bridge_call (map_option (\<lambda>f. f (w_sbxPtr w) content) (CReceipt C)) () (Some 0) w"

definition ibc_Event ::
  "'h blockchain_table \<Rightarrow> CStr \<Rightarrow> 'h world \<Rightarrow> (char_ptr \<times> unit \<times> 'h world) option" where
  "ibc_Event C content w =
     bridge_call (map_option (\<lambda>f. f (w_sbxPtr w) content) (CEvent C)) () (Some 0) w"

section \<open>The callbacks\<close>

definition NewIOSTBlockchain :: "callback_info \<Rightarrow> 'h act" where
  "NewIOSTBlockchain args w =
     (case w_global w of
        IFUnset \<Rightarrow> print_line ''NewIOSTBlockchain val error'' w
      | IFExternal c \<Rightarrow>
          if c = CSandbox
          then set_ret (JObject (ci_holder args)) (w\<lparr>w_fields := (w_fields w)(ci_holder args := IFExternal CBlockchain)\<rparr>)
          else None)"

definition IOSTBlockchain_blockInfo :: "v8_api \<Rightarrow> 'h blockchain_table \<Rightarrow> callback_info \<Rightarrow> 'h act" where
  "IOSTBlockchain_blockInfo v C args =
     with_holder CBlockchain args ''IOSTBlockchain_blockInfo val error''
       (finish_call v (ibc_BlockInfo C) (ret_string v))"

definition IOSTBlockchain_txInfo :: "v8_api \<Rightarrow> 'h blockchain_table \<Rightarrow> callback_info \<Rightarrow> 'h act" where
  "IOSTBlockchain_txInfo v C args =
     with_holder CBlockchain args ''IOSTBlockchain_txInfo val error''
       (finish_call v (ibc_TxInfo C) (ret_string v))"

definition IOSTBlockchain_contextInfo :: "v8_api \<Rightarrow> 'h blockchain_table \<Rightarrow> callback_info \<Rightarrow> 'h act" where
  "IOSTBlockchain_contextInfo v C args =
     with_holder CBlockchain args ''IOSTBlockchain_contextInfo val error''
       (finish_call v (ibc_ContextInfo C) (ret_string v))"

definition IOSTBlockchain_call :: "v8_api \<Rightarrow> 'h blockchain_table \<Rightarrow> callback_info \<Rightarrow> 'h act" where
  "IOSTBlockchain_call v C args =
     (let contract = arg args 0; api = arg args 1; argv = arg args 2 in
      if length (ci_args args) \<noteq> 3 then throw_error v ''IOSTBlockchain_call invalid argument length''
      else if \<not> IsString contract then throw_error v ''IOSTBlockchain_call contract must be string''
      else if \<not> IsString api then throw_error v ''IOSTBlockchain_call api must be string''
      else if \<not> IsString argv then throw_error v ''IOSTBlockchain_call arg must be string''
      else
        NewCStrChecked v contract (\<lambda>contractStr.
        NewCStrChecked v api (\<lambda>apiStr.
        NewCStrChecked v argv (\<lambda>argStr.
        with_holder CBlockchain args ''IOSTBlockchain_call val error''
          (finish_call v (ibc_Call C contractStr apiStr argStr) (ret_string v))))))"

definition IOSTBlockchain_callWithAuth :: "v8_api \<Rightarrow> 'h blockchain_table \<Rightarrow> callback_info \<Rightarrow> 'h act" where
  "IOSTBlockchain_callWithAuth v C args =
     (let contract = arg args 0; api = arg args 1; argv = arg args 2 in
      if length (ci_args args) \<noteq> 3 then throw_error v ''IOSTBlockchain_callWithAuth invalid argument length''
      else if \<not> IsString contract then throw_error v ''IOSTBlockchain_callWithAuth contract must be string''
      else if \<not> IsString api then throw_error v ''IOSTBlockchain_callWithAuth api must be string''
      else if \<not> IsString argv then throw_error v ''IOSTBlockchain_callWithAuth arg must be string''
      else
        NewCStrChecked v contract (\<lambda>contractStr.
        NewCStrChecked v api (\<lambda>apiStr.
        NewCStrChecked v argv (\<lambda>argStr.
        with_holder CBlockchain args ''IOSTBlockchain_callWithAuth val error''
          (finish_call v (ibc_CallWithAuth C contractStr apiStr argStr) (ret_string v))))))"

definition IOSTBlockchain_requireAuth :: "v8_api \<Rightarrow> 'h blockchain_table \<Rightarrow> callback_info \<Rightarrow> 'h act" where
  "IOSTBlockchain_requireAuth v C args =
     (let accountID = arg args 0; permission = arg args 1 in
      if length (ci_args args) \<noteq> 2 then throw_error v ''IOSTBlockchain_requireAuth invalid argument length''
      else if \<not> IsString accountID then throw_error v ''IOSTBlockchain_requireAuth accountID must be string''
      else if \<not> IsString permission then throw_error v ''IOSTBlockchain_requireAuth permission must be string''
      else
        NewCStrChecked v accountID (\<lambda>accountIDStr.
        NewCStrChecked v permission (\<lambda>permissionStr.
        with_holder CBlockchain args ''IOSTBlockchain_requireAuth val error''
          (finish_call v (ibc_RequireAuth C accountIDStr permissionStr) ret_bool))))"

definition IOSTBlockchain_receipt :: "v8_api \<Rightarrow> 'h blockchain_table \<Rightarrow> callback_info \<Rightarrow> 'h act" where
  "IOSTBlockchain_receipt v C args =
     (let content = arg args 0 in
      if length (ci_args args) \<noteq> 1 then throw_error v ''IOSTBlockchain_receipt invalid argument length''
      else if \<not> IsString content then throw_error v ''IOSTBlockchain_receipt content must be string''
      else
        NewCStrChecked v content (\<lambda>contentStr.
        with_holder CBlockchain args ''IOSTBlockchain_receipt val error''
          (finish_call v (ibc_Receipt C contentStr) ret_null)))"

definition IOSTBlockchain_event :: "v8_api \<Rightarrow> 'h blockchain_table \<Rightarrow> callback_info \<Rightarrow> 'h act" where
  "IOSTBlockchain_event v C args =
     (let content = arg args 0 in
      if length (ci_args args) \<noteq> 1 then throw_error v ''IOSTBlockchain_event invalid argument length''
      else if \<not> IsString content then throw_error v ''IOSTBlockchain_event content must be string''
      else
        NewCStrChecked v content (\<lambda>contentStr.
        with_holder CBlockchain args ''IOSTBlockchain_event val error''
          (finish_call v (ibc_Event C contentStr) ret_null)))"

definition InitBlockchain :: "v8_api \<Rightarrow> 'h blockchain_table \<Rightarrow> 'h class_tpl" where
  "InitBlockchain v C =
     \<lparr>tpl_name = ''IOSTBlockchain'', tpl_ctor = NewIOSTBlockchain, tpl_field_count = 1,
      tpl_methods =
        [(''blockInfo'', IOSTBlockchain_blockInfo v C),
         (''txInfo'', IOSTBlockchain_txInfo v C),
         (''contextInfo'', IOSTBlockchain_contextInfo v C),
         (''call'', IOSTBlockchain_call v C),
         (''callWithAuth'', IOSTBlockchain_callWithAuth v C),
         (''requireAuth'', IOSTBlockchain_requireAuth v C),
         (''receipt'', IOSTBlockchain_receipt v C),
         (''event'', IOSTBlockchain_event v C)]\<rparr>"

section \<open>The interface\<close>

record 'h blockchain_ops =
  op_BlockInfo :: "nat \<Rightarrow> (string, 'h) host_op"
  op_TxInfo :: "nat \<Rightarrow> (string, 'h) host_op"
  op_ContextInfo :: "nat \<Rightarrow> (string, 'h) host_op"
  op_Call :: "nat \<Rightarrow> string \<Rightarrow> string \<Rightarrow> string \<Rightarrow> (string, 'h) host_op"
  op_CallWithAuth :: "nat \<Rightarrow> string \<Rightarrow> string \<Rightarrow> string \<Rightarrow> (string, 'h) host_op"
  op_RequireAuth :: "nat \<Rightarrow> string \<Rightarrow> string \<Rightarrow> (bool, 'h) host_op"
  op_Receipt :: "nat \<Rightarrow> string \<Rightarrow> (unit, 'h) host_op"
  op_Event :: "nat \<Rightarrow> string \<Rightarrow> (unit, 'h) host_op"

locale blockchain_callbacks =
  fixes C :: "'h blockchain_table" and S :: "'h blockchain_ops"
  assumes
    BlockInfo_law: "heap_ok h \<Longrightarrow> 
      \<exists>f. CBlkInfo C = Some f \<and> implements out_string (f p) null_CStr h s (op_BlockInfo S p)"
    and TxInfo_law: "heap_ok h \<Longrightarrow> 
      \<exists>f. CTxInfo C = Some f \<and> implements out_string (f p) null_CStr h s (op_TxInfo S p)"
    and ContextInfo_law: "heap_ok h \<Longrightarrow> 
      \<exists>f. CCtxInfo C = Some f \<and> implements out_string (f p) null_CStr h s (op_ContextInfo S p)"
    and Call_law: "heap_ok h \<Longrightarrow> cstr_holds h c1 b1 \<Longrightarrow> cstr_holds h c2 b2 \<Longrightarrow> cstr_holds h c3 b3 \<Longrightarrow> 
      \<exists>f. CCall C = Some f \<and> implements out_string (f p c1 c2 c3) null_CStr h s (op_Call S p b1 b2 b3)"
    and CallWithAuth_law: "heap_ok h \<Longrightarrow> cstr_holds h c1 b1 \<Longrightarrow> cstr_holds h c2 b2 \<Longrightarrow> cstr_holds h c3 b3 \<Longrightarrow> 
      \<exists>f. CCallWA C = Some f \<and> implements out_string (f p c1 c2 c3) null_CStr h s (op_CallWithAuth S p b1 b2 b3)"
    and RequireAuth_law: "heap_ok h \<Longrightarrow> cstr_holds h c1 b1 \<Longrightarrow> cstr_holds h c2 b2 \<Longrightarrow> 
      \<exists>f. CRequireAuth C = Some f \<and> implements out_bool (f p c1 c2) None h s (op_RequireAuth S p b1 b2)"
    and Receipt_law: "heap_ok h \<Longrightarrow> cstr_holds h c1 b1 \<Longrightarrow> 
      \<exists>f. CReceipt C = Some f \<and> implements out_nothing (f p c1) () h s (op_Receipt S p b1)"
    and Event_law: "heap_ok h \<Longrightarrow> cstr_holds h c1 b1 \<Longrightarrow> 
      \<exists>f. CEvent C = Some f \<and> implements out_nothing (f p c1) () h s (op_Event S p b1)"
begin

lemma BlockInfo_refines:
  assumes "heap_ok (w_heap w)" and "w_fields w (ci_holder args) = IFExternal CBlockchain"
    and "small_result small_string (op_BlockInfo S (w_sbxPtr w)) (w_host w)"
  shows "refines_at (IOSTBlockchain_blockInfo v C args) w (js_call v (op_BlockInfo S (w_sbxPtr w)) (js_result v) w)"
proof -
  obtain f where f: "CBlkInfo C = Some f"
    and i: "implements out_string (f (w_sbxPtr w)) null_CStr (w_heap w) (w_host w) (op_BlockInfo S (w_sbxPtr w))"
    using BlockInfo_law [OF assms(1)] by blast
  show ?thesis
    using refines_holder_call [OF assms(1,2) f i delivers_string assms(3)]
    by (simp add: IOSTBlockchain_blockInfo_def ibc_BlockInfo_def [abs_def])
qed

lemma TxInfo_refines:
  assumes "heap_ok (w_heap w)" and "w_fields w (ci_holder args) = IFExternal CBlockchain"
    and "small_result small_string (op_TxInfo S (w_sbxPtr w)) (w_host w)"
  shows "refines_at (IOSTBlockchain_txInfo v C args) w (js_call v (op_TxInfo S (w_sbxPtr w)) (js_result v) w)"
proof -
  obtain f where f: "CTxInfo C = Some f"
    and i: "implements out_string (f (w_sbxPtr w)) null_CStr (w_heap w) (w_host w) (op_TxInfo S (w_sbxPtr w))"
    using TxInfo_law [OF assms(1)] by blast
  show ?thesis
    using refines_holder_call [OF assms(1,2) f i delivers_string assms(3)]
    by (simp add: IOSTBlockchain_txInfo_def ibc_TxInfo_def [abs_def])
qed

lemma ContextInfo_refines:
  assumes "heap_ok (w_heap w)" and "w_fields w (ci_holder args) = IFExternal CBlockchain"
    and "small_result small_string (op_ContextInfo S (w_sbxPtr w)) (w_host w)"
  shows "refines_at (IOSTBlockchain_contextInfo v C args) w (js_call v (op_ContextInfo S (w_sbxPtr w)) (js_result v) w)"
proof -
  obtain f where f: "CCtxInfo C = Some f"
    and i: "implements out_string (f (w_sbxPtr w)) null_CStr (w_heap w) (w_host w) (op_ContextInfo S (w_sbxPtr w))"
    using ContextInfo_law [OF assms(1)] by blast
  show ?thesis
    using refines_holder_call [OF assms(1,2) f i delivers_string assms(3)]
    by (simp add: IOSTBlockchain_contextInfo_def ibc_ContextInfo_def [abs_def])
qed

lemma Call_refines:
  assumes "heap_ok (w_heap w)" and "utf8_bound v"
    and args: "ci_args args = [JString s1, JString s2, JString s3]" and "w_fields w (ci_holder args) = IFExternal CBlockchain"
    and "small_result small_string (op_Call S (w_sbxPtr w) (utf8_of v s1) (utf8_of v s2) (utf8_of v s3)) (w_host w)"
  shows "refines_at (IOSTBlockchain_call v C args) w
           (limit_args v [s1, s2, s3] (js_call v (op_Call S (w_sbxPtr w) (utf8_of v s1) (utf8_of v s2) (utf8_of v s3)) (js_result v)) w)"
  using callback_refines3 [OF assms(1,2,4) Call_law delivers_string] assms(5) args
  by (simp add: IOSTBlockchain_call_def arg_def ibc_Call_def [abs_def])

lemma CallWithAuth_refines:
  assumes "heap_ok (w_heap w)" and "utf8_bound v"
    and args: "ci_args args = [JString s1, JString s2, JString s3]" and "w_fields w (ci_holder args) = IFExternal CBlockchain"
    and "small_result small_string (op_CallWithAuth S (w_sbxPtr w) (utf8_of v s1) (utf8_of v s2) (utf8_of v s3)) (w_host w)"
  shows "refines_at (IOSTBlockchain_callWithAuth v C args) w
           (limit_args v [s1, s2, s3] (js_call v (op_CallWithAuth S (w_sbxPtr w) (utf8_of v s1) (utf8_of v s2) (utf8_of v s3)) (js_result v)) w)"
  using callback_refines3 [OF assms(1,2,4) CallWithAuth_law delivers_string] assms(5) args
  by (simp add: IOSTBlockchain_callWithAuth_def arg_def ibc_CallWithAuth_def [abs_def])

lemma RequireAuth_refines:
  assumes "heap_ok (w_heap w)" and "utf8_bound v"
    and args: "ci_args args = [JString s1, JString s2]" and "w_fields w (ci_holder args) = IFExternal CBlockchain"
  shows "refines_at (IOSTBlockchain_requireAuth v C args) w
           (limit_args v [s1, s2] (js_call v (op_RequireAuth S (w_sbxPtr w) (utf8_of v s1) (utf8_of v s2)) JBool) w)"
  using callback_refines2 [OF assms(1,2,4) RequireAuth_law delivers_bool] args
  by (simp add: IOSTBlockchain_requireAuth_def arg_def ibc_RequireAuth_def [abs_def])

lemma Receipt_refines:
  assumes "heap_ok (w_heap w)" and "utf8_bound v"
    and args: "ci_args args = [JString s1]" and "w_fields w (ci_holder args) = IFExternal CBlockchain"
  shows "refines_at (IOSTBlockchain_receipt v C args) w
           (limit_args v [s1] (js_call v (op_Receipt S (w_sbxPtr w) (utf8_of v s1)) (\<lambda>_. JNull)) w)"
  using callback_refines1 [OF assms(1,2,4) Receipt_law delivers_null] args
  by (simp add: IOSTBlockchain_receipt_def arg_def ibc_Receipt_def [abs_def])

lemma Event_refines:
  assumes "heap_ok (w_heap w)" and "utf8_bound v"
    and args: "ci_args args = [JString s1]" and "w_fields w (ci_holder args) = IFExternal CBlockchain"
  shows "refines_at (IOSTBlockchain_event v C args) w
           (limit_args v [s1] (js_call v (op_Event S (w_sbxPtr w) (utf8_of v s1)) (\<lambda>_. JNull)) w)"
  using callback_refines1 [OF assms(1,2,4) Event_law delivers_null] args
  by (simp add: IOSTBlockchain_event_def arg_def ibc_Event_def [abs_def])

end

end
