(* ===== verification/GoBlockchain.thy ===== *)
theory GoBlockchain
  imports GoStorage BlockchainApi "HOL-Library.List_Lexorder" "HOL-Library.Char_ord"
begin

text \<open>
  \<^verbatim>\<open>vm/v8vm/blockchain.go\<close> and what it reaches in \<^verbatim>\<open>vm/host\<close>: the context (\<^verbatim>\<open>context.go\<close>), block,
  transaction and context information (\<^verbatim>\<open>info.go\<close>), the call stack (\<^verbatim>\<open>stack.go\<close>, \<^verbatim>\<open>host.go\<close>),
  permissions (\<^verbatim>\<open>authority.go\<close>), receipts (\<^verbatim>\<open>vm_apis.go\<close>) and events (\<^verbatim>\<open>event.go\<close>). The interface
  \<^verbatim>\<open>Monitor\<close>, which runs the called contract, and the decoding of an account's JSON are
  parameters. The last part interprets the locale \<open>blockchain_callbacks\<close> on the functions.
\<close>

section \<open>The context\<close>

definition ctx_Set :: "Context \<Rightarrow> string \<Rightarrow> ctx_val \<Rightarrow> Context" where
  "ctx_Set c key value =
     (case ctx_frames c of
        [] \<Rightarrow> c
      | f # fs \<Rightarrow> c\<lparr>ctx_frames := AList.update key value f # fs\<rparr>)"

definition GValue :: "Context \<Rightarrow> string \<Rightarrow> ctx_val" where
  "GValue c key = (case map_of (ctx_gValue c) key of None \<Rightarrow> CvNil | Some v \<Rightarrow> v)"

definition GSet :: "Context \<Rightarrow> string \<Rightarrow> ctx_val \<Rightarrow> Context" where
  "GSet c key value = c\<lparr>ctx_gValue := AList.update key value (ctx_gValue c)\<rparr>"

definition PushCtx :: "'d Host \<Rightarrow> 'd Host" where
  "PushCtx h = h\<lparr>h_ctx := (h_ctx h)\<lparr>ctx_frames := [] # ctx_frames (h_ctx h)\<rparr>\<rparr>"

definition PopCtx :: "'d Host \<Rightarrow> 'd Host" where
  "PopCtx h = h\<lparr>h_ctx := (h_ctx h)\<lparr>ctx_frames := tl (ctx_frames (h_ctx h))\<rparr>\<rparr>"

definition host_Set :: "'d Host \<Rightarrow> string \<Rightarrow> ctx_val \<Rightarrow> 'd Host" where
  "host_Set h key value = h\<lparr>h_ctx := ctx_Set (h_ctx h) key value\<rparr>"

text \<open>Type assertions; a nil map or a dangling reference has no entries to read.\<close>

definition as_int :: "ctx_val \<Rightarrow> int option" where
  "as_int v = (case v of CvGoInt i \<Rightarrow> Some i | _ \<Rightarrow> None)"

definition as_map :: "'d Host \<Rightarrow> ctx_val \<Rightarrow> (nat \<times> (string \<times> int) list) option" where
  "as_map h v = (case v of CvMap a \<Rightarrow> if a < length (h_maps h) then Some (a, h_maps h ! a) else None | _ \<Rightarrow> None)"

definition as_signers :: "ctx_val \<Rightarrow> (string \<times> bool) list option" where
  "as_signers v = (case v of CvSigners m \<Rightarrow> Some m | _ \<Rightarrow> None)"

definition as_receipts :: "ctx_val \<Rightarrow> (string \<times> string) list option" where
  "as_receipts v = (case v of CvReceipts rs \<Rightarrow> Some rs | _ \<Rightarrow> None)"

section \<open>JSON\<close>

text \<open>
  \<^verbatim>\<open>json.Marshal\<close> of a map sorts its keys; of a struct it keeps the order of the fields.
\<close>

fun all_some :: "('k \<times> 'v option) list \<Rightarrow> ('k \<times> 'v) list option" where
  "all_some [] = Some []"
| "all_some ((k, v) # r) = (case (v, all_some r) of (Some x, Some ys) \<Rightarrow> Some ((k, x) # ys) | _ \<Rightarrow> None)"

definition json_fields :: "(string \<times> string) list \<Rightarrow> string" where
  "json_fields kvs =
     CHR 0x7B # json_join (map (\<lambda>(k, v). json_string k @ CHR '':'' # v) kvs) @ [CHR 0x7D]"

definition json_map :: "(string \<times> string option) list \<Rightarrow> string option" where
  "json_map kvs = map_option json_fields (all_some (sort_key fst kvs))"

definition json_value :: "'d Host \<Rightarrow> ctx_val \<Rightarrow> string option" where
  "json_value h v =
     (case v of
        CvNil \<Rightarrow> Some ''null''
      | CvString s \<Rightarrow> Some (json_string s)
      | CvInt i \<Rightarrow> Some (FormatInt i)
      | CvGoInt i \<Rightarrow> Some (show_int i)
      | CvCaller name isAccount \<Rightarrow>
          Some (json_fields [(''name'', json_string name), (''is_account'', FormatBool isAccount)])
      | CvMap a \<Rightarrow>
          if a < length (h_maps h) then json_map (map (\<lambda>(k, i). (k, Some (show_int i))) (h_maps h ! a))
          else Some ''null''
      | CvSigners m \<Rightarrow> json_map (map (\<lambda>(k, b). (k, Some (FormatBool b))) m)
      | CvReceipts rs \<Rightarrow> None
      | CvOther j \<Rightarrow> j)"

fun json_list :: "string option list \<Rightarrow> string list option" where
  "json_list [] = Some []"
| "json_list (v # r) = (case (v, json_list r) of (Some x, Some ys) \<Rightarrow> Some (x # ys) | _ \<Rightarrow> None)"

text \<open>A nil slice is \<open>null\<close>.\<close>

definition json_results :: "'d Host \<Rightarrow> ctx_val list option \<Rightarrow> string option" where
  "json_results h rs =
     (case rs of
        None \<Rightarrow> Some ''null''
      | Some vs \<Rightarrow> map_option (\<lambda>js. CHR ''['' # json_join js @ [CHR '']'']) (json_list (map (json_value h) vs)))"

section \<open>Information\<close>

definition BlockInfo :: "'d Host \<Rightarrow> (string \<times> Cost) option" where
  "BlockInfo h =
     (let val = (\<lambda>k. json_value h (ctx_Value (h_ctx h) k)) in
      map_option (\<lambda>j. (j, ContextCost))
        (json_map
           [(''parent_hash'', val ''parent_hash''), (''number'', val ''number''),
            (''witness'', val ''witness''), (''time'', val ''time'')]))"

definition ContextInfo :: "'d Host \<Rightarrow> (string \<times> Cost) option" where
  "ContextInfo h =
     (let val = (\<lambda>k. json_value h (ctx_Value (h_ctx h) k)) in
      map_option (\<lambda>j. (j, ContextCost))
        (json_map
           ([(''contract_name'', val ''contract_name''), (''abi_name'', val ''abi_name''),
             (''publisher'', val ''publisher'')] @
            (if IsFork3_3_0 (h_rules h) then [(''caller'', val ''caller'')] else []))))"

definition TxInfo :: "'d Host \<Rightarrow> (string \<times> Cost) option" where
  "TxInfo h =
     (let val = (\<lambda>k. json_value h (ctx_Value (h_ctx h) k)) in
      map_option (\<lambda>j. (j, ContextCost))
        (json_map
           ([(''time'', val ''tx_time''), (''hash'', val ''tx_hash''), (''expiration'', val ''expiration''),
             (''gas_limit'', json_value h (GValue (h_ctx h) ''gas_limit'')), (''gas_ratio'', val ''gas_ratio''),
             (''auth_list'', val ''auth_list''), (''publisher'', val ''publisher'')] @
            (if IsFork3_3_0 (h_rules h)
             then [(''amount_limit'', val ''amount_limit''), (''actions'', val ''actions'')] else []))))"

section \<open>The call stack\<close>

definition StackHeight :: "'d Host \<Rightarrow> int option" where
  "StackHeight h = as_int (ctx_Value (h_ctx h) ''stack_height'')"

definition stack_key :: "nat \<Rightarrow> string" where
  "stack_key i = ''stack'' @ show_nat i"

fun on_stack :: "Context \<Rightarrow> string \<Rightarrow> nat list \<Rightarrow> bool option" where
  "on_stack c record [] = Some False"
| "on_stack c record (i # is) =
     (case as_string (ctx_Value c (stack_key i)) of
        None \<Rightarrow> None
      | Some r \<Rightarrow> if r = record then Some True else on_stack c record is)"

text \<open>
  Before the fork the caller's own map is changed; after it a copy is. A context without a
  contract name has the empty caller.
\<close>

definition add_auth :: "'d Host \<Rightarrow> 'd Host option" where
  "add_auth h =
     do { (a, authList) \<leftarrow> as_map h (ctx_Value (h_ctx h) ''auth_contract_list'');
          name \<leftarrow> as_string (ctx_Value (h_ctx h) ''contract_name'');
          let authList' = AList.update name 1 authList;
          Some (if IsFork3_0_10 (h_rules h)
            then host_Set (h\<lparr>h_maps := h_maps h @ [authList']\<rparr>) ''auth_contract_list'' (CvMap (length (h_maps h)))
            else host_Set (h\<lparr>h_maps := (h_maps h)[a := authList']\<rparr>) ''auth_contract_list'' (CvMap a)) }"

definition caller_name :: "'d Host \<Rightarrow> string option" where
  "caller_name h =
     (let v = ctx_Value (h_ctx h) ''contract_name'' in if v \<noteq> CvNil then as_string v else Some [])"

definition call_record :: "string \<Rightarrow> string \<Rightarrow> string" where
  "call_record con api = con @ ''-'' @ api"

definition PushStack :: "'d Host \<Rightarrow> string \<Rightarrow> string \<Rightarrow> bool \<Rightarrow> (bool \<times> Cost \<times> 'd Host) option" where
  "PushStack h con api withAuth =
     (let h1 = PushCtx h; record = call_record con api in
      do { height \<leftarrow> StackHeight h1;
           found \<leftarrow> on_stack (h_ctx h1) record [0..<nat height];
           if found then Some (True, Cost0, h1)
           else do {
             let h2 = host_Set h1 (''stack'' @ show_int height) (CvString record);
             let h3 = host_Set h2 ''stack_height'' (CvGoInt (height + 1));
             callerName \<leftarrow> caller_name h3;
             let h4 = host_Set h3 ''caller'' (CvCaller callerName False);
             h5 \<leftarrow> (if withAuth then add_auth h4 else Some h4);
             Some (False, CommonOpCost height, h5) } })"

definition PopStack :: "'d Host \<Rightarrow> 'd Host" where
  "PopStack h = PopCtx h"

definition ErrReenter :: string where
  "ErrReenter = ''re-entering''"

record 'd Monitor =
  mon_Call :: "'d Host \<Rightarrow> string \<Rightarrow> string \<Rightarrow> string \<Rightarrow> (ctx_val list option \<times> Cost \<times> string option \<times> 'd Host) option"

definition host_call ::
  "'d Monitor \<Rightarrow> 'd Host \<Rightarrow> string \<Rightarrow> string \<Rightarrow> string \<Rightarrow> bool \<Rightarrow>
     (ctx_val list option \<times> Cost \<times> string option \<times> 'd Host) option" where
  "host_call M h con api jarg withAuth =
     do { (reenter, cost, h1) \<leftarrow> PushStack h con api withAuth;
          if reenter then Some (None, cost, Some ErrReenter, PopStack h1)
          else do {
            height \<leftarrow> StackHeight h1;
            if height > 5
            then Some (None, cost, Some (''stack height exceed. actual '' @ show_int height), PopStack h1)
            else do {
              (rtn, cost0, err, h2) \<leftarrow> mon_Call M h1 con api jarg;
              Some (rtn, AddAssign cost cost0, err, PopStack h2) } } }"

definition Call :: "'d Monitor \<Rightarrow> 'd Host \<Rightarrow> string \<Rightarrow> string \<Rightarrow> string \<Rightarrow>
     (ctx_val list option \<times> Cost \<times> string option \<times> 'd Host) option" where
  "Call M h con api jarg = host_call M h con api jarg False"

definition CallWithAuth :: "'d Monitor \<Rightarrow> 'd Host \<Rightarrow> string \<Rightarrow> string \<Rightarrow> string \<Rightarrow>
     (ctx_val list option \<times> Cost \<times> string option \<times> 'd Host) option" where
  "CallWithAuth M h con api jarg = host_call M h con api jarg True"

section \<open>Authority\<close>

record auth_item =
  ai_ID :: string
  ai_Permission :: string
  ai_IsKeyPair :: bool
  ai_Weight :: int64

record Permission =
  pm_Groups :: "string list"
  pm_Items :: "auth_item list"
  pm_Threshold :: int64

record Account =
  ac_Groups :: "(string \<times> auth_item list) list"
  ac_Permissions :: "(string \<times> Permission) list"

datatype authType = authNormal | authSigner | authPublisher

text \<open>
  \<open>dec\<close> is the decoding of an account's JSON. The read fails (a panic) when the stored value is
  malformed, not a string, or not the JSON of an account.
\<close>

definition ReadAuth ::
  "'d database \<Rightarrow> (string \<Rightarrow> Account option) \<Rightarrow> 'd \<Rightarrow> string \<Rightarrow> (Account option \<times> Cost) option" where
  "ReadAuth D dec db who =
     (let sa = MGet D db ''auth.iost-auth'' who; c = NewCost 0 0 (of_nat (length sa)) [] in
      do { acc \<leftarrow> MustUnmarshal sa;
           case acc of
             GNil \<Rightarrow> Some (None, c)
           | GString s \<Rightarrow> map_option (\<lambda>a. (Some a, c)) (dec s)
           | _ \<Rightarrow> None })"

text \<open>
  The recursion has fuel: \<open>AuthFuel\<close> when it runs out. The map \<^verbatim>\<open>reenter\<close> is shared by all calls
  and handed on. The loop ends early when the threshold is reached (\<open>ItemsPass\<close>).
\<close>

datatype auth_result = AuthFuel | AuthPanic | AuthDone bool Cost "string list"

datatype items_result = ItemsStop auth_result | ItemsPass Cost "string list" | ItemsEnd int64 Cost "string list"

definition auth_key :: "string \<Rightarrow> string \<Rightarrow> string" where
  "auth_key who permission = who @ ''@'' @ permission"

fun auth_items ::
  "(string \<Rightarrow> string \<Rightarrow> string list \<Rightarrow> auth_result) \<Rightarrow> (string \<times> int) list \<Rightarrow> authType \<Rightarrow> int64 \<Rightarrow>
     auth_item list \<Rightarrow> int64 \<Rightarrow> Cost \<Rightarrow> string list \<Rightarrow> items_result" where
  "auth_items again authMap ty threshold [] weight c reenter = ItemsEnd weight c reenter"
| "auth_items again authMap ty threshold (user # us) weight c reenter =
     (let pass = (\<lambda>c reenter.
        let weight' = weight + ai_Weight user in
        if threshold <=s weight' then ItemsPass c reenter
        else auth_items again authMap ty threshold us weight' c reenter) in
      if ai_IsKeyPair user then
        if ty = authNormal then auth_items again authMap ty threshold us weight c reenter
        else case map_of authMap (ai_ID user) of
          Some i \<Rightarrow> if i > (if ty = authPublisher then 1 else 0) then pass c reenter
                    else auth_items again authMap ty threshold us weight c reenter
        | None \<Rightarrow> auth_items again authMap ty threshold us weight c reenter
      else case again (ai_ID user) (ai_Permission user) reenter of
        AuthDone ok cost reenter' \<Rightarrow>
          if ok then pass (AddAssign c cost) reenter'
          else auth_items again authMap ty threshold us weight (AddAssign c cost) reenter'
      | r \<Rightarrow> ItemsStop r)"

definition permission_items :: "Account \<Rightarrow> Permission \<Rightarrow> auth_item list" where
  "permission_items a p =
     pm_Items p @ concat (map (\<lambda>g. case map_of (ac_Groups a) g of None \<Rightarrow> [] | Some items \<Rightarrow> items) (pm_Groups p))"

definition with_cost :: "Cost \<Rightarrow> auth_result \<Rightarrow> auth_result" where
  "with_cost c r = (case r of AuthDone ok c2 reenter \<Rightarrow> AuthDone ok (AddAssign c c2) reenter | _ \<Rightarrow> r)"

primrec auth ::
  "nat \<Rightarrow> 'd database \<Rightarrow> (string \<Rightarrow> Account option) \<Rightarrow> 'd \<Rightarrow> (string \<times> int) list \<Rightarrow> (string \<times> bool) list \<Rightarrow> authType \<Rightarrow>
     string \<Rightarrow> string \<Rightarrow> string list \<Rightarrow> auth_result" where
  "auth 0 D dec db authMap signerMap ty who permission reenter = AuthFuel"
| "auth (Suc n) D dec db authMap signerMap ty who permission reenter =
     (let key = auth_key who permission; again = auth n D dec db authMap signerMap ty in
      if key \<in> set reenter then AuthDone False (CommonErrorCost 1) reenter
      else
        let reenter1 = key # reenter in
        if ty = authNormal \<and> map_of signerMap key = Some True then AuthDone True (CommonOpCost 1) reenter1
        else case ReadAuth D dec db who of
          None \<Rightarrow> AuthPanic
        | Some (None, c) \<Rightarrow> AuthDone False c reenter1
        | Some (Some a, c) \<Rightarrow>
            (case map_of (ac_Permissions a) permission of
               None \<Rightarrow>
                 if permission = ''owner'' \<or> permission = ''active'' then AuthDone False c reenter1
                 else again who ''active'' reenter1
             | Some p \<Rightarrow>
                 (case auth_items again authMap ty (pm_Threshold p) (permission_items a p) 0 c reenter1 of
                    ItemsStop r \<Rightarrow> r
                  | ItemsPass c' reenter2 \<Rightarrow> AuthDone True c' reenter2
                  | ItemsEnd weight c' reenter2 \<Rightarrow>
                      if pm_Threshold p <=s weight then AuthDone True c' reenter2
                      else if permission = ''active'' then with_cost c' (again who ''owner'' reenter2)
                      else if permission = ''owner'' then AuthDone False c' reenter2
                      else with_cost c' (again who ''active'' reenter2))))"

definition IsContract :: "string \<Rightarrow> bool" where
  "IsContract who \<longleftrightarrow> is_prefix ''Contract'' who \<or> CHR ''.'' \<in> set who"

definition genesis_block :: "'d Host \<Rightarrow> bool" where
  "genesis_block h \<longleftrightarrow> ctx_Value (h_ctx h) ''number'' = CvInt 0"

definition requireContractAuth :: "'d Host \<Rightarrow> string \<Rightarrow> (bool \<times> Cost) option" where
  "requireContractAuth h who =
     (if genesis_block h then Some (True, Cost0)
      else do {
        (a, authContractList) \<leftarrow> as_map h (ctx_Value (h_ctx h) ''auth_contract_list'');
        let ok = (map_of authContractList who \<noteq> None);
        if IsFork3_1_0 (h_rules h) then Some (ok, CommonOpCost 1)
        else if ok then Some (True, CommonOpCost 1)
        else do { name \<leftarrow> contract_name h; Some (name = who, CommonOpCost 1) } })"

text \<open>The result is \<open>None\<close> on a panic and when the fuel does not suffice.\<close>

definition requireAuth ::
  "nat \<Rightarrow> 'd database \<Rightarrow> (string \<Rightarrow> Account option) \<Rightarrow> 'd Host \<Rightarrow> string \<Rightarrow> string \<Rightarrow> authType \<Rightarrow> (bool \<times> Cost) option" where
  "requireAuth n D dec h who p ty =
     (if genesis_block h then Some (True, Cost0)
      else if IsContract who then requireContractAuth h who
      else do {
        (a, authMap) \<leftarrow> as_map h (ctx_Value (h_ctx h) ''auth_list'');
        signerMap \<leftarrow> as_signers (ctx_Value (h_ctx h) ''signer_list'');
        case auth n D dec (h_db h) authMap signerMap ty who p [] of
          AuthDone ok cost reenter \<Rightarrow> Some (ok, cost)
        | _ \<Rightarrow> None })"

definition RequireAuth ::
  "nat \<Rightarrow> 'd database \<Rightarrow> (string \<Rightarrow> Account option) \<Rightarrow> 'd Host \<Rightarrow> string \<Rightarrow> string \<Rightarrow> (bool \<times> Cost) option" where
  "RequireAuth n D dec h who p =
     requireAuth n D dec h who p (if IsFork3_3_0 (h_rules h) then authNormal else authSigner)"

section \<open>Receipts and events\<close>

definition post_event :: "string \<Rightarrow> string \<Rightarrow> 'd Host \<Rightarrow> 'd Host option" where
  "post_event topic data h =
     do { con \<leftarrow> contract_name h; Some (h\<lparr>h_posted := h_posted h @ [(topic, data, con)]\<rparr>) }"

definition Receipt :: "'d Host \<Rightarrow> string \<Rightarrow> (Cost \<times> 'd Host) option" where
  "Receipt h s =
     do { con \<leftarrow> contract_name h;
          abi \<leftarrow> as_string (ctx_Value (h_ctx h) ''abi_name'');
          rs \<leftarrow> as_receipts (GValue (h_ctx h) ''receipts'');
          let fn = con @ ''/'' @ abi;
          let h1 = h\<lparr>h_ctx := GSet (h_ctx h) ''receipts'' (CvReceipts (rs @ [(fn, s)]))\<rparr>;
          h2 \<leftarrow> post_event ''ContractReceipt'' s h1;
          Some (ReceiptCost (length s), h2) }"

definition PostEvent :: "'d Host \<Rightarrow> string \<Rightarrow> (Cost \<times> 'd Host) option" where
  "PostEvent h data =
     do { h1 \<leftarrow> post_event ''ContractEvent'' data h; Some (EventCost (length data), h1) }"

section \<open>The functions behind the pointers\<close>

text \<open>
  The monitor works on the host; what a nested run does to the C heap is not modelled.
\<close>

definition ErrInvalidData :: string where
  "ErrInvalidData = ''invalid data''"

definition set_info ::
  "go_sandbox \<Rightarrow> CStr \<Rightarrow> (string \<times> Cost) option \<Rightarrow> 'd Host \<Rightarrow> 'd go_state genv \<Rightarrow>
     (char_ptr \<times> CStr \<times> size_t cell \<times> 'd go_state genv) option" where
  "set_info sbx out info hst env =
     do { (str, cost) \<leftarrow> info;
          let (r, h) = SetString out str (fst env);
          go_return sbx r cost None hst (h, snd env) }"

definition goBlockInfo :: "'d go_state blockInfoFunc" where
  "goBlockInfo cSbx =
     go_entry cSbx (\<lambda>sbx out gas env.
       do { hst \<leftarrow> sbx_host (snd env) sbx; set_info sbx out (BlockInfo hst) hst env })"

definition goTxInfo :: "'d go_state txInfoFunc" where
  "goTxInfo cSbx =
     go_entry cSbx (\<lambda>sbx out gas env.
       do { hst \<leftarrow> sbx_host (snd env) sbx; set_info sbx out (TxInfo hst) hst env })"

definition goContextInfo :: "'d go_state contextInfoFunc" where
  "goContextInfo cSbx =
     go_entry cSbx (\<lambda>sbx out gas env.
       do { hst \<leftarrow> sbx_host (snd env) sbx; set_info sbx out (ContextInfo hst) hst env })"

definition return_results ::
  "go_sandbox \<Rightarrow> CStr \<Rightarrow> ctx_val list option \<times> Cost \<times> string option \<times> 'd Host \<Rightarrow> 'd go_state genv \<Rightarrow>
     (char_ptr \<times> CStr \<times> size_t cell \<times> 'd go_state genv) option" where
  "return_results sbx out r env =
     (case r of (callRs, cost, err, hst) \<Rightarrow>
        (case err of
           Some e \<Rightarrow> go_return sbx out cost (Some e) hst env
         | None \<Rightarrow>
             (case json_results hst callRs of
                None \<Rightarrow> go_return sbx out cost (Some ErrInvalidData) hst env
              | Some rsStr \<Rightarrow> (let (res, h) = SetString out rsStr (fst env) in go_return sbx res cost None hst (h, snd env)))))"

definition goCall :: "'d Monitor \<Rightarrow> 'd go_state callFunc" where
  "goCall M cSbx con api argv =
     go_entry cSbx (\<lambda>sbx out gas env.
       do {
         contractStr \<leftarrow> GoString (fst env) con;
         apiStr \<leftarrow> GoString (fst env) api;
         argsStr \<leftarrow> GoString (fst env) argv;
         hst \<leftarrow> sbx_host (snd env) sbx;
         r \<leftarrow> Call M hst contractStr apiStr argsStr;
         return_results sbx out r env })"

definition goCallWithAuth :: "'d Monitor \<Rightarrow> 'd go_state callWithAuthFunc" where
  "goCallWithAuth M cSbx con api argv =
     go_entry cSbx (\<lambda>sbx out gas env.
       do {
         contractStr \<leftarrow> GoString (fst env) con;
         apiStr \<leftarrow> GoString (fst env) api;
         argsStr \<leftarrow> GoString (fst env) argv;
         hst \<leftarrow> sbx_host (snd env) sbx;
         r \<leftarrow> CallWithAuth M hst contractStr apiStr argsStr;
         return_results sbx out r env })"

definition goRequireAuth ::
  "nat \<Rightarrow> 'd database \<Rightarrow> (string \<Rightarrow> Account option) \<Rightarrow> 'd go_state requireAuthFunc" where
  "goRequireAuth n D dec cSbx who permission =
     go_entry cSbx (\<lambda>sbx out gas env.
       do {
         pubKeyStr \<leftarrow> GoString (fst env) who;
         permissionStr \<leftarrow> GoString (fst env) permission;
         hst \<leftarrow> sbx_host (snd env) sbx;
         (callOk, cost) \<leftarrow> RequireAuth n D dec hst pubKeyStr permissionStr;
         go_return sbx (Some callOk) cost None hst env })"

definition goReceipt :: "'d go_state receiptFunc" where
  "goReceipt cSbx content =
     go_entry cSbx (\<lambda>sbx out gas env.
       do {
         contentStr \<leftarrow> GoString (fst env) content;
         hst \<leftarrow> sbx_host (snd env) sbx;
         (cost, hst') \<leftarrow> Receipt hst contentStr;
         go_return sbx out cost None hst' env })"

definition goEvent :: "'d go_state eventFunc" where
  "goEvent cSbx content =
     go_entry cSbx (\<lambda>sbx out gas env.
       do {
         contentStr \<leftarrow> GoString (fst env) content;
         hst \<leftarrow> sbx_host (snd env) sbx;
         (cost, hst') \<leftarrow> PostEvent hst contentStr;
         go_return sbx out cost None hst' env })"

section \<open>What they mean\<close>

definition info_op :: "('d Host \<Rightarrow> (string \<times> Cost) option) \<Rightarrow> 'd Host \<Rightarrow> ((string + string) \<times> Cost \<times> 'd Host) option" where
  "info_op f hst = map_option (\<lambda>(str, cost). (Inr str, cost, hst)) (f hst)"

definition call_op ::
  "(ctx_val list option \<times> Cost \<times> string option \<times> 'd Host) option \<Rightarrow> ((string + string) \<times> Cost \<times> 'd Host) option" where
  "call_op r = map_option (\<lambda>(callRs, cost, err, hst).
     (case err of
        Some e \<Rightarrow> Inl e
      | None \<Rightarrow> (case json_results hst callRs of None \<Rightarrow> Inl ErrInvalidData | Some s \<Rightarrow> Inr s), cost, hst)) r"

definition go_blockchain_ops ::
  "nat \<Rightarrow> 'd database \<Rightarrow> (string \<Rightarrow> Account option) \<Rightarrow> 'd Monitor \<Rightarrow> 'd go_state blockchain_ops" where
  "go_blockchain_ops n D dec M =
     \<lparr>op_BlockInfo = \<lambda>p. with_sandbox p (info_op BlockInfo),
      op_TxInfo = \<lambda>p. with_sandbox p (info_op TxInfo),
      op_ContextInfo = \<lambda>p. with_sandbox p (info_op ContextInfo),
      op_Call = \<lambda>p c a j. with_sandbox p (\<lambda>hst. call_op (Call M hst c a j)),
      op_CallWithAuth = \<lambda>p c a j. with_sandbox p (\<lambda>hst. call_op (CallWithAuth M hst c a j)),
      op_RequireAuth = \<lambda>p i r. with_sandbox p (\<lambda>hst.
        map_option (\<lambda>(ok, cost). (Inr ok, cost, hst)) (RequireAuth n D dec hst i r)),
      op_Receipt = \<lambda>p s. with_sandbox p (\<lambda>hst. map_option (\<lambda>(cost, hst'). (Inr (), cost, hst')) (Receipt hst s)),
      op_Event = \<lambda>p s. with_sandbox p (\<lambda>hst. map_option (\<lambda>(cost, hst'). (Inr (), cost, hst')) (PostEvent hst s))\<rparr>"

definition go_blockchain_table ::
  "nat \<Rightarrow> 'd database \<Rightarrow> (string \<Rightarrow> Account option) \<Rightarrow> 'd Monitor \<Rightarrow> 'd go_state blockchain_table" where
  "go_blockchain_table n D dec M =
     InitGoBlockchain goBlockInfo goTxInfo goContextInfo (goCall M) (goCallWithAuth M)
       (goRequireAuth n D dec) goReceipt goEvent"

lemmas blockchain_impl = go_impl set_info_def return_results_def info_op_def call_op_def

lemma goInfo_implements:
  "implements out_string (goBlockInfo p) null_CStr h s (op_BlockInfo (go_blockchain_ops n D dec M) p)"
  "implements out_string (goTxInfo p) null_CStr h s (op_TxInfo (go_blockchain_ops n D dec M) p)"
  "implements out_string (goContextInfo p) null_CStr h s (op_ContextInfo (go_blockchain_ops n D dec M) p)"
  unfolding goBlockInfo_def goTxInfo_def goContextInfo_def go_blockchain_ops_def blockchain_ops.simps
  by (rule implements_entry; auto simp: blockchain_impl split: option.split sum.split prod.split)+

lemma goCall_implements:
  "cstr_holds h c1 b1 \<Longrightarrow> cstr_holds h c2 b2 \<Longrightarrow> cstr_holds h c3 b3 \<Longrightarrow>
     implements out_string (goCall M p c1 c2 c3) null_CStr h s (op_Call (go_blockchain_ops n D dec M) p b1 b2 b3)"
  "cstr_holds h c1 b1 \<Longrightarrow> cstr_holds h c2 b2 \<Longrightarrow> cstr_holds h c3 b3 \<Longrightarrow>
     implements out_string (goCallWithAuth M p c1 c2 c3) null_CStr h s (op_CallWithAuth (go_blockchain_ops n D dec M) p b1 b2 b3)"
  unfolding goCall_def goCallWithAuth_def go_blockchain_ops_def blockchain_ops.simps
  by (rule implements_entry; auto simp: blockchain_impl split: option.split sum.split prod.split)+

lemma goRequireAuth_implements:
  "cstr_holds h c1 b1 \<Longrightarrow> cstr_holds h c2 b2 \<Longrightarrow>
     implements out_bool (goRequireAuth n D dec p c1 c2) None h s (op_RequireAuth (go_blockchain_ops n D dec M) p b1 b2)"
  unfolding goRequireAuth_def go_blockchain_ops_def blockchain_ops.simps
  by (rule implements_entry; auto simp: blockchain_impl split: option.split sum.split prod.split)

lemma goPost_implements:
  "cstr_holds h c1 b1 \<Longrightarrow>
     implements out_nothing (goReceipt p c1) () h s (op_Receipt (go_blockchain_ops n D dec M) p b1)"
  "cstr_holds h c1 b1 \<Longrightarrow>
     implements out_nothing (goEvent p c1) () h s (op_Event (go_blockchain_ops n D dec M) p b1)"
  unfolding goReceipt_def goEvent_def go_blockchain_ops_def blockchain_ops.simps
  by (rule implements_entry; auto simp: blockchain_impl split: option.split sum.split prod.split)+

interpretation go_blockchain: blockchain_callbacks "go_blockchain_table n D dec M" "go_blockchain_ops n D dec M"
  for n D dec M
  by unfold_locales
    (simp_all add: go_blockchain_table_def InitGoBlockchain_def goInfo_implements goCall_implements
      goRequireAuth_implements goPost_implements)

end
