(* ===== verification/BlockchainLaws.thy ===== *)
theory BlockchainLaws
  imports GoBlockchain
begin

text \<open>
  Facts about \<^verbatim>\<open>vm/host\<close> behind the blockchain callbacks: the permission check ends and grants
  nothing to a transaction without keys, the call stack holds pairwise different entries and
  is popped on every way out of a call, and authority lent to a callee.
\<close>

section \<open>The permission check ends\<close>

text \<open>
  What a check can reach: a finite set of pairs of account and permission, closed under the
  references of the stored accounts and under the fallbacks to \<open>active\<close> and \<open>owner\<close>.
\<close>

definition auth_closed ::
  "'d database \<Rightarrow> (string \<Rightarrow> Account option) \<Rightarrow> 'd \<Rightarrow> (string \<times> string) set \<Rightarrow> bool" where
  "auth_closed D dec db U \<longleftrightarrow>
     (\<forall>(i, p) \<in> U. (i, ''active'') \<in> U \<and> (i, ''owner'') \<in> U \<and>
        (\<forall>a c pm user. ReadAuth D dec db i = Some (Some a, c) \<longrightarrow> map_of (ac_Permissions a) p = Some pm \<longrightarrow>
           user \<in> set (permission_items a pm) \<longrightarrow> \<not> ai_IsKeyPair user \<longrightarrow> (ai_ID user, ai_Permission user) \<in> U))"

definition auth_keys :: "(string \<times> string) set \<Rightarrow> string set" where
  "auth_keys U = (\<lambda>(i, p). auth_key i p) ` U"

definition auth_ends :: "string list \<Rightarrow> auth_result \<Rightarrow> bool" where
  "auth_ends reenter r \<longleftrightarrow>
     (case r of AuthFuel \<Rightarrow> False | AuthPanic \<Rightarrow> True | AuthDone ok c reenter' \<Rightarrow> set reenter \<subseteq> set reenter')"

lemma auth_ends_simps [simp]:
  "auth_ends R AuthFuel = False" "auth_ends R AuthPanic = True" "auth_ends R (AuthDone ok c R') = (set R \<subseteq> set R')"
  by (simp_all add: auth_ends_def)

lemma auth_ends_with_cost [simp]: "auth_ends reenter (with_cost c r) = auth_ends reenter r"
  by (cases r) (simp_all add: with_cost_def)

lemma auth_ends_mono: "auth_ends R r \<Longrightarrow> set R0 \<subseteq> set R \<Longrightarrow> auth_ends R0 r"
  by (cases r) auto

definition items_ends :: "string list \<Rightarrow> items_result \<Rightarrow> bool" where
  "items_ends reenter r \<longleftrightarrow>
     (case r of
        ItemsStop x \<Rightarrow> x = AuthPanic
      | ItemsPass c reenter' \<Rightarrow> set reenter \<subseteq> set reenter'
      | ItemsEnd w c reenter' \<Rightarrow> set reenter \<subseteq> set reenter')"

lemma items_ends_simps [simp]:
  "items_ends R (ItemsStop x) = (x = AuthPanic)"
  "items_ends R (ItemsPass c R') = (set R \<subseteq> set R')"
  "items_ends R (ItemsEnd w c R') = (set R \<subseteq> set R')"
  by (simp_all add: items_ends_def)

lemma items_ends_mono: "items_ends R r \<Longrightarrow> set R0 \<subseteq> set R \<Longrightarrow> items_ends R0 r"
  by (cases r) auto

lemma auth_items_ends:
  assumes "\<And>user R. user \<in> set us \<Longrightarrow> \<not> ai_IsKeyPair user \<Longrightarrow> set R0 \<subseteq> set R \<Longrightarrow>
    auth_ends R (again (ai_ID user) (ai_Permission user) R)"
    and "set R0 \<subseteq> set R"
  shows "items_ends R (auth_items again authMap ty threshold us weight c R)"
  using assms
proof (induction us arbitrary: weight c R)
  case Nil
  then show ?case by simp
next
  case (Cons user us)
  have IH: "items_ends R' (auth_items again authMap ty threshold us w' c' R')" if "set R0 \<subseteq> set R'" for w' c' R'
    using Cons.IH [OF Cons.prems(1) that] by simp
  show ?case
  proof (cases "ai_IsKeyPair user")
    case True
    then show ?thesis
      using IH Cons.prems(2) by (auto simp: Let_def split: option.split)
  next
    case False
    have e: "auth_ends R (again (ai_ID user) (ai_Permission user) R)"
      using Cons.prems False by simp
    show ?thesis
    proof (cases "again (ai_ID user) (ai_Permission user) R")
      case (AuthDone ok cost R')
      then have sub: "set R \<subseteq> set R'" using e by simp
      then have "set R0 \<subseteq> set R'" using Cons.prems(2) by blast
      then have "items_ends R (auth_items again authMap ty threshold us w' c' R')" for w' c'
        using IH items_ends_mono sub by blast
      then show ?thesis
        using AuthDone False sub by (simp add: Let_def)
    qed (use e False in simp_all)
  qed
qed

lemma auth_ends_enough:
  assumes "finite U" and "auth_closed D dec db U"
  shows "(i, p) \<in> U \<Longrightarrow> card (auth_keys U - set R) < n \<Longrightarrow> auth_ends R (auth n D dec db authMap signerMap ty i p R)"
proof (induction n arbitrary: i p R)
  case (Suc n)
  let ?R = "auth_key i p # R" and ?again = "auth n D dec db authMap signerMap ty"
  show ?case
  proof (cases "auth_key i p \<in> set R")
    case True
    then show ?thesis by simp
  next
    case False
    have fin: "finite (auth_keys U)" using assms(1) by (simp add: auth_keys_def)
    have "auth_key i p \<in> auth_keys U - set R" using Suc.prems(1) False by (auto simp: auth_keys_def)
    then have less: "card (auth_keys U - set R - {auth_key i p}) < card (auth_keys U - set R)"
      using fin by (intro card_Diff1_less) auto
    have small: "card (auth_keys U - set R') < n" if "set ?R \<subseteq> set R'" for R'
    proof -
      have "card (auth_keys U - set R') \<le> card (auth_keys U - set R - {auth_key i p})"
        using that fin by (intro card_mono) auto
      then show ?thesis using less Suc.prems(2) by linarith
    qed
    have again: "auth_ends R' (?again j q R')" if "set ?R \<subseteq> set R'" "(j, q) \<in> U" for j q R'
      using Suc.IH [OF that(2) small [OF that(1)]] .
    have fall: "(i, ''active'') \<in> U" "(i, ''owner'') \<in> U"
      using assms(2) Suc.prems(1) by (auto simp: auth_closed_def)
    have down: "auth_ends R (?again i q R')" if "set ?R \<subseteq> set R'" "q = ''active'' \<or> q = ''owner''" for q R'
      using again [of R' i q] that fall by (auto intro: auth_ends_mono)
    consider "ty = authNormal \<and> map_of signerMap (auth_key i p) = Some True" | "ReadAuth D dec db i = None"
      | c where "ReadAuth D dec db i = Some (None, c)"
      | a c where "ReadAuth D dec db i = Some (Some a, c)" "map_of (ac_Permissions a) p = None"
      | a c pm where "ReadAuth D dec db i = Some (Some a, c)" "map_of (ac_Permissions a) p = Some pm"
      by (metis not_None_eq surj_pair)
    then show ?thesis
    proof cases
      case 4
      then show ?thesis using False down [of ?R "''active''"] by (auto simp: Let_def)
    next
      case (5 a c pm)
      let ?r = "auth_items ?again authMap ty (pm_Threshold pm) (permission_items a pm) 0 c ?R"
      have "items_ends ?R ?r"
      proof (rule auth_items_ends [of _ ?R])
        fix user R' assume u: "user \<in> set (permission_items a pm)" "\<not> ai_IsKeyPair user" "set ?R \<subseteq> set R'"
        have "(ai_ID user, ai_Permission user) \<in> U"
          using assms(2) Suc.prems(1) 5 u unfolding auth_closed_def by blast
        then show "auth_ends R' (?again (ai_ID user) (ai_Permission user) R')" using again u(3) by blast
      qed simp
      then show ?thesis
        using False 5 down by (cases ?r) (auto simp: Let_def)
    qed (use False in \<open>auto simp: Let_def\<close>)
  qed
qed simp

section \<open>No authority without a key\<close>

text \<open>
  Keys that do not count: no signer entry is true and no key has been used often enough. Stored
  permissions ask for a positive weight.
\<close>

definition no_keys :: "(string \<times> int) list \<Rightarrow> (string \<times> bool) list \<Rightarrow> authType \<Rightarrow> bool" where
  "no_keys authMap signerMap ty \<longleftrightarrow>
     (\<forall>k. map_of signerMap k \<noteq> Some True) \<and>
     (\<forall>k i. map_of authMap k = Some i \<longrightarrow> i \<le> (if ty = authPublisher then 1 else 0))"

definition thresholds_positive :: "'d database \<Rightarrow> (string \<Rightarrow> Account option) \<Rightarrow> 'd \<Rightarrow> bool" where
  "thresholds_positive D dec db \<longleftrightarrow>
     (\<forall>i a c p pm. ReadAuth D dec db i = Some (Some a, c) \<longrightarrow> map_of (ac_Permissions a) p = Some pm \<longrightarrow> 0 <s pm_Threshold pm)"

definition refused :: "auth_result \<Rightarrow> bool" where
  "refused r \<longleftrightarrow> (case r of AuthDone ok c reenter \<Rightarrow> \<not> ok | _ \<Rightarrow> True)"

lemma refused_simps [simp]:
  "refused AuthFuel" "refused AuthPanic" "refused (AuthDone ok c R) = (\<not> ok)" "refused (with_cost c r) = refused r"
  by (auto simp: refused_def with_cost_def split: auth_result.split)

definition items_refused :: "int64 \<Rightarrow> items_result \<Rightarrow> bool" where
  "items_refused weight r \<longleftrightarrow>
     (case r of ItemsStop x \<Rightarrow> refused x | ItemsPass c R \<Rightarrow> False | ItemsEnd w c R \<Rightarrow> w = weight)"

lemma auth_items_refused:
  assumes "no_keys authMap signerMap ty" and "\<And>j q R. refused (again j q R)"
  shows "items_refused weight (auth_items again authMap ty threshold us weight c R)"
proof (induction us arbitrary: c R)
  case Nil
  then show ?case by (simp add: items_refused_def)
next
  case (Cons user us)
  show ?case
  proof (cases "ai_IsKeyPair user")
    case True
    have "\<not> (if ty = authPublisher then 1 else 0) < i" if "map_of authMap (ai_ID user) = Some i" for i
      using assms(1) that unfolding no_keys_def by (metis not_less)
    then show ?thesis
      using True Cons by (auto simp: Let_def split: option.split)
  next
    case False
    then show ?thesis
      using Cons assms(2) [of "ai_ID user" "ai_Permission user" R]
      by (cases "again (ai_ID user) (ai_Permission user) R") (auto simp: items_refused_def)
  qed
qed

lemma auth_refused:
  assumes "no_keys authMap signerMap ty" and "thresholds_positive D dec db"
  shows "refused (auth n D dec db authMap signerMap ty i p R)"
proof (induction n arbitrary: i p R)
  case (Suc n)
  let ?again = "auth n D dec db authMap signerMap ty"
  have s: "map_of signerMap (auth_key i p) \<noteq> Some True" using assms(1) by (simp add: no_keys_def)
  consider "ReadAuth D dec db i = None" | c where "ReadAuth D dec db i = Some (None, c)"
    | a c where "ReadAuth D dec db i = Some (Some a, c)" "map_of (ac_Permissions a) p = None"
    | a c pm where "ReadAuth D dec db i = Some (Some a, c)" "map_of (ac_Permissions a) p = Some pm"
    by (metis not_None_eq surj_pair)
  then show ?case
  proof cases
    case (4 a c pm)
    let ?r = "auth_items ?again authMap ty (pm_Threshold pm) (permission_items a pm) 0 c (auth_key i p # R)"
    have "0 <s pm_Threshold pm" using assms(2) 4 unfolding thresholds_positive_def by blast
    then have "\<not> pm_Threshold pm <=s 0" by (simp add: word_sless_alt word_sle_eq)
    moreover have "items_refused 0 ?r" using auth_items_refused [OF assms(1) Suc.IH] .
    ultimately show ?thesis
      using 4 s Suc.IH by (cases ?r) (auto simp: Let_def items_refused_def)
  qed (use s Suc.IH in \<open>auto simp: Let_def\<close>)
qed simp

section \<open>The call stack\<close>

text \<open>The entries of the stack, oldest first.\<close>

definition stack_is :: "Context \<Rightarrow> string list \<Rightarrow> bool" where
  "stack_is c rs \<longleftrightarrow>
     ctx_Value c ''stack_height'' = CvGoInt (int (length rs)) \<and>
     (\<forall>i < length rs. ctx_Value c (stack_key i) = CvString (rs ! i))"

lemma stack_key_inject [simp]: "stack_key i = stack_key j \<longleftrightarrow> i = j"
  by (simp add: stack_key_def)

lemma stack_key_names [simp]:
  "stack_key i \<noteq> ''stack_height''" "stack_key i \<noteq> ''caller''" "stack_key i \<noteq> ''auth_contract_list''"
  "stack_key i \<noteq> ''contract_name''"
  "''stack_height'' \<noteq> stack_key i" "''caller'' \<noteq> stack_key i" "''auth_contract_list'' \<noteq> stack_key i"
  "''contract_name'' \<noteq> stack_key i"
proof -
  have "show_nat i \<noteq> ''_height''" using show_nat_digits [of "CHR ''_''" i] by (auto simp: byte_def)
  then show "stack_key i \<noteq> ''stack_height''" "''stack_height'' \<noteq> stack_key i" by (auto simp: stack_key_def)
qed (auto simp: stack_key_def)

lemma ctx_Value_Set:
  "ctx_frames c \<noteq> [] \<Longrightarrow> ctx_Value (ctx_Set c key v) key' = (if key' = key then v else ctx_Value c key')"
  by (cases "ctx_frames c") (auto simp: ctx_Value_def ctx_Set_def update_conv')

lemma ctx_frames_Set [simp]: "ctx_frames (ctx_Set c key v) = [] \<longleftrightarrow> ctx_frames c = []"
  "tl (ctx_frames (ctx_Set c key v)) = tl (ctx_frames c)"
  by (auto simp: ctx_Set_def split: list.split)

lemma host_Set_simps [simp]:
  "h_ctx (host_Set h key v) = ctx_Set (h_ctx h) key v" "h_maps (host_Set h key v) = h_maps h"
  "h_rules (host_Set h key v) = h_rules h" "h_db (host_Set h key v) = h_db h"
  by (simp_all add: host_Set_def)

lemma PushCtx_simps [simp]:
  "ctx_frames (h_ctx (PushCtx h)) = [] # ctx_frames (h_ctx h)" "ctx_Value (h_ctx (PushCtx h)) key = ctx_Value (h_ctx h) key"
  "h_maps (PushCtx h) = h_maps h" "h_rules (PushCtx h) = h_rules h" "h_db (PushCtx h) = h_db h" "PopCtx (PushCtx h) = h"
  by (simp_all add: PushCtx_def PopCtx_def ctx_Value_def)

lemma on_stack_is:
  assumes "stack_is c rs" and "set is \<subseteq> {..<length rs}"
  shows "on_stack c r is = Some (r \<in> (!) rs ` set is)"
  using assms(2)
proof (induction "is")
  case (Cons i "is")
  then show ?case using assms(1) by (auto simp: stack_is_def as_string_def)
qed simp

lemma on_stack_all: "stack_is c rs \<Longrightarrow> on_stack c r [0..<length rs] = Some (r \<in> set rs)"
  by (subst on_stack_is) (auto simp: in_set_conv_nth image_iff)

lemma StackHeight_is: "stack_is (h_ctx h) rs \<Longrightarrow> StackHeight h = Some (int (length rs))"
  by (simp add: StackHeight_def stack_is_def as_int_def)

text \<open>One entry is pushed; the context below the new frame is not touched.\<close>

lemma stack_is_push:
  assumes "stack_is c rs" and "ctx_frames c \<noteq> []"
  shows "stack_is (ctx_Set (ctx_Set (ctx_Set c (stack_key (length rs)) (CvString r)) ''stack_height''
           (CvGoInt (int (length rs) + 1))) ''caller'' x) (rs @ [r])"
  using assms by (auto simp: stack_is_def ctx_Value_Set nth_append less_Suc_eq)

lemma stack_is_Set_auth:
  "stack_is c rs \<Longrightarrow> ctx_frames c \<noteq> [] \<Longrightarrow> stack_is (ctx_Set c ''auth_contract_list'' x) rs"
  by (simp add: stack_is_def ctx_Value_Set)

lemma add_auth_stack:
  assumes "add_auth h = Some h'" and "ctx_frames (h_ctx h) \<noteq> []"
  shows "stack_is (h_ctx h) rs \<Longrightarrow> stack_is (h_ctx h') rs" "tl (ctx_frames (h_ctx h')) = tl (ctx_frames (h_ctx h))"
    "h_rules h' = h_rules h"
  using assms by (auto simp: add_auth_def bind_eq_Some_conv Let_def stack_is_Set_auth split: if_splits)

lemma PushStack_reenter:
  assumes "stack_is (h_ctx h) rs" and "call_record con api \<in> set rs"
  shows "PushStack h con api withAuth = Some (True, Cost0, PushCtx h)"
proof -
  have "stack_is (h_ctx (PushCtx h)) rs" using assms(1) by (simp add: stack_is_def)
  then show ?thesis
    using assms by (simp add: PushStack_def StackHeight_def stack_is_def as_int_def on_stack_all [unfolded stack_is_def])
qed

definition pushed :: "'d Host \<Rightarrow> nat \<Rightarrow> string \<Rightarrow> string \<Rightarrow> 'd Host" where
  "pushed h n r callerName =
     host_Set (host_Set (host_Set (PushCtx h) (stack_key n) (CvString r)) ''stack_height'' (CvGoInt (int n + 1)))
       ''caller'' (CvCaller callerName False)"

lemma PushStack_new:
  assumes "stack_is (h_ctx h) rs" and "call_record con api \<notin> set rs"
    and "PushStack h con api withAuth = Some (reenter, cost, h')"
  obtains callerName where "\<not> reenter" and "cost = CommonOpCost (int (length rs))"
    and "(if withAuth then add_auth (pushed h (length rs) (call_record con api) callerName)
          else Some (pushed h (length rs) (call_record con api) callerName)) = Some h'"
proof -
  have st1: "stack_is (h_ctx (PushCtx h)) rs" using assms(1) by (simp add: stack_is_def)
  have key: "''stack'' @ show_int (int (length rs)) = stack_key (length rs)" by (simp add: stack_key_def show_int_def)
  show thesis
    using assms(2,3) that [unfolded pushed_def] on_stack_all [OF st1, of "call_record con api"] StackHeight_is [OF st1]
    by (auto simp: PushStack_def key [simplified] Let_def bind_eq_Some_conv)
qed

lemma pushed_stack:
  assumes "stack_is (h_ctx h) rs"
  shows "stack_is (h_ctx (pushed h (length rs) r callerName)) (rs @ [r])"
proof -
  have "stack_is (h_ctx (PushCtx h)) rs" using assms by (simp add: stack_is_def)
  from stack_is_push [OF this] show ?thesis by (simp add: pushed_def)
qed

lemma PushStack_push:
  assumes "stack_is (h_ctx h) rs" and "call_record con api \<notin> set rs"
    and "PushStack h con api withAuth = Some (reenter, cost, h')"
  shows "\<not> reenter" "stack_is (h_ctx h') (rs @ [call_record con api])" "cost = CommonOpCost (int (length rs))"
    "tl (ctx_frames (h_ctx h')) = ctx_frames (h_ctx h)"
proof -
  obtain callerName where r: "\<not> reenter" "cost = CommonOpCost (int (length rs))"
    and h': "(if withAuth then add_auth (pushed h (length rs) (call_record con api) callerName)
          else Some (pushed h (length rs) (call_record con api) callerName)) = Some h'"
    using assms by (rule PushStack_new)
  let ?h4 = "pushed h (length rs) (call_record con api) callerName"
  have "ctx_frames (h_ctx ?h4) \<noteq> []" "tl (ctx_frames (h_ctx ?h4)) = ctx_frames (h_ctx h)" by (simp_all add: pushed_def)
  then show "\<not> reenter" "stack_is (h_ctx h') (rs @ [call_record con api])" "cost = CommonOpCost (int (length rs))"
    "tl (ctx_frames (h_ctx h')) = ctx_frames (h_ctx h)"
    using r h' add_auth_stack [of ?h4 h'] pushed_stack [OF assms(1), of "call_record con api" callerName]
    by (auto split: if_splits)
qed

lemma host_call_reenter:
  "stack_is (h_ctx h) rs \<Longrightarrow> call_record con api \<in> set rs \<Longrightarrow>
     host_call M h con api jarg withAuth = Some (None, Cost0, Some ErrReenter, h)"
  by (simp add: host_call_def PushStack_reenter PopStack_def)

text \<open>What a call does once its entry is on the stack: give up above five entries, or run the monitor.\<close>

lemma host_call_push:
  assumes "stack_is (h_ctx h) rs" and "call_record con api \<notin> set rs"
    and "PushStack h con api withAuth = Some (reenter, cost, h1)"
  shows "host_call M h con api jarg withAuth =
    (if 5 \<le> length rs
     then Some (None, CommonOpCost (int (length rs)),
                Some (''stack height exceed. actual '' @ show_int (int (length rs) + 1)), PopStack h1)
     else map_option (\<lambda>(rtn, cost0, err, h2). (rtn, AddAssign (CommonOpCost (int (length rs))) cost0, err, PopStack h2))
            (mon_Call M h1 con api jarg))"
proof -
  note p = PushStack_push [OF assms]
  have "StackHeight h1 = Some (int (length rs) + 1)" using StackHeight_is [OF p(2)] by (simp add: add.commute)
  then show ?thesis
    using p(1,3) assms(3)
    by (cases "mon_Call M h1 con api jarg") (auto simp: host_call_def not_le split: prod.splits)
qed

definition keeps_context :: "'d Monitor \<Rightarrow> bool" where
  "keeps_context M \<longleftrightarrow>
     (\<forall>h con api jarg rtn cost err h'. mon_Call M h con api jarg = Some (rtn, cost, err, h') \<longrightarrow>
        tl (ctx_frames (h_ctx h')) = tl (ctx_frames (h_ctx h)))"

lemma host_call_context:
  assumes "keeps_context M" and "stack_is (h_ctx h) rs"
    and "host_call M h con api jarg withAuth = Some (rtn, cost, err, h')"
  shows "ctx_frames (h_ctx h') = ctx_frames (h_ctx h)"
proof (cases "call_record con api \<in> set rs")
  case True
  then show ?thesis using assms(2,3) by (simp add: host_call_reenter)
next
  case False
  obtain reenter c h1 where push: "PushStack h con api withAuth = Some (reenter, c, h1)"
    using assms(3) by (auto simp: host_call_def bind_eq_Some_conv)
  have "tl (ctx_frames (h_ctx h1)) = ctx_frames (h_ctx h)"
    using PushStack_push(4) [OF assms(2) False push] .
  then show ?thesis
    using assms(1,3) host_call_push [OF assms(2) False push]
    by (auto simp: keeps_context_def PopStack_def PopCtx_def split: if_splits)
qed

text \<open>The monitor is only asked to run a contract on a stack of at most five different entries.\<close>

lemma host_call_guard:
  assumes "stack_is (h_ctx h) rs" and "distinct rs"
    and same: "\<And>h1 rs1. stack_is (h_ctx h1) rs1 \<Longrightarrow> distinct rs1 \<Longrightarrow> length rs1 \<le> 5 \<Longrightarrow>
      last rs1 = call_record con api \<Longrightarrow> mon_Call M h1 con api jarg = mon_Call M' h1 con api jarg"
  shows "host_call M h con api jarg withAuth = host_call M' h con api jarg withAuth"
proof (cases "call_record con api \<in> set rs")
  case True
  then show ?thesis using assms(1) by (simp add: host_call_reenter)
next
  case False
  show ?thesis
  proof (cases "PushStack h con api withAuth")
    case None
    then show ?thesis by (simp add: host_call_def)
  next
    case (Some r)
    obtain reenter c h1 where push: "PushStack h con api withAuth = Some (reenter, c, h1)"
      using Some by (cases r) auto
    have "length rs < 5 \<Longrightarrow> mon_Call M h1 con api jarg = mon_Call M' h1 con api jarg"
      using PushStack_push(2) [OF assms(1) False push] assms(2) False
      by (intro same [of h1 "rs @ [call_record con api]"]) auto
    then show ?thesis
      by (simp add: host_call_push [OF assms(1) False push])
  qed
qed

section \<open>Lending authority\<close>

lemma add_auth_maps:
  assumes "add_auth h = Some h'" and "ctx_frames (h_ctx h) \<noteq> []"
    and "as_map h (ctx_Value (h_ctx h) ''auth_contract_list'') = Some (a, l)" and "contract_name h = Some n"
  shows "h_maps h' = (if IsFork3_0_10 (h_rules h) then h_maps h @ [AList.update n 1 l] else (h_maps h)[a := AList.update n 1 l])"
  using assms by (auto simp: add_auth_def contract_name_def Let_def split: if_splits)

lemma PushStack_auth_maps:
  assumes "stack_is (h_ctx h) rs" and "call_record con api \<notin> set rs"
    and push: "PushStack h con api True = Some (reenter, cost, h1)"
    and auths: "as_map h (ctx_Value (h_ctx h) ''auth_contract_list'') = Some (a, l)" and name: "contract_name h = Some n"
  shows "h_maps h1 = (if IsFork3_0_10 (h_rules h) then h_maps h @ [AList.update n 1 l] else (h_maps h)[a := AList.update n 1 l])"
proof -
  obtain callerName where h': "add_auth (pushed h (length rs) (call_record con api) callerName) = Some h1"
    using assms(1,2) push by (rule PushStack_new) auto
  let ?h4 = "pushed h (length rs) (call_record con api) callerName"
  have v: "ctx_Value (h_ctx ?h4) ''auth_contract_list'' = ctx_Value (h_ctx h) ''auth_contract_list''"
    "ctx_Value (h_ctx ?h4) ''contract_name'' = ctx_Value (h_ctx h) ''contract_name''"
    and m: "h_maps ?h4 = h_maps h" "h_rules ?h4 = h_rules h" "ctx_frames (h_ctx ?h4) \<noteq> []"
    by (simp_all add: pushed_def ctx_Value_Set)
  have "as_map ?h4 x = as_map h x" for x by (cases x) (simp_all add: as_map_def m)
  then have "as_map ?h4 (ctx_Value (h_ctx ?h4) ''auth_contract_list'') = Some (a, l)" "contract_name ?h4 = Some n"
    using auths name by (simp_all only: v contract_name_def)
  then show ?thesis
    using add_auth_maps [OF h'] m by simp
qed

end
