(* ===== verification/CryptoApi.thy ===== *)
theory CryptoApi
  imports GoStorage
begin

text \<open>
  \<^verbatim>\<open>vm/v8vm/v8/crypto.h\<close> and \<^verbatim>\<open>crypto.cc\<close>: the \<^verbatim>\<open>_IOSTCrypto\<close> object, and the functions of
  \<^verbatim>\<open>vm/v8vm/crypto.go\<close> behind it. The primitives (SHA-3, RIPEMD-160, Base58, the two
  signature schemes) are third-party code: the fields of a parameter record. Unlike the
  storage methods, these methods hand Go the address of a gas variable that was never set.
\<close>

section \<open>The function pointers\<close>

type_synonym 'h hashFunc =
  "nat \<Rightarrow> CStr \<Rightarrow> size_t cell \<Rightarrow> 'h genv \<Rightarrow> (CStr \<times> size_t cell \<times> 'h genv) option"
type_synonym 'h verifyFunc =
  "nat \<Rightarrow> CStr \<Rightarrow> CStr \<Rightarrow> CStr \<Rightarrow> CStr \<Rightarrow> size_t cell \<Rightarrow> 'h genv \<Rightarrow> (c_int \<times> size_t cell \<times> 'h genv) option"

record 'h crypto_table =
  CSha3 :: "'h hashFunc option"
  CSha3Hex :: "'h hashFunc option"
  CRipemd160Hex :: "'h hashFunc option"
  CVerify :: "'h verifyFunc option"

definition InitGoCrypto ::
  "'h hashFunc \<Rightarrow> 'h hashFunc \<Rightarrow> 'h hashFunc \<Rightarrow> 'h verifyFunc \<Rightarrow> 'h crypto_table" where
  "InitGoCrypto sha3 sha3Hex ripemd160Hex verify =
     \<lparr>CSha3 = Some sha3, CSha3Hex = Some sha3Hex, CRipemd160Hex = Some ripemd160Hex, CVerify = Some verify\<rparr>"

section \<open>The methods\<close>

text \<open>\<^verbatim>\<open>size_t gasUsed;\<close> is indeterminate: reading it back is undefined unless the call wrote it.\<close>

definition crypto_call ::
  "(size_t cell \<Rightarrow> 'h genv \<Rightarrow> ('r \<times> size_t cell \<times> 'h genv) option) option \<Rightarrow> 'h world \<Rightarrow> ('r \<times> 'h world) option" where
  "crypto_call f w =
     (case f of
        None \<Rightarrow> None
      | Some g \<Rightarrow>
          (case g None (w_heap w, w_host w) of
             None \<Rightarrow> None
           | Some (ret, gas, h, s) \<Rightarrow>
               (case gas of
                  None \<Rightarrow> None
                | Some n \<Rightarrow> Some (ret, add_gas n (w\<lparr>w_heap := h, w_host := s\<rparr>)))))"

definition ic_sha3 :: "'h crypto_table \<Rightarrow> CStr \<Rightarrow> 'h world \<Rightarrow> (CStr \<times> 'h world) option" where
  "ic_sha3 C msg w = crypto_call (map_option (\<lambda>f. f (w_sbxPtr w) msg) (CSha3 C)) w"

definition ic_sha3Hex :: "'h crypto_table \<Rightarrow> CStr \<Rightarrow> 'h world \<Rightarrow> (CStr \<times> 'h world) option" where
  "ic_sha3Hex C msg w = crypto_call (map_option (\<lambda>f. f (w_sbxPtr w) msg) (CSha3Hex C)) w"

definition ic_ripemd160Hex :: "'h crypto_table \<Rightarrow> CStr \<Rightarrow> 'h world \<Rightarrow> (CStr \<times> 'h world) option" where
  "ic_ripemd160Hex C msg w = crypto_call (map_option (\<lambda>f. f (w_sbxPtr w) msg) (CRipemd160Hex C)) w"

definition ic_verify ::
  "'h crypto_table \<Rightarrow> CStr \<Rightarrow> CStr \<Rightarrow> CStr \<Rightarrow> CStr \<Rightarrow> 'h world \<Rightarrow> (c_int \<times> 'h world) option" where
  "ic_verify C algo msg sig pubkey w =
     crypto_call (map_option (\<lambda>f. f (w_sbxPtr w) algo msg sig pubkey) (CVerify C)) w"

section \<open>The callbacks\<close>

definition NewCrypto :: "callback_info \<Rightarrow> 'h act" where
  "NewCrypto args w =
     (case w_global w of
        IFUnset \<Rightarrow> print_line ''NewCrypto val error'' w
      | IFExternal c \<Rightarrow>
          if c = CSandbox
          then set_ret (JObject (ci_holder args)) (w\<lparr>w_fields := (w_fields w)(ci_holder args := IFExternal CCrypto)\<rparr>)
          else None)"

definition IOSTCrypto_hash :: "v8_api \<Rightarrow> 'h crypto_table \<Rightarrow> string \<Rightarrow> callback_info \<Rightarrow> 'h act" where
  "IOSTCrypto_hash v C tag args =
     (let msg = arg args 0 in
      if length (ci_args args) \<noteq> 1 then throw_error v (tag @ '' invalid argument length.'')
      else if \<not> IsString msg then throw_error v (tag @ '' msg must be string.'')
      else
        NewCStrChecked v msg (\<lambda>msgStr.
        with_holder CCrypto args (tag @ '' val error'')
          (\<lambda>w. Option.bind
             (if tag = ''IOSTCrypto_sha3'' then ic_sha3 C msgStr w
              else if tag = ''IOSTCrypto_sha3Hex'' then ic_sha3Hex C msgStr w
              else if tag = ''IOSTCrypto_ripemd160Hex'' then ic_ripemd160Hex C msgStr w
              else Some (null_CStr, w))
             (\<lambda>(ret, w'). ret_string_or_null v ret w'))))"

definition IOSTCrypto_sha3 :: "v8_api \<Rightarrow> 'h crypto_table \<Rightarrow> callback_info \<Rightarrow> 'h act" where
  "IOSTCrypto_sha3 v C args = IOSTCrypto_hash v C ''IOSTCrypto_sha3'' args"

definition IOSTCrypto_sha3Hex :: "v8_api \<Rightarrow> 'h crypto_table \<Rightarrow> callback_info \<Rightarrow> 'h act" where
  "IOSTCrypto_sha3Hex v C args = IOSTCrypto_hash v C ''IOSTCrypto_sha3Hex'' args"

definition IOSTCrypto_ripemd160Hex :: "v8_api \<Rightarrow> 'h crypto_table \<Rightarrow> callback_info \<Rightarrow> 'h act" where
  "IOSTCrypto_ripemd160Hex v C args = IOSTCrypto_hash v C ''IOSTCrypto_ripemd160Hex'' args"

text \<open>Here each argument is checked and copied before the next one is looked at.\<close>

definition js_c_int :: "c_int \<Rightarrow> js_value" where
  "js_c_int n = JNumber (Fin (of_int (sint n)))"

definition IOSTCrypto_verify :: "v8_api \<Rightarrow> 'h crypto_table \<Rightarrow> callback_info \<Rightarrow> 'h act" where
  "IOSTCrypto_verify v C args =
     (let algo = arg args 0; msg = arg args 1; sig = arg args 2; pubkey = arg args 3 in
      if length (ci_args args) \<noteq> 4 then throw_error v ''IOSTCrypto_verify invalid argument length.''
      else if \<not> IsString algo then throw_error v ''IOSTCrypto_verify algo must be string.''
      else
        NewCStrChecked v algo (\<lambda>algoStr.
          if \<not> IsString msg then throw_error v ''IOSTCrypto_verify msg must be string.''
          else
            NewCStrChecked v msg (\<lambda>msgStr.
              if \<not> IsString sig then throw_error v ''IOSTCrypto_verify sig must be string.''
              else
                NewCStrChecked v sig (\<lambda>sigStr.
                  if \<not> IsString pubkey then throw_error v ''IOSTCrypto_verify pubkey must be string.''
                  else
                    NewCStrChecked v pubkey (\<lambda>pubkeyStr.
                    with_holder CCrypto args ''IOSTCrypto_verify val error''
                      (\<lambda>w. Option.bind (ic_verify C algoStr msgStr sigStr pubkeyStr w)
                         (\<lambda>(ret, w'). set_ret (js_c_int ret) w')))))))"

definition InitCrypto :: "v8_api \<Rightarrow> 'h crypto_table \<Rightarrow> 64 word \<Rightarrow> 'h class_tpl" where
  "InitCrypto v C flags =
     (if bit flags 0 then
        \<lparr>tpl_name = ''_IOSTCrypto'', tpl_ctor = NewCrypto, tpl_field_count = 4,
         tpl_methods =
           [(''sha3'', IOSTCrypto_sha3 v C), (''sha3Hex'', IOSTCrypto_sha3Hex v C),
            (''ripemd160Hex'', IOSTCrypto_ripemd160Hex v C), (''verify'', IOSTCrypto_verify v C)]\<rparr>
      else
        \<lparr>tpl_name = ''_IOSTCrypto'', tpl_ctor = NewCrypto, tpl_field_count = 2,
         tpl_methods = [(''sha3'', IOSTCrypto_sha3 v C), (''verify'', IOSTCrypto_verify v C)]\<rparr>)"

section \<open>The interface\<close>

text \<open>What a hash or a verification yields, with its gas.\<close>

record crypto_ops =
  op_sha3 :: "string \<Rightarrow> string \<times> size_t"
  op_sha3Hex :: "string \<Rightarrow> string \<times> size_t"
  op_ripemd160Hex :: "string \<Rightarrow> string \<times> size_t"
  op_verify :: "string \<Rightarrow> string \<Rightarrow> string \<Rightarrow> string \<Rightarrow> bool \<times> size_t"

definition hash_implements :: "(size_t cell \<Rightarrow> 'h genv \<Rightarrow> (CStr \<times> size_t cell \<times> 'h genv) option) \<Rightarrow> c_heap \<Rightarrow> 'h \<Rightarrow> string \<times> size_t \<Rightarrow> bool" where
  "hash_implements f h s r \<longleftrightarrow>
     f None (h, s) = Some (fst (newCStr (fst r) h), Some (snd r), snd (newCStr (fst r) h), s)"

locale crypto_callbacks =
  fixes C :: "'h crypto_table" and S :: crypto_ops
  assumes
    sha3_law: "cstr_holds h c b \<Longrightarrow>
      \<exists>f. CSha3 C = Some f \<and> hash_implements (f p c) h s (op_sha3 S b)"
    and sha3Hex_law: "cstr_holds h c b \<Longrightarrow>
      \<exists>f. CSha3Hex C = Some f \<and> hash_implements (f p c) h s (op_sha3Hex S b)"
    and ripemd160Hex_law: "cstr_holds h c b \<Longrightarrow>
      \<exists>f. CRipemd160Hex C = Some f \<and> hash_implements (f p c) h s (op_ripemd160Hex S b)"
    and verify_law: "cstr_holds h c1 b1 \<Longrightarrow> cstr_holds h c2 b2 \<Longrightarrow> cstr_holds h c3 b3 \<Longrightarrow> cstr_holds h c4 b4 \<Longrightarrow>
      \<exists>f. CVerify C = Some f \<and>
        f p c1 c2 c3 c4 None (h, s) =
          Some (if fst (op_verify S b1 b2 b3 b4) then 1 else 0, Some (snd (op_verify S b1 b2 b3 b4)), h, s)"
begin

lemma crypto_result_blind [simp]: "heap_blind (\<lambda>w. set_ret x (add_gas g w))"
  by (simp add: heap_blind_def set_ret_def heap_erase_def add_gas_def)

lemma hash_refines:
  assumes ok: "heap_ok (w_heap w)" and v: "utf8_bound v"
    and fld: "w_fields w (ci_holder args) = IFExternal CCrypto"
    and law: "\<And>h c. cstr_holds h c (utf8_of v s1) \<Longrightarrow>
                \<exists>f. F = Some f \<and> hash_implements (f (w_sbxPtr w) c) h (w_host w) r"
    and small: "small_string (fst r)"
  shows "refines_at
           (NewCStrChecked v (JString s1) (\<lambda>c. with_holder CCrypto args msg
              (\<lambda>w. Option.bind (crypto_call (map_option (\<lambda>f. f (w_sbxPtr w) c) F) w)
                 (\<lambda>(ret, w'). ret_string_or_null v ret w')))) w
           (limit_args v [s1] (\<lambda>w. set_ret (js_result v (fst r)) (add_gas (snd r) w)) w)"
proof (rule refines_args1 [OF ok v crypto_result_blind])
  fix c h
  assume h: "heap_ok h" "cstr_holds h c (utf8_of v s1)"
  then obtain f where f: "F = Some f" and i: "hash_implements (f (w_sbxPtr w) c) h (w_host w) r"
    using law by blast
  let ?c = "fst (newCStr (fst r) h)" and ?h = "snd (newCStr (fst r) h)"
  let ?w = "add_gas (snd r) (w\<lparr>w_heap := ?h, w_host := w_host w\<rparr>)"
  have "newCStr (fst r) h = (?c, w_heap ?w)" by simp
  then obtain w1 where w1: "ret_string v ?c ?w = Some w1"
    "heap_erase w1 = heap_erase (?w\<lparr>w_ret := js_result v (fst r)\<rparr>)"
    "blocks (w_heap w1) = blocks h" "heap_ok (w_heap w1)"
    using ret_string_newCStr [OF h(1) small] by blast
  have "cstr_data ?c \<noteq> None" by (simp add: newCStr_def)
  then show "refines_at (with_holder CCrypto args msg
              (\<lambda>w. Option.bind (crypto_call (map_option (\<lambda>f. f (w_sbxPtr w) c) F) w)
                 (\<lambda>(ret, w'). ret_string_or_null v ret w')))
          (w\<lparr>w_heap := h\<rparr>) (set_ret (js_result v (fst r)) (add_gas (snd r) (w\<lparr>w_heap := h\<rparr>)))"
    using fld i w1 by (auto simp: refines_at_def with_holder_def crypto_call_def f hash_implements_def
        ret_string_or_null_def set_ret_def heap_erase_def add_gas_def)
qed

lemma sha3_refines:
  assumes "heap_ok (w_heap w)" "utf8_bound v" "ci_args args = [JString s1]"
    "w_fields w (ci_holder args) = IFExternal CCrypto" "small_string (fst (op_sha3 S (utf8_of v s1)))"
  shows "refines_at (IOSTCrypto_sha3 v C args) w
           (limit_args v [s1] (\<lambda>w. let r = op_sha3 S (utf8_of v s1) in set_ret (js_result v (fst r)) (add_gas (snd r) w)) w)"
  using hash_refines [where ?s1.0 = s1, OF assms(1,2,4) sha3_law assms(5)] assms(3)
  by (simp add: IOSTCrypto_sha3_def IOSTCrypto_hash_def arg_def ic_sha3_def [abs_def] Let_def)

lemma sha3Hex_refines:
  assumes "heap_ok (w_heap w)" "utf8_bound v" "ci_args args = [JString s1]"
    "w_fields w (ci_holder args) = IFExternal CCrypto" "small_string (fst (op_sha3Hex S (utf8_of v s1)))"
  shows "refines_at (IOSTCrypto_sha3Hex v C args) w
           (limit_args v [s1] (\<lambda>w. let r = op_sha3Hex S (utf8_of v s1) in set_ret (js_result v (fst r)) (add_gas (snd r) w)) w)"
  using hash_refines [where ?s1.0 = s1, OF assms(1,2,4) sha3Hex_law assms(5)] assms(3)
  by (simp add: IOSTCrypto_sha3Hex_def IOSTCrypto_hash_def arg_def ic_sha3Hex_def [abs_def] Let_def)

lemma ripemd160Hex_refines:
  assumes "heap_ok (w_heap w)" "utf8_bound v" "ci_args args = [JString s1]"
    "w_fields w (ci_holder args) = IFExternal CCrypto" "small_string (fst (op_ripemd160Hex S (utf8_of v s1)))"
  shows "refines_at (IOSTCrypto_ripemd160Hex v C args) w
           (limit_args v [s1] (\<lambda>w. let r = op_ripemd160Hex S (utf8_of v s1) in set_ret (js_result v (fst r)) (add_gas (snd r) w)) w)"
  using hash_refines [where ?s1.0 = s1, OF assms(1,2,4) ripemd160Hex_law assms(5)] assms(3)
  by (simp add: IOSTCrypto_ripemd160Hex_def IOSTCrypto_hash_def arg_def ic_ripemd160Hex_def [abs_def] Let_def)

lemma verify_refines:
  assumes ok: "heap_ok (w_heap w)" and v: "utf8_bound v"
    and args: "ci_args args = [JString s1, JString s2, JString s3, JString s4]"
    and fld: "w_fields w (ci_holder args) = IFExternal CCrypto"
  shows "refines_at (IOSTCrypto_verify v C args) w
           (limit_args v [s1, s2, s3, s4]
              (\<lambda>w. let r = op_verify S (utf8_of v s1) (utf8_of v s2) (utf8_of v s3) (utf8_of v s4) in
                 set_ret (js_c_int (if fst r then 1 else 0)) (add_gas (snd r) w)) w)"
proof -
  let ?r = "op_verify S (utf8_of v s1) (utf8_of v s2) (utf8_of v s3) (utf8_of v s4)"
  let ?g = "\<lambda>w. set_ret (js_c_int (if fst ?r then 1 else 0)) (add_gas (snd ?r) w)"
  let ?k = "\<lambda>c1 c2 c3 c4. with_holder CCrypto args ''IOSTCrypto_verify val error''
      (\<lambda>w. Option.bind (ic_verify C c1 c2 c3 c4 w) (\<lambda>(ret, w'). set_ret (js_c_int ret) w'))"
  have "refines_at (?k c1 c2 c3 c4) (w\<lparr>w_heap := h\<rparr>) (?g (w\<lparr>w_heap := h\<rparr>))"
    if "heap_ok h" "cstr_holds h c1 (utf8_of v s1)" "cstr_holds h c2 (utf8_of v s2)"
      "cstr_holds h c3 (utf8_of v s3)" "cstr_holds h c4 (utf8_of v s4)" for c1 c2 c3 c4 h
    using verify_law [OF that(2-5), of "w_sbxPtr w" "w_host w"] that(1) fld
    by (auto simp: refines_at_def with_holder_def ic_verify_def crypto_call_def set_ret_def heap_erase_def add_gas_def)
  then show ?thesis
    using refines_args4 [OF ok v crypto_result_blind, of s1 s2 s3 s4 ?k] args
    by (simp add: IOSTCrypto_verify_def arg_def Let_def)
qed

end

section \<open>The functions of crypto.go\<close>

record crypto_lib =
  lib_Sha3 :: "string \<Rightarrow> string"
  lib_Ripemd160 :: "string \<Rightarrow> string"
  lib_Base58Encode :: "string \<Rightarrow> string"
  lib_Base58Decode :: "string \<Rightarrow> string"
  lib_Verify :: "string \<Rightarrow> string \<Rightarrow> string \<Rightarrow> string \<Rightarrow> bool"

text \<open>\<^verbatim>\<open>hex.DecodeString\<close>: the bytes before the first error, and whether there was one.\<close>

definition fromHexChar :: "char \<Rightarrow> nat option" where
  "fromHexChar c =
     (let b = byte c in
      if 48 \<le> b \<and> b \<le> 57 then Some (b - 48)
      else if 97 \<le> b \<and> b \<le> 102 then Some (b - 97 + 10)
      else if 65 \<le> b \<and> b \<le> 70 then Some (b - 65 + 10)
      else None)"

fun hex_DecodeString :: "string \<Rightarrow> string \<times> bool" where
  "hex_DecodeString [] = ([], False)"
| "hex_DecodeString [c] = ([], True)"
| "hex_DecodeString (a # b # s) =
     (case (fromHexChar a, fromHexChar b) of
        (Some x, Some y) \<Rightarrow> (let (bs, err) = hex_DecodeString s in (char_of (x * 16 + y) # bs, err))
      | _ \<Rightarrow> ([], True))"

definition hex_EncodeToString :: "string \<Rightarrow> string" where
  "hex_EncodeToString bs = concat (map (\<lambda>c. [hex_digit (byte c div 16), hex_digit (byte c mod 16)]) bs)"

definition cryptGasBase :: nat where
  "cryptGasBase = 100"

definition goSha3 :: "crypto_lib \<Rightarrow> 'h hashFunc" where
  "goSha3 L cSbx msg gas env =
     do { msgStr \<leftarrow> GoString (fst env) msg;
          let val = lib_Base58Encode L (lib_Sha3 L msgStr);
          let (r, h) = newCStr val (fst env);
          Some (r, Some (of_nat (length msgStr + cryptGasBase)), h, snd env) }"

definition goSha3Hex :: "crypto_lib \<Rightarrow> 'h hashFunc" where
  "goSha3Hex L cSbx msg gas env =
     do { msgStr \<leftarrow> GoString (fst env) msg;
          let (msgBytes, err) = hex_DecodeString msgStr;
          let val = (if err then [] else hex_EncodeToString (lib_Sha3 L msgBytes));
          let (r, h) = newCStr val (fst env);
          Some (r, Some (of_nat (length msgBytes + cryptGasBase)), h, snd env) }"

definition goRipemd160Hex :: "crypto_lib \<Rightarrow> 'h hashFunc" where
  "goRipemd160Hex L cSbx msg gas env =
     do { msgStr \<leftarrow> GoString (fst env) msg;
          let (msgBytes, err) = hex_DecodeString msgStr;
          let val = (if err then [] else hex_EncodeToString (lib_Ripemd160 L msgBytes));
          let (r, h) = newCStr val (fst env);
          Some (r, Some (of_nat (length msgBytes + cryptGasBase)), h, snd env) }"

definition goVerify :: "crypto_lib \<Rightarrow> 'h verifyFunc" where
  "goVerify L cSbx algo msg sig pubkey gas env =
     do { algoStr \<leftarrow> GoString (fst env) algo;
          msgBytes \<leftarrow> map_option (lib_Base58Decode L) (GoString (fst env) msg);
          sigBytes \<leftarrow> map_option (lib_Base58Decode L) (GoString (fst env) sig);
          pubkeyBytes \<leftarrow> map_option (lib_Base58Decode L) (GoString (fst env) pubkey);
          let ret = (if algoStr \<noteq> ''secp256k1'' \<and> algoStr \<noteq> ''ed25519'' then 0
                     else if \<not> lib_Verify L algoStr msgBytes pubkeyBytes sigBytes then 0 else 1);
          Some (ret, Some (of_nat (length msgBytes + cryptGasBase)), env) }"

definition go_crypto_ops :: "crypto_lib \<Rightarrow> crypto_ops" where
  "go_crypto_ops L =
     \<lparr>op_sha3 = \<lambda>m. (lib_Base58Encode L (lib_Sha3 L m), of_nat (length m + cryptGasBase)),
      op_sha3Hex = \<lambda>m. (let (b, err) = hex_DecodeString m in
        (if err then [] else hex_EncodeToString (lib_Sha3 L b), of_nat (length b + cryptGasBase))),
      op_ripemd160Hex = \<lambda>m. (let (b, err) = hex_DecodeString m in
        (if err then [] else hex_EncodeToString (lib_Ripemd160 L b), of_nat (length b + cryptGasBase))),
      op_verify = \<lambda>algo msg sig pubkey. (let m = lib_Base58Decode L msg in
        ((algo = ''secp256k1'' \<or> algo = ''ed25519'') \<and>
           lib_Verify L algo m (lib_Base58Decode L pubkey) (lib_Base58Decode L sig),
         of_nat (length m + cryptGasBase)))\<rparr>"

definition go_crypto_table :: "crypto_lib \<Rightarrow> 'h crypto_table" where
  "go_crypto_table L = InitGoCrypto (goSha3 L) (goSha3Hex L) (goRipemd160Hex L) (goVerify L)"

interpretation go_crypto: crypto_callbacks "go_crypto_table L" "go_crypto_ops L" for L
  by unfold_locales
    (auto simp: go_crypto_table_def InitGoCrypto_def go_crypto_ops_def hash_implements_def goSha3_def goSha3Hex_def
      goRipemd160Hex_def goVerify_def GoString_cstr_holds Let_def split_beta)

end
