(* ===== verification/SandboxLife.thy ===== *)
theory SandboxLife
  imports StorageApi BlockchainApi Instruction CryptoApi
begin

text \<open>
  \<^verbatim>\<open>vm/v8vm/v8/sandbox.cc\<close> up to \<^verbatim>\<open>MemoryUsage\<close>: the global template, creation, reset and release of
  a sandbox, its setters, the two native functions of the global object, the loading of the VM
  scripts and the text of an uncaught exception. Compiling, running and converting values are the
  engine's: the fields of the parameter record \<open>engine\<close>.
\<close>

section \<open>The engine\<close>

text \<open>What a \<^verbatim>\<open>TryCatch\<close> block holds of an exception.\<close>

record js_message =
  msg_resource :: js_value
  msg_line :: "int option"
  msg_start :: "int option"
  msg_end :: "int option"
  msg_source :: "js_string option"

record try_catch =
  tc_exception :: js_value
  tc_message :: "js_message option"
  tc_stack :: "js_value option"

text \<open>
  \<open>eng_Compile\<close> says whether the compiled script is non-empty (otherwise an exception is
  scheduled), \<open>eng_Run\<close> gives its value, or nothing when it threw; \<open>eng_ToString\<close> is the conversion
  behind \<^verbatim>\<open>String::Utf8Value\<close>, which can fail; \<open>eng_TryCatch\<close> is the exception that the enclosing
  \<^verbatim>\<open>TryCatch\<close> block sees.
\<close>

record 'h engine =
  eng_api :: v8_api
  eng_Compile :: "js_string \<Rightarrow> js_string \<Rightarrow> 'h world \<Rightarrow> bool \<times> 'h world"
  eng_Run :: "js_string \<Rightarrow> js_string \<Rightarrow> 'h world \<Rightarrow> (js_value option \<times> 'h world) option"
  eng_ToString :: "js_value \<Rightarrow> js_string option"
  eng_TryCatch :: "'h world \<Rightarrow> try_catch"

text \<open>\<^verbatim>\<open>NewFromUtf8\<close> of a C string.\<close>

definition js_of_c :: "'h engine \<Rightarrow> string \<Rightarrow> js_string" where
  "js_of_c E s = js_of_utf8 (eng_api E) (c_trunc s)"

section \<open>Strings\<close>

definition copyString :: "string \<Rightarrow> c_heap \<Rightarrow> (CStr \<times> c_heap) option" where
  "copyString str h =
     (let size = of_nat (length str) :: c_int; n = sint size + 1 in
      if n < 0 then None
      else Some (\<lparr>cstr_data = Some (brk h), cstr_size = size\<rparr>, alloc (NewArr (take (nat n) (str @ [NUL]))) h))"

definition v8ValueToStdString :: "'h engine \<Rightarrow> js_value \<Rightarrow> string" where
  "v8ValueToStdString E val =
     (case eng_ToString E val of
        None \<Rightarrow> []
      | Some s \<Rightarrow>
          let str = utf8_of (eng_api E) s in
          if length str = 0 then [] else c_trunc str)"

definition ToCString :: "v8_api \<Rightarrow> js_string option \<Rightarrow> string" where
  "ToCString v value =
     (case value of Some s \<Rightarrow> c_trunc (utf8_of v s) | None \<Rightarrow> ''<string conversion failed>'')"

section \<open>The native functions\<close>

text \<open>Neither stops after it has scheduled its exception.\<close>

definition nativeLog :: "'h engine \<Rightarrow> callback_info \<Rightarrow> 'h act" where
  "nativeLog E info w =
     (let msg = arg info 0 in
      Option.bind
        (if \<not> IsString msg then throw_error (eng_api E) ''_native_log empty log'' w else Some w)
        (\<lambda>w1. Option.bind (eng_ToString E msg)
           (\<lambda>msgStr. print_line (''native_log: '' @ c_trunc (utf8_of (eng_api E) msgStr)) w1)))"

definition nativeRun :: "'h engine \<Rightarrow> callback_info \<Rightarrow> 'h act" where
  "nativeRun E info w =
     (let source = arg info 0; fileName = arg info 1 in
      Option.bind
        (if \<not> IsString fileName then throw_error (eng_api E) ''_native_run empty script.'' w else Some w)
        (\<lambda>w1.
           let source2 = js_of_c E (v8ValueToStdString E source);
               fileName2 = js_of_c E (v8ValueToStdString E fileName);
               (compiled, w2) = eng_Compile E source2 fileName2 w1
           in if \<not> compiled then Some w2
              else Option.bind (eng_Run E source2 fileName2 w2)
                     (\<lambda>(result, w3). case result of None \<Rightarrow> Some w3 | Some r \<Rightarrow> set_ret r w3)))"

section \<open>The global object\<close>

record 'h global_tpl =
  g_field_count :: nat
  g_classes :: "'h class_tpl list"
  g_functions :: "(string \<times> (callback_info \<Rightarrow> 'h act)) list"

record 'h pointers =
  p_storage :: "'h storage_table"
  p_blockchain :: "'h blockchain_table"
  p_crypto :: "'h crypto_table"

definition createGlobalTpl :: "'h engine \<Rightarrow> 'h pointers \<Rightarrow> 64 word \<Rightarrow> 'h global_tpl" where
  "createGlobalTpl E P flags =
     (let v = eng_api E in
      \<lparr>g_field_count = 1,
       g_classes =
         [InitStorage v (p_storage P), InitBlockchain v (p_blockchain P), InitInstruction v,
          InitCrypto v (p_crypto P) flags],
       g_functions = [(''_native_log'', nativeLog E), (''_native_run'', nativeRun E)]\<rparr>)"

section \<open>Life of a sandbox\<close>

text \<open>
  The wrapper points at the isolate and at its allocator, whose sizes it is given with. All
  sandboxes made on one isolate share that allocator.
\<close>

record IsolateWrapper =
  iw_isolate :: nat
  iw_allocator_ptr :: nat
  iw_allocator :: ArrayBufferAllocator

definition sandboxMemLimit :: size_t where
  "sandboxMemLimit = 100000000"

text \<open>
  \<^verbatim>\<open>new\<close> and \<^verbatim>\<open>strdup\<close> in the order of the code. The result is the JavaScript context and the world of
  the new sandbox: its record, its pointer, the global object's internal field and the heap.
\<close>

record 'h js_context =
  cx_global :: "'h global_tpl"
  cx_allow_codegen :: bool

definition strdup :: "string \<Rightarrow> c_heap \<Rightarrow> char_ptr \<times> c_heap" where
  "strdup s h = (Some (brk h), alloc (Malloc (c_trunc s @ [NUL])) h)"

definition new_obj :: "string \<Rightarrow> c_heap \<Rightarrow> nat \<times> c_heap" where
  "new_obj c h = (brk h, alloc (NewObj c) h)"

definition newSandbox ::
  "'h engine \<Rightarrow> 'h pointers \<Rightarrow> IsolateWrapper \<Rightarrow> 64 word \<Rightarrow> size_t \<Rightarrow> 'h \<Rightarrow> c_heap \<Rightarrow> 'h js_context \<times> 'h world" where
  "newSandbox E P iw flags v8_heap host h0 =
     (let context = \<lparr>cx_global = createGlobalTpl E P flags, cx_allow_codegen = False\<rparr>;
          (sbxPtr, h1) = new_obj ''Sandbox'' h0;
          (path, h2) = strdup ''v8/libjs'' h1;
          (bc, h3) = new_obj ''IOSTBlockchain'' h2;
          (cr, h4) = new_obj ''IOSTCrypto'' h3;
          (ins, h5) = new_obj ''IOSTContractInstruction'' h4;
          (st, h6) = new_obj ''IOSTContractStorage'' h5
      in (context,
         \<lparr>w_heap = h6, w_sbxPtr = sbxPtr,
          w_sbx = \<lparr>allocator = iw_allocator iw, jsPath = path, gasUsed = 0, gasLimit = 0,
            memLimit = sandboxMemLimit, inst_count = 0, obj_blockchain = bc, obj_crypto = cr,
            obj_instruction = ins, obj_storage = st\<rparr>,
          w_fields = (\<lambda>_. IFUnset), w_global = IFExternal CSandbox, w_v8_heap_size = v8_heap,
          w_host = host, w_exc = None, w_ret = JUndefined, w_out = []\<rparr>))"

definition resetSandbox :: "Sandbox \<Rightarrow> Sandbox" where
  "resetSandbox sbx = (Instruction_Reset sbx)\<lparr>gasUsed := 0\<rparr>"

text \<open>A null pointer is ignored.\<close>

definition releaseSandbox :: "bool \<Rightarrow> 'h world \<Rightarrow> c_heap option" where
  "releaseSandbox ptr_is_null w =
     (if ptr_is_null then Some (w_heap w)
      else
        Option.bind (c_free (jsPath (w_sbx w)) (w_heap w)) (\<lambda>h.
        Option.bind (delete_obj (obj_blockchain (w_sbx w)) h) (\<lambda>h.
        Option.bind (delete_obj (obj_crypto (w_sbx w)) h) (\<lambda>h.
        Option.bind (delete_obj (obj_instruction (w_sbx w)) h) (\<lambda>h.
        Option.bind (delete_obj (obj_storage (w_sbx w)) h) (\<lambda>h.
        delete_obj (w_sbxPtr w) h))))))"

definition setJSPath :: "string \<Rightarrow> 'h act" where
  "setJSPath path w =
     Option.bind (if jsPath (w_sbx w) \<noteq> None then c_free (jsPath (w_sbx w)) (w_heap w) else Some (w_heap w))
       (\<lambda>h. let (p, h') = strdup path h in
          Some (w\<lparr>w_heap := h', w_sbx := (w_sbx w)\<lparr>jsPath := p\<rparr>\<rparr>))"

definition setSandboxGasLimit :: "size_t \<Rightarrow> 'h world \<Rightarrow> 'h world" where
  "setSandboxGasLimit limit w = w\<lparr>w_sbx := (w_sbx w)\<lparr>gasLimit := limit\<rparr>\<rparr>"

definition setSandboxMemLimit :: "size_t \<Rightarrow> 'h world \<Rightarrow> 'h world" where
  "setSandboxMemLimit limit w = w\<lparr>w_sbx := (w_sbx w)\<lparr>memLimit := limit\<rparr>\<rparr>"

text \<open>\<^verbatim>\<open>loadVM\<close>: the texts of the two scripts are arguments.\<close>

definition run_script :: "'h engine \<Rightarrow> string \<Rightarrow> string \<Rightarrow> 'h act" where
  "run_script E source fileName w =
     (let s = js_of_c E source; f = js_of_c E fileName; (compiled, w1) = eng_Compile E s f w in
      if compiled then map_option snd (eng_Run E s f w1) else Some w1)"

definition loadVM :: "'h engine \<Rightarrow> string \<Rightarrow> string \<Rightarrow> bool \<Rightarrow> c_int \<Rightarrow> 'h act" where
  "loadVM E vmJsLib envJsLib ptr_is_null vmType w =
     (if ptr_is_null then Some w
      else if vmType = 0 then Some w
      else Option.bind (run_script E vmJsLib ''vm.js'' w) (run_script E envJsLib ''env.js''))"

section \<open>The text of an exception\<close>

abbreviation newline :: string where
  "newline \<equiv> [CHR 0x0A]"

definition carets :: "int \<Rightarrow> int \<Rightarrow> string" where
  "carets start end' = replicate (nat start) (CHR '' '') @ replicate (nat (end' - start)) (CHR ''^'')"

definition report_location :: "'h engine \<Rightarrow> js_message \<Rightarrow> string" where
  "report_location E m =
     newline @ ''at '' @ v8ValueToStdString E (msg_resource m) @
     (case msg_line m of None \<Rightarrow> [] | Some n \<Rightarrow> '':'' @ show_int n) @
     (case msg_start m of None \<Rightarrow> [] | Some n \<Rightarrow> '':'' @ show_int n) @
     (case msg_source m of None \<Rightarrow> [] | Some s \<Rightarrow> newline @ ''  '' @ v8ValueToStdString E (JString s)) @
     (case (msg_start m, msg_end m) of
        (Some st, Some en) \<Rightarrow> newline @ ''  '' @ carets st en
      | _ \<Rightarrow> [])"

definition reportException :: "'h engine \<Rightarrow> try_catch \<Rightarrow> string" where
  "reportException E tc =
     ''Uncaught exception: '' @
     (case tc_message tc of
        None \<Rightarrow> []
      | Some m \<Rightarrow>
          if tc_exception tc = JNull then []
          else
            v8ValueToStdString E (tc_exception tc) @
            (if msg_resource m \<noteq> JUndefined then report_location E m else []) @
            (case tc_stack tc of
               None \<Rightarrow> []
             | Some st \<Rightarrow> newline @ ''Stack tree: '' @ newline @ v8ValueToStdString E st))"

section \<open>Release gives back what creation took\<close>

text \<open>
  A path string and some objects of the heap, and what is left of the heap without them.
\<close>

definition owns_blocks :: "c_heap \<Rightarrow> nat \<Rightarrow> nat list \<Rightarrow> (nat \<Rightarrow> block option) \<Rightarrow> bool" where
  "owns_blocks h p objs rest \<longleftrightarrow>
     heap_ok h \<and> (\<exists>s. blocks h p = Some (Malloc s)) \<and> distinct objs \<and>
     (\<forall>a \<in> set objs. \<exists>c. blocks h a = Some (NewObj c)) \<and>
     rest = (\<lambda>a. if a = p \<or> a \<in> set objs then None else blocks h a)"

definition objs_of :: "'h world \<Rightarrow> nat list" where
  "objs_of w =
     [obj_blockchain (w_sbx w), obj_crypto (w_sbx w), obj_instruction (w_sbx w), obj_storage (w_sbx w), w_sbxPtr w]"

definition sandbox_owns :: "'h world \<Rightarrow> (nat \<Rightarrow> block option) \<Rightarrow> bool" where
  "sandbox_owns w rest \<longleftrightarrow> (\<exists>p. jsPath (w_sbx w) = Some p \<and> owns_blocks (w_heap w) p (objs_of w) rest)"

lemma owns_blocks_path: "owns_blocks h p objs rest \<Longrightarrow> p \<notin> set objs"
  by (auto simp: owns_blocks_def)

lemma owns_blocks_rest:
  "owns_blocks h p objs rest \<Longrightarrow> rest a \<noteq> None \<Longrightarrow> blocks h a = rest a \<and> a \<noteq> p \<and> a \<notin> set objs"
  by (auto simp: owns_blocks_def split: if_splits)

lemma owns_blocks_free_rest:
  assumes "owns_blocks h p objs rest" and "rest a = Some (Malloc s)"
  shows "owns_blocks (h\<lparr>blocks := (blocks h)(a := None)\<rparr>) p objs (rest(a := None))"
proof -
  have "a \<noteq> p" "a \<notin> set objs" using owns_blocks_rest [OF assms(1), of a] assms(2) by auto
  then show ?thesis
    using assms(1) heap_ok_remove [of h a] by (auto simp: owns_blocks_def fun_eq_iff)
qed

lemma owns_blocks_new_path:
  assumes "owns_blocks h p objs rest"
  shows "owns_blocks (alloc (Malloc s) (h\<lparr>blocks := (blocks h)(p := None)\<rparr>)) (brk h) objs rest"
proof -
  have ok: "heap_ok h" using assms by (simp add: owns_blocks_def)
  have n: "blocks h (brk h) = None" "p \<noteq> brk h" "brk h \<notin> set objs" "p \<notin> set objs"
    using heap_ok_fresh [OF ok] assms by (auto simp: owns_blocks_def)
  show ?thesis
    using assms n heap_ok_alloc [OF heap_ok_remove [OF ok, of p], of "Malloc s"]
    by (auto simp: owns_blocks_def heap_simps fun_eq_iff)
qed

lemma newSandbox_owns:
  assumes "heap_ok h0"
  shows "sandbox_owns (snd (newSandbox E P iw flags n host h0)) (blocks h0)"
proof -
  have "blocks h0 (brk h0) = None" "blocks h0 (Suc (brk h0)) = None" "blocks h0 (Suc (Suc (brk h0))) = None"
    "blocks h0 (Suc (Suc (Suc (brk h0)))) = None" "blocks h0 (Suc (Suc (Suc (Suc (brk h0))))) = None"
    "blocks h0 (Suc (Suc (Suc (Suc (Suc (brk h0)))))) = None"
    using assms by (simp_all add: heap_ok_def)
  then show ?thesis
    using assms by (auto simp: sandbox_owns_def owns_blocks_def objs_of_def newSandbox_def new_obj_def strdup_def heap_simps)
qed

lemma setJSPath_owns:
  assumes "sandbox_owns w rest"
  shows "\<exists>w'. setJSPath path w = Some w' \<and> sandbox_owns w' rest"
proof -
  obtain p where p: "jsPath (w_sbx w) = Some p" and own: "owns_blocks (w_heap w) p (objs_of w) rest"
    using assms by (auto simp: sandbox_owns_def)
  then obtain s where s: "blocks (w_heap w) p = Some (Malloc s)" by (auto simp: owns_blocks_def)
  let ?h = "alloc (Malloc (c_trunc path @ [NUL])) ((w_heap w)\<lparr>blocks := (blocks (w_heap w))(p := None)\<rparr>)"
  let ?w = "w\<lparr>w_heap := ?h, w_sbx := (w_sbx w)\<lparr>jsPath := Some (brk (w_heap w))\<rparr>\<rparr>"
  have "setJSPath path w = Some ?w" using p s by (simp add: setJSPath_def c_free_def strdup_def)
  moreover have "objs_of ?w = objs_of w" by (simp add: objs_of_def)
  then have "sandbox_owns ?w rest" using owns_blocks_new_path [OF own] by (simp add: sandbox_owns_def)
  ultimately show ?thesis by blast
qed

lemma setLimit_owns:
  "sandbox_owns w rest \<Longrightarrow> sandbox_owns (setSandboxGasLimit g w) rest"
  "sandbox_owns w rest \<Longrightarrow> sandbox_owns (setSandboxMemLimit m w) rest"
  by (simp_all add: sandbox_owns_def objs_of_def setSandboxGasLimit_def setSandboxMemLimit_def)

text \<open>Deleting the objects one after the other.\<close>

fun delete_all :: "nat list \<Rightarrow> c_heap \<Rightarrow> c_heap option" where
  "delete_all [] h = Some h"
| "delete_all (a # as) h = Option.bind (delete_obj a h) (delete_all as)"

lemma delete_all_blocks:
  assumes "distinct objs" and "\<forall>a \<in> set objs. \<exists>c. blocks h a = Some (NewObj c)" and "heap_ok h"
  shows "\<exists>h'. delete_all objs h = Some h' \<and> blocks h' = (\<lambda>a. if a \<in> set objs then None else blocks h a) \<and> heap_ok h'"
  using assms
proof (induction objs arbitrary: h)
  case (Cons a as)
  let ?h = "h\<lparr>blocks := (blocks h)(a := None)\<rparr>"
  have d: "delete_obj a h = Some ?h" using Cons.prems(2) by (auto simp: delete_obj_def)
  have "\<exists>h'. delete_all as ?h = Some h' \<and> blocks h' = (\<lambda>x. if x \<in> set as then None else blocks ?h x) \<and> heap_ok h'"
    using Cons.prems heap_ok_remove [of h a] by (intro Cons.IH) auto
  then show ?case using d by (auto simp: fun_eq_iff)
qed simp

lemma releaseSandbox_delete_all:
  "releaseSandbox False w = Option.bind (c_free (jsPath (w_sbx w)) (w_heap w)) (delete_all (objs_of w))"
proof -
  have "delete_all [] = Some" "delete_all (a # as) = (\<lambda>h. Option.bind (delete_obj a h) (delete_all as))" for a as
    by (simp_all add: fun_eq_iff)
  then show ?thesis by (simp add: releaseSandbox_def objs_of_def del: delete_all.simps)
qed

lemma releaseSandbox_owns:
  assumes "sandbox_owns w rest"
  shows "\<exists>h. releaseSandbox False w = Some h \<and> blocks h = rest \<and> heap_ok h"
proof -
  obtain p where p: "jsPath (w_sbx w) = Some p" and own: "owns_blocks (w_heap w) p (objs_of w) rest"
    using assms by (auto simp: sandbox_owns_def)
  let ?h = "(w_heap w)\<lparr>blocks := (blocks (w_heap w))(p := None)\<rparr>"
  have free: "c_free (Some p) (w_heap w) = Some ?h" using own by (auto simp: owns_blocks_def c_free_def)
  have "\<exists>h. delete_all (objs_of w) ?h = Some h \<and> blocks h = (\<lambda>a. if a \<in> set (objs_of w) then None else blocks ?h a) \<and> heap_ok h"
    using own owns_blocks_path [OF own] heap_ok_remove [of "w_heap w" p]
    by (intro delete_all_blocks) (auto simp: owns_blocks_def)
  then show ?thesis
    using own free p by (auto simp: releaseSandbox_delete_all owns_blocks_def fun_eq_iff)
qed

text \<open>Everything the node does to a sandbox between its creation and its release, besides running code.\<close>

datatype sbx_op = SetPath string | SetGas size_t | SetMem size_t

fun sbx_step :: "sbx_op \<Rightarrow> 'h act" where
  "sbx_step (SetPath path) w = setJSPath path w"
| "sbx_step (SetGas g) w = Some (setSandboxGasLimit g w)"
| "sbx_step (SetMem m) w = Some (setSandboxMemLimit m w)"

fun sbx_run :: "sbx_op list \<Rightarrow> 'h act" where
  "sbx_run [] w = Some w"
| "sbx_run (x # xs) w = Option.bind (sbx_step x w) (sbx_run xs)"

lemma sbx_run_owns: "sandbox_owns w rest \<Longrightarrow> \<exists>w'. sbx_run ops w = Some w' \<and> sandbox_owns w' rest"
proof (induction ops arbitrary: w)
  case (Cons x xs)
  then have "\<exists>w'. sbx_step x w = Some w' \<and> sandbox_owns w' rest"
    by (cases x) (auto simp: setJSPath_owns setLimit_owns)
  with Cons.IH show ?case by auto
qed simp

lemma reportException_prefix: "\<exists>t. reportException E tc = ''Uncaught exception: '' @ t"
  by (simp add: reportException_def)

lemma length_carets: "0 \<le> st \<Longrightarrow> st \<le> en \<Longrightarrow> length (carets st en) = nat en"
  by (simp add: carets_def nat_diff_distrib)

end
