(* ===== verification/Compile.thy ===== *)
theory Compile
  imports SandboxLife
begin

text \<open>
  \<^verbatim>\<open>vm/v8vm/v8/compile.cc\<close> with the Go side of it, \<^verbatim>\<open>Compile\<close> and \<^verbatim>\<open>Validate\<close> of
  \<^verbatim>\<open>vm/v8vm/sandbox.go\<close> and the escaping of \<^verbatim>\<open>vm/v8vm/module.go\<close>: a contract's source is pasted into a
  JavaScript string literal, the script around it is run, and its result is returned as a copy.
  The last part is the creation of the two start-up snapshots.
\<close>

section \<open>printf\<close>

text \<open>The formats use \<^verbatim>\<open>%s\<close> only; a missing argument is undefined.\<close>

fun asprintf :: "string \<Rightarrow> string list \<Rightarrow> string option" where
  "asprintf [] as = Some []"
| "asprintf (c # r) as =
     (if c = CHR ''%'' \<and> r \<noteq> [] \<and> hd r = CHR ''s''
      then (case as of [] \<Rightarrow> None | a # as' \<Rightarrow> map_option (\<lambda>t. a @ t) (asprintf (tl r) as'))
      else map_option (\<lambda>t. c # t) (asprintf r as))"

definition injectGasFormat :: string where
  "injectGasFormat =
     ''(function(){'' @ newline @ ''const source = '' @ [CHR 0x22] @ ''%s'' @ [CHR 0x22] @ '';'' @ newline @
     ''return injectGas(source);'' @ newline @ ''})();''"

definition validateFormat :: string where
  "validateFormat =
     ''(function(){'' @ newline @ ''const source = '' @ [CHR 0x22] @ ''%s'' @ [CHR 0x22] @ '';'' @ newline @
     ''return validate(source, %s);'' @ newline @ ''})();''"

definition codeFormat :: string where
  "codeFormat =
     ''let module = {};'' @ newline @ ''module.exports = {};'' @ newline @ ''%s'' @ newline @ ''%s'' @ newline @
     ''let BigNumber = module.exports;'' @ newline @ ''%s'' @ newline @ ''%s'' @ newline @ ''%s'' @ newline @
     ''%s'' @ newline"

definition compileCodeFormat :: string where
  "compileCodeFormat =
     ''let exports = {};'' @ newline @ ''let module = {};'' @ newline @ ''module.exports = {};'' @ newline @
     ''%s'' @ newline @ ''const esprima = module.exports;'' @ newline @ ''%s'' @ newline @
     ''const escodegen = module.exports;'' @ newline @ ''%s'' @ newline @ ''%s'' @ newline"

section \<open>Compiling\<close>

text \<open>The two out-parameters are \<^verbatim>\<open>CStr\<close> variables of the caller.\<close>

record 'h compile_result =
  cr_code :: c_int
  cr_ret :: CStr
  cr_errMsg :: CStr
  cr_world :: "'h world"

definition set_strdup :: "string \<Rightarrow> 'h world \<Rightarrow> CStr \<times> 'h world" where
  "set_strdup str w =
     (let (p, h) = strdup str (w_heap w) in
      (\<lparr>cstr_data = p, cstr_size = of_nat (length str)\<rparr>, w\<lparr>w_heap := h\<rparr>))"

definition compileInternal ::
  "'h engine \<Rightarrow> CStr \<Rightarrow> CStr \<Rightarrow> string \<Rightarrow> string \<Rightarrow> CStr \<Rightarrow> CStr \<Rightarrow> 'h world \<Rightarrow> 'h compile_result option" where
  "compileInternal E code extra format file ret errMsg w =
     Option.bind (c_string_at (w_heap w) (cstr_data code)) (\<lambda>codeStr.
     Option.bind
       (if cstr_data extra = None then Some []
        else map_option (\<lambda>x. [x]) (c_string_at (w_heap w) (cstr_data extra))) (\<lambda>extraStr.
     Option.bind (asprintf format (codeStr # extraStr)) (\<lambda>text.
     let (formatedCode, h1) = strdup text (w_heap w);
         source = js_of_c E text in
     Option.bind (c_free formatedCode h1) (\<lambda>h2.
     let fileName = js_of_c E file;
         (compiled, w1) = eng_Compile E source fileName (w\<lparr>w_heap := h2\<rparr>);
         script_is_empty = (\<lambda>w'. let (e, w2) = set_strdup ''script is empty'' w' in
           Some \<lparr>cr_code = 1, cr_ret = ret, cr_errMsg = e, cr_world = w2\<rparr>) in
     if \<not> compiled then script_is_empty w1
     else
       Option.bind (eng_Run E source fileName w1) (\<lambda>(result, w2).
         case result of
           Some res \<Rightarrow>
             let retStr = (case eng_ToString E res of None \<Rightarrow> [] | Some s \<Rightarrow> utf8_of (eng_api E) s) in
             if length retStr = 0 then Some \<lparr>cr_code = 1, cr_ret = ret, cr_errMsg = errMsg, cr_world = w2\<rparr>
             else let (r, w3) = set_strdup retStr w2 in
               Some \<lparr>cr_code = 0, cr_ret = r, cr_errMsg = errMsg, cr_world = w3\<rparr>
         | None \<Rightarrow>
             if w_exc w2 \<noteq> None then
               let (e, w3) = set_strdup (reportException E (eng_TryCatch E w2)) w2 in
               Some \<lparr>cr_code = 1, cr_ret = ret, cr_errMsg = e, cr_world = w3\<rparr>
             else script_is_empty w2)))))"

definition compile :: "'h engine \<Rightarrow> CStr \<Rightarrow> CStr \<Rightarrow> CStr \<Rightarrow> 'h world \<Rightarrow> 'h compile_result option" where
  "compile E code compiledCode errMsg =
     compileInternal E code null_CStr injectGasFormat ''__inject_gas.js'' compiledCode errMsg"

definition validate :: "'h engine \<Rightarrow> CStr \<Rightarrow> CStr \<Rightarrow> CStr \<Rightarrow> CStr \<Rightarrow> 'h world \<Rightarrow> 'h compile_result option" where
  "validate E code abi result errMsg =
     compileInternal E code abi validateFormat ''__validate.js'' result errMsg"

section \<open>The caller in Go\<close>

text \<open>
  \<^verbatim>\<open>moduleReplacer\<close>. The two line separators are three bytes each in UTF-8.
\<close>

definition backslash :: char where
  "backslash = CHR 0x5C"

fun module_replace :: "string \<Rightarrow> string" where
  "module_replace [] = []"
| "module_replace (c # s) =
     (if c = backslash then backslash # backslash # module_replace s
      else if c = CHR 0x0A then backslash # CHR ''n'' # module_replace s
      else if c = CHR 0x0D then backslash # CHR ''r'' # module_replace s
      else if c = CHR 0x22 then backslash # CHR 0x22 # module_replace s
      else if c = NUL then backslash # backslash # ''x00'' @ module_replace s
      else
        case s of
          c1 # c2 # s' \<Rightarrow>
            if c = CHR 0xE2 \<and> c1 = CHR 0x80 \<and> c2 = CHR 0xA8 then backslash # ''u2028'' @ module_replace s'
            else if c = CHR 0xE2 \<and> c1 = CHR 0x80 \<and> c2 = CHR 0xA9 then backslash # ''u2029'' @ module_replace s'
            else c # module_replace s
        | _ \<Rightarrow> c # module_replace s)"

definition go_Compile :: "'h engine \<Rightarrow> string \<Rightarrow> 'h world \<Rightarrow> ((string + string) \<times> 'h world) option" where
  "go_Compile E source w =
     (let (cCode, h) = newCStr (module_replace source) (w_heap w) in
      Option.bind (compile E cCode null_CStr null_CStr (w\<lparr>w_heap := h\<rparr>)) (\<lambda>r.
      let w1 = cr_world r in
      if cr_code r = 1 then
        Option.bind (GoString (w_heap w1) (cr_errMsg r)) (\<lambda>errMsg.
        Option.bind (c_free (cstr_data (cr_errMsg r)) (w_heap w1)) (\<lambda>h1.
        Option.bind (c_free (cstr_data cCode) h1) (\<lambda>h2.
        Some (Inl errMsg, w1\<lparr>w_heap := h2\<rparr>))))
      else
        Option.bind (GoString (w_heap w1) (cr_ret r)) (\<lambda>compiledCode.
        Option.bind (c_free (cstr_data (cr_ret r)) (w_heap w1)) (\<lambda>h1.
        Option.bind (c_free (cstr_data cCode) h1) (\<lambda>h2.
        Some (Inr compiledCode, w1\<lparr>w_heap := h2\<rparr>))))))"

section \<open>Snapshots\<close>

text \<open>
  \<open>create\<close> is the engine's snapshot creator: the templates put on the global object and the
  source it runs give the blob. The text built by \<^verbatim>\<open>asprintf\<close> is never freed.
\<close>

definition externalRef :: "string list" where
  "externalRef = [''NewConsoleLog'', ''NewNativeRequire'']"

record CustomStartupData =
  csd_data :: char_ptr
  csd_raw_size :: c_int

definition snapshot_of :: "string \<Rightarrow> c_heap \<Rightarrow> CustomStartupData \<times> c_heap" where
  "snapshot_of blob h = (\<lparr>csd_data = Some (brk h), csd_raw_size = of_nat (length blob)\<rparr>, alloc (NewArr blob) h)"

definition createStartupData ::
  "(string list \<Rightarrow> string list \<Rightarrow> string \<Rightarrow> string) \<Rightarrow>
     string \<Rightarrow> string \<Rightarrow> string \<Rightarrow> string \<Rightarrow> string \<Rightarrow> string \<Rightarrow> c_heap \<Rightarrow> (CustomStartupData \<times> c_heap) option" where
  "createStartupData create jsonjs bignumberjs int64js float64js utilsjs consolejs h =
     Option.bind
       (asprintf codeFormat (map c_trunc [jsonjs, bignumberjs, int64js, float64js, utilsjs, consolejs]))
       (\<lambda>code. Some (snapshot_of (create externalRef [''_cLog'', ''_native_require''] code)
          (alloc (Malloc (code @ [NUL])) h)))"

definition createCompileStartupData ::
  "(string list \<Rightarrow> string list \<Rightarrow> string \<Rightarrow> string) \<Rightarrow>
     string \<Rightarrow> string \<Rightarrow> string \<Rightarrow> string \<Rightarrow> c_heap \<Rightarrow> (CustomStartupData \<times> c_heap) option" where
  "createCompileStartupData create esprimajs escodegenjs validatejs injectgasjs h =
     Option.bind (asprintf compileCodeFormat (map c_trunc [esprimajs, escodegenjs, validatejs, injectgasjs]))
       (\<lambda>code. Some (snapshot_of (create [] [] code) (alloc (Malloc (code @ [NUL])) h)))"

section \<open>The pasted source\<close>

text \<open>
  How JavaScript reads the string literal: from after the opening quote, the value and what
  follows the closing quote. A raw line break ends the script with a syntax error; escapes
  that the code never writes are left out (\<open>None\<close>).
\<close>

definition lit_cons :: "string \<Rightarrow> (string \<times> string) option \<Rightarrow> (string \<times> string) option" where
  "lit_cons p r = map_option (\<lambda>(v, rest). (p @ v, rest)) r"

fun js_literal :: "string \<Rightarrow> (string \<times> string) option" where
  "js_literal [] = None"
| "js_literal (c # s) =
     (if c = CHR 0x22 then Some ([], s)
      else if c = CHR 0x0A \<or> c = CHR 0x0D then None
      else if c = CHR 0xE2 \<and> (take 2 s = [CHR 0x80, CHR 0xA8] \<or> take 2 s = [CHR 0x80, CHR 0xA9]) then None
      else if c \<noteq> backslash then lit_cons [c] (js_literal s)
      else
        case s of
          [] \<Rightarrow> None
        | d # s' \<Rightarrow>
            if d = backslash \<or> d = CHR 0x22 then lit_cons [d] (js_literal s')
            else if d = CHR ''n'' then lit_cons [CHR 0x0A] (js_literal s')
            else if d = CHR ''r'' then lit_cons [CHR 0x0D] (js_literal s')
            else if d = CHR ''u'' \<and> take 4 s' = ''2028''
              then lit_cons [CHR 0xE2, CHR 0x80, CHR 0xA8] (js_literal (drop 4 s'))
            else if d = CHR ''u'' \<and> take 4 s' = ''2029''
              then lit_cons [CHR 0xE2, CHR 0x80, CHR 0xA9] (js_literal (drop 4 s'))
            else None)"

text \<open>What the literal stands for: the source, with each NUL byte as the four characters of its escape.\<close>

definition literal_value :: "string \<Rightarrow> string" where
  "literal_value s = concat (map (\<lambda>c. if c = NUL then backslash # ''x00'' else [c]) s)"

lemma literal_value_simps [simp]:
  "literal_value [] = []"
  "literal_value (c # s) = (if c = NUL then backslash # ''x00'' else [c]) @ literal_value s"
  by (simp_all add: literal_value_def)

declare module_replace.simps(2) [simp del] js_literal.simps(2) [simp del]

definition is_separator :: "char \<Rightarrow> string \<Rightarrow> bool" where
  "is_separator c s \<longleftrightarrow> c = CHR 0xE2 \<and> (take 2 s = [CHR 0x80, CHR 0xA8] \<or> take 2 s = [CHR 0x80, CHR 0xA9])"

definition special :: "char \<Rightarrow> bool" where
  "special c \<longleftrightarrow> c \<in> {backslash, CHR 0x0A, CHR 0x0D, CHR 0x22, NUL}"

definition escape :: "char \<Rightarrow> string" where
  "escape c =
     (if c = CHR 0x0A then [backslash, CHR ''n''] else if c = CHR 0x0D then [backslash, CHR ''r'']
      else if c = NUL then [backslash, backslash, CHR ''x'', CHR ''0'', CHR ''0''] else [backslash, c])"

lemma module_replace_special: "special c \<Longrightarrow> module_replace (c # s) = escape c @ module_replace s"
  by (subst module_replace.simps(2)) (auto simp: special_def escape_def backslash_def)

lemma module_replace_separator:
  assumes "is_separator c s"
  shows "module_replace (c # s) =
    backslash # (if s ! 1 = CHR 0xA8 then ''u2028'' else ''u2029'') @ module_replace (drop 2 s)"
proof -
  obtain x t where "c = CHR 0xE2" "s = CHR 0x80 # x # t" "x = CHR 0xA8 \<or> x = CHR 0xA9"
    using assms by (cases s; cases "tl s") (auto simp: is_separator_def)
  then show ?thesis
    by (subst module_replace.simps(2)) (auto simp: backslash_def)
qed

lemma module_replace_copy:
  assumes "\<not> special c" and "\<not> is_separator c s"
  shows "module_replace (c # s) = c # module_replace s"
proof -
  have ne: "c \<noteq> backslash" "c \<noteq> CHR 0x0A" "c \<noteq> CHR 0x0D" "c \<noteq> CHR 0x22" "c \<noteq> NUL"
    using assms(1) by (auto simp: special_def)
  show ?thesis
  proof (cases "\<exists>x y t. s = x # y # t")
    case True
    then obtain x y t where s: "s = x # y # t" by blast
    have "\<not> (c = CHR 0xE2 \<and> x = CHR 0x80 \<and> y = CHR 0xA8)" "\<not> (c = CHR 0xE2 \<and> x = CHR 0x80 \<and> y = CHR 0xA9)"
      using assms(2) by (simp_all add: is_separator_def s)
    then show ?thesis
      by (subst module_replace.simps(2)) (simp only: ne if_False s list.case)
  next
    case False
    then have "s = [] \<or> (\<exists>x. s = [x])" by (cases s; cases "tl s") auto
    then show ?thesis
      by (subst module_replace.simps(2)) (elim disjE exE; simp only: ne if_False list.case)
  qed
qed

lemma module_replace_hd:
  assumes "module_replace s = c # t" and "c \<noteq> backslash"
  shows "\<exists>s'. s = c # s' \<and> t = module_replace s'"
proof (cases s)
  case (Cons d s')
  consider "special d" | "\<not> special d" "is_separator d s'" | "\<not> special d" "\<not> is_separator d s'" by blast
  then show ?thesis
    using assms Cons
    by cases (auto simp: module_replace_special module_replace_separator module_replace_copy escape_def split: if_splits)
qed (use assms in simp)

lemma separator_kept:
  assumes "is_separator c (module_replace s @ CHR 0x22 # r)"
  shows "is_separator c s"
proof -
  obtain x where c: "c = CHR 0xE2" and x: "x = CHR 0xA8 \<or> x = CHR 0xA9"
    and t2: "take 2 (module_replace s @ CHR 0x22 # r) = [CHR 0x80, x]"
    using assms by (auto simp: is_separator_def)
  obtain t where m: "module_replace s = CHR 0x80 # t" and t: "take 1 (t @ CHR 0x22 # r) = [x]"
    using t2 by (cases "module_replace s") auto
  obtain s1 where s: "s = CHR 0x80 # s1" and t1: "t = module_replace s1"
    using module_replace_hd [OF m] by (auto simp: backslash_def)
  obtain t' where m1: "module_replace s1 = x # t'"
    using t x by (cases "module_replace s1") (auto simp: t1)
  obtain s' where "s1 = x # s'"
    using module_replace_hd [OF m1] x by (auto simp: backslash_def)
  with s x c show ?thesis by (auto simp: is_separator_def)
qed

lemma backslash_neq:
  "backslash \<noteq> CHR 0x0A" "backslash \<noteq> CHR 0x0D" "backslash \<noteq> CHR 0x22" "backslash \<noteq> NUL" "backslash \<noteq> CHR 0xE2"
  by (simp_all add: backslash_def)

lemma js_literal_backslash: "js_literal (backslash # backslash # s) = lit_cons [backslash] (js_literal s)"
  by (subst js_literal.simps(2)) (simp add: backslash_neq)

lemma js_literal_quote: "js_literal (backslash # CHR 0x22 # s) = lit_cons [CHR 0x22] (js_literal s)"
  by (subst js_literal.simps(2)) (simp add: backslash_neq)

lemma js_literal_n: "js_literal (backslash # CHR ''n'' # s) = lit_cons [CHR 0x0A] (js_literal s)"
  by (subst js_literal.simps(2)) (simp add: backslash_def)

lemma js_literal_r: "js_literal (backslash # CHR ''r'' # s) = lit_cons [CHR 0x0D] (js_literal s)"
  by (subst js_literal.simps(2)) (simp add: backslash_def)

lemma lit_cons_append: "lit_cons a (lit_cons b r) = lit_cons (a @ b) r"
  by (cases r) (auto simp: lit_cons_def)

lemma js_literal_copy:
  "\<not> special c \<Longrightarrow> \<not> is_separator c s \<Longrightarrow> js_literal (c # s) = lit_cons [c] (js_literal s)"
  by (subst js_literal.simps(2)) (auto simp: special_def is_separator_def)

lemma js_literal_escape:
  assumes "special c"
  shows "js_literal (escape c @ s) = lit_cons (if c = NUL then backslash # ''x00'' else [c]) (js_literal s)"
proof (cases "c = NUL")
  case True
  have "\<not> special (CHR ''x'')" "\<not> special (CHR ''0'')" "\<not> is_separator (CHR ''x'') t" "\<not> is_separator (CHR ''0'') t" for t
    by (simp_all add: special_def is_separator_def backslash_def)
  then show ?thesis
    using True by (simp add: escape_def js_literal_backslash js_literal_copy lit_cons_append)
next
  case False
  then have "c = backslash \<or> c = CHR 0x22 \<or> c = CHR 0x0A \<or> c = CHR 0x0D"
    using assms by (auto simp: special_def)
  then show ?thesis
    using False
    by (elim disjE) (simp_all add: escape_def js_literal_backslash js_literal_quote js_literal_n js_literal_r backslash_neq)
qed

lemma js_literal_separator:
  assumes "x = CHR 0xA8 \<or> x = CHR 0xA9"
  shows "js_literal (backslash # (if x = CHR 0xA8 then ''u2028'' else ''u2029'') @ s) =
           lit_cons [CHR 0xE2, CHR 0x80, x] (js_literal s)"
  using assms by (subst js_literal.simps(2)) (auto simp: backslash_def)

lemma js_literal_replace:
  "js_literal (module_replace s @ CHR 0x22 # r) = Some (literal_value s, r)"
proof (induction "length s" arbitrary: s rule: less_induct)
  case less
  show ?case
  proof (cases s)
    case Nil
    then show ?thesis by (simp add: js_literal.simps(2))
  next
    case (Cons c s')
    consider "special c" | "\<not> special c" "is_separator c s'" | "\<not> special c" "\<not> is_separator c s'" by blast
    then show ?thesis
    proof cases
      case 1
      then show ?thesis
        using Cons less [of s'] js_literal_escape [OF 1, of "module_replace s' @ CHR 0x22 # r"]
        by (simp add: module_replace_special lit_cons_def)
    next
      case 2
      then obtain x t where x: "x = CHR 0xA8 \<or> x = CHR 0xA9" and s': "s' = CHR 0x80 # x # t" and c: "c = CHR 0xE2"
        by (cases s'; cases "tl s'") (auto simp: is_separator_def)
      have "module_replace s @ CHR 0x22 # r =
          backslash # (if x = CHR 0xA8 then ''u2028'' else ''u2029'') @ module_replace t @ CHR 0x22 # r"
        using 2(2) Cons s' by (simp add: module_replace_separator)
      then have "js_literal (module_replace s @ CHR 0x22 # r) = lit_cons [CHR 0xE2, CHR 0x80, x] (js_literal (module_replace t @ CHR 0x22 # r))"
        using js_literal_separator [OF x, of "module_replace t @ CHR 0x22 # r"] by simp
      then show ?thesis
        using less [of t] Cons s' c x by (auto simp: lit_cons_def)
    next
      case 3
      then have "\<not> is_separator c (module_replace s' @ CHR 0x22 # r)" using separator_kept by blast
      then show ?thesis
        using 3 Cons less [of s'] js_literal_copy [of c "module_replace s' @ CHR 0x22 # r"]
        by (auto simp: module_replace_copy lit_cons_def special_def)
    qed
  qed
qed

lemma module_replace_no_NUL: "NUL \<notin> set (module_replace s)"
proof (induction "length s" arbitrary: s rule: less_induct)
  case less
  show ?case
  proof (cases s)
    case (Cons c s')
    consider "special c" | "\<not> special c" "is_separator c s'" | "\<not> special c" "\<not> is_separator c s'" by blast
    then show ?thesis
      using Cons less [of s'] less [of "drop 2 s'"]
      by cases (auto simp: module_replace_special module_replace_separator module_replace_copy escape_def
          special_def backslash_def)
  qed simp
qed

section \<open>Compiling from Go\<close>

definition inject_text :: "string \<Rightarrow> string" where
  "inject_text code =
     ''(function(){'' @ newline @ ''const source = '' @ CHR 0x22 # module_replace code @ CHR 0x22 #
     '';'' @ newline @ ''return injectGas(source);'' @ newline @ ''})();''"

lemma asprintf_inject: "asprintf injectGasFormat [module_replace code] = Some (inject_text code)"
  by (simp add: injectGasFormat_def inject_text_def)

end
