(* ===== verification/CompileLaws.thy ===== *)
theory CompileLaws
  imports Compile
begin

text \<open>
  The rest of \<^verbatim>\<open>vm/v8vm/sandbox.go\<close> around the compiler, \<^verbatim>\<open>Validate\<close>, \<^verbatim>\<open>Prepare\<close> and \<^verbatim>\<open>formatFuncArgs\<close>, and what
  compiling and validating do seen from Go: they run one script, hand its outcome on and leave the
  C heap as it was, unless the outcome has a NUL byte in the middle, which is read past its copy.
\<close>

section \<open>Validate and Prepare\<close>

text \<open>\<open>abi\<close> is the JSON text of the contract's ABI. The deferred calls run in reverse order.\<close>

definition go_Validate :: "'h engine \<Rightarrow> string \<Rightarrow> string \<Rightarrow> 'h world \<Rightarrow> ((string + unit) \<times> 'h world) option" where
  "go_Validate E source abi w =
     (let (cCode, h) = newCStr (module_replace source) (w_heap w); (cAbi, h') = newCStr abi h in
      Option.bind (validate E cCode cAbi null_CStr null_CStr (w\<lparr>w_heap := h'\<rparr>)) (\<lambda>r.
      let w1 = cr_world r in
      Option.bind (GoString (w_heap w1) (cr_ret r)) (\<lambda>result.
      Option.bind (c_free (cstr_data (cr_ret r)) (w_heap w1)) (\<lambda>h1.
      Option.bind
        (if cr_code r = 1 \<or> result \<noteq> ''success'' then
           Option.bind (GoString h1 (cr_errMsg r)) (\<lambda>errMsg.
           Option.bind (c_free (cstr_data (cr_errMsg r)) h1) (\<lambda>h2.
           Some (Inl (''validate code error: '' @ errMsg @ '', result: '' @ result), h2)))
         else Some (Inr (), h1)) (\<lambda>(ans, h3).
      Option.bind (c_free (cstr_data cAbi) h3) (\<lambda>h4.
      Option.bind (c_free (cstr_data cCode) h4) (\<lambda>h5.
      Some (ans, w1\<lparr>w_heap := h5\<rparr>))))))))"

text \<open>An argument is bytes, or any other value with what \<^verbatim>\<open>json.Marshal\<close> makes of it.\<close>

datatype go_arg = ArgBytes string | ArgValue "string + string"

fun format_args :: "go_arg list \<Rightarrow> string + string list" where
  "format_args [] = Inr []"
| "format_args (ArgBytes b # as) = (case format_args as of Inl e \<Rightarrow> Inl e | Inr ss \<Rightarrow> Inr (b # ss))"
| "format_args (ArgValue (Inl e) # as) = Inl e"
| "format_args (ArgValue (Inr b) # as) = (case format_args as of Inl e \<Rightarrow> Inl e | Inr ss \<Rightarrow> Inr (b # ss))"

fun join_with :: "string \<Rightarrow> string list \<Rightarrow> string" where
  "join_with sep [] = []"
| "join_with sep [s] = s"
| "join_with sep (s # ss) = s @ sep @ join_with sep ss"

definition formatFuncArgs :: "go_arg list \<Rightarrow> string + string" where
  "formatFuncArgs args = (case format_args args of Inl e \<Rightarrow> Inl e | Inr ss \<Rightarrow> Inr (join_with '','' ss))"

definition go_Prepare :: "string \<Rightarrow> string \<Rightarrow> go_arg list \<Rightarrow> string + string" where
  "go_Prepare code function args =
     (if function = ''constructor'' then
        Inr (newline @ code @ newline @ ''var obj = new module.exports;'' @ newline @ newline @
          ''var ret = 0;'' @ newline @
          ''// store kv that was constructed by contract.'' @ newline @
          ''//Object.keys(obj).forEach((key) => {'' @ newline @
          ''//   let val = obj[key];'' @ newline @
          ''//   ret = IOSTContractStorage.put(key, val);'' @ newline @
          ''//});'' @ newline @ ''ret;'' @ newline)
      else
        case formatFuncArgs args of
          Inl err \<Rightarrow> Inl err
        | Inr argStr \<Rightarrow>
            Inr (newline @ code @ '';'' @ newline @ ''const obj = new module.exports;'' @ newline @ newline @
              ''// run contract with specified function and args'' @ newline @
              ''let rs = obj.'' @ function @ ''('' @ argStr @ '');'' @ newline @
              ''if ((typeof rs === '' @ [CHR 0x27] @ ''function'' @ [CHR 0x27] @ '') || (typeof rs === '' @ [CHR 0x27] @
              ''object'' @ [CHR 0x27] @ '')) {'' @ newline @
              [CHR 0x09] @ ''_IOSTInstruction_counter.incr(12);'' @ newline @
              [CHR 0x09] @ ''rs = JSON.stringify(rs);'' @ newline @ ''}'' @ newline @ ''rs;'' @ newline))"

section \<open>The outcome of a script\<close>

text \<open>
  A value, or a failure with or without a message, as \<^verbatim>\<open>compileInternal\<close> tells them apart.
\<close>

definition script_outcome ::
  "'h engine \<Rightarrow> string \<Rightarrow> string \<Rightarrow> 'h world \<Rightarrow> ((string option + string) \<times> 'h world) option" where
  "script_outcome E code_text name w =
     (let s = js_of_c E code_text; f = js_of_c E name; (compiled, w1) = eng_Compile E s f w in
      if \<not> compiled then Some (Inl (Some ''script is empty''), w1)
      else Option.bind (eng_Run E s f w1) (\<lambda>(result, w2).
        case result of
          Some res \<Rightarrow>
            let t = (case eng_ToString E res of None \<Rightarrow> [] | Some x \<Rightarrow> utf8_of (eng_api E) x) in
            Some (if t = [] then Inl None else Inr t, w2)
        | None \<Rightarrow>
            Some (Inl (Some (if w_exc w2 \<noteq> None then reportException E (eng_TryCatch E w2) else ''script is empty'')), w2)))"

text \<open>What is asked of the engine: the scripts run to an end and leave the C heap alone.\<close>

definition same_heap :: "'h world \<Rightarrow> 'h world \<Rightarrow> bool" where
  "same_heap w w' \<longleftrightarrow> (heap_ok (w_heap w) \<longrightarrow> heap_ok (w_heap w')) \<and> blocks (w_heap w') = blocks (w_heap w)"

definition pure_scripts :: "'h engine \<Rightarrow> bool" where
  "pure_scripts E \<longleftrightarrow>
     (\<forall>s f w. same_heap w (snd (eng_Compile E s f w))) \<and>
     (\<forall>s f w. \<exists>r w'. eng_Run E s f w = Some (r, w') \<and> same_heap w w')"

definition compile_answers ::
  "CStr \<Rightarrow> CStr \<Rightarrow> string option + string \<Rightarrow> 'h world \<Rightarrow> 'h compile_result \<Rightarrow> bool" where
  "compile_answers ret errMsg out w2 r \<longleftrightarrow>
     (case out of
        Inr t \<Rightarrow> cr_code r = 0 \<and> cr_errMsg r = errMsg \<and> (cr_ret r, cr_world r) = set_strdup t w2
      | Inl None \<Rightarrow> cr_code r = 1 \<and> cr_ret r = ret \<and> cr_errMsg r = errMsg \<and> cr_world r = w2
      | Inl (Some e) \<Rightarrow> cr_code r = 1 \<and> cr_ret r = ret \<and> (cr_errMsg r, cr_world r) = set_strdup e w2)"

lemma same_heap_trans: "same_heap w w' \<Longrightarrow> same_heap w' w'' \<Longrightarrow> same_heap w w''"
  by (simp add: same_heap_def)

lemma script_outcome_total:
  assumes "pure_scripts E"
  shows "\<exists>out w2. script_outcome E code_text name w = Some (out, w2) \<and> same_heap w w2"
proof -
  obtain b w1 where c: "eng_Compile E (js_of_c E code_text) (js_of_c E name) w = (b, w1)" by force
  have 1: "same_heap w w1" using assms c unfolding pure_scripts_def by (metis snd_conv)
  obtain r w2 where r: "eng_Run E (js_of_c E code_text) (js_of_c E name) w1 = Some (r, w2)" "same_heap w1 w2"
    using assms unfolding pure_scripts_def by blast
  show ?thesis
    using c r 1 same_heap_trans [OF 1 r(2)] by (cases b; cases r) (auto simp: script_outcome_def Let_def)
qed

lemma compileInternal_outcome:
  assumes E: "pure_scripts E" and ok: "heap_ok (w_heap w)"
    and code: "c_string_at (w_heap w) (cstr_data code) = Some cs"
    and extra: "(if cstr_data extra = None then Some []
                 else map_option (\<lambda>x. [x]) (c_string_at (w_heap w) (cstr_data extra))) = Some es"
    and code_text: "asprintf format (cs # es) = Some code_text"
  shows "\<exists>w0 out w2 r. heap_erase w0 = heap_erase w \<and> same_heap w w0 \<and>
           script_outcome E code_text name w0 = Some (out, w2) \<and> same_heap w0 w2 \<and>
           compileInternal E code extra format name ret errMsg w = Some r \<and> compile_answers ret errMsg out w2 r"
proof -
  let ?h1 = "alloc (Malloc (c_trunc code_text @ [NUL])) (w_heap w)"
  let ?h2 = "?h1\<lparr>blocks := (blocks ?h1)(brk (w_heap w) := None)\<rparr>"
  let ?w0 = "w\<lparr>w_heap := ?h2\<rparr>"
  have free: "c_free (Some (brk (w_heap w))) ?h1 = Some ?h2" by (simp add: c_free_def heap_simps)
  have same: "same_heap w ?w0"
    using ok heap_ok_fresh [OF ok] heap_ok_remove [of ?h1 "brk (w_heap w)"]
    by (auto simp: same_heap_def heap_simps fun_eq_iff)
  obtain out w2 where out: "script_outcome E code_text name ?w0 = Some (out, w2)" "same_heap ?w0 w2"
    using script_outcome_total [OF E] by blast
  let ?s = "js_of_c E code_text" and ?f = "js_of_c E name"
  obtain b w1 where c: "eng_Compile E ?s ?f ?w0 = (b, w1)" by force
  have "\<exists>r. compileInternal E code extra format name ret errMsg w = Some r \<and> compile_answers ret errMsg out w2 r"
  proof (cases b)
    case False
    then show ?thesis
      using out(1) c free code extra code_text
      by (auto simp: compileInternal_def script_outcome_def strdup_def Let_def compile_answers_def split: prod.split)
  next
    case True
    obtain x w3 where r: "eng_Run E ?s ?f w1 = Some (x, w3)" using E unfolding pure_scripts_def by blast
    show ?thesis
      using True out(1) c r free code extra code_text
      by (cases x) (auto simp: compileInternal_def script_outcome_def strdup_def Let_def compile_answers_def
          split: prod.split if_splits)
  qed
  then show ?thesis using same out by (intro exI [of _ ?w0]) auto
qed

section \<open>Reading a copied outcome\<close>

lemma strdup_read:
  assumes "set_strdup t w = (c, w')" and "NUL \<notin> set t" and "length t < 2 ^ 31"
  shows "GoString (w_heap w') c = Some t"
  using assms sint_of_nat_small [OF assms(3)] by (auto simp: set_strdup_def strdup_def GoString_def Let_def heap_simps)

lemma strdup_over_read:
  assumes "set_strdup t w = (c, w')" and "NUL \<in> set (butlast t)" and "length t < 2 ^ 31"
  shows "GoString (w_heap w') c = None"
proof -
  obtain a x where t: "t = a @ [x]" using assms(2) by (cases t rule: rev_cases) auto
  then have "c_trunc t = c_trunc a" "length (c_trunc a) < length a"
    using assms(2) length_c_trunc_less [of a] by (auto simp: c_trunc_def takeWhile_append1)
  then have "\<not> length t \<le> length (c_trunc t @ [NUL])" using t by simp
  then show ?thesis
    using assms t sint_of_nat_small [OF assms(3)]
    by (auto simp: set_strdup_def strdup_def GoString_def Let_def heap_simps)
qed

lemma strdup_free:
  assumes "set_strdup t w = (c, w')" and "heap_ok (w_heap w)"
  shows "\<exists>h. c_free (cstr_data c) (w_heap w') = Some h \<and> blocks h = blocks (w_heap w) \<and> heap_ok h"
    "w' = w\<lparr>w_heap := w_heap w'\<rparr>"
proof -
  let ?h = "alloc (Malloc (c_trunc t @ [NUL])) (w_heap w)"
  have w': "cstr_data c = Some (brk (w_heap w))" "w' = w\<lparr>w_heap := ?h\<rparr>"
    using assms(1) by (auto simp: set_strdup_def strdup_def)
  show "\<exists>h. c_free (cstr_data c) (w_heap w') = Some h \<and> blocks h = blocks (w_heap w) \<and> heap_ok h"
    using w' heap_ok_fresh [OF assms(2)] heap_ok_remove [of ?h "brk (w_heap w)"] assms(2)
    by (auto simp: c_free_def heap_simps fun_eq_iff)
  show "w' = w\<lparr>w_heap := w_heap w'\<rparr>" using w' by simp
qed

text \<open>The string that Go reads of an outcome, and whether it can.\<close>

definition outcome_text :: "string option + string \<Rightarrow> string" where
  "outcome_text out = (case out of Inr t \<Rightarrow> t | Inl None \<Rightarrow> [] | Inl (Some e) \<Rightarrow> e)"

definition readable :: "string \<Rightarrow> bool" where
  "readable t \<longleftrightarrow> NUL \<notin> set t \<and> length t < 2 ^ 31"

definition over_read :: "string \<Rightarrow> bool" where
  "over_read t \<longleftrightarrow> NUL \<in> set (butlast t) \<and> length t < 2 ^ 31"

lemma over_read_outcome: "over_read (outcome_text out) \<Longrightarrow> out \<noteq> Inl None"
  by (auto simp: over_read_def outcome_text_def)

lemma GoString_null [simp]: "GoString h null_CStr = Some []"
  by (simp add: GoString_def null_CStr_def)

lemma null_data [simp]: "cstr_data null_CStr = None"
  by (simp add: null_CStr_def)

text \<open>Whichever of the two out-parameters was set, reading and freeing it gives the outcome and the heap.\<close>

lemma answer_read:
  assumes "compile_answers null_CStr null_CStr out w2 r" and "heap_ok (w_heap w2)"
    and p: "p = (if cr_code r = 1 then cr_errMsg r else cr_ret r)"
  shows "readable (outcome_text out) \<Longrightarrow> GoString (w_heap (cr_world r)) p = Some (outcome_text out)"
    "over_read (outcome_text out) \<Longrightarrow> GoString (w_heap (cr_world r)) p = None"
    "\<exists>h. c_free (cstr_data p) (w_heap (cr_world r)) = Some h \<and> blocks h = blocks (w_heap w2) \<and> heap_ok h"
    "heap_erase (cr_world r) = heap_erase w2"
proof -
  consider "out = Inl None" "p = null_CStr" "cr_world r = w2"
    | "set_strdup (outcome_text out) w2 = (p, cr_world r)"
    using assms by (cases out; cases "projl out") (auto simp: compile_answers_def outcome_text_def split: option.splits)
  then have "(readable (outcome_text out) \<longrightarrow> GoString (w_heap (cr_world r)) p = Some (outcome_text out)) \<and>
    (over_read (outcome_text out) \<longrightarrow> GoString (w_heap (cr_world r)) p = None) \<and>
    (\<exists>h. c_free (cstr_data p) (w_heap (cr_world r)) = Some h \<and> blocks h = blocks (w_heap w2) \<and> heap_ok h) \<and>
    heap_erase (cr_world r) = heap_erase w2"
  proof cases
    case 1
    then show ?thesis
      using assms(2) over_read_outcome [of out] by (auto simp: outcome_text_def)
  next
    case 2
    have "heap_erase (cr_world r) = heap_erase w2"
      using strdup_free(2) [OF 2 assms(2)] by (metis heap_erase_heap)
    then show ?thesis
      using strdup_read [OF 2] strdup_over_read [OF 2] strdup_free(1) [OF 2 assms(2)]
      by (auto simp: readable_def over_read_def)
  qed
  then show "readable (outcome_text out) \<Longrightarrow> GoString (w_heap (cr_world r)) p = Some (outcome_text out)"
    "over_read (outcome_text out) \<Longrightarrow> GoString (w_heap (cr_world r)) p = None"
    "\<exists>h. c_free (cstr_data p) (w_heap (cr_world r)) = Some h \<and> blocks h = blocks (w_heap w2) \<and> heap_ok h"
    "heap_erase (cr_world r) = heap_erase w2" by blast+
qed

lemma answer_code: "compile_answers a b out w2 r \<Longrightarrow> cr_code r = (case out of Inr t \<Rightarrow> 0 | Inl e \<Rightarrow> 1)"
  by (auto simp: compile_answers_def split: sum.splits option.splits)

section \<open>Compile from Go\<close>

lemma go_Compile_outcome:
  assumes "pure_scripts E" and ok: "heap_ok (w_heap w)"
  shows "\<exists>w0 out w2. heap_erase w0 = heap_erase w \<and>
    script_outcome E (inject_text source) ''__inject_gas.js'' w0 = Some (out, w2) \<and>
    (readable (outcome_text out) \<longrightarrow>
       (\<exists>w'. go_Compile E source w = Some (case out of Inr t \<Rightarrow> Inr t | Inl e \<Rightarrow> Inl (outcome_text out), w') \<and>
          heap_erase w' = heap_erase w2 \<and> blocks (w_heap w') = blocks (w_heap w))) \<and>
    (over_read (outcome_text out) \<longrightarrow> go_Compile E source w = None)"
proof -
  let ?a = "brk (w_heap w)" and ?m = "module_replace source"
  let ?h = "alloc (Malloc (?m @ [NUL])) (w_heap w)" and ?c = "\<lparr>cstr_data = Some ?a, cstr_size = of_nat (length ?m)\<rparr> :: CStr"
  have code: "c_string_at (w_heap (w\<lparr>w_heap := ?h\<rparr>)) (cstr_data ?c) = Some ?m"
    by (simp add: c_string_at_def heap_simps module_replace_no_NUL)
  obtain w0 out w2 r where o: "heap_erase w0 = heap_erase (w\<lparr>w_heap := ?h\<rparr>)" "same_heap (w\<lparr>w_heap := ?h\<rparr>) w0"
    "script_outcome E (inject_text source) ''__inject_gas.js'' w0 = Some (out, w2)" "same_heap w0 w2"
    "compileInternal E ?c null_CStr injectGasFormat ''__inject_gas.js'' null_CStr null_CStr (w\<lparr>w_heap := ?h\<rparr>) = Some r"
    "compile_answers null_CStr null_CStr out w2 r"
    using compileInternal_outcome [OF assms(1) _ code _ asprintf_inject, where extra = null_CStr and
      name = "''__inject_gas.js''" and ret = null_CStr and errMsg = null_CStr] ok by auto
  have h2: "heap_ok (w_heap w2)" "blocks (w_heap w2) = blocks ?h"
    using o(2,4) ok by (auto simp: same_heap_def)
  note read = answer_read [OF o(6) h2(1) refl]
  obtain h1 where h1: "c_free (cstr_data (if cr_code r = 1 then cr_errMsg r else cr_ret r)) (w_heap (cr_world r)) = Some h1"
    "blocks h1 = blocks ?h" using read(3) h2(2) by auto
  have h3: "c_free (Some ?a) h1 = Some (h1\<lparr>blocks := (blocks h1)(?a := None)\<rparr>)"
    using h1(2) by (simp add: c_free_def heap_simps)
  have b: "(blocks h1)(?a := None) = blocks (w_heap w)"
    using h1(2) heap_ok_fresh [OF ok] by (auto simp: heap_simps fun_eq_iff)
  show ?thesis
  proof (intro exI conjI impI)
    show "heap_erase w0 = heap_erase w" using o(1) by simp
    show "script_outcome E (inject_text source) ''__inject_gas.js'' w0 = Some (out, w2)" by (fact o(3))
    show "over_read (outcome_text out) \<Longrightarrow> go_Compile E source w = None"
      using read(2) o(5) answer_code [OF o(6)]
      by (auto simp: go_Compile_def compile_def newCStr_def split: sum.splits)
    assume "readable (outcome_text out)"
    then show "go_Compile E source w = Some (case out of Inr t \<Rightarrow> Inr t | Inl e \<Rightarrow> Inl (outcome_text out),
        (cr_world r)\<lparr>w_heap := h1\<lparr>blocks := (blocks h1)(?a := None)\<rparr>\<rparr>)"
      using read(1) o(5) answer_code [OF o(6)] h1(1) h3
      by (auto simp: go_Compile_def compile_def newCStr_def outcome_text_def split: sum.splits)
    show "heap_erase ((cr_world r)\<lparr>w_heap := h1\<lparr>blocks := (blocks h1)(?a := None)\<rparr>\<rparr>) = heap_erase w2"
      using read(4) by simp
    show "blocks (w_heap ((cr_world r)\<lparr>w_heap := h1\<lparr>blocks := (blocks h1)(?a := None)\<rparr>\<rparr>)) = blocks (w_heap w)"
      using b by simp
  qed
qed

section \<open>Validate from Go\<close>

definition validate_text :: "string \<Rightarrow> string \<Rightarrow> string" where
  "validate_text code abi =
     ''(function(){'' @ newline @ ''const source = '' @ CHR 0x22 # module_replace code @ CHR 0x22 #
     '';'' @ newline @ ''return validate(source, '' @ abi @ '');'' @ newline @ ''})();''"

lemma asprintf_validate: "asprintf validateFormat [module_replace code, abi] = Some (validate_text code abi)"
  by (simp add: validateFormat_def validate_text_def)

definition validate_answer :: "string option + string \<Rightarrow> string + unit" where
  "validate_answer out =
     (if out = Inr ''success'' then Inr ()
      else Inl (''validate code error: '' @ (case out of Inr t \<Rightarrow> [] | Inl e \<Rightarrow> outcome_text out) @
                '', result: '' @ (case out of Inr t \<Rightarrow> t | Inl e \<Rightarrow> [])))"

text \<open>Reading the two out-parameters one after the other, as \<^verbatim>\<open>Validate\<close> does.\<close>

definition validate_read :: "'h compile_result \<Rightarrow> ((string + unit) \<times> c_heap) option" where
  "validate_read r =
     Option.bind (GoString (w_heap (cr_world r)) (cr_ret r)) (\<lambda>result.
     Option.bind (c_free (cstr_data (cr_ret r)) (w_heap (cr_world r))) (\<lambda>h1.
       if cr_code r = 1 \<or> result \<noteq> ''success'' then
         Option.bind (GoString h1 (cr_errMsg r)) (\<lambda>errMsg.
         Option.bind (c_free (cstr_data (cr_errMsg r)) h1) (\<lambda>h2.
         Some (Inl (''validate code error: '' @ errMsg @ '', result: '' @ result), h2)))
       else Some (Inr (), h1)))"

lemma validate_read_answer:
  assumes "compile_answers null_CStr null_CStr out w2 r" and "heap_ok (w_heap w2)"
  shows "readable (outcome_text out) \<Longrightarrow>
      \<exists>h. validate_read r = Some (validate_answer out, h) \<and> blocks h = blocks (w_heap w2)"
    "over_read (outcome_text out) \<Longrightarrow> validate_read r = None"
proof -
  note read = answer_read [OF assms refl] and code = answer_code [OF assms(1)]
  obtain h where h: "c_free (cstr_data (if cr_code r = 1 then cr_errMsg r else cr_ret r)) (w_heap (cr_world r)) = Some h"
    "blocks h = blocks (w_heap w2)" using read(3) by blast
  have other: "(if cr_code r = 1 then cr_ret r else cr_errMsg r) = null_CStr"
    using assms(1) by (auto simp: compile_answers_def split: sum.splits option.splits)
  show "\<exists>h. validate_read r = Some (validate_answer out, h) \<and> blocks h = blocks (w_heap w2)" if "readable (outcome_text out)"
    using read(1) [OF that] h other code
    by (cases out) (auto simp: validate_read_def validate_answer_def outcome_text_def)
  show "validate_read r = None" if "over_read (outcome_text out)"
    using read(2) [OF that] other code by (cases out) (auto simp: validate_read_def)
qed

lemma go_Validate_outcome:
  assumes "pure_scripts E" and ok: "heap_ok (w_heap w)" and abi: "NUL \<notin> set abi"
  shows "\<exists>w0 out w2. heap_erase w0 = heap_erase w \<and>
    script_outcome E (validate_text source abi) ''__validate.js'' w0 = Some (out, w2) \<and>
    (readable (outcome_text out) \<longrightarrow>
       (\<exists>w'. go_Validate E source abi w = Some (validate_answer out, w') \<and>
          heap_erase w' = heap_erase w2 \<and> blocks (w_heap w') = blocks (w_heap w))) \<and>
    (over_read (outcome_text out) \<longrightarrow> go_Validate E source abi w = None)"
proof -
  let ?a = "brk (w_heap w)" and ?m = "module_replace source"
  let ?h1 = "alloc (Malloc (?m @ [NUL])) (w_heap w)"
  let ?h = "alloc (Malloc (abi @ [NUL])) ?h1"
  let ?c = "\<lparr>cstr_data = Some ?a, cstr_size = of_nat (length ?m)\<rparr> :: CStr"
  let ?x = "\<lparr>cstr_data = Some (Suc ?a), cstr_size = of_nat (length abi)\<rparr> :: CStr"
  have code: "c_string_at (w_heap (w\<lparr>w_heap := ?h\<rparr>)) (cstr_data ?c) = Some ?m"
    by (simp add: c_string_at_def heap_simps module_replace_no_NUL)
  have extra: "(if cstr_data ?x = None then Some []
      else map_option (\<lambda>x. [x]) (c_string_at (w_heap (w\<lparr>w_heap := ?h\<rparr>)) (cstr_data ?x))) = Some [abi]"
    using abi by (simp add: c_string_at_def heap_simps)
  have ok': "heap_ok (w_heap (w\<lparr>w_heap := ?h\<rparr>))" using ok by simp
  obtain w0 out w2 r where o: "heap_erase w0 = heap_erase (w\<lparr>w_heap := ?h\<rparr>)" "same_heap (w\<lparr>w_heap := ?h\<rparr>) w0"
    "script_outcome E (validate_text source abi) ''__validate.js'' w0 = Some (out, w2)" "same_heap w0 w2"
    "compileInternal E ?c ?x validateFormat ''__validate.js'' null_CStr null_CStr (w\<lparr>w_heap := ?h\<rparr>) = Some r"
    "compile_answers null_CStr null_CStr out w2 r"
    using compileInternal_outcome [OF assms(1) ok' code extra asprintf_validate, where
      name = "''__validate.js''" and ret = null_CStr and errMsg = null_CStr] by blast
  have h2: "heap_ok (w_heap w2)" "blocks (w_heap w2) = blocks ?h"
    using o(2,4) ok by (auto simp: same_heap_def)
  note read = validate_read_answer [OF o(6) h2(1)]
  have run: "go_Validate E source abi w =
      Option.bind (validate_read r) (\<lambda>(ans, h3).
      Option.bind (c_free (Some (Suc ?a)) h3) (\<lambda>h4.
      Option.bind (c_free (Some ?a) h4) (\<lambda>h5. Some (ans, (cr_world r)\<lparr>w_heap := h5\<rparr>))))"
    using o(5) by (simp add: go_Validate_def validate_def newCStr_def brk_alloc validate_read_def Let_def)
  have fresh: "blocks (w_heap w) ?a = None" "blocks (w_heap w) (Suc ?a) = None" using ok by (simp_all add: heap_ok_def)
  have "\<exists>w'. go_Validate E source abi w = Some (validate_answer out, w') \<and>
      heap_erase w' = heap_erase w2 \<and> blocks (w_heap w') = blocks (w_heap w)" if rd: "readable (outcome_text out)"
  proof -
    obtain h3 where h3: "validate_read r = Some (validate_answer out, h3)" "blocks h3 = blocks ?h"
      using read(1) [OF rd] h2(2) by auto
    then show ?thesis
      using run fresh answer_read(4) [OF o(6) h2(1) refl]
      by (auto simp: c_free_def heap_simps fun_eq_iff)
  qed
  moreover have "go_Validate E source abi w = None" if "over_read (outcome_text out)"
    using run read(2) [OF that] by simp
  ultimately show ?thesis using o(1,3) by (intro exI [of _ w0]) auto
qed

end
