(* ===== verification/Execution.thy ===== *)
theory Execution
  imports SandboxLife
begin

text \<open>
  \<^verbatim>\<open>RealExecute\<close> and \<^verbatim>\<open>Execution\<close> of \<^verbatim>\<open>vm/v8vm/v8/sandbox.cc\<close>: a worker thread runs the contract while
  the calling thread polls what the worker has written, the gas it has used and the clock.
  Both threads are functions on one shared state; a run is an interleaving of their steps.
  A step is a statement that touches shared data. The engine answers the worker's requests
  (compile, run, stringify) with a \<open>reply\<close>, and may report gas used by a callback at any time
  while a script runs.

  The C++ code shares plain strings and booleans between the threads, without locks or
  atomics; the model gives these accesses the sequential meaning the code relies on.
\<close>

section \<open>State\<close>

record ValueTuple =
  vt_Value :: CStr
  vt_Err :: CStr
  vt_isJson :: bool
  vt_gasUsed :: size_t

datatype worker_pc =
    WPreload
  | WReset
  | WCompile
  | WRun
  | WResult js_value
  | WStringify js_value
  | WJson js_string
  | WDone
  | WStopped

datatype main_pc = MInit | MError | MResult | MDone | MGas | MTime | MGasRead | MJoin | MReturned

record exec_state =
  x_result :: string
  x_error :: string
  x_isJson :: bool
  x_isDone :: bool
  x_sbx :: Sandbox
  x_terminate :: bool
  x_worker :: worker_pc
  x_main :: main_pc
  x_res :: ValueTuple
  x_heap :: c_heap

text \<open>
  The thread is started before the result is initialised, which copies the flag the worker may
  have set already.
\<close>

definition init_tuple :: "bool \<Rightarrow> ValueTuple" where
  "init_tuple isJson = \<lparr>vt_Value = null_CStr, vt_Err = null_CStr, vt_isJson = isJson, vt_gasUsed = 0\<rparr>"

definition Execution_start :: "Sandbox \<Rightarrow> c_heap \<Rightarrow> exec_state" where
  "Execution_start sbx h =
     \<lparr>x_result = [], x_error = [], x_isJson = False, x_isDone = False, x_sbx = sbx, x_terminate = False,
      x_worker = WPreload, x_main = MInit, x_res = init_tuple False, x_heap = h\<rparr>"

section \<open>The worker: RealExecute\<close>

datatype reply =
    RGas size_t
  | RPreload "try_catch option"
  | RCompiled "try_catch option"
  | RRun "try_catch + js_value"
  | RStringify "try_catch + js_string option"

text \<open>
  What the worker asks of the engine: the scripts, with their names, that it compiles and runs,
  and the value it has turned into JSON.
\<close>

definition preloadBlockCode :: string where
  "preloadBlockCode = newline @
     ''// load Block'' @ newline @
     ''const blockInfo = JSON.parse(blockchain.blockInfo());'' @ newline @
     ''const block = {'' @ newline @
     ''   number: blockInfo.number,'' @ newline @
     ''   parentHash: blockInfo.parent_hash,'' @ newline @
     ''   witness: blockInfo.witness,'' @ newline @
     ''   time: blockInfo.time'' @ newline @
     ''};'' @ newline @ newline @ newline @
     ''// load tx'' @ newline @
     ''const txInfo = JSON.parse(blockchain.txInfo());'' @ newline @
     ''const tx = {'' @ newline @
     ''   time: txInfo.time,'' @ newline @
     ''   hash: txInfo.hash,'' @ newline @
     ''   expiration: txInfo.expiration,'' @ newline @
     ''   gasLimit: txInfo.gas_limit,'' @ newline @
     ''   gasRatio: txInfo.gas_ratio,'' @ newline @
     ''   authList: txInfo.auth_list,'' @ newline @
     ''   publisher: txInfo.publisher'' @ newline @
     ''};''"

datatype request = RunScript js_string js_string | CompileScript js_string js_string | Stringify js_value

definition worker_request :: "'h engine \<Rightarrow> CStr \<Rightarrow> exec_state \<Rightarrow> request option" where
  "worker_request E code s =
     (case x_worker s of
        WPreload \<Rightarrow> Some (RunScript (js_of_c E preloadBlockCode) (js_of_c E ''_preload_block.js''))
      | WCompile \<Rightarrow>
          map_option (\<lambda>source. CompileScript source (js_of_c E ''_default_name.js''))
            (NewFromUtf8 (eng_api E) (x_heap s) code)
      | WRun \<Rightarrow>
          map_option (\<lambda>source. RunScript source (js_of_c E ''_default_name.js''))
            (NewFromUtf8 (eng_api E) (x_heap s) code)
      | WStringify x \<Rightarrow> Some (Stringify x)
      | _ \<Rightarrow> None)"

definition resultMaxLength :: nat where
  "resultMaxLength = 65536"

definition fail_with :: "string \<Rightarrow> exec_state \<Rightarrow> exec_state" where
  "fail_with e s = s\<lparr>x_error := e, x_worker := WStopped\<rparr>"

definition utf8_value :: "'h engine \<Rightarrow> js_value \<Rightarrow> string" where
  "utf8_value E x = (case eng_ToString E x of None \<Rightarrow> [] | Some s \<Rightarrow> utf8_of (eng_api E) s)"

fun too_long :: "js_value \<Rightarrow> bool" where
  "too_long (JString s) = (length s > resultMaxLength)"
| "too_long x = False"

fun is_primitive :: "js_value \<Rightarrow> bool" where
  "is_primitive (JString s) = True"
| "is_primitive (JNumber x) = True"
| "is_primitive (JBool b) = True"
| "is_primitive x = False"

text \<open>Whether a script is running, so that a callback can use gas.\<close>

fun running :: "worker_pc \<Rightarrow> bool" where
  "running WPreload = True"
| "running WRun = True"
| "running (WStringify x) = True"
| "running pc = False"

definition gas_step :: "size_t \<Rightarrow> exec_state \<Rightarrow> exec_state" where
  "gas_step g s = s\<lparr>x_sbx := (x_sbx s)\<lparr>gasUsed := gasUsed (x_sbx s) + g\<rparr>\<rparr>"

definition worker_step :: "'h engine \<Rightarrow> reply \<Rightarrow> exec_state \<Rightarrow> exec_state option" where
  "worker_step E r s =
     (case (r, x_worker s) of
        (RGas g, pc) \<Rightarrow> if running pc then Some (gas_step g s) else None
      | (RPreload (Some tc), WPreload) \<Rightarrow> Some (fail_with (reportException E tc) s)
      | (RPreload None, WPreload) \<Rightarrow> Some (s\<lparr>x_worker := WReset\<rparr>)
      | (RCompiled (Some tc), WCompile) \<Rightarrow> Some (fail_with (reportException E tc) s)
      | (RCompiled None, WCompile) \<Rightarrow> Some (s\<lparr>x_worker := WRun\<rparr>)
      | (RRun (Inl tc), WRun) \<Rightarrow> Some (fail_with (reportException E tc) s)
      | (RRun (Inr ret), WRun) \<Rightarrow> Some (s\<lparr>x_worker := WResult ret\<rparr>)
      | (RStringify (Inl tc), WStringify ret) \<Rightarrow> Some (fail_with (reportException E tc) s)
      | (RStringify (Inr None), WStringify ret) \<Rightarrow> Some (s\<lparr>x_worker := WDone\<rparr>)
      | (RStringify (Inr (Some j)), WStringify ret) \<Rightarrow> Some (s\<lparr>x_isJson := True, x_worker := WJson j\<rparr>)
      | _ \<Rightarrow> None)"

text \<open>The statements between two requests to the engine.\<close>

definition worker_internal :: "'h engine \<Rightarrow> exec_state \<Rightarrow> exec_state option" where
  "worker_internal E s =
     (case x_worker s of
        WReset \<Rightarrow> Some (s\<lparr>x_sbx := resetSandbox (x_sbx s), x_worker := WCompile\<rparr>)
      | WResult ret \<Rightarrow>
          if too_long ret then Some (fail_with ''result too long'' s)
          else if is_primitive ret then Some (s\<lparr>x_result := utf8_value E ret, x_worker := WDone\<rparr>)
          else if ret \<noteq> JUndefined then Some (s\<lparr>x_worker := WStringify ret\<rparr>)
          else Some (s\<lparr>x_worker := WDone\<rparr>)
      | WJson j \<Rightarrow>
          if length j > resultMaxLength then Some (fail_with ''result too long'' s)
          else Some (s\<lparr>x_result := utf8_of (eng_api E) j, x_worker := WDone\<rparr>)
      | WDone \<Rightarrow> Some (s\<lparr>x_isDone := True, x_worker := WStopped\<rparr>)
      | _ \<Rightarrow> None)"

section \<open>The caller: Execution\<close>

definition take_error :: "string \<Rightarrow> exec_state \<Rightarrow> exec_state option" where
  "take_error e s =
     Option.bind (copyString e (x_heap s))
       (\<lambda>(c, h). Some (s\<lparr>x_heap := h, x_res := (x_res s)\<lparr>vt_Err := c\<rparr>, x_main := MGasRead\<rparr>))"

definition take_value :: "exec_state \<Rightarrow> exec_state option" where
  "take_value s =
     Option.bind (copyString (x_result s) (x_heap s))
       (\<lambda>(c, h). Some (s\<lparr>x_heap := h, x_res := (x_res s)\<lparr>vt_Value := c, vt_isJson := x_isJson s\<rparr>, x_main := MGasRead\<rparr>))"

definition killed_message :: "int \<Rightarrow> int \<Rightarrow> string" where
  "killed_message now expireTime =
     ''execution killed, current time : '' @ show_int now @ '' , expireTime: '' @ show_int expireTime"

text \<open>\<open>now\<close> is what the clock shows when it is read; the join waits for the worker.\<close>

definition main_step :: "int \<Rightarrow> int \<Rightarrow> exec_state \<Rightarrow> exec_state option" where
  "main_step expireTime now s =
     (case x_main s of
        MInit \<Rightarrow> Some (s\<lparr>x_res := init_tuple (x_isJson s), x_main := MError\<rparr>)
      | MError \<Rightarrow> if length (x_error s) > 0 then take_error (x_error s) s else Some (s\<lparr>x_main := MResult\<rparr>)
      | MResult \<Rightarrow> if length (x_result s) > 0 then take_value s else Some (s\<lparr>x_main := MDone\<rparr>)
      | MDone \<Rightarrow> if x_isDone s then take_value s else Some (s\<lparr>x_main := MGas\<rparr>)
      | MGas \<Rightarrow>
          if gasUsed (x_sbx s) > gasLimit (x_sbx s)
          then take_error ''out of gas'' (s\<lparr>x_terminate := True\<rparr>)
          else Some (s\<lparr>x_main := MTime\<rparr>)
      | MTime \<Rightarrow>
          if now > expireTime
          then take_error (killed_message now expireTime) (s\<lparr>x_terminate := True\<rparr>)
          else Some (s\<lparr>x_main := MError\<rparr>)
      | MGasRead \<Rightarrow> Some (s\<lparr>x_res := (x_res s)\<lparr>vt_gasUsed := gasUsed (x_sbx s)\<rparr>, x_main := MJoin\<rparr>)
      | MJoin \<Rightarrow> if x_worker s = WStopped then Some (s\<lparr>x_main := MReturned\<rparr>) else None
      | MReturned \<Rightarrow> None)"

section \<open>Runs\<close>

inductive exec_step :: "'h engine \<Rightarrow> int \<Rightarrow> exec_state \<Rightarrow> exec_state \<Rightarrow> bool" for E expireTime where
  reply: "worker_step E r s = Some s' \<Longrightarrow> exec_step E expireTime s s'"
| internal: "worker_internal E s = Some s' \<Longrightarrow> exec_step E expireTime s s'"
| main: "main_step expireTime now s = Some s' \<Longrightarrow> exec_step E expireTime s s'"

inductive_cases exec_stepE: "exec_step E expireTime s s'"

inductive exec_reach :: "'h engine \<Rightarrow> int \<Rightarrow> exec_state \<Rightarrow> exec_state \<Rightarrow> bool" for E expireTime s0 where
  start: "exec_reach E expireTime s0 s0"
| step: "exec_reach E expireTime s0 s \<Longrightarrow> exec_step E expireTime s s' \<Longrightarrow> exec_reach E expireTime s0 s'"

text \<open>A run as a sequence of choices: who goes next, and what the engine or the clock says.\<close>

datatype choice = Reply reply | Internal | Main int

fun exec_choice :: "'h engine \<Rightarrow> int \<Rightarrow> choice \<Rightarrow> exec_state \<Rightarrow> exec_state option" where
  "exec_choice E expireTime (Reply r) s = worker_step E r s"
| "exec_choice E expireTime Internal s = worker_internal E s"
| "exec_choice E expireTime (Main now) s = main_step expireTime now s"

fun exec_run :: "'h engine \<Rightarrow> int \<Rightarrow> choice list \<Rightarrow> exec_state \<Rightarrow> exec_state option" where
  "exec_run E expireTime [] s = Some s"
| "exec_run E expireTime (c # cs) s = Option.bind (exec_choice E expireTime c s) (exec_run E expireTime cs)"

lemma exec_run_reach: "exec_reach E t s0 s \<Longrightarrow> exec_run E t cs s = Some s' \<Longrightarrow> exec_reach E t s0 s'"
proof (induction cs arbitrary: s)
  case (Cons c cs)
  then obtain s1 where s1: "exec_choice E t c s = Some s1" "exec_run E t cs s1 = Some s'"
    by (auto simp: bind_eq_Some_conv)
  have "exec_step E t s s1"
    using s1(1) by (cases c) (auto intro: exec_step.intros)
  then show ?case using Cons s1 by (blast intro: exec_reach.step)
qed simp

section \<open>What a step of the worker can do\<close>

text \<open>Use gas, stop with an error, go on, store the result, or report that it is done.\<close>

inductive worker_effect :: "exec_state \<Rightarrow> exec_state \<Rightarrow> bool" where
  gas: "running (x_worker s) \<Longrightarrow> worker_effect s (gas_step g s)"
| fail: "x_worker s \<notin> {WDone, WStopped} \<Longrightarrow> e \<noteq> [] \<Longrightarrow> worker_effect s (fail_with e s)"
| advance: "x_worker s \<notin> {WDone, WStopped} \<Longrightarrow> pc \<noteq> WStopped \<Longrightarrow>
    worker_effect s (s\<lparr>x_isJson := j, x_sbx := sbx, x_worker := pc\<rparr>)"
| assign: "x_worker s \<notin> {WDone, WStopped} \<Longrightarrow> worker_effect s (s\<lparr>x_result := r, x_worker := WDone\<rparr>)"
| finish: "x_worker s = WDone \<Longrightarrow> worker_effect s (s\<lparr>x_isDone := True, x_worker := WStopped\<rparr>)"

inductive_cases worker_effectE: "worker_effect s s'"

lemma reportException_nonempty [simp]: "reportException E tc \<noteq> []"
  using reportException_prefix [of E tc] by auto

lemma advance_pc:
  "x_worker s \<notin> {WDone, WStopped} \<Longrightarrow> pc \<noteq> WStopped \<Longrightarrow> worker_effect s (s\<lparr>x_worker := pc\<rparr>)"
  using worker_effect.advance [of s pc, where j = "x_isJson s" and sbx = "x_sbx s"] by simp

lemma advance_json:
  "x_worker s \<notin> {WDone, WStopped} \<Longrightarrow> pc \<noteq> WStopped \<Longrightarrow> worker_effect s (s\<lparr>x_isJson := j, x_worker := pc\<rparr>)"
  using worker_effect.advance [of s pc, where j = j and sbx = "x_sbx s"] by simp

lemma advance_sbx:
  "x_worker s \<notin> {WDone, WStopped} \<Longrightarrow> pc \<noteq> WStopped \<Longrightarrow> worker_effect s (s\<lparr>x_sbx := b, x_worker := pc\<rparr>)"
  using worker_effect.advance [of s pc, where j = "x_isJson s" and sbx = b] by simp

lemma worker_step_effect: "worker_step E r s = Some s' \<Longrightarrow> worker_effect s s'"
  unfolding worker_step_def
  by (cases "x_worker s"; cases r)
    (auto intro: worker_effect.intros advance_pc advance_json split: option.splits sum.splits if_splits)

lemma worker_internal_effect: "worker_internal E s = Some s' \<Longrightarrow> worker_effect s s'"
  unfolding worker_internal_def
  by (cases "x_worker s")
    (auto intro: worker_effect.intros advance_pc advance_sbx split: if_splits)

section \<open>The invariant\<close>

definition copied :: "c_heap \<Rightarrow> CStr \<Rightarrow> string \<Rightarrow> bool" where
  "copied h c e \<longleftrightarrow> (\<exists>h0. heap_ok h0 \<and> copyString e h0 = Some (c, h))"

definition value_taken :: "exec_state \<Rightarrow> bool" where
  "value_taken s \<longleftrightarrow>
     vt_Err (x_res s) = null_CStr \<and> copied (x_heap s) (vt_Value (x_res s)) (x_result s) \<and>
     vt_isJson (x_res s) = x_isJson s \<and> x_error s = [] \<and> x_worker s \<in> {WDone, WStopped}"

definition error_taken :: "int \<Rightarrow> exec_state \<Rightarrow> bool" where
  "error_taken expireTime s \<longleftrightarrow>
     vt_Value (x_res s) = null_CStr \<and>
     (\<exists>e. copied (x_heap s) (vt_Err (x_res s)) e \<and>
        (e = x_error s \<and> e \<noteq> [] \<or>
         e = ''out of gas'' \<and> x_terminate s \<or>
         (\<exists>now > expireTime. e = killed_message now expireTime) \<and> x_terminate s))"

definition polling :: "main_pc \<Rightarrow> bool" where
  "polling pc \<longleftrightarrow> pc \<in> {MInit, MError, MResult, MDone, MGas, MTime}"

definition exec_inv :: "int \<Rightarrow> exec_state \<Rightarrow> bool" where
  "exec_inv expireTime s \<longleftrightarrow>
     heap_ok (x_heap s) \<and>
     (x_worker s = WStopped \<longrightarrow> x_error s \<noteq> [] \<or> x_isDone s) \<and>
     (x_error s \<noteq> [] \<longrightarrow> x_worker s = WStopped \<and> x_result s = [] \<and> \<not> x_isDone s) \<and>
     (x_result s \<noteq> [] \<longrightarrow> x_worker s \<in> {WDone, WStopped}) \<and>
     (x_isDone s \<longrightarrow> x_worker s = WStopped) \<and>
     (polling (x_main s) \<longrightarrow> vt_Value (x_res s) = null_CStr \<and> vt_Err (x_res s) = null_CStr) \<and>
     (\<not> polling (x_main s) \<longrightarrow> value_taken s \<or> error_taken expireTime s) \<and>
     (x_main s = MReturned \<longrightarrow> x_worker s = WStopped)"

lemma exec_inv_start: "heap_ok h \<Longrightarrow> exec_inv expireTime (Execution_start sbx h)"
  by (simp add: exec_inv_def Execution_start_def polling_def init_tuple_def)

lemma worker_effect_inv:
  assumes "worker_effect s s'" and inv: "exec_inv t s"
  shows "exec_inv t s'"
  using assms
proof cases
  case (gas g)
  then show ?thesis
    using inv by (auto simp: exec_inv_def gas_step_def value_taken_def error_taken_def)
next
  case (fail e)
  then show ?thesis
    using inv by (auto simp: exec_inv_def fail_with_def value_taken_def error_taken_def)
next
  case (advance pc j sbx)
  then show ?thesis
    using inv by (auto simp: exec_inv_def value_taken_def error_taken_def)
next
  case (assign r)
  then show ?thesis
    using inv by (auto simp: exec_inv_def value_taken_def error_taken_def)
next
  case finish
  then show ?thesis
    using inv by (auto simp: exec_inv_def value_taken_def error_taken_def)
qed

lemma copyString_ok:
  assumes "copyString e h = Some (c, h')" and "heap_ok h"
  shows "heap_ok h'" "copied h' c e"
  using assms by (auto simp: copyString_def copied_def Let_def split: if_splits)

lemma take_error_inv:
  assumes "take_error e s = Some s'" and "exec_inv t (s\<lparr>x_terminate := b\<rparr>)" and "polling (x_main s)"
    and "e = x_error s \<and> e \<noteq> [] \<or> e = ''out of gas'' \<and> x_terminate s \<or>
         (\<exists>now > t. e = killed_message now t) \<and> x_terminate s"
  shows "exec_inv t s'"
proof -
  obtain c h where c: "copyString e (x_heap s) = Some (c, h)"
    and s': "s' = s\<lparr>x_heap := h, x_res := (x_res s)\<lparr>vt_Err := c\<rparr>, x_main := MGasRead\<rparr>"
    using assms(1) by (auto simp: take_error_def bind_eq_Some_conv)
  have "heap_ok h" "copied h c e"
    using copyString_ok [OF c] assms(2) by (simp_all add: exec_inv_def)
  then have "error_taken t s'"
    using assms(2-4) s' by (auto simp: error_taken_def exec_inv_def init_tuple_def)
  then show ?thesis
    using \<open>heap_ok h\<close> assms(2) s' by (auto simp: exec_inv_def polling_def)
qed

lemma take_value_inv:
  assumes "take_value s = Some s'" and "exec_inv t s" and "polling (x_main s)"
    and "x_error s = []" and "x_worker s \<in> {WDone, WStopped}"
  shows "exec_inv t s'"
proof -
  obtain c h where c: "copyString (x_result s) (x_heap s) = Some (c, h)"
    and s': "s' = s\<lparr>x_heap := h, x_res := (x_res s)\<lparr>vt_Value := c, vt_isJson := x_isJson s\<rparr>, x_main := MGasRead\<rparr>"
    using assms(1) by (auto simp: take_value_def bind_eq_Some_conv)
  have "heap_ok h" "copied h c (x_result s)"
    using copyString_ok [OF c] assms(2) by (simp_all add: exec_inv_def)
  then have "value_taken s'"
    using assms(2-5) s' by (simp add: value_taken_def exec_inv_def init_tuple_def)
  then show ?thesis
    using \<open>heap_ok h\<close> assms(2) s' by (auto simp: exec_inv_def polling_def)
qed

lemma exec_inv_moves:
  "exec_inv t s \<Longrightarrow> polling (x_main s) \<Longrightarrow> polling pc \<Longrightarrow> exec_inv t (s\<lparr>x_main := pc\<rparr>)"
  by (auto simp: exec_inv_def polling_def)

lemma taken_frame [simp]:
  "value_taken (s\<lparr>x_main := pc\<rparr>) = value_taken s"
  "error_taken t (s\<lparr>x_main := pc\<rparr>) = error_taken t s"
  "value_taken (s\<lparr>x_res := (x_res s)\<lparr>vt_gasUsed := g\<rparr>\<rparr>) = value_taken s"
  "error_taken t (s\<lparr>x_res := (x_res s)\<lparr>vt_gasUsed := g\<rparr>\<rparr>) = error_taken t s"
  by (simp_all add: value_taken_def error_taken_def)

lemma exec_inv_settled:
  assumes "exec_inv t s" and "\<not> polling (x_main s)" and "\<not> polling pc" and "pc = MReturned \<longrightarrow> x_worker s = WStopped"
  shows "exec_inv t (s\<lparr>x_res := (x_res s)\<lparr>vt_gasUsed := g\<rparr>, x_main := pc\<rparr>)" "exec_inv t (s\<lparr>x_main := pc\<rparr>)"
  using assms by (simp_all add: exec_inv_def)

lemma main_step_inv:
  assumes "main_step t now s = Some s'" and inv: "exec_inv t s"
  shows "exec_inv t s'"
proof (cases "polling (x_main s)")
  case False
  show ?thesis
  proof (cases "x_main s")
    case MGasRead
    then show ?thesis
      using assms False exec_inv_settled(1) [OF inv False, of MJoin] by (auto simp: main_step_def polling_def)
  next
    case MJoin
    then show ?thesis
      using assms False exec_inv_settled(2) [OF inv False, of MReturned]
      by (cases "x_worker s = WStopped") (simp_all add: main_step_def polling_def)
  qed (use assms False in \<open>simp_all add: main_step_def polling_def\<close>)
next
  case True
  have b: "exec_inv t ((s\<lparr>x_terminate := True\<rparr>)\<lparr>x_terminate := x_terminate s\<rparr>)" using inv by simp
  have s: "exec_inv t (s\<lparr>x_terminate := x_terminate s\<rparr>)" using inv by simp
  have move: "exec_inv t (s\<lparr>x_main := pc\<rparr>)" if "polling pc" for pc
    using exec_inv_moves [OF inv True that] .
  have err: "exec_inv t s'" if "take_error e (s\<lparr>x_terminate := True\<rparr>) = Some s'"
    "e = ''out of gas'' \<or> (\<exists>now > t. e = killed_message now t)" for e
    using that(2) by (intro take_error_inv [OF that(1) b]) (simp_all add: True)
  have val: "exec_inv t s'" if "take_value s = Some s'" "x_result s \<noteq> [] \<or> x_isDone s"
    using that(2) inv by (intro take_value_inv [OF that(1) inv True]) (auto simp: exec_inv_def)
  show ?thesis
  proof (cases "x_main s")
    case MInit
    then show ?thesis
      using assms by (auto simp: main_step_def exec_inv_def polling_def init_tuple_def)
  next
    case MError
    then show ?thesis
      using assms(1) take_error_inv [OF _ s True] move [of MResult]
      by (cases "x_error s = []") (simp_all add: main_step_def polling_def)
  next
    case MResult
    then show ?thesis
      using assms(1) val move [of MDone] by (cases "x_result s = []") (simp_all add: main_step_def polling_def)
  next
    case MDone
    then show ?thesis
      using assms(1) val move [of MGas] by (cases "x_isDone s") (simp_all add: main_step_def polling_def)
  next
    case MGas
    then show ?thesis
      using assms(1) err [of "''out of gas''"] move [of MTime]
      by (cases "gasUsed (x_sbx s) > gasLimit (x_sbx s)") (simp_all add: main_step_def polling_def)
  next
    case MTime
    then show ?thesis
      using assms(1) err [of "killed_message now t"] move [of MError]
      by (cases "now > t") (auto simp: main_step_def polling_def)
  qed (use True in \<open>auto simp: polling_def\<close>)
qed

lemma exec_reach_inv:
  assumes "exec_reach E t s0 s" and "exec_inv t s0"
  shows "exec_inv t s"
  using assms
proof (induction rule: exec_reach.induct)
  case (step s s')
  from step(2) show ?case
    by (cases rule: exec_stepE)
      (use step in \<open>auto intro: worker_effect_inv main_step_inv dest: worker_step_effect worker_internal_effect\<close>)
qed

section \<open>The polling loop ends\<close>

text \<open>The caller alone, with the readings of its clock.\<close>

fun main_run :: "int \<Rightarrow> int list \<Rightarrow> exec_state \<Rightarrow> exec_state option" where
  "main_run t [] s = Some s"
| "main_run t (now # ns) s =
     (if x_main s = MReturned then Some s else Option.bind (main_step t now s) (main_run t ns))"

text \<open>A message is short enough to copy when its length and the final NUL fit a C \<open>int\<close>.\<close>

definition copyable :: "string \<Rightarrow> bool" where
  "copyable e \<longleftrightarrow> length e < 2 ^ 31 - 1"

lemma copyString_total: "copyable e \<Longrightarrow> \<exists>c h'. copyString e h = Some (c, h')"
proof -
  assume "copyable e"
  then have "sint (of_nat (length e) :: c_int) = int (length e)"
    by (intro sint_of_nat_small) (simp add: copyable_def)
  then show ?thesis by (simp add: copyString_def Let_def)
qed

lemma take_error_total:
  assumes "copyable e"
  shows "\<exists>s'. take_error e s = Some s' \<and> x_main s' = MGasRead \<and> x_worker s' = x_worker s \<and>
           x_error s' = x_error s \<and> x_result s' = x_result s \<and> x_isDone s' = x_isDone s"
  using copyString_total [OF assms, of "x_heap s"] by (auto simp: take_error_def)

lemma take_value_total:
  assumes "copyable (x_result s)"
  shows "\<exists>s'. take_value s = Some s' \<and> x_main s' = MGasRead \<and> x_worker s' = x_worker s \<and>
           x_error s' = x_error s \<and> x_result s' = x_result s \<and> x_isDone s' = x_isDone s"
  using copyString_total [OF assms, of "x_heap s"] by (auto simp: take_value_def)

text \<open>
  How many steps the caller has left once the worker has stopped: an error is seen at the
  top of the loop, a result at its third test.
\<close>

fun main_rank :: "bool \<Rightarrow> main_pc \<Rightarrow> nat" where
  "main_rank err MInit = (if err then 4 else 6)"
| "main_rank err MGas = (if err then 5 else 7)"
| "main_rank err MTime = (if err then 4 else 6)"
| "main_rank err MError = (if err then 3 else 5)"
| "main_rank err MResult = (if err then 7 else 4)"
| "main_rank err MDone = (if err then 6 else 3)"
| "main_rank err MGasRead = 2"
| "main_rank err MJoin = 1"
| "main_rank err MReturned = 0"

definition rank :: "exec_state \<Rightarrow> nat" where
  "rank s = main_rank (x_error s \<noteq> []) (x_main s)"

definition worker_over :: "exec_state \<Rightarrow> bool" where
  "worker_over s \<longleftrightarrow>
     x_worker s = WStopped \<and> (x_error s \<noteq> [] \<or> x_isDone s) \<and> (x_error s \<noteq> [] \<longrightarrow> x_result s = [] \<and> \<not> x_isDone s) \<and>
     copyable (x_error s) \<and> copyable (x_result s)"

lemma length_show_nat: "n < 10 ^ Suc k \<Longrightarrow> length (show_nat n) \<le> Suc k"
proof (induction k arbitrary: n)
  case 0
  then show ?case by (subst show_nat.simps) simp
next
  case (Suc k)
  show ?case
  proof (cases "n < 10")
    case True
    then show ?thesis by (subst show_nat.simps) simp
  next
    case False
    have "n div 10 < 10 ^ Suc k" using Suc.prems by (simp add: less_mult_imp_div_less mult.commute)
    then show ?thesis using False Suc.IH [of "n div 10"] by (subst show_nat.simps) simp
  qed
qed

definition time_ok :: "int \<Rightarrow> bool" where
  "time_ok t \<longleftrightarrow> - (2 ^ 63) \<le> t \<and> t < 2 ^ 63"

lemma length_show_int:
  assumes "time_ok t"
  shows "length (show_int t) \<le> 21"
proof -
  have "- t < int (10 ^ Suc 19)" "t < int (10 ^ Suc 19)" using assms by (simp_all add: time_ok_def)
  then have "nat (- t) < 10 ^ Suc 19" "nat t < 10 ^ Suc 19" by linarith+
  from this [THEN length_show_nat] show ?thesis by (simp add: show_int_def)
qed

lemma copyable_killed: "time_ok now \<Longrightarrow> time_ok t \<Longrightarrow> copyable (killed_message now t)"
  using length_show_int [of now] length_show_int [of t] by (simp add: copyable_def killed_message_def)

lemma copyable_out_of_gas: "copyable ''out of gas''"
  by (simp add: copyable_def)

lemma rank_le: "rank s \<le> 7"
  by (cases "x_main s") (simp_all add: rank_def)

lemma main_progress:
  assumes over: "worker_over s" and now: "copyable (killed_message now t)" and "x_main s \<noteq> MReturned"
  shows "\<exists>s'. main_step t now s = Some s' \<and> rank s' < rank s \<and> worker_over s'"
proof -
  have e: "\<exists>s'. take_error m (s\<lparr>x_terminate := b\<rparr>) = Some s' \<and> rank s' = 2 \<and> worker_over s'" if "copyable m" for m b
    using take_error_total [OF that, of "s\<lparr>x_terminate := b\<rparr>"] over by (auto simp: rank_def worker_over_def)
  have v: "\<exists>s'. take_value s = Some s' \<and> rank s' = 2 \<and> worker_over s'"
    using take_value_total [of s] over by (auto simp: rank_def worker_over_def)
  have move: "worker_over (s\<lparr>x_main := pc\<rparr>)" "rank (s\<lparr>x_main := pc\<rparr>) = main_rank (x_error s \<noteq> []) pc" for pc
    using over by (simp_all add: worker_over_def rank_def)
  show ?thesis
  proof (cases "x_main s")
    case MInit
    then show ?thesis using over by (simp add: main_step_def rank_def worker_over_def)
  next
    case MError
    then show ?thesis
      using move [of MResult] e [of "x_error s" "x_terminate s"] over
      by (cases "x_error s = []") (auto simp: main_step_def rank_def worker_over_def)
  next
    case MResult
    then show ?thesis
      using move [of MDone] v over
      by (cases "x_result s = []"; cases "x_error s = []") (auto simp: main_step_def rank_def worker_over_def)
  next
    case MDone
    then show ?thesis
      using move [of MGas] v over
      by (cases "x_isDone s"; cases "x_error s = []") (auto simp: main_step_def rank_def worker_over_def)
  next
    case MGas
    then show ?thesis
      using move [of MTime] e [OF copyable_out_of_gas, of True]
      by (cases "gasUsed (x_sbx s) > gasLimit (x_sbx s)") (auto simp: main_step_def rank_def)
  next
    case MTime
    then show ?thesis
      using move [of MError] e [OF now, of True]
      by (cases "now > t") (auto simp: main_step_def rank_def)
  next
    case MGasRead
    then show ?thesis using over by (simp add: main_step_def rank_def worker_over_def)
  next
    case MJoin
    then show ?thesis using over by (simp add: main_step_def rank_def worker_over_def)
  qed (use assms in simp)
qed

lemma main_run_returns:
  assumes "worker_over s" and "\<forall>now \<in> set ns. copyable (killed_message now t)" and "rank s \<le> length ns"
  shows "\<exists>s'. main_run t ns s = Some s' \<and> x_main s' = MReturned"
  using assms
proof (induction ns arbitrary: s)
  case Nil
  then show ?case by (cases "x_main s") (auto simp: rank_def split: if_splits)
next
  case (Cons now ns)
  show ?case
  proof (cases "x_main s = MReturned")
    case False
    then obtain s1 where "main_step t now s = Some s1" "rank s1 < rank s" "worker_over s1"
      using main_progress [OF Cons.prems(1), of now t] Cons.prems(2) by auto
    with Cons.IH [of s1] Cons.prems False show ?thesis by auto
  qed simp
qed

text \<open>
  From any state that a run can reach with the worker stopped, the caller returns within seven
  of its own steps, whatever its clock shows.
\<close>

lemma stopped_over:
  assumes "exec_inv t s" and "x_worker s = WStopped" and "copyable (x_error s)" and "copyable (x_result s)"
  shows "worker_over s"
  using assms by (auto simp: exec_inv_def worker_over_def)

lemma reachable_returns:
  assumes "exec_reach E t (Execution_start sbx h) s" and "heap_ok h" and "x_worker s = WStopped"
    and "copyable (x_error s)" and "copyable (x_result s)"
    and "time_ok t" and "\<forall>now \<in> set ns. time_ok now" and "7 \<le> length ns"
  shows "\<exists>s'. main_run t ns s = Some s' \<and> x_main s' = MReturned"
proof -
  have "worker_over s"
    using exec_reach_inv [OF assms(1) exec_inv_start [OF assms(2)]] assms(3-5) by (rule stopped_over)
  then show ?thesis
    using assms(6-8) rank_le [of s] by (intro main_run_returns) (auto simp: copyable_killed)
qed

end
