(* ===== verification/VmLifecycle.thy ===== *)
theory VmLifecycle
  imports Execution Compile EmbeddedJs
begin

text \<open>
  \<^verbatim>\<open>vm/v8vm/v8/vm.cc\<close> and its callers \<^verbatim>\<open>vm/v8vm/sandbox.go\<close>, \<^verbatim>\<open>vm.go\<close> and \<^verbatim>\<open>pool.go\<close>: starting the
  engine, creating and disposing of isolates, the Go sandbox around a C++ sandbox, a virtual
  machine (an isolate with its current sandbox) and the pool that hands machines out and takes
  them back. Objects are blocks of the C heap; \<open>None\<close> is undefined behaviour or a panic.
\<close>

section \<open>The engine process\<close>

record StartupData =
  sd_data :: string
  sd_raw_size :: nat

datatype v8_call =
    SetFlagsFromString string nat
  | InitializeICU
  | CreateDefaultPlatform
  | InitializePlatform
  | SetNativesDataBlob StartupData
  | SetSnapshotDataBlob StartupData
  | V8_Initialize

text \<open>The calls into the engine, in order; the two blobs are the generated arrays.\<close>

definition init :: "bool \<Rightarrow> string \<Rightarrow> string \<Rightarrow> v8_call list" where
  "init linux natives_blob_bin snapshot_blob_bin =
     (if linux then [SetFlagsFromString ''--expose_gc'' (length ''--expose_gc'' + 1)] else []) @
     [InitializeICU, CreateDefaultPlatform, InitializePlatform] @
     (if linux then
        [SetNativesDataBlob \<lparr>sd_data = natives_blob_bin, sd_raw_size = length natives_blob_bin\<rparr>,
         SetSnapshotDataBlob \<lparr>sd_data = snapshot_blob_bin, sd_raw_size = length snapshot_blob_bin\<rparr>] else []) @
     [V8_Initialize]"

section \<open>Isolates\<close>

record CreateParams =
  cp_snapshot_blob :: "nat \<times> CustomStartupData"
  cp_array_buffer_allocator :: nat
  cp_external_references :: "string list"

text \<open>
  The wrapper, the blob and the allocator are separate objects; the engine makes the isolate. The blob
  is a copy of the two fields it is given, and stands with its address in the parameters.
  The pointer to the wrapper is the first component.
\<close>

definition newIsolate :: "CustomStartupData \<Rightarrow> c_heap \<Rightarrow> (nat \<times> IsolateWrapper) \<times> CreateParams \<times> c_heap" where
  "newIsolate customStartupData h =
     (let (isolateWrapperPtr, h1) = new_obj ''IsolateWrapper'' h;
          (blob, h2) = new_obj ''StartupData'' h1;
          (al, h3) = new_obj ''ArrayBufferAllocator'' h2;
          params = \<lparr>cp_snapshot_blob = (blob, customStartupData), cp_array_buffer_allocator = al, cp_external_references = externalRef\<rparr>;
          (isolate, h4) = new_obj ''Isolate'' h3
      in ((isolateWrapperPtr, \<lparr>iw_isolate = isolate, iw_allocator_ptr = al, iw_allocator = ArrayBufferAllocator_new\<rparr>),
          params, h4))"

definition releaseIsolate :: "(nat \<times> IsolateWrapper) option \<Rightarrow> c_heap \<Rightarrow> c_heap option" where
  "releaseIsolate ptr h =
     (case ptr of None \<Rightarrow> Some h | Some (p, iw) \<Rightarrow> delete_obj (iw_isolate iw) h)"

datatype isolate_call = ContextDisposedNotification | RequestGarbageCollectionForTesting | LowMemoryNotification

definition lowMemoryNotification :: "bool \<Rightarrow> (nat \<times> IsolateWrapper) option \<Rightarrow> isolate_call list" where
  "lowMemoryNotification linux ptr =
     (case ptr of
        None \<Rightarrow> []
      | Some iw \<Rightarrow> [ContextDisposedNotification, if linux then RequestGarbageCollectionForTesting else LowMemoryNotification])"

text \<open>\<open>Execute\<close> hands on what \<open>Execution\<close> returns; it holds of the results a run can end with.\<close>

definition Execute ::
  "'h engine \<Rightarrow> Sandbox \<Rightarrow> c_heap \<Rightarrow> int \<Rightarrow> ValueTuple \<Rightarrow> Sandbox \<Rightarrow> c_heap \<Rightarrow> bool" where
  "Execute E sbx h expireTime ret sbx' h' \<longleftrightarrow>
     (\<exists>s. exec_reach E expireTime (Execution_start sbx h) s \<and> x_main s = MReturned \<and>
          ret = x_res s \<and> sbx' = x_sbx s \<and> h' = x_heap s)"

section \<open>The Go sandbox\<close>

definition ErrResultTooLong :: string where
  "ErrResultTooLong = ''result too long''"

text \<open>
  \<^verbatim>\<open>Execute\<close> of \<^verbatim>\<open>sandbox.go\<close>, from the return of the C++ function on: the result is read, and the two deferred
  calls free the error and then the value.
\<close>

definition go_Execute_result ::
  "ValueTuple \<Rightarrow> c_heap \<Rightarrow> ((string \<times> size_t \<times> string option) \<times> c_heap) option" where
  "go_Execute_result rs h =
     Option.bind
       (if sint (cstr_size (vt_Value rs)) > int resultMaxLength then Some ([], Some ErrResultTooLong)
        else
          Option.bind (GoString h (vt_Value rs)) (\<lambda>result.
            if cstr_data (vt_Err rs) \<noteq> None
            then Option.bind (GoString h (vt_Err rs)) (\<lambda>e. Some (result, Some e))
            else Some (result, None))) (\<lambda>(result, err).
     Option.bind (c_free (cstr_data (vt_Err rs)) h) (\<lambda>h1.
     Option.bind (c_free (cstr_data (vt_Value rs)) h1) (\<lambda>h2.
     Some ((result, vt_gasUsed rs, err), h2))))"

datatype vmPoolType = CompileVMPool | RunVMPool

fun pool_type_int :: "vmPoolType \<Rightarrow> c_int" where
  "pool_type_int CompileVMPool = 0"
| "pool_type_int RunVMPool = 1"

text \<open>What creating a sandbox takes from its surroundings.\<close>

record 'h surroundings =
  su_engine :: "'h engine"
  su_pointers :: "'h pointers"
  su_envJsLib :: string
  su_v8_heap :: size_t
  su_host :: 'h

record 'h GoSandbox =
  sb_flags :: "64 word"
  sb_context :: "'h world option"

definition go_NewSandbox ::
  "'h surroundings \<Rightarrow> string \<Rightarrow> vmPoolType \<Rightarrow> IsolateWrapper \<Rightarrow> 64 word \<Rightarrow> c_heap \<Rightarrow> ('h GoSandbox \<times> c_heap) option" where
  "go_NewSandbox S path ty iw flags h =
     (let (cPath, h1) = CString path h;
          (context, w) = newSandbox (su_engine S) (su_pointers S) iw flags (su_v8_heap S) (su_host S) h1 in
      Option.bind (c_string_at (w_heap w) cPath) (\<lambda>p.
      Option.bind (setJSPath p w) (\<lambda>w1.
      Option.bind (loadVM (su_engine S) libjs_vm_js (su_envJsLib S) False (pool_type_int ty) w1) (\<lambda>w2.
      Option.bind (c_free cPath (w_heap w2)) (\<lambda>h2.
      Some (\<lparr>sb_flags = flags, sb_context = Some w2\<rparr>, h2))))))"

definition go_Release :: "'h GoSandbox \<Rightarrow> c_heap \<Rightarrow> ('h GoSandbox \<times> c_heap) option" where
  "go_Release s h =
     (case sb_context s of
        None \<Rightarrow> Some (s, h)
      | Some w \<Rightarrow> Option.bind (releaseSandbox False (w\<lparr>w_heap := h\<rparr>)) (\<lambda>h1. Some (s\<lparr>sb_context := None\<rparr>, h1)))"

section \<open>The virtual machine\<close>

record 'h VM =
  vm_isolate :: "(nat \<times> IsolateWrapper) option"
  vm_sandbox :: "'h GoSandbox option"
  vm_vmType :: vmPoolType
  vm_jsPath :: string
  vm_refCount :: int

definition vmRefLimit :: int where
  "vmRefLimit = 60"

definition fresh_sandbox :: "'h surroundings \<Rightarrow> 'h VM \<Rightarrow> 64 word \<Rightarrow> c_heap \<Rightarrow> ('h VM \<times> c_heap) option" where
  "fresh_sandbox S e flags h =
     (case vm_isolate e of
        None \<Rightarrow> None
      | Some (p, iw) \<Rightarrow>
          map_option (\<lambda>(sb, h1). (e\<lparr>vm_sandbox := Some sb\<rparr>, h1))
            (go_NewSandbox S (vm_jsPath e) (vm_vmType e) iw flags h))"

definition drop_sandbox :: "'h VM \<Rightarrow> c_heap \<Rightarrow> ('h VM \<times> c_heap) option" where
  "drop_sandbox e h =
     (case vm_sandbox e of
        None \<Rightarrow> Some (e, h)
      | Some sb \<Rightarrow> map_option (\<lambda>(sb', h1). (e\<lparr>vm_sandbox := Some sb'\<rparr>, h1)) (go_Release sb h))"

definition NewVM ::
  "'h surroundings \<Rightarrow> (vmPoolType \<Rightarrow> CustomStartupData) \<Rightarrow> vmPoolType \<Rightarrow> string \<Rightarrow> c_heap \<Rightarrow> ('h VM \<times> c_heap) option" where
  "NewVM S data ty path h =
     (let (iso, params, h1) = newIsolate (data ty) h in
      fresh_sandbox S \<lparr>vm_isolate = Some iso, vm_sandbox = None, vm_vmType = ty, vm_jsPath = path, vm_refCount = 0\<rparr> 1 h1)"

text \<open>A machine without a sandbox has no flags to ask for.\<close>

definition EnsureFlags :: "'h surroundings \<Rightarrow> 64 word \<Rightarrow> 'h VM \<Rightarrow> c_heap \<Rightarrow> ('h VM \<times> c_heap) option" where
  "EnsureFlags S flags e h =
     (case vm_sandbox e of
        None \<Rightarrow> None
      | Some sb \<Rightarrow>
          if sb_flags sb \<noteq> flags then Option.bind (drop_sandbox e h) (\<lambda>(e1, h1). fresh_sandbox S e1 flags h1)
          else Some (e, h))"

text \<open>
  \<open>r\<close> is the random number; a remainder by zero panics. A machine that keeps its isolate only asks the engine
  to collect garbage (\<open>lowMemoryNotification\<close>), which none of the states here shows.
\<close>

definition recycle ::
  "'h surroundings \<Rightarrow> (vmPoolType \<Rightarrow> CustomStartupData) \<Rightarrow> vmPoolType \<Rightarrow> int \<Rightarrow> 'h VM \<Rightarrow> c_heap \<Rightarrow> ('h VM \<times> c_heap) option" where
  "recycle S data ty r e h =
     Option.bind (drop_sandbox e h) (\<lambda>(e1, h1).
     let d = vmRefLimit - vm_refCount e1 in
     if d = 0 then None
     else
       Option.bind
         (if r mod d = 0 then
            Option.bind (releaseIsolate (vm_isolate e1) h1) (\<lambda>h2.
              let e2 = (if vm_isolate e1 \<noteq> None then e1\<lparr>vm_refCount := 0\<rparr> else e1);
                  (iso, params, h3) = newIsolate (data ty) h2
              in Some (e2\<lparr>vm_isolate := Some iso\<rparr>, h3))
          else Some (e1, h1))
         (\<lambda>(e3, h3). case vm_sandbox e3 of None \<Rightarrow> None | Some sb \<Rightarrow> fresh_sandbox S e3 (sb_flags sb) h3))"

definition vm_release :: "'h VM \<Rightarrow> c_heap \<Rightarrow> ('h VM \<times> c_heap) option" where
  "vm_release e h =
     Option.bind (drop_sandbox e h) (\<lambda>(e1, h1).
     Option.bind (releaseIsolate (vm_isolate e1) h1) (\<lambda>h2.
     Some (e1\<lparr>vm_sandbox := None, vm_isolate := None\<rparr>, h2)))"

section \<open>The pool\<close>

text \<open>
  One of the two channels, with the machines that are in use. Taking from an empty channel and
  sending to a full one block, so the step is not enabled.
\<close>

record 'h VMPool =
  pl_type :: vmPoolType
  pl_size :: nat
  pl_buff :: "'h VM list"
  pl_busy :: "'h VM list"
  pl_heap :: c_heap

definition getVM :: "'h surroundings \<Rightarrow> 64 word option \<Rightarrow> 'h VMPool \<Rightarrow> 'h VMPool option" where
  "getVM S flags p =
     (case pl_buff p of
        [] \<Rightarrow> None
      | e # rest \<Rightarrow>
          let e1 = e\<lparr>vm_refCount := vm_refCount e + 1\<rparr> in
          map_option (\<lambda>(e2, h). p\<lparr>pl_buff := rest, pl_busy := pl_busy p @ [e2], pl_heap := h\<rparr>)
            (case flags of None \<Rightarrow> Some (e1, pl_heap p) | Some fl \<Rightarrow> EnsureFlags S fl e1 (pl_heap p)))"

definition putVM ::
  "'h surroundings \<Rightarrow> (vmPoolType \<Rightarrow> CustomStartupData) \<Rightarrow> nat \<Rightarrow> int \<Rightarrow> 'h VMPool \<Rightarrow> 'h VMPool option" where
  "putVM S data i r p =
     (if i < length (pl_busy p) \<and> length (pl_buff p) < pl_size p then
        map_option (\<lambda>(e, h). p\<lparr>pl_buff := pl_buff p @ [e], pl_busy := take i (pl_busy p) @ drop (Suc i) (pl_busy p), pl_heap := h\<rparr>)
          (recycle S data (pl_type p) r (pl_busy p ! i) (pl_heap p))
      else None)"

fun fill ::
  "'h surroundings \<Rightarrow> (vmPoolType \<Rightarrow> CustomStartupData) \<Rightarrow> vmPoolType \<Rightarrow> string \<Rightarrow> nat \<Rightarrow> c_heap \<Rightarrow> ('h VM list \<times> c_heap) option" where
  "fill S data ty path 0 h = Some ([], h)"
| "fill S data ty path (Suc n) h =
     Option.bind (NewVM S data ty path h) (\<lambda>(e, h1).
     map_option (\<lambda>(es, h2). (e # es, h2)) (fill S data ty path n h1))"

definition pool_Init ::
  "'h surroundings \<Rightarrow> (vmPoolType \<Rightarrow> CustomStartupData) \<Rightarrow> vmPoolType \<Rightarrow> string \<Rightarrow> nat \<Rightarrow> c_heap \<Rightarrow> 'h VMPool option" where
  "pool_Init S data ty path n h =
     map_option (\<lambda>(es, h1). \<lparr>pl_type = ty, pl_size = n, pl_buff = es, pl_busy = [], pl_heap = h1\<rparr>)
       (fill S data ty path n h)"

end
