(* ===== verification/VmLaws.thy ===== *)
theory VmLaws
  imports VmLifecycle
begin

text \<open>
  What a virtual machine leaves behind: every isolate that is created costs three objects that
  are never released, and nothing else is left when the machine is released. The pool neither
  loses a machine nor blocks when it takes one back, and the remainder in \<open>recycle\<close> is never by zero.
\<close>

section \<open>The result of a run\<close>

lemma copied_block: "copied h c e \<Longrightarrow> \<exists>a bs. cstr_data c = Some a \<and> blocks h a = Some (NewArr bs)"
  by (auto simp: copied_def copyString_def Let_def heap_simps split: if_splits)

text \<open>The buffers of a result come from \<^verbatim>\<open>new[]\<close> and are given to \<^verbatim>\<open>free\<close>.\<close>

lemma result_mismatch:
  assumes "Execute E sbx h t rs sbx' h'" and "heap_ok h"
  shows "go_Execute_result rs h' = None"
proof -
  obtain s where s: "exec_reach E t (Execution_start sbx h) s" "x_main s = MReturned" "rs = x_res s" "h' = x_heap s"
    using assms(1) by (auto simp: Execute_def)
  have "exec_inv t s" using exec_reach_inv [OF s(1) exec_inv_start [OF assms(2)]] .
  then have "value_taken s \<or> error_taken t s" using s(2) by (auto simp: exec_inv_def polling_def)
  then obtain a bs where "blocks h' a = Some (NewArr bs)"
    "cstr_data (vt_Err rs) = Some a \<or> cstr_data (vt_Err rs) = None \<and> cstr_data (vt_Value rs) = Some a"
    using copied_block s(3,4) by (fastforce simp: value_taken_def error_taken_def null_CStr_def)
  then show ?thesis by (auto simp: go_Execute_result_def c_free_def bind_eq_None_conv)
qed

section \<open>Ownership through the Go sandbox\<close>

text \<open>
  What the VM scripts do to a sandbox: they run to an end, and keep its blocks and its pointers.
\<close>

definition same_owner :: "'h world \<Rightarrow> 'h world \<Rightarrow> bool" where
  "same_owner w w' \<longleftrightarrow>
     (heap_ok (w_heap w) \<longrightarrow> heap_ok (w_heap w')) \<and> blocks (w_heap w') = blocks (w_heap w) \<and>
     jsPath (w_sbx w') = jsPath (w_sbx w) \<and> objs_of w' = objs_of w"

definition scripts_ok :: "'h engine \<Rightarrow> bool" where
  "scripts_ok E \<longleftrightarrow>
     (\<forall>s f w. same_owner w (snd (eng_Compile E s f w))) \<and>
     (\<forall>s f w. \<exists>r w'. eng_Run E s f w = Some (r, w') \<and> same_owner w w')"

lemma sandbox_owns_same: "same_owner w w' \<Longrightarrow> sandbox_owns w rest \<Longrightarrow> sandbox_owns w' rest"
  by (auto simp: same_owner_def sandbox_owns_def owns_blocks_def cong: if_cong)

lemma same_owner_trans: "same_owner w w' \<Longrightarrow> same_owner w' w'' \<Longrightarrow> same_owner w w''"
  by (simp add: same_owner_def)

lemma run_script_owner: "scripts_ok E \<Longrightarrow> \<exists>w'. run_script E src f w = Some w' \<and> same_owner w w'"
proof -
  assume ok: "scripts_ok E"
  obtain b w1 where c: "eng_Compile E (js_of_c E src) (js_of_c E f) w = (b, w1)" by force
  have 1: "same_owner w w1" using ok c unfolding scripts_ok_def by (metis snd_conv)
  obtain r w2 where r: "eng_Run E (js_of_c E src) (js_of_c E f) w1 = Some (r, w2)" "same_owner w1 w2"
    using ok unfolding scripts_ok_def by blast
  show ?thesis
    using c r 1 same_owner_trans [OF 1 r(2)] by (cases b) (auto simp: run_script_def)
qed

lemma loadVM_owner:
  assumes "scripts_ok E"
  shows "\<exists>w'. loadVM E a b False ty w = Some w' \<and> same_owner w w'"
proof -
  obtain w1 where 1: "run_script E a ''vm.js'' w = Some w1" "same_owner w w1"
    using run_script_owner [OF assms] by blast
  obtain w2 where 2: "run_script E b ''env.js'' w1 = Some w2" "same_owner w1 w2"
    using run_script_owner [OF assms] by blast
  show ?thesis
    using 1 2 same_owner_trans [OF 1(2) 2(2)] by (auto simp: loadVM_def same_owner_def)
qed

lemma sandbox_owns_rest:
  "sandbox_owns w rest \<Longrightarrow> rest a \<noteq> None \<Longrightarrow> blocks (w_heap w) a = rest a"
  using owns_blocks_rest by (fastforce simp: sandbox_owns_def)

lemma objs_of_heap [simp]: "objs_of (w\<lparr>w_heap := h\<rparr>) = objs_of w"
  by (simp add: objs_of_def)

lemma sandbox_owns_free:
  assumes "sandbox_owns w rest" and "rest a = Some (Malloc s)"
  shows "\<exists>h. c_free (Some a) (w_heap w) = Some h \<and> sandbox_owns (w\<lparr>w_heap := h\<rparr>) (rest(a := None))"
proof -
  have "blocks (w_heap w) a = Some (Malloc s)" using sandbox_owns_rest [OF assms(1), of a] assms(2) by simp
  then show ?thesis
    using assms owns_blocks_free_rest by (fastforce simp: sandbox_owns_def c_free_malloc)
qed

lemma go_NewSandbox_owns:
  assumes "heap_ok h" and "scripts_ok (su_engine S)"
  shows "\<exists>w h'. go_NewSandbox S path ty iw flags h = Some (\<lparr>sb_flags = flags, sb_context = Some w\<rparr>, h') \<and>
           sandbox_owns (w\<lparr>w_heap := h'\<rparr>) (blocks h)"
proof -
  let ?h1 = "alloc (Malloc (path @ [NUL])) h"
  obtain cx w where w: "newSandbox (su_engine S) (su_pointers S) iw flags (su_v8_heap S) (su_host S) ?h1 = (cx, w)" by force
  have own: "sandbox_owns w (blocks ?h1)" using newSandbox_owns [of ?h1] assms(1) w by (metis heap_ok_alloc snd_conv)
  have fresh: "blocks h (brk h) = None" using assms(1) by (rule heap_ok_fresh)
  have b: "blocks ?h1 (brk h) = Some (Malloc (path @ [NUL]))" by (simp add: heap_simps)
  then have "blocks (w_heap w) (brk h) = Some (Malloc (path @ [NUL]))"
    using sandbox_owns_rest [OF own, of "brk h"] by simp
  then have p: "c_string_at (w_heap w) (Some (brk h)) = Some (c_trunc path)" by (simp add: c_string_at_def)
  obtain w1 where 1: "setJSPath (c_trunc path) w = Some w1" "sandbox_owns w1 (blocks ?h1)"
    using setJSPath_owns [OF own] by blast
  obtain w2 where 2: "loadVM (su_engine S) libjs_vm_js (su_envJsLib S) False (pool_type_int ty) w1 = Some w2" "same_owner w1 w2"
    using loadVM_owner [OF assms(2)] by blast
  obtain h2 where 3: "c_free (Some (brk h)) (w_heap w2) = Some h2" "sandbox_owns (w2\<lparr>w_heap := h2\<rparr>) ((blocks ?h1)(brk h := None))"
    using sandbox_owns_free [OF sandbox_owns_same [OF 2(2) 1(2)] b] by blast
  have "(blocks ?h1)(brk h := None) = blocks h" using fresh by (simp add: heap_simps fun_eq_iff)
  then show ?thesis
    using w p 1 2 3 by (auto simp: go_NewSandbox_def CString_def)
qed

lemma go_Release_owns:
  assumes "sb_context sb = Some w" and "sandbox_owns (w\<lparr>w_heap := h\<rparr>) rest"
  shows "\<exists>h'. go_Release sb h = Some (sb\<lparr>sb_context := None\<rparr>, h') \<and> blocks h' = rest \<and> heap_ok h'"
  using releaseSandbox_owns [OF assms(2)] assms(1) by (auto simp: go_Release_def)

section \<open>What a machine owns, and what it leaks\<close>

text \<open>Three objects for each of \<open>n\<close> isolates, at addresses that were free.\<close>

definition leaks :: "nat \<Rightarrow> (nat \<Rightarrow> block option) \<Rightarrow> (nat \<Rightarrow> block option) \<Rightarrow> bool" where
  "leaks n b b' \<longleftrightarrow>
     (\<exists>L. finite L \<and> card L = 3 * n \<and> (\<forall>a \<in> L. b a = None \<and> (\<exists>c. b' a = Some (NewObj c))) \<and> (\<forall>a. a \<notin> L \<longrightarrow> b' a = b a))"

lemma leaks_0 [simp]: "leaks 0 b b"
  unfolding leaks_def by (rule exI [of _ "{}"]) simp

lemma leaks_add:
  assumes "leaks m b b1" and "leaks n b1 b2"
  shows "leaks (m + n) b b2"
proof -
  obtain L where L: "finite L" "card L = 3 * m" "\<And>a. a \<in> L \<Longrightarrow> b a = None" "\<And>a. a \<in> L \<Longrightarrow> \<exists>c. b1 a = Some (NewObj c)"
    "\<And>a. a \<notin> L \<Longrightarrow> b1 a = b a"
    using assms(1) unfolding leaks_def by blast
  obtain M where M: "finite M" "card M = 3 * n" "\<And>a. a \<in> M \<Longrightarrow> b1 a = None" "\<And>a. a \<in> M \<Longrightarrow> \<exists>c. b2 a = Some (NewObj c)"
    "\<And>a. a \<notin> M \<Longrightarrow> b2 a = b1 a"
    using assms(2) unfolding leaks_def by blast
  have disj: "a \<notin> M" if "a \<in> L" for a
    using L(4) [OF that] M(3) [of a] by auto
  then have "card (L \<union> M) = 3 * (m + n)" using L(1,2) M(1,2) by (subst card_Un_disjoint) auto
  moreover have "b a = None \<and> (\<exists>c. b2 a = Some (NewObj c))" if "a \<in> L \<union> M" for a
  proof (cases "a \<in> M")
    case True
    then have "b1 a = b a" using disj L(5) by blast
    then show ?thesis using True M(3,4) [of a] by simp
  next
    case False
    then show ?thesis using that L(3,4) [of a] M(5) [of a] by simp
  qed
  moreover have "b2 a = b a" if "a \<notin> L \<union> M" for a using that L(5) [of a] M(5) [of a] by simp
  ultimately show ?thesis
    unfolding leaks_def using L(1) M(1) by (intro exI [of _ "L \<union> M"] conjI) blast+
qed

definition vm_owns :: "'h VM \<Rightarrow> c_heap \<Rightarrow> (nat \<Rightarrow> block option) \<Rightarrow> bool" where
  "vm_owns e h rest \<longleftrightarrow>
     (\<exists>p iw sb w. vm_isolate e = Some (p, iw) \<and> vm_sandbox e = Some sb \<and> sb_context sb = Some w \<and>
        rest (iw_isolate iw) = None \<and>
        sandbox_owns (w\<lparr>w_heap := h\<rparr>) (rest(iw_isolate iw := Some (NewObj ''Isolate''))))"

lemma newIsolate_leaks:
  assumes "newIsolate d h = ((p, iw), params, h')" and "heap_ok h"
  shows "\<exists>rest. leaks 1 (blocks h) rest \<and> rest (iw_isolate iw) = None \<and>
           blocks h' = rest(iw_isolate iw := Some (NewObj ''Isolate'')) \<and> heap_ok h'"
proof -
  let ?b = "brk h"
  let ?rest = "(blocks h)(?b := Some (NewObj ''IsolateWrapper''), Suc ?b := Some (NewObj ''StartupData''),
    Suc (Suc ?b) := Some (NewObj ''ArrayBufferAllocator''))"
  have free: "blocks h ?b = None" "blocks h (Suc ?b) = None" "blocks h (Suc (Suc ?b)) = None" "blocks h (Suc (Suc (Suc ?b))) = None"
    using assms(2) by (simp_all add: heap_ok_def)
  have iw: "iw_isolate iw = Suc (Suc (Suc ?b))" and h': "blocks h' = ?rest(Suc (Suc (Suc ?b)) := Some (NewObj ''Isolate''))"
    using assms(1) by (auto simp: newIsolate_def new_obj_def Let_def heap_simps)
  have "heap_ok h'"
    using assms by (auto simp: newIsolate_def new_obj_def Let_def)
  moreover have "leaks 1 (blocks h) ?rest"
    unfolding leaks_def by (intro exI [of _ "{?b, Suc ?b, Suc (Suc ?b)}"]) (use free in auto)
  ultimately show ?thesis using iw h' free(4) by (intro exI [of _ ?rest]) auto
qed

lemma fresh_sandbox_owns:
  assumes "scripts_ok (su_engine S)" and "heap_ok h" and "vm_isolate e = Some (p, iw)"
    and "rest (iw_isolate iw) = None" and "blocks h = rest(iw_isolate iw := Some (NewObj ''Isolate''))"
  shows "\<exists>e' h'. fresh_sandbox S e flags h = Some (e', h') \<and> vm_owns e' h' rest \<and>
           vm_isolate e' = vm_isolate e \<and> vm_refCount e' = vm_refCount e \<and> vm_vmType e' = vm_vmType e"
proof -
  obtain w h' where "go_NewSandbox S (vm_jsPath e) (vm_vmType e) iw flags h = Some (\<lparr>sb_flags = flags, sb_context = Some w\<rparr>, h')"
    and "sandbox_owns (w\<lparr>w_heap := h'\<rparr>) (blocks h)"
    using go_NewSandbox_owns [OF assms(2,1)] by blast
  then show ?thesis using assms(3-5) by (simp add: fresh_sandbox_def vm_owns_def)
qed

lemma drop_sandbox_owns:
  assumes "vm_owns e h rest"
  shows "\<exists>e' h' p iw sb. drop_sandbox e h = Some (e', h') \<and> vm_isolate e' = Some (p, iw) \<and> vm_isolate e = Some (p, iw) \<and>
           vm_sandbox e' = Some sb \<and> vm_refCount e' = vm_refCount e \<and> rest (iw_isolate iw) = None \<and>
           blocks h' = rest(iw_isolate iw := Some (NewObj ''Isolate'')) \<and> heap_ok h'"
proof -
  obtain p iw sb w where e: "vm_isolate e = Some (p, iw)" "vm_sandbox e = Some sb" "rest (iw_isolate iw) = None"
    and w: "sb_context sb = Some w" "sandbox_owns (w\<lparr>w_heap := h\<rparr>) (rest(iw_isolate iw := Some (NewObj ''Isolate'')))"
    using assms by (auto simp: vm_owns_def)
  obtain h' where "go_Release sb h = Some (sb\<lparr>sb_context := None\<rparr>, h')"
    "blocks h' = rest(iw_isolate iw := Some (NewObj ''Isolate''))" "heap_ok h'"
    using go_Release_owns [OF w] by blast
  then show ?thesis using e by (simp add: drop_sandbox_def)
qed

lemma NewVM_owns:
  assumes "scripts_ok (su_engine S)" and "heap_ok h"
  shows "\<exists>e h' rest. NewVM S data ty path h = Some (e, h') \<and> leaks 1 (blocks h) rest \<and> vm_owns e h' rest \<and> vm_refCount e = 0"
proof -
  obtain p iw params h1 where n: "newIsolate (data ty) h = ((p, iw), params, h1)" by (metis surj_pair)
  then obtain rest where "leaks 1 (blocks h) rest" "rest (iw_isolate iw) = None"
    "blocks h1 = rest(iw_isolate iw := Some (NewObj ''Isolate''))" "heap_ok h1"
    using newIsolate_leaks [OF n assms(2)] by blast
  then show ?thesis
    using fresh_sandbox_owns [OF assms(1), of h1 "\<lparr>vm_isolate = Some (p, iw), vm_sandbox = None, vm_vmType = ty, vm_jsPath = path, vm_refCount = 0\<rparr>" p iw rest 1]
    by (auto simp: NewVM_def n)
qed

lemma EnsureFlags_owns:
  assumes "scripts_ok (su_engine S)" and "vm_owns e h rest"
  shows "\<exists>e' h'. EnsureFlags S flags e h = Some (e', h') \<and> vm_owns e' h' rest \<and> vm_refCount e' = vm_refCount e"
proof -
  obtain e1 h1 p iw sb where d: "drop_sandbox e h = Some (e1, h1)" "vm_isolate e1 = Some (p, iw)" "vm_refCount e1 = vm_refCount e"
    and r: "rest (iw_isolate iw) = None" "blocks h1 = rest(iw_isolate iw := Some (NewObj ''Isolate''))" "heap_ok h1"
    using drop_sandbox_owns [OF assms(2)] by blast
  obtain e2 h2 where f: "fresh_sandbox S e1 flags h1 = Some (e2, h2)" "vm_owns e2 h2 rest" "vm_refCount e2 = vm_refCount e1"
    using fresh_sandbox_owns [OF assms(1) r(3) d(2) r(1,2), of flags] by blast
  obtain sb0 where "vm_sandbox e = Some sb0" using assms(2) by (auto simp: vm_owns_def)
  then show ?thesis
    using d f assms(2) by (cases "sb_flags sb0 = flags") (simp_all add: EnsureFlags_def)
qed

text \<open>Whether the random number asks for a new isolate.\<close>

definition renews :: "int \<Rightarrow> 'h VM \<Rightarrow> bool" where
  "renews r e \<longleftrightarrow> r mod (vmRefLimit - vm_refCount e) = 0"

lemma recycle_owns:
  assumes "scripts_ok (su_engine S)" and "vm_owns e h rest" and "vm_refCount e \<noteq> vmRefLimit"
  shows "\<exists>e' h' rest'. recycle S data ty r e h = Some (e', h') \<and> vm_owns e' h' rest' \<and>
           leaks (if renews r e then 1 else 0) rest rest' \<and> vm_refCount e' = (if renews r e then 0 else vm_refCount e)"
proof -
  obtain e1 h1 p iw sb where d: "drop_sandbox e h = Some (e1, h1)" "vm_isolate e1 = Some (p, iw)" "vm_refCount e1 = vm_refCount e"
    and sb: "vm_sandbox e1 = Some sb"
    and r: "rest (iw_isolate iw) = None" "blocks h1 = rest(iw_isolate iw := Some (NewObj ''Isolate''))" "heap_ok h1"
    using drop_sandbox_owns [OF assms(2)] by blast
  show ?thesis
  proof (cases "renews r e")
    case False
    obtain e2 h2 where "fresh_sandbox S e1 (sb_flags sb) h1 = Some (e2, h2)" "vm_owns e2 h2 rest" "vm_refCount e2 = vm_refCount e1"
      using fresh_sandbox_owns [OF assms(1) r(3) d(2) r(1,2), of "sb_flags sb"] by blast
    then show ?thesis
      using d sb False assms(3) by (auto simp: recycle_def renews_def Let_def)
  next
    case True
    let ?h2 = "h1\<lparr>blocks := (blocks h1)(iw_isolate iw := None)\<rparr>"
    have rel: "releaseIsolate (vm_isolate e1) h1 = Some ?h2"
      using d(2) r(2) by (simp add: releaseIsolate_def delete_obj_def)
    have h2: "blocks ?h2 = rest" "heap_ok ?h2" using r heap_ok_remove [of h1] by (auto simp: fun_eq_iff)
    obtain p' iw' params h3 where n: "newIsolate (data ty) ?h2 = ((p', iw'), params, h3)" by (metis surj_pair)
    obtain rest' where l: "leaks 1 rest rest'" "rest' (iw_isolate iw') = None"
      "blocks h3 = rest'(iw_isolate iw' := Some (NewObj ''Isolate''))" "heap_ok h3"
      using newIsolate_leaks [OF n h2(2)] h2(1) by auto
    let ?e3 = "e1\<lparr>vm_refCount := 0, vm_isolate := Some (p', iw')\<rparr>"
    obtain e2 h4 where "fresh_sandbox S ?e3 (sb_flags sb) h3 = Some (e2, h4)" "vm_owns e2 h4 rest'" "vm_refCount e2 = 0"
      using fresh_sandbox_owns [OF assms(1) l(4), of ?e3 p' iw' rest' "sb_flags sb"] l by auto
    then show ?thesis
      using d sb True assms(3) rel n l by (auto simp: recycle_def renews_def Let_def)
  qed
qed

lemma vm_release_owns:
  assumes "vm_owns e h rest"
  shows "\<exists>e' h'. vm_release e h = Some (e', h') \<and> blocks h' = rest"
proof -
  obtain e1 h1 p iw sb where d: "drop_sandbox e h = Some (e1, h1)" "vm_isolate e1 = Some (p, iw)"
    and r: "rest (iw_isolate iw) = None" "blocks h1 = rest(iw_isolate iw := Some (NewObj ''Isolate''))" "heap_ok h1"
    using drop_sandbox_owns [OF assms] by blast
  then show ?thesis
    by (auto simp: vm_release_def releaseIsolate_def delete_obj_def fun_eq_iff)
qed

section \<open>The life of a machine\<close>

text \<open>
  A turn of the pool: the machine is taken for a call with some flags and recycled afterwards.
  The number of new isolates is counted along the way.
\<close>

fun turns ::
  "'h surroundings \<Rightarrow> (vmPoolType \<Rightarrow> CustomStartupData) \<Rightarrow> vmPoolType \<Rightarrow> (64 word \<times> int) list \<Rightarrow> 'h VM \<Rightarrow> c_heap \<Rightarrow>
     ('h VM \<times> c_heap \<times> nat) option" where
  "turns S data ty [] e h = Some (e, h, 0)"
| "turns S data ty ((flags, r) # ts) e h =
     Option.bind (EnsureFlags S flags (e\<lparr>vm_refCount := vm_refCount e + 1\<rparr>) h) (\<lambda>(e1, h1).
     Option.bind (recycle S data ty r e1 h1) (\<lambda>(e2, h2).
     map_option (\<lambda>(e3, h3, k). (e3, h3, k + (if renews r e1 then 1 else 0))) (turns S data ty ts e2 h2)))"

lemma renews_at_limit: "vm_refCount e = 59 \<Longrightarrow> renews r e"
  by (simp add: renews_def vmRefLimit_def)

lemma turns_owns:
  assumes "scripts_ok (su_engine S)"
  shows "vm_owns e h rest \<Longrightarrow> 0 \<le> vm_refCount e \<Longrightarrow> vm_refCount e \<le> 58 \<Longrightarrow>
    \<exists>e' h' k rest'. turns S data ty ts e h = Some (e', h', k) \<and> vm_owns e' h' rest' \<and> leaks k rest rest'"
proof (induction ts arbitrary: e h rest)
  case Nil
  then show ?case by force
next
  case (Cons t ts)
  obtain flags r where t: "t = (flags, r)" by force
  let ?e = "e\<lparr>vm_refCount := vm_refCount e + 1\<rparr>"
  have "vm_owns ?e h rest" using Cons.prems(1) by (simp add: vm_owns_def)
  then obtain e1 h1 where 1: "EnsureFlags S flags ?e h = Some (e1, h1)" "vm_owns e1 h1 rest" "vm_refCount e1 = vm_refCount e + 1"
    using EnsureFlags_owns [OF assms] by fastforce
  obtain e2 h2 rest2 where 2: "recycle S data ty r e1 h1 = Some (e2, h2)" "vm_owns e2 h2 rest2"
    "leaks (if renews r e1 then 1 else 0) rest rest2" "vm_refCount e2 = (if renews r e1 then 0 else vm_refCount e1)"
    using recycle_owns [OF assms 1(2)] 1(3) Cons.prems by (fastforce simp: vmRefLimit_def)
  have "renews r e1 \<or> vm_refCount e1 \<noteq> 59" using renews_at_limit by blast
  then have "0 \<le> vm_refCount e2" "vm_refCount e2 \<le> 58"
    using 2(4) 1(3) Cons.prems by (cases "renews r e1"; simp)+
  then obtain e3 h3 k rest3 where 3: "turns S data ty ts e2 h2 = Some (e3, h3, k)" "vm_owns e3 h3 rest3" "leaks k rest2 rest3"
    using Cons.IH [OF 2(2)] by blast
  show ?case
    using t 1(1) 2(1) 3 leaks_add [OF 2(3) 3(3)] by (auto simp: add.commute)
qed

lemma vm_life_leaks:
  assumes "scripts_ok (su_engine S)" and "heap_ok h"
  shows "\<exists>e h1 e2 h2 k e3 h3. NewVM S data ty path h = Some (e, h1) \<and> turns S data ty ts e h1 = Some (e2, h2, k) \<and>
           vm_release e2 h2 = Some (e3, h3) \<and> leaks (k + 1) (blocks h) (blocks h3)"
proof -
  obtain e h1 rest where 1: "NewVM S data ty path h = Some (e, h1)" "leaks 1 (blocks h) rest" "vm_owns e h1 rest" "vm_refCount e = 0"
    using NewVM_owns [OF assms] by blast
  obtain e2 h2 k rest2 where 2: "turns S data ty ts e h1 = Some (e2, h2, k)" "vm_owns e2 h2 rest2" "leaks k rest rest2"
    using turns_owns [OF assms(1) 1(3), where data = data and ty = ty and ts = ts] 1(4) by auto
  obtain e3 h3 where 3: "vm_release e2 h2 = Some (e3, h3)" "blocks h3 = rest2"
    using vm_release_owns [OF 2(2)] by blast
  show ?thesis
    using 1 2 3 leaks_add [OF 1(2) 2(3)] by auto
qed

section \<open>The pool\<close>

definition vm_pool_ok :: "'h VMPool \<Rightarrow> bool" where
  "vm_pool_ok p \<longleftrightarrow>
     length (pl_buff p) + length (pl_busy p) = pl_size p \<and>
     (\<forall>e \<in> set (pl_buff p). vm_isolate e \<noteq> None \<and> 0 \<le> vm_refCount e \<and> vm_refCount e < vmRefLimit - 1) \<and>
     (\<forall>e \<in> set (pl_busy p). vm_isolate e \<noteq> None \<and> 0 < vm_refCount e \<and> vm_refCount e < vmRefLimit)"

definition keeps_vm :: "'h VM \<Rightarrow> 'h VM \<Rightarrow> bool" where
  "keeps_vm e e' \<longleftrightarrow> vm_refCount e' = vm_refCount e \<and> vm_isolate e' = vm_isolate e"

lemma drop_sandbox_keeps: "drop_sandbox e h = Some (e', h') \<Longrightarrow> keeps_vm e e'"
  by (cases "vm_sandbox e") (auto simp: drop_sandbox_def keeps_vm_def)

lemma fresh_sandbox_keeps: "fresh_sandbox S e flags h = Some (e', h') \<Longrightarrow> keeps_vm e e'"
  by (cases "vm_isolate e") (auto simp: fresh_sandbox_def keeps_vm_def)

lemma EnsureFlags_keeps:
  assumes "EnsureFlags S flags e h = Some (e', h')"
  shows "keeps_vm e e'"
proof (cases "vm_sandbox e")
  case (Some sb)
  show ?thesis
  proof (cases "sb_flags sb = flags")
    case False
    then obtain e1 h1 where "drop_sandbox e h = Some (e1, h1)" "fresh_sandbox S e1 flags h1 = Some (e', h')"
      using assms Some by (auto simp: EnsureFlags_def bind_eq_Some_conv)
    then show ?thesis using drop_sandbox_keeps fresh_sandbox_keeps by (fastforce simp: keeps_vm_def)
  qed (use assms Some in \<open>simp add: EnsureFlags_def keeps_vm_def\<close>)
qed (use assms in \<open>simp add: EnsureFlags_def\<close>)

lemma recycle_ref:
  assumes rec: "recycle S data ty r e h = Some (e', h')" and iso: "vm_isolate e \<noteq> None"
  shows "vm_refCount e' = (if renews r e then 0 else vm_refCount e)" "vm_isolate e' \<noteq> None" "vm_refCount e \<noteq> vmRefLimit"
proof -
  obtain e1 h1 where d: "drop_sandbox e h = Some (e1, h1)"
    using rec by (auto simp: recycle_def bind_eq_Some_conv)
  have k: "vm_refCount e1 = vm_refCount e" "vm_isolate e1 = vm_isolate e"
    using drop_sandbox_keeps [OF d] by (simp_all add: keeps_vm_def)
  show ne: "vm_refCount e \<noteq> vmRefLimit" using rec d k by (auto simp: recycle_def)
  have "vm_refCount e' = (if renews r e then 0 else vm_refCount e) \<and> vm_isolate e' \<noteq> None"
  proof (cases "renews r e")
    case False
    then obtain fl where "fresh_sandbox S e1 fl h1 = Some (e', h')"
      using rec d k ne by (cases "vm_sandbox e1") (auto simp: recycle_def renews_def)
    then show ?thesis using fresh_sandbox_keeps k iso False by (fastforce simp: keeps_vm_def)
  next
    case True
    then obtain h2 where rel: "releaseIsolate (vm_isolate e1) h1 = Some h2"
      using rec d k ne by (cases "releaseIsolate (vm_isolate e1) h1") (auto simp: recycle_def renews_def)
    obtain i params h3 where n: "newIsolate (data ty) h2 = (i, params, h3)" by (metis surj_pair)
    obtain fl where "fresh_sandbox S (e1\<lparr>vm_refCount := 0, vm_isolate := Some i\<rparr>) fl h3 = Some (e', h')"
      using rec d k ne rel n True iso by (cases "vm_sandbox e1") (auto simp: recycle_def renews_def)
    then show ?thesis using fresh_sandbox_keeps True by (fastforce simp: keeps_vm_def)
  qed
  then show "vm_refCount e' = (if renews r e then 0 else vm_refCount e)" "vm_isolate e' \<noteq> None" by simp_all
qed

lemma getVM_ok:
  assumes "vm_pool_ok p" and "getVM S flags p = Some p'"
  shows "vm_pool_ok p'"
proof -
  obtain e rest where b: "pl_buff p = e # rest" using assms(2) by (cases "pl_buff p") (auto simp: getVM_def)
  let ?e = "e\<lparr>vm_refCount := vm_refCount e + 1\<rparr>"
  obtain e2 where "keeps_vm ?e e2" "pl_buff p' = rest" "pl_busy p' = pl_busy p @ [e2]" "pl_size p' = pl_size p"
  proof (cases flags)
    case None
    then show ?thesis using assms(2) b that [of ?e] by (auto simp: getVM_def keeps_vm_def)
  next
    case (Some fl)
    then show ?thesis using assms(2) b that EnsureFlags_keeps by (fastforce simp: getVM_def)
  qed
  then show ?thesis
    using assms(1) b by (auto simp: vm_pool_ok_def keeps_vm_def vmRefLimit_def)
qed

lemma putVM_ok:
  assumes "vm_pool_ok p" and "putVM S data i r p = Some p'"
  shows "vm_pool_ok p'"
proof -
  have i: "i < length (pl_busy p)" using assms(2) by (auto simp: putVM_def split: if_splits)
  let ?e = "pl_busy p ! i"
  obtain e h where rec: "recycle S data (pl_type p) r ?e (pl_heap p) = Some (e, h)"
    and p': "p' = p\<lparr>pl_buff := pl_buff p @ [e], pl_busy := take i (pl_busy p) @ drop (Suc i) (pl_busy p), pl_heap := h\<rparr>"
    using assms(2) by (auto simp: putVM_def split: if_splits)
  have e: "vm_isolate ?e \<noteq> None" "0 < vm_refCount ?e" "vm_refCount ?e < vmRefLimit"
    using assms(1) i by (auto simp: vm_pool_ok_def)
  have "renews r ?e \<or> vm_refCount ?e \<noteq> 59" using renews_at_limit by blast
  then have "vm_isolate e \<noteq> None" "0 \<le> vm_refCount e" "vm_refCount e < vmRefLimit - 1"
    using recycle_ref [OF rec e(1)] e by (cases "renews r ?e"; simp add: vmRefLimit_def)+
  moreover have "set (take i (pl_busy p)) \<subseteq> set (pl_busy p)" "set (drop (Suc i) (pl_busy p)) \<subseteq> set (pl_busy p)"
    by (rule set_take_subset set_drop_subset)+
  ultimately show ?thesis
    using assms(1) i p' by (auto simp: vm_pool_ok_def)
qed

text \<open>Giving a machine back is never held up by a full channel or stopped by a remainder by zero.\<close>

lemma putVM_enabled:
  assumes "vm_pool_ok p" and "i < length (pl_busy p)"
  shows "length (pl_buff p) < pl_size p" "vm_refCount (pl_busy p ! i) \<noteq> vmRefLimit"
proof -
  have "pl_busy p ! i \<in> set (pl_busy p)" using assms(2) by simp
  then have "vm_refCount (pl_busy p ! i) < vmRefLimit" using assms(1) by (simp add: vm_pool_ok_def)
  then show "vm_refCount (pl_busy p ! i) \<noteq> vmRefLimit" by simp
  show "length (pl_buff p) < pl_size p" using assms by (simp add: vm_pool_ok_def)
qed

text \<open>Everything that can happen to a pool.\<close>

inductive vm_pool_run ::
  "'h surroundings \<Rightarrow> (vmPoolType \<Rightarrow> CustomStartupData) \<Rightarrow> 'h VMPool \<Rightarrow> bool" for S data where
  init: "pool_Init S data ty path n h = Some p \<Longrightarrow> vm_pool_run S data p"
| get: "vm_pool_run S data p \<Longrightarrow> getVM S flags p = Some p' \<Longrightarrow> vm_pool_run S data p'"
| put: "vm_pool_run S data p \<Longrightarrow> putVM S data i r p = Some p' \<Longrightarrow> vm_pool_run S data p'"

lemma NewVM_keeps:
  assumes "NewVM S data ty path h = Some (e, h')"
  shows "vm_isolate e \<noteq> None" "vm_refCount e = 0"
proof -
  obtain iso params h1 where "newIsolate (data ty) h = (iso, params, h1)" by (metis surj_pair)
  then have "vm_isolate e = Some iso \<and> vm_refCount e = 0"
    using assms by (auto simp: NewVM_def keeps_vm_def dest!: fresh_sandbox_keeps)
  then show "vm_isolate e \<noteq> None" "vm_refCount e = 0" by simp_all
qed

lemma fill_ok:
  "fill S data ty path n h = Some (es, h') \<Longrightarrow> length es = n \<and> (\<forall>e \<in> set es. vm_isolate e \<noteq> None \<and> vm_refCount e = 0)"
proof (induction n arbitrary: h es h')
  case (Suc n)
  then obtain e h1 es' h2 where "NewVM S data ty path h = Some (e, h1)" "fill S data ty path n h1 = Some (es', h2)" "es = e # es'"
    by (auto simp: bind_eq_Some_conv)
  then show ?case using Suc.IH [of h1 es' h2] NewVM_keeps by fastforce
qed simp

lemma vm_pool_run_ok: "vm_pool_run S data p \<Longrightarrow> vm_pool_ok p"
proof (induction rule: vm_pool_run.induct)
  case (init ty path n h p)
  then show ?case using fill_ok by (fastforce simp: pool_Init_def vm_pool_ok_def vmRefLimit_def)
next
  case (get p flags p')
  then show ?case using getVM_ok by blast
next
  case (put p i r p')
  then show ?case using putVM_ok by blast
qed

end
