(* ===== verification/LruCache.thy ===== *)
theory LruCache
  imports Database
begin

text \<open>
  \<^verbatim>\<open>vm/database/lru.go\<close> on \<^verbatim>\<open>vendor/github.com/hashicorp/golang-lru\<close>: the read cache between the write
  cache and the adapter. Reading reorders and fills it, so its operations return the next state.
  The theory shows that the layer cannot be told from the database under it and never holds more
  entries than its size, which is why the rest of the development puts the write cache on the
  adapter directly.
\<close>

section \<open>The cache of simplelru\<close>

text \<open>\<open>ca_list\<close> is \<^verbatim>\<open>evictList\<close> from front to back; \<^verbatim>\<open>items\<close> is its index and is read off it.\<close>

record Cache =
  ca_size :: nat
  ca_list :: "(string \<times> string) list"

definition cache_Get :: "Cache \<Rightarrow> string \<Rightarrow> string option \<times> Cache" where
  "cache_Get c key =
     (case map_of (ca_list c) key of
        None \<Rightarrow> (None, c)
      | Some v \<Rightarrow> (Some v, c\<lparr>ca_list := (key, v) # AList.delete key (ca_list c)\<rparr>))"

definition cache_Contains :: "Cache \<Rightarrow> string \<Rightarrow> bool" where
  "cache_Contains c key \<longleftrightarrow> map_of (ca_list c) key \<noteq> None"

definition removeOldest :: "Cache \<Rightarrow> Cache" where
  "removeOldest c = c\<lparr>ca_list := butlast (ca_list c)\<rparr>"

definition cache_Add :: "Cache \<Rightarrow> string \<Rightarrow> string \<Rightarrow> Cache" where
  "cache_Add c key value =
     (if cache_Contains c key then c\<lparr>ca_list := (key, value) # AList.delete key (ca_list c)\<rparr>
      else let c1 = c\<lparr>ca_list := (key, value) # ca_list c\<rparr> in
        if ca_size c < length (ca_list c1) then removeOldest c1 else c1)"

definition cache_Remove :: "Cache \<Rightarrow> string \<Rightarrow> Cache" where
  "cache_Remove c key = (if cache_Contains c key then c\<lparr>ca_list := AList.delete key (ca_list c)\<rparr> else c)"

definition cache_Purge :: "Cache \<Rightarrow> Cache" where
  "cache_Purge c = c\<lparr>ca_list := []\<rparr>"

section \<open>The layer\<close>

record 'b LRU =
  lru_cache :: "Cache option"
  lru_db :: 'b

definition NewLRU :: "int \<Rightarrow> 'b \<Rightarrow> 'b LRU" where
  "NewLRU len db =
     (if len \<le> 0 then \<lparr>lru_cache = None, lru_db = db\<rparr>
      else \<lparr>lru_cache = Some \<lparr>ca_size = nat len, ca_list = []\<rparr>, lru_db = db\<rparr>)"

definition lru_Get :: "'b database \<Rightarrow> 'b LRU \<Rightarrow> string \<Rightarrow> string \<times> 'b LRU" where
  "lru_Get B m key =
     (case lru_cache m of
        None \<Rightarrow> (db_Get B (lru_db m) key, m)
      | Some c \<Rightarrow>
          (case cache_Get c key of
             (Some v, c1) \<Rightarrow> (v, m\<lparr>lru_cache := Some c1\<rparr>)
           | (None, c1) \<Rightarrow>
               let value = db_Get B (lru_db m) key in
               (value,
                m\<lparr>lru_cache := Some (if value \<noteq> [] \<and> value \<noteq> ''n'' then cache_Add c1 key value else c1)\<rparr>)))"

definition lru_Put :: "'b database \<Rightarrow> 'b LRU \<Rightarrow> string \<Rightarrow> string \<Rightarrow> 'b LRU" where
  "lru_Put B m key value =
     \<lparr>lru_cache = map_option (\<lambda>c. if cache_Contains c key then cache_Add c key value else c) (lru_cache m),
      lru_db = db_Put B (lru_db m) key value\<rparr>"

definition lru_Has :: "'b database \<Rightarrow> 'b LRU \<Rightarrow> string \<Rightarrow> bool \<times> 'b LRU" where
  "lru_Has B m key =
     (case lru_cache m of
        None \<Rightarrow> (db_Has B (lru_db m) key, m)
      | Some c \<Rightarrow>
          if cache_Contains c key then (True, m)
          else if db_Has B (lru_db m) key
            then (True, m\<lparr>lru_cache := Some (cache_Add c key (db_Get B (lru_db m) key))\<rparr>)
          else (False, m))"

definition lru_Del :: "'b database \<Rightarrow> 'b LRU \<Rightarrow> string \<Rightarrow> 'b LRU" where
  "lru_Del B m key =
     \<lparr>lru_cache = map_option (\<lambda>c. cache_Remove c key) (lru_cache m), lru_db = db_Del B (lru_db m) key\<rparr>"

definition lru_Purge :: "'b LRU \<Rightarrow> 'b LRU" where
  "lru_Purge m = m\<lparr>lru_cache := map_option cache_Purge (lru_cache m)\<rparr>"

section \<open>Sequences of operations\<close>

datatype db_op = OGet string | OHas string | OPut string string | ODel string | OPurge

datatype db_answer = AValue string | ABool bool | ADone

fun lru_step :: "'b database \<Rightarrow> db_op \<Rightarrow> 'b LRU \<Rightarrow> db_answer \<times> 'b LRU" where
  "lru_step B (OGet k) m = (let (v, m') = lru_Get B m k in (AValue v, m'))"
| "lru_step B (OHas k) m = (let (b, m') = lru_Has B m k in (ABool b, m'))"
| "lru_step B (OPut k v) m = (ADone, lru_Put B m k v)"
| "lru_step B (ODel k) m = (ADone, lru_Del B m k)"
| "lru_step B OPurge m = (ADone, lru_Purge m)"

fun base_step :: "'b database \<Rightarrow> db_op \<Rightarrow> 'b \<Rightarrow> db_answer \<times> 'b" where
  "base_step B (OGet k) b = (AValue (db_Get B b k), b)"
| "base_step B (OHas k) b = (ABool (db_Has B b k), b)"
| "base_step B (OPut k v) b = (ADone, db_Put B b k v)"
| "base_step B (ODel k) b = (ADone, db_Del B b k)"
| "base_step B OPurge b = (ADone, b)"

fun run_ops :: "(db_op \<Rightarrow> 's \<Rightarrow> db_answer \<times> 's) \<Rightarrow> db_op list \<Rightarrow> 's \<Rightarrow> db_answer list \<times> 's" where
  "run_ops step [] s = ([], s)"
| "run_ops step (x # xs) s = (let (a, s1) = step x s; (as, s2) = run_ops step xs s1 in (a # as, s2))"

fun writes_nonempty :: "db_op \<Rightarrow> bool" where
  "writes_nonempty (OPut k v) = (v \<noteq> [])"
| "writes_nonempty x = True"

section \<open>The invariant\<close>

definition cache_ok :: "(string \<Rightarrow> string option) \<Rightarrow> Cache \<Rightarrow> bool" where
  "cache_ok f c \<longleftrightarrow>
     length (ca_list c) \<le> ca_size c \<and> distinct (map fst (ca_list c)) \<and> 0 < ca_size c \<and>
     (\<forall>(k, v) \<in> set (ca_list c). f k = Some v)"

definition lru_inv :: "('b \<Rightarrow> string \<Rightarrow> string option) \<Rightarrow> ('b \<Rightarrow> bool) \<Rightarrow> 'b LRU \<Rightarrow> bool" where
  "lru_inv bview binv m \<longleftrightarrow>
     binv (lru_db m) \<and> (case lru_cache m of None \<Rightarrow> True | Some c \<Rightarrow> cache_ok (bview (lru_db m)) c)"

lemma lru_inv_New: "lru_inv bview binv (NewLRU len b) = binv b"
  by (simp add: lru_inv_def NewLRU_def cache_ok_def)

lemma cache_hit: "cache_ok f c \<Longrightarrow> map_of (ca_list c) k = Some v \<Longrightarrow> f k = Some v"
  by (auto simp: cache_ok_def dest: map_of_SomeD)

lemma set_delete: "x \<in> set (AList.delete k xs) \<longleftrightarrow> x \<in> set xs \<and> fst x \<noteq> k"
  by (induction xs) auto

lemma delete_shorter: "k \<in> fst ` set xs \<Longrightarrow> length (AList.delete k xs) < length xs"
  by (auto simp: AList.delete_eq intro: length_filter_less)

lemma cache_ok_front:
  assumes "cache_ok g c" and "\<And>k' v'. k' \<noteq> k \<Longrightarrow> g k' = Some v' \<Longrightarrow> f k' = Some v'"
    and "f k = Some v" and "cache_Contains c k"
  shows "cache_ok f (c\<lparr>ca_list := (k, v) # AList.delete k (ca_list c)\<rparr>)"
proof -
  have "k \<in> fst ` set (ca_list c)"
    using assms(4) by (auto simp: cache_Contains_def map_of_eq_None_iff)
  from delete_shorter [OF this] show ?thesis
    using assms(1-3) by (auto simp: cache_ok_def set_delete AList.distinct_delete split: prod.splits)
qed

lemma cache_ok_butlast:
  assumes "distinct (map fst xs)" and "\<forall>(k, v) \<in> set xs. f k = Some v"
  shows "distinct (map fst (butlast xs))" "\<forall>(k, v) \<in> set (butlast xs). f k = Some v"
  using assms by (auto simp: map_butlast distinct_butlast dest: in_set_butlastD)

lemma cache_ok_Add:
  assumes "cache_ok f c" and "f k = Some v"
  shows "cache_ok f (cache_Add c k v)"
proof (cases "cache_Contains c k")
  case True
  then show ?thesis using cache_ok_front [where k = k and v = v and f = f, OF assms(1) _ assms(2) True] by (simp add: cache_Add_def)
next
  case False
  define xs where "xs = (k, v) # ca_list c"
  have d: "distinct (map fst xs)" "\<forall>(k, v) \<in> set xs. f k = Some v"
    using assms False by (auto simp: xs_def cache_ok_def cache_Contains_def map_of_eq_None_iff)
  have "length xs \<le> Suc (ca_size c)" "0 < ca_size c" using assms by (simp_all add: xs_def cache_ok_def)
  then show ?thesis
    using False d cache_ok_butlast [OF d]
    by (auto simp: cache_Add_def cache_ok_def removeOldest_def Let_def simp flip: xs_def)
qed

lemma cache_ok_Update:
  assumes "cache_ok f c" and "cache_Contains c k"
  shows "cache_ok (f(k := Some v)) (cache_Add c k v)"
  using cache_ok_front [OF assms(1) _ _ assms(2), of "f(k := Some v)" v] assms(2) by (simp add: cache_Add_def)

lemma cache_ok_other:
  "cache_ok f c \<Longrightarrow> \<not> cache_Contains c k \<Longrightarrow> cache_ok (f(k := x)) c"
  by (force simp: cache_ok_def cache_Contains_def map_of_eq_None_iff)

lemma cache_ok_Remove:
  assumes "cache_ok f c"
  shows "cache_ok (f(k := x)) (cache_Remove c k)"
proof (cases "cache_Contains c k")
  case True
  have "length (AList.delete k (ca_list c)) \<le> length (ca_list c)" by (simp add: AList.delete_eq)
  with True show ?thesis
    using assms by (auto simp: cache_ok_def cache_Remove_def set_delete AList.distinct_delete split: prod.splits)
qed (simp add: cache_Remove_def cache_ok_other [OF assms])

lemma cache_ok_Get: "cache_ok f c \<Longrightarrow> cache_ok f (snd (cache_Get c k))"
  using cache_ok_front [of f c k f] cache_hit [of f c k]
  by (auto simp: cache_Get_def cache_Contains_def split: option.split)

lemma cache_size_step:
  "map_option ca_size (lru_cache (snd (lru_step B x m))) = map_option ca_size (lru_cache m)"
proof -
  have add: "ca_size (cache_Add c k v) = ca_size c" for c k v
    by (simp add: cache_Add_def removeOldest_def Let_def)
  have get: "ca_size c' = ca_size c" if "cache_Get c k = (r, c')" for c c' k r
    using that by (auto simp: cache_Get_def split: option.splits)
  show ?thesis
  proof (cases x)
    case (OGet k)
    then show ?thesis
      by (cases "lru_cache m") (auto simp: lru_Get_def Let_def add dest: get split: prod.split option.split)
  qed (cases "lru_cache m"; auto simp: add lru_Has_def lru_Put_def lru_Del_def cache_Remove_def lru_Purge_def cache_Purge_def)+
qed

context kv_database
begin

lemma view_get: "inv b \<Longrightarrow> db_Get D b k \<noteq> ''n'' \<Longrightarrow> view b k = Some (db_Get D b k)"
  using get_law [of b k] by (cases "view b k") auto

lemma view_has: "inv b \<Longrightarrow> db_Has D b k \<Longrightarrow> view b k = Some (db_Get D b k)"
  using get_law [of b k] has_law [of b k] by (cases "view b k") auto

lemma lru_Get_spec:
  assumes "lru_inv view inv m"
  shows "fst (lru_Get D m k) = db_Get D (lru_db m) k \<and> lru_db (snd (lru_Get D m k)) = lru_db m \<and>
    lru_inv view inv (snd (lru_Get D m k))"
proof (cases "lru_cache m")
  case None
  then show ?thesis using assms by (simp add: lru_Get_def)
next
  case (Some c)
  have i: "inv (lru_db m)" and ok: "cache_ok (view (lru_db m)) c"
    using assms Some by (simp_all add: lru_inv_def)
  show ?thesis
  proof (cases "map_of (ca_list c) k")
    case None
    have "cache_Get c k = (None, c)" using None by (simp add: cache_Get_def)
    then show ?thesis
      using Some i ok cache_ok_Add [OF ok view_get [OF i]] by (simp add: lru_Get_def lru_inv_def Let_def)
  next
    case (Some v)
    have "db_Get D (lru_db m) k = v" using cache_hit [OF ok Some] by (simp add: get_law [OF i])
    moreover have "cache_Get c k = (Some v, snd (cache_Get c k))" using Some by (simp add: cache_Get_def)
    ultimately show ?thesis
      using \<open>lru_cache m = Some c\<close> i cache_ok_Get [OF ok, of k]
      by (auto simp: lru_Get_def lru_inv_def split: prod.split)
  qed
qed

lemma lru_Has_spec:
  assumes "lru_inv view inv m"
  shows "fst (lru_Has D m k) = db_Has D (lru_db m) k \<and> lru_db (snd (lru_Has D m k)) = lru_db m \<and>
    lru_inv view inv (snd (lru_Has D m k))"
proof (cases "lru_cache m")
  case None
  then show ?thesis using assms by (simp add: lru_Has_def)
next
  case (Some c)
  have i: "inv (lru_db m)" and ok: "cache_ok (view (lru_db m)) c"
    using assms Some by (simp_all add: lru_inv_def)
  have "db_Has D (lru_db m) k" if "cache_Contains c k"
    using that cache_hit [OF ok] by (auto simp: cache_Contains_def has_law [OF i])
  moreover have "cache_ok (view (lru_db m)) (cache_Add c k (db_Get D (lru_db m) k))" if "db_Has D (lru_db m) k"
    using cache_ok_Add [OF ok view_has [OF i that]] .
  ultimately show ?thesis using Some i ok by (simp add: lru_Has_def lru_inv_def)
qed

lemma lru_Put_inv:
  assumes "lru_inv view inv m" and "v \<noteq> []"
  shows "lru_inv view inv (lru_Put D m k v)"
  using assms
  by (auto simp: lru_inv_def lru_Put_def put_inv put_view cache_ok_Update cache_ok_other split: option.split)

lemma lru_Del_inv: "lru_inv view inv m \<Longrightarrow> lru_inv view inv (lru_Del D m k)"
  by (auto simp: lru_inv_def lru_Del_def del_inv del_view cache_ok_Remove split: option.splits)

lemma lru_step_spec:
  assumes "lru_inv view inv m" and "writes_nonempty x"
  shows "fst (lru_step D x m) = fst (base_step D x (lru_db m))"
    "lru_db (snd (lru_step D x m)) = snd (base_step D x (lru_db m))"
    "lru_inv view inv (snd (lru_step D x m))"
proof -
  have "fst (lru_step D x m) = fst (base_step D x (lru_db m)) \<and>
    lru_db (snd (lru_step D x m)) = snd (base_step D x (lru_db m)) \<and> lru_inv view inv (snd (lru_step D x m))"
  proof (cases x)
    case (OGet k)
    then show ?thesis using lru_Get_spec [OF assms(1), of k] by (simp add: split_beta)
  next
    case (OHas k)
    then show ?thesis using lru_Has_spec [OF assms(1), of k] by (simp add: split_beta)
  next
    case (OPut k v)
    then show ?thesis using lru_Put_inv [OF assms(1), of v k] assms(2) by (simp add: lru_Put_def)
  next
    case (ODel k)
    then show ?thesis using lru_Del_inv [OF assms(1), of k] by (simp add: lru_Del_def)
  next
    case OPurge
    then show ?thesis using assms(1) by (auto simp: lru_Purge_def lru_inv_def cache_Purge_def cache_ok_def split: option.splits)
  qed
  then show "fst (lru_step D x m) = fst (base_step D x (lru_db m))"
    "lru_db (snd (lru_step D x m)) = snd (base_step D x (lru_db m))" "lru_inv view inv (snd (lru_step D x m))"
    by simp_all
qed

lemma lru_transparent:
  "lru_inv view inv m \<Longrightarrow> list_all writes_nonempty ops \<Longrightarrow>
    fst (run_ops (lru_step D) ops m) = fst (run_ops (base_step D) ops (lru_db m)) \<and>
    lru_db (snd (run_ops (lru_step D) ops m)) = snd (run_ops (base_step D) ops (lru_db m)) \<and>
    lru_inv view inv (snd (run_ops (lru_step D) ops m)) \<and>
    map_option ca_size (lru_cache (snd (run_ops (lru_step D) ops m))) = map_option ca_size (lru_cache m)"
proof (induction ops arbitrary: m)
  case (Cons x xs)
  have "writes_nonempty x" using Cons.prems by simp
  note s = lru_step_spec [OF Cons.prems(1) this]
  show ?case
    using Cons.IH [OF s(3)] Cons.prems(2) s(1,2) cache_size_step [of D x m] by (simp add: split_beta Let_def)
qed simp

lemma lru_bounded:
  assumes "inv b" and "0 < n" and "list_all writes_nonempty ops"
  shows "\<exists>c. lru_cache (snd (run_ops (lru_step D) ops (NewLRU n b))) = Some c \<and> int (length (ca_list c)) \<le> n"
proof -
  let ?m = "snd (run_ops (lru_step D) ops (NewLRU n b))"
  have t: "lru_inv view inv ?m" "map_option ca_size (lru_cache ?m) = Some (nat n)"
    using lru_transparent [of "NewLRU n b" ops] assms by (simp_all add: lru_inv_New) (simp add: NewLRU_def)
  then show ?thesis using assms(2) by (auto simp: lru_inv_def cache_ok_def)
qed

end

end
