(* ===== verification/ThreadPool.thy ===== *)
theory ThreadPool
  imports Prelude "HOL-Library.Multiset"
begin

text \<open>
  \<^verbatim>\<open>include/common/ThreadPool.h\<close>: a queue of tasks served by a fixed number of threads. The
  operations are the critical sections under \<^verbatim>\<open>queue_mutex\<close>, one step each; a run is an interleaving
  of them. A task is the number its \<open>enqueue\<close> gave it; what it computes and the exception it may
  end with stay in its future (\<^verbatim>\<open>std::packaged_task\<close>), so that a task always comes back to the loop
  of its thread.
\<close>

section \<open>The pool\<close>

datatype thread = Waiting | Running nat | Finished

text \<open>
  Beside the fields of the class: the tasks accepted, started and completed so far, in order.
\<close>

record ThreadPool =
  workers :: "thread list"
  tasks :: "nat list"
  stop :: bool
  accepted :: "nat list"
  started :: "nat list"
  completed :: "nat list"

definition ThreadPool_new :: "nat \<Rightarrow> ThreadPool" where
  "ThreadPool_new threads =
     \<lparr>workers = replicate threads Waiting, tasks = [], stop = False, accepted = [], started = [], completed = []\<rparr>"

definition enqueue :: "nat \<Rightarrow> ThreadPool \<Rightarrow> string + ThreadPool" where
  "enqueue t p =
     (if stop p then Inl ''enqueue on stopped ThreadPool''
      else Inr (p\<lparr>tasks := tasks p @ [t], accepted := accepted p @ [t]\<rparr>))"

text \<open>
  The loop of a thread: wait until there is a task or the pool stops, leave when it has stopped
  and nothing is queued, otherwise take the first task; then run it.
\<close>

definition worker_take :: "nat \<Rightarrow> ThreadPool \<Rightarrow> ThreadPool option" where
  "worker_take i p =
     (if i < length (workers p) \<and> workers p ! i = Waiting \<and> (stop p \<or> tasks p \<noteq> []) then
        (if stop p \<and> tasks p = [] then Some (p\<lparr>workers := (workers p)[i := Finished]\<rparr>)
         else Some (p\<lparr>workers := (workers p)[i := Running (hd (tasks p))], tasks := tl (tasks p),
                      started := started p @ [hd (tasks p)]\<rparr>))
      else None)"

definition worker_run :: "nat \<Rightarrow> ThreadPool \<Rightarrow> ThreadPool option" where
  "worker_run i p =
     (if i < length (workers p) then
        (case workers p ! i of
           Running t \<Rightarrow> Some (p\<lparr>workers := (workers p)[i := Waiting], completed := completed p @ [t]\<rparr>)
         | _ \<Rightarrow> None)
      else None)"

text \<open>The destructor: announce the stop, then join every thread.\<close>

definition ThreadPool_stop :: "ThreadPool \<Rightarrow> ThreadPool" where
  "ThreadPool_stop p = p\<lparr>stop := True\<rparr>"

definition joined :: "ThreadPool \<Rightarrow> bool" where
  "joined p \<longleftrightarrow> stop p \<and> (\<forall>w \<in> set (workers p). w = Finished)"

section \<open>Runs\<close>

inductive thread_step :: "ThreadPool \<Rightarrow> ThreadPool \<Rightarrow> bool" where
  take_task: "worker_take i p = Some p' \<Longrightarrow> thread_step p p'"
| run_task: "worker_run i p = Some p' \<Longrightarrow> thread_step p p'"

inductive pool_step :: "ThreadPool \<Rightarrow> ThreadPool \<Rightarrow> bool" where
  thread: "thread_step p p' \<Longrightarrow> pool_step p p'"
| accept: "t \<notin> set (accepted p) \<Longrightarrow> enqueue t p = Inr p' \<Longrightarrow> pool_step p p'"
| close: "pool_step p (ThreadPool_stop p)"

inductive pool_reach :: "nat \<Rightarrow> ThreadPool \<Rightarrow> bool" for n where
  new: "pool_reach n (ThreadPool_new n)"
| step: "pool_reach n p \<Longrightarrow> pool_step p p' \<Longrightarrow> pool_reach n p'"

section \<open>The invariant\<close>

fun in_hand :: "thread \<Rightarrow> nat multiset" where
  "in_hand (Running t) = {#t#}"
| "in_hand w = {#}"

definition pool_inv :: "nat \<Rightarrow> ThreadPool \<Rightarrow> bool" where
  "pool_inv n p \<longleftrightarrow>
     length (workers p) = n \<and> distinct (accepted p) \<and> accepted p = started p @ tasks p \<and>
     mset (started p) = mset (completed p) + \<Sum>\<^sub># (mset (map in_hand (workers p))) \<and>
     (Finished \<in> set (workers p) \<longrightarrow> stop p \<and> tasks p = [])"

lemma sum_in_hand_update:
  assumes "i < length ws"
  shows "\<Sum>\<^sub># (mset (map in_hand (ws[i := w]))) + in_hand (ws ! i) = \<Sum>\<^sub># (mset (map in_hand ws)) + in_hand w"
  using assms
proof (induction ws arbitrary: i)
  case (Cons x ws)
  then show ?case by (cases i) (simp_all add: ac_simps)
qed simp

lemma thread_step_inv:
  assumes "thread_step p p'" and "pool_inv n p"
  shows "pool_inv n p'"
  using assms(1)
proof (cases rule: thread_step.cases)
  case (take_task i)
  then have i: "i < length (workers p)" "workers p ! i = Waiting" by (auto simp: worker_take_def split: if_splits)
  show ?thesis
  proof (cases "stop p \<and> tasks p = []")
    case True
    then show ?thesis
      using take_task assms(2) i sum_in_hand_update [OF i(1), of Finished]
      by (auto simp: worker_take_def pool_inv_def)
  next
    case False
    then obtain t ts where t: "tasks p = t # ts" and p': "p' = p\<lparr>workers := (workers p)[i := Running t], tasks := ts, started := started p @ [t]\<rparr>"
      using take_task by (cases "tasks p") (auto simp: worker_take_def split: if_splits)
    have "Finished \<notin> set ((workers p)[i := Running t])"
      using assms(2) t set_update_subset_insert [of "workers p" i "Running t"] by (auto simp: pool_inv_def)
    then show ?thesis
      using assms(2) i t p' sum_in_hand_update [OF i(1), of "Running t"] by (auto simp: pool_inv_def)
  qed
next
  case (run_task i)
  then obtain t where i: "i < length (workers p)" "workers p ! i = Running t"
    and p': "p' = p\<lparr>workers := (workers p)[i := Waiting], completed := completed p @ [t]\<rparr>"
    by (auto simp: worker_run_def split: if_splits thread.splits)
  have "Finished \<in> set ((workers p)[i := Waiting]) \<Longrightarrow> Finished \<in> set (workers p)"
    using set_update_subset_insert [of "workers p" i Waiting] by auto
  then show ?thesis
    using assms(2) i p' sum_in_hand_update [OF i(1), of Waiting] by (auto simp: pool_inv_def ac_simps)
qed

lemma pool_step_inv: "pool_step p p' \<Longrightarrow> pool_inv n p \<Longrightarrow> pool_inv n p'"
proof (induction rule: pool_step.induct)
  case (thread p p')
  then show ?case using thread_step_inv by blast
next
  case (accept t p p')
  then show ?case by (auto simp: enqueue_def pool_inv_def split: if_splits)
next
  case (close p)
  then show ?case by (auto simp: ThreadPool_stop_def pool_inv_def)
qed

lemma pool_reach_inv: "pool_reach n p \<Longrightarrow> pool_inv n p"
proof (induction rule: pool_reach.induct)
  case new
  have "\<Sum>\<^sub># (mset (map in_hand (replicate n Waiting))) = {#}" by (induction n) simp_all
  then show ?case by (simp add: ThreadPool_new_def pool_inv_def)
next
  case (step p p')
  then show ?case using pool_step_inv by blast
qed

section \<open>The destructor returns\<close>

fun thread_rank :: "thread \<Rightarrow> nat" where
  "thread_rank Waiting = 1"
| "thread_rank (Running t) = 2"
| "thread_rank Finished = 0"

definition pool_rank :: "ThreadPool \<Rightarrow> nat" where
  "pool_rank p = 2 * length (tasks p) + sum_list (map thread_rank (workers p))"

lemma sum_rank_update:
  "i < length ws \<Longrightarrow> sum_list (map thread_rank (ws[i := w])) + thread_rank (ws ! i) = sum_list (map thread_rank ws) + thread_rank w"
proof (induction ws arbitrary: i)
  case (Cons x ws)
  then show ?case by (cases i) (simp_all add: ac_simps)
qed simp

lemma thread_step_rank:
  assumes "thread_step p p'"
  shows "pool_rank p' < pool_rank p" "stop p' = stop p" "length (workers p') = length (workers p)"
proof -
  have "pool_rank p' < pool_rank p \<and> stop p' = stop p \<and> length (workers p') = length (workers p)"
    using assms
  proof (cases rule: thread_step.cases)
    case (take_task i)
    then have i: "i < length (workers p)" "workers p ! i = Waiting" by (auto simp: worker_take_def split: if_splits)
    then show ?thesis
      using take_task sum_rank_update [OF i(1), of Finished] sum_rank_update [OF i(1), of "Running (hd (tasks p))"]
      by (cases "tasks p") (auto simp: worker_take_def pool_rank_def split: if_splits)
  next
    case (run_task i)
    then obtain t where i: "i < length (workers p)" "workers p ! i = Running t"
      by (auto simp: worker_run_def split: if_splits thread.splits)
    then show ?thesis
      using run_task sum_rank_update [OF i(1), of Waiting] by (auto simp: worker_run_def pool_rank_def)
  qed
  then show "pool_rank p' < pool_rank p" "stop p' = stop p" "length (workers p') = length (workers p)" by simp_all
qed

lemma stopped_progress:
  assumes "stop p" and "\<not> joined p"
  shows "\<exists>p'. thread_step p p'"
proof -
  obtain i where i: "i < length (workers p)" "workers p ! i \<noteq> Finished"
    using assms by (auto simp: joined_def in_set_conv_nth)
  then show ?thesis
  proof (cases "workers p ! i")
    case Waiting
    then have "\<exists>p'. worker_take i p = Some p'" using i assms(1) by (simp add: worker_take_def)
    then show ?thesis by (blast intro: thread_step.take_task)
  next
    case (Running t)
    then have "\<exists>p'. worker_run i p = Some p'" using i by (simp add: worker_run_def)
    then show ?thesis by (blast intro: thread_step.run_task)
  qed (use i in simp)
qed

lemma stopped_joins:
  assumes "stop p"
  shows "\<exists>k p'. k \<le> pool_rank p \<and> (thread_step ^^ k) p p' \<and> joined p'"
  using assms
proof (induction "pool_rank p" arbitrary: p rule: less_induct)
  case less
  show ?case
  proof (cases "joined p")
    case True
    then show ?thesis by (intro exI [of _ 0]) auto
  next
    case False
    obtain p1 where p1: "thread_step p p1" using stopped_progress [OF less.prems False] by blast
    then obtain k p' where "k \<le> pool_rank p1" "(thread_step ^^ k) p1 p'" "joined p'"
      using less.hyps [of p1] thread_step_rank [OF p1] less.prems by auto
    then show ?thesis
      using relpowp_Suc_I2 [of thread_step p p1 k p'] p1 thread_step_rank(1) [OF p1]
      by (intro exI [of _ "Suc k"] exI [of _ p']) simp
  qed
qed

text \<open>Every run of the threads after the stop is that short.\<close>

lemma thread_steps_bound: "(thread_step ^^ k) p p' \<Longrightarrow> k + pool_rank p' \<le> pool_rank p"
proof (induction k arbitrary: p')
  case (Suc k)
  then obtain q where "(thread_step ^^ k) p q" "thread_step q p'" by auto
  then show ?case using Suc.IH [of q] thread_step_rank(1) [of q p'] by linarith
qed simp

lemma thread_steps_stop: "(thread_step ^^ k) p p' \<Longrightarrow> stop p' = stop p"
proof (induction k arbitrary: p')
  case (Suc k)
  then obtain q where "(thread_step ^^ k) p q" "thread_step q p'" by auto
  then show ?case using Suc.IH [of q] thread_step_rank(2) [of q p'] by simp
qed simp

lemma joined_all_done:
  assumes "pool_inv n p" and "joined p" and "0 < n"
  shows "tasks p = []" "mset (completed p) = mset (accepted p)" "distinct (completed p)"
proof -
  have ws: "workers p = replicate n Finished"
    using assms replicate_length_same [of "workers p" Finished] by (auto simp: pool_inv_def joined_def)
  have "\<Sum>\<^sub># (mset (map in_hand (replicate n Finished))) = {#}" by (induction n) simp_all
  then show 1: "tasks p = []" "mset (completed p) = mset (accepted p)"
    using assms(1,3) by (simp_all add: pool_inv_def ws)
  show "distinct (completed p)"
    using assms(1) mset_eq_imp_distinct_iff [OF 1(2)] unfolding pool_inv_def by blast
qed

end
