(* ===== verification/Samples.thy ===== *)
theory Samples
  imports InjectOps Validate VmJs ConsoleRequire BlockchainLaws StorageEnd CompileLaws VmLaws LruCache ThreadPool
begin

text \<open>
  Concrete instances of the parameters and states of the development, small enough to evaluate:
  an engine whose strings are bytes, a node with one sandbox that runs a contract, and a world
  around it. The properties are applied to them.
\<close>

section \<open>Strings and the engine\<close>

definition byte_v8 :: v8_api where
  "byte_v8 = \<lparr>utf8_of = map (\<lambda>u. char_of (unat u)), js_of_utf8 = js\<rparr>"

definition still_engine :: "'h engine" where
  "still_engine =
     \<lparr>eng_api = byte_v8, eng_Compile = \<lambda>s f w. (True, w), eng_Run = \<lambda>s f w. Some (Some (JString (js ''success'')), w),
      eng_ToString = \<lambda>x. (case x of JString s \<Rightarrow> Some s | _ \<Rightarrow> None),
      eng_TryCatch = \<lambda>w. \<lparr>tc_exception = JNull, tc_message = None, tc_stack = None\<rparr>\<rparr>"

lemma byte_bound [simp]: "utf8_bound byte_v8"
  by (simp add: utf8_bound_def byte_v8_def)

lemma byte_utf8_Nil [simp]: "utf8_of byte_v8 [] = []"
  by (simp add: byte_v8_def)

lemma byte_utf8 [simp]: "utf8_of byte_v8 (js s) = s"
proof -
  have "char_of (unat (of_nat (of_char c :: nat) :: 16 word)) = c" for c :: char
  proof -
    have "(of_char c :: nat) < 256" by simp
    then have "(of_char c :: nat) < 2 ^ 16" by (rule less_trans) simp
    then show ?thesis by (simp add: unat_of_nat take_bit_nat_eq_self)
  qed
  then show ?thesis by (simp add: byte_v8_def js_def comp_def)
qed

lemma byte_codec [simp]: "codec_roundtrip byte_v8 (js s)"
  using byte_utf8 [of s] by (auto simp: codec_roundtrip_def) (simp_all add: byte_v8_def js_def)

lemma still_pure [simp]: "pure_scripts still_engine" "scripts_ok still_engine"
  by (auto simp: pure_scripts_def scripts_ok_def same_heap_def same_owner_def still_engine_def)

section \<open>The node\<close>

definition forks :: "bool \<Rightarrow> rules" where
  "forks b = \<lparr>IsFork3_0_10 = b, IsFork3_1_0 = b, IsFork3_3_0 = b, IsFork3_3_1 = b\<rparr>"

definition empty_store :: "chainbaseAdapter" where
  "empty_store = \<lparr>ad_cb = \<lparr>mv_stage = [], mv_storage = []\<rparr>, ad_rules = forks True\<rparr>"

definition alice_ctx :: Context where
  "alice_ctx =
     \<lparr>ctx_frames = [[(''contract_name'', CvString ''Contract1''), (''stack_height'', CvGoInt 1),
        (''stack0'', CvString ''Contract1-run''), (''caller'', CvCaller ''alice'' True), (''auth_contract_list'', CvMap 0)]],
      ctx_gValue = []\<rparr>"

definition alice_host :: "chainbaseAdapter WriteCache Host" where
  "alice_host =
     \<lparr>h_ctx = alice_ctx, h_db = NewWriteCache empty_store, h_cacheCost = Cost0, h_logger = None,
      h_rules = forks True, h_maps = [[]], h_posted = []\<rparr>"

definition alice_node :: "chainbaseAdapter WriteCache go_state" where
  "alice_node = \<lparr>sbxMap = (\<lambda>_. None)(7 := Some \<lparr>sb_host = Some 0\<rparr>), gs_hosts = (\<lambda>_. None)(0 := Some alice_host)\<rparr>"

definition sample_sandbox :: Sandbox where
  "sample_sandbox =
     \<lparr>allocator = ArrayBufferAllocator_new, jsPath = None, gasUsed = 0, gasLimit = 1000, memLimit = 1000, inst_count = 0,
      obj_blockchain = 0, obj_crypto = 0, obj_instruction = 0, obj_storage = 0\<rparr>"

text \<open>Every object holds component \<open>c\<close>.\<close>

definition alice_world :: "component \<Rightarrow> chainbaseAdapter WriteCache go_state world" where
  "alice_world c =
     \<lparr>w_heap = empty_heap, w_sbxPtr = 7, w_sbx = sample_sandbox, w_fields = (\<lambda>_. IFExternal c), w_global = IFExternal CSandbox,
      w_v8_heap_size = 0, w_host = alice_node, w_exc = None, w_ret = JUndefined, w_out = []\<rparr>"

lemma alice_world_simps [simp]:
  "w_heap (alice_world c) = empty_heap" "w_sbxPtr (alice_world c) = 7" "w_fields (alice_world c) a = IFExternal c"
  "w_global (alice_world c) = IFExternal CSandbox" "w_host (alice_world c) = alice_node" "w_exc (alice_world c) = None"
  "w_sbx (alice_world c) = sample_sandbox"
  by (simp_all add: alice_world_def)

lemma adapter_inv_empty [simp]: "adapter_inv empty_store" "adapter_view empty_store k = None"
  by (simp_all add: adapter_inv_def adapter_view_def empty_store_def)

lemma visitor_empty [simp]: "visitor_inv (NewWriteCache empty_store)" "visitor_view (NewWriteCache empty_store) k = None"
  by (simp_all add: wc_inv_New wc_view_New)

lemma alice_host_simps [simp]:
  "h_db alice_host = NewWriteCache empty_store" "contract_name alice_host = Some ''Contract1''" "h_ctx alice_host = alice_ctx"
  by (simp_all add: alice_host_def contract_name_def alice_ctx_def ctx_Value_def as_string_def)

lemma alice_runs [simp]: "runs_in (alice_world c) alice_host"
  by (simp add: runs_in_def alice_node_def GetSandbox_def)

lemma alice_entry [simp]: "entry_ok alice_host ''Contract1'' None"
  by (simp add: entry_ok_def)

lemma visitor_Get_empty [simp]: "basic_Get visitor_db (NewWriteCache empty_store) k = ''n''"
  using visitor.cached.basic_Get_view [of "NewWriteCache empty_store" k] by simp

lemma valid_k [simp]: "IsValidKey ''k'' = None" "IsValidKey ''f'' = None"
  by code_simp+

lemma alice_payer [simp]: "choose_payer alice_host ''n'' [] = Some ''Contract1''"
  by (simp add: choose_payer_def owner_of_def nil_value_wf)

lemma alice_put:
  obtains h where "dbh_Put visitor_db alice_host ''k'' (GString ''v'') [] = Some (put_cost (stored_string ''v'' ''Contract1''), None, h)"
    "visitor_inv (h_db h)" "h_ctx h = alice_ctx"
    "visitor_view (h_db h) (basic_key (modifyGlobalKey ''Contract1'' ''k'')) = Some (stored_string ''v'' ''Contract1'')"
proof -
  have "visitor_inv (h_db alice_host)"
    "entry_ok alice_host ''Contract1'' (visitor_view (h_db alice_host) (basic_key (modifyGlobalKey ''Contract1'' ''k'')))"
    by simp_all
  then obtain payer h where h: "choose_payer alice_host (basic_Get visitor_db (h_db alice_host) (modifyGlobalKey ''Contract1'' ''k'')) [] = Some payer"
    "dbh_Put visitor_db alice_host ''k'' (GString ''v'') [] = Some (put_cost (stored_string ''v'' payer), None, h)"
    "visitor_view (h_db h) = (visitor_view (h_db alice_host))
       (basic_key (modifyGlobalKey ''Contract1'' ''k'') := Some (stored_string ''v'' payer))"
    "visitor_inv (h_db h)" "h_ctx h = h_ctx alice_host"
    using visitor.cached.dbh_Put_string [OF _ valid_k(1)] by metis
  have "payer = ''Contract1''" using h(1) by simp
  with h that [of h] show thesis by simp
qed

lemma with_alice: "with_sandbox 7 f alice_node = map_option (\<lambda>(r, cost, h). (r, CPU cost, alice_node\<lparr>gs_hosts := (gs_hosts alice_node)(0 := Some h)\<rparr>)) (f alice_host)"
  by (cases "f alice_host")
    (auto simp: with_sandbox_def GetSandbox_def alice_node_def sbx_host_def set_sbx_host_def)

lemma parse_nil [simp]: "parseValue ''n'' = Some GNil"
  by code_simp

lemma visitor_MGet_empty [simp]: "MGet visitor_db (NewWriteCache empty_store) k f = ''n''"
  using visitor.cached.MGet_view [of "NewWriteCache empty_store" k f] by simp

lemma visitor_MKeys_empty [simp]: "MKeys visitor_db (NewWriteCache empty_store) k = []"
  using visitor.cached.MKeys_view [of "NewWriteCache empty_store" k] by (simp add: listed_def)

lemma alice_reads [simp]:
  "small_result small_string_opt (op_Get (go_storage_ops visitor_db) 7 ''k'' []) alice_node"
  "small_result small_string_opt (op_MapGet (go_storage_ops visitor_db) 7 ''k'' ''f'' []) alice_node"
  "small_result small_string (op_MapKeys (go_storage_ops visitor_db) 7 ''k'' []) alice_node"
  "small_result small_string_opt (op_GlobalGet (go_storage_ops visitor_db) 7 ''c'' ''k'' []) alice_node"
  "small_result small_string_opt (op_GlobalMapGet (go_storage_ops visitor_db) 7 ''c'' ''k'' ''f'' []) alice_node"
  "small_result small_string (op_GlobalMapKeys (go_storage_ops visitor_db) 7 ''c'' ''k'' []) alice_node"
  by (simp_all add: small_result_def go_storage_ops_def with_alice dbh_Get_def dbh_MapGet_def dbh_MapKeys_def
      dbh_GlobalGet_def dbh_GlobalMapGet_def dbh_GlobalMapKeys_def read_val_err_def read_val_def small_string_opt_def
      small_string_def json_strings_def)

section \<open>Calls and permissions\<close>

text \<open>A monitor that answers every call with no result, and an account database without accounts.\<close>

definition still_monitor :: "'d Monitor" where
  "still_monitor = \<lparr>mon_Call = \<lambda>h con api jarg. Some (None, Cost0, None, h)\<rparr>"

definition low_monitor :: "'d Monitor" where
  "low_monitor =
     \<lparr>mon_Call = \<lambda>h con api jarg. if StackHeight h \<in> Some ` {0..5} then Some (None, Cost0, None, h) else None\<rparr>"

definition no_accounts :: "string \<Rightarrow> Account option" where
  "no_accounts s = None"

lemma still_keeps [simp]: "keeps_context still_monitor"
  by (auto simp: keeps_context_def still_monitor_def)

lemma unmarshal_nil: "MustUnmarshal ''n'' = Some GNil"
  by code_simp

lemma ReadAuth_empty [simp]: "ReadAuth visitor_db dec (NewWriteCache empty_store) i = Some (None, NewCost 0 0 1 [])"
  by (simp add: ReadAuth_def unmarshal_nil)

lemma show_small [simp]: "show_nat 0 = ''0''" "show_nat (Suc 0) = ''1''"
  by code_simp+

lemma alice_stack [simp]: "stack_is alice_ctx [''Contract1-run'']"
  by (simp add: stack_is_def alice_ctx_def ctx_Value_def stack_key_def)

lemma alice_auths: "as_map alice_host (ctx_Value alice_ctx ''auth_contract_list'') = Some (0, [])"
  by (simp add: as_map_def alice_host_def alice_ctx_def ctx_Value_def)

lemma alice_push: "\<exists>cost h1. PushStack alice_host ''Contract2'' ''run'' True = Some (False, cost, h1)"
  by (simp add: PushStack_def StackHeight_def alice_host_def alice_ctx_def ctx_Value_def as_int_def as_string_def PushCtx_def
      stack_key_def show_int_def call_record_def caller_name_def host_Set_def ctx_Set_def add_auth_def as_map_def
      AList.update.simps Let_def)

text \<open>A library of hash functions that change nothing.\<close>

definition plain_crypto :: crypto_lib where
  "plain_crypto =
     \<lparr>lib_Sha3 = \<lambda>m. m, lib_Ripemd160 = \<lambda>m. m, lib_Base58Encode = \<lambda>m. m, lib_Base58Decode = \<lambda>m. m,
      lib_Verify = \<lambda>algo m pk sig. True\<rparr>"

section \<open>Runs of the virtual machine\<close>

definition alice_pointers :: "chainbaseAdapter WriteCache go_state pointers" where
  "alice_pointers =
     \<lparr>p_storage = go_storage_table visitor_db, p_blockchain = go_blockchain_table 3 visitor_db no_accounts still_monitor,
      p_crypto = go_crypto_table plain_crypto\<rparr>"

definition alice_around :: "chainbaseAdapter WriteCache go_state surroundings" where
  "alice_around =
     \<lparr>su_engine = still_engine, su_pointers = alice_pointers, su_envJsLib = [NUL], su_v8_heap = 0, su_host = alice_node\<rparr>"

definition no_snapshot :: "vmPoolType \<Rightarrow> CustomStartupData" where
  "no_snapshot ty = \<lparr>csd_data = None, csd_raw_size = 0\<rparr>"

definition first_isolate :: IsolateWrapper where
  "first_isolate = \<lparr>iw_isolate = 0, iw_allocator_ptr = 1, iw_allocator = ArrayBufferAllocator_new\<rparr>"

lemma alice_around_simps [simp]: "su_engine alice_around = still_engine"
  by (simp add: alice_around_def)

lemma one_machine: "\<exists>p. pool_Init alice_around no_snapshot RunVMPool ''path'' 1 empty_heap = Some p \<and>
    length (pl_buff p) = 1 \<and> pl_busy p = [] \<and> pl_size p = 1"
proof -
  obtain e h where "NewVM alice_around no_snapshot RunVMPool ''path'' empty_heap = Some (e, h)"
    using NewVM_owns [of alice_around empty_heap no_snapshot RunVMPool "''path''"] by auto
  then show ?thesis by (simp add: pool_Init_def)
qed

text \<open>A contract that returns nothing: the worker runs to its end before the caller looks.\<close>

definition quiet_worker :: "choice list" where
  "quiet_worker = [Reply (RPreload None), Internal, Reply (RCompiled None), Reply (RRun (Inr JUndefined)), Internal, Internal]"

definition quiet_start :: exec_state where
  "quiet_start = Execution_start sample_sandbox empty_heap"

lemma quiet_stopped:
  "\<exists>s. exec_run still_engine 100 quiet_worker quiet_start = Some s \<and> x_worker s = WStopped \<and>
    x_error s = [] \<and> x_result s = [] \<and> x_isDone s \<and> x_main s = MInit \<and> x_heap s = empty_heap"
  by (simp add: quiet_worker_def quiet_start_def Execution_start_def worker_step_def worker_internal_def)

lemma quiet_returns:
  "\<exists>s. exec_run still_engine 100 (quiet_worker @ replicate 6 (Main 0)) quiet_start = Some s \<and> x_main s = MReturned"
  by (simp add: quiet_worker_def quiet_start_def Execution_start_def worker_step_def worker_internal_def main_step_def
      take_value_def copyString_def Let_def numeral_eq_Suc)

lemma still_outcome [simp]: "script_outcome still_engine code name w = Some (Inr ''success'', w)"
  using byte_utf8 [of "''success''"] by (simp add: script_outcome_def still_engine_def)

section \<open>Scripts\<close>

definition span :: "nat \<Rightarrow> nat \<Rightarrow> string \<times> jtree" where
  "span a b = (''range'', TArr [TNum (Fin (of_nat a)), TNum (Fin (of_nat b))])"

definition sample_name :: "string \<Rightarrow> nat \<Rightarrow> nat \<Rightarrow> jtree" where
  "sample_name n a b = TObj [(''type'', TStr (js ''Identifier'')), (''name'', TStr (js n)), span a b]"

text \<open>\<^verbatim>\<open>while(a)b();\<close>\<close>

definition sample_loop :: jtree where
  "sample_loop =
     TObj [(''type'', TStr (js ''Program'')),
       (''body'', TArr [
          TObj [(''type'', TStr (js ''WhileStatement'')), (''test'', sample_name ''a'' 6 7),
            (''body'',
               TObj [(''type'', TStr (js ''ExpressionStatement'')),
                 (''expression'',
                    TObj [(''type'', TStr (js ''CallExpression'')), (''callee'', sample_name ''b'' 8 9), (''arguments'', TArr []), span 8 11]),
                 span 8 12]),
            span 0 12]]),
       span 0 12]"

text \<open>\<^verbatim>\<open>a += b\<close>\<close>

definition sample_sum :: jtree where
  "sample_sum =
     TObj [(''type'', TStr (js ''AssignmentExpression'')), (''operator'', TStr (js ''+='')), (''left'', sample_name ''a'' 0 1),
       (''right'', sample_name ''b'' 5 6)]"

text \<open>A contract: a class with the methods \<^verbatim>\<open>init\<close> and \<^verbatim>\<open>hello\<close>, and its export.\<close>

definition sample_method :: "string \<Rightarrow> jtree list \<Rightarrow> jtree" where
  "sample_method n params =
     TObj [(''type'', TStr (js ''MethodDefinition'')), (''key'', ident_node n),
       (''value'', TObj [(''type'', TStr (js ''FunctionExpression'')), (''params'', TArr params)])]"

definition sample_contract :: jtree where
  "sample_contract =
     TObj [(''type'', TStr (js ''Program'')),
       (''body'', TArr [
          TObj [(''type'', TStr (js ''ClassDeclaration'')), (''id'', ident_node ''Test''),
            (''body'', TObj [(''type'', TStr (js ''ClassBody'')), (''body'', TArr [sample_method ''init'' [], sample_method ''hello'' [ident_node ''x'']])])],
          TObj [(''type'', TStr (js ''ExpressionStatement'')),
            (''expression'',
               TObj [(''type'', TStr (js ''AssignmentExpression'')), (''operator'', TStr (js ''='')),
                 (''left'', TObj [(''type'', TStr (js ''MemberExpression'')), (''object'', ident_node ''module''), (''property'', ident_node ''exports'')]),
                 (''right'', ident_node ''Test'')])]])]"

definition sample_abi :: abi where
  "sample_abi = \<lparr>ab_name = js ''hello'', ab_args = [TStr (js ''string'')], ab_amountLimit = []\<rparr>"

text \<open>What the properties ask of the two trees.\<close>

lemma node_type_plain [simp]:
  "node_type (TStr s) = ''undefined''" "node_type (TNum x) = ''undefined''" "node_type (TArr xs) = ''undefined''"
  by (simp_all add: node_type_def)

lemmas sample_loop_defs = sample_loop_def sample_name_def span_def

lemma sample_loop_closings: "closings sample_loop = [12]"
  by (simp add: sample_loop_defs closings_def braced_def range_of_def)

lemma sample_loop_ok: "tree_ok sample_loop"
  unfolding tree_ok_def sample_loop_closings
  by (simp add: sample_loop_defs node_ok_def braced_def is_node_def placed_def child_keys_def range_of_def body_start_def loops_def)

lemma sample_loop_gas: "mset (tree_gas sample_loop) = {#Units 1, Units 1, Units 4#}"
  by (simp add: sample_loop_defs tree_gas_def own_gas_def plain_charge_def type_charge_def chargedExpression_def)

lemma sample_loop_body:
  "list_ex (\<lambda>n. node_type n = ''WhileStatement'' \<and> body_start (field n ''body'') = Some 8) (subtrees sample_loop)"
  by (simp add: sample_loop_defs body_start_def range_of_def)

lemma sample_abi_name: "checkAbiNameValid (js ''hello'') = None"
  by code_simp

lemma sample_contract_answers:
  "validate_js (\<lambda>s. Inr sample_contract) [] [sample_abi] = Inr (js ''success'')"
  "validate_js (\<lambda>s. Inr sample_contract) [] [sample_abi\<lparr>ab_args := []\<rparr>] \<noteq> Inr (js ''success'')"
  by (simp_all add: validate_js_def checkExports_def sample_contract_def ident_node_def sample_method_def is_class_def is_method_def
      checkOneClass_def checkOneAbi_def sample_abi_def sample_abi_name arg_types_def) (simp_all add: js_def)

text \<open>\<^verbatim>\<open>BigNumber\<close> with the rational numbers for its objects.\<close>

fun num2 :: "(rat \<Rightarrow> rat \<Rightarrow> js_number) \<Rightarrow> js_number \<Rightarrow> js_number \<Rightarrow> js_number" where
  "num2 f (Fin a) (Fin b) = f a b"
| "num2 f a b = NaN"

definition rat_bignumber :: "js_number bignumber" where
  "rat_bignumber =
     \<lparr>bn_new = (\<lambda>n base. case n of
        Same x \<Rightarrow> Inr x
      | Big x \<Rightarrow> Inr x
      | Plain y \<Rightarrow>
          Inr (if y = JString (js ''9223372036854775807'') then num_int 9223372036854775807
               else if y = JString (js ''-9223372036854775808'') then num_int (- 9223372036854775808) else NaN)),
      bn_isInteger = (\<lambda>x. case x of Fin a \<Rightarrow> a = of_int \<lfloor>a\<rfloor> | _ \<Rightarrow> False),
      bn_eq = (=), bn_gt = (\<lambda>x y. num_less y x), bn_gte = (\<lambda>x y. num_less y x \<or> x = y), bn_lt = num_less,
      bn_lte = (\<lambda>x y. num_less x y \<or> x = y),
      bn_plus = num2 (\<lambda>a b. Fin (a + b)), bn_minus = num2 (\<lambda>a b. Fin (a - b)), bn_times = num2 (\<lambda>a b. Fin (a * b)),
      bn_div = num2 (\<lambda>a b. if b = 0 then NaN else Fin (a / b)),
      bn_idiv = num2 (\<lambda>a b. if b = 0 then NaN else num_int (\<lfloor>a\<rfloor> sdiv \<lfloor>b\<rfloor>)),
      bn_mod = num2 (\<lambda>a b. if b = 0 then NaN else num_int (\<lfloor>a\<rfloor> smod \<lfloor>b\<rfloor>)),
      bn_pow = (\<lambda>x y. Inr NaN), bn_shiftedBy = (\<lambda>x k. Inr NaN),
      bn_negated = (\<lambda>x. num2 (\<lambda>a b. Fin (a - b)) (Fin 0) x), bn_toString = (\<lambda>x. [])\<rparr>"

lemma rat_bn_numbers [simp]: "bn_numbers rat_bignumber (\<lambda>x. x)"
proof -
  have "(case x of Fin a \<Rightarrow> a = of_int \<lfloor>a\<rfloor> | _ \<Rightarrow> False) \<longleftrightarrow> (\<exists>i. x = num_int i)" for x
    by (cases x) (auto simp: num_int_def)
  then show ?thesis by (simp add: bn_numbers_def rat_bignumber_def)
qed

lemma rat_bn_arithmetic [simp]: "bn_arithmetic rat_bignumber (\<lambda>x. x)"
  by (auto simp: bn_arithmetic_def rat_bignumber_def num_int_def is_finite_def)

definition plain_js :: "'h js_engine" where
  "plain_js =
     \<lparr>op_of = (\<lambda>opr l r. set_ret JUndefined), text_of = set_ret, string_of = (\<lambda>x. set_ret (JString [])),
      length_of = (\<lambda>x. set_ret JUndefined), max_string = 1000\<rparr>"

lemma plain_js_max [simp]: "max_string plain_js = 1000"
  by (simp add: plain_js_def)

end
