(* ===== verification/Spec2Isabelle.thy ===== *)
theory Spec2Isabelle
  imports Samples
begin

text \<open>
  The V8 bridge of the IOST node: the C++ library under \<^verbatim>\<open>src/vm/v8vm/v8\<close> that runs JavaScript contracts,
  the Go package \<^verbatim>\<open>src/vm/v8vm\<close> that drives it, and the parts of the node that its callbacks reach.

  \<^bold>\<open>The program.\<close> A node keeps pools of virtual machines (\<^verbatim>\<open>pool.go\<close>, \<^verbatim>\<open>vm.go\<close>). A machine owns an isolate and
  a sandbox (\<^verbatim>\<open>vm.cc\<close>, \<^verbatim>\<open>sandbox.cc\<close>, \<^verbatim>\<open>sandbox.go\<close>). To deploy a contract the node validates and compiles its
  source by running scripts on it (\<^verbatim>\<open>compile.cc\<close>, \<^verbatim>\<open>libjs/validate.js\<close>, \<^verbatim>\<open>libjs/inject_gas.js\<close>), which check its interface and
  make it count its own gas; to call it, it prepares a script and executes it in a
  thread of its own while the caller polls for a result, for gas and for time (\<^verbatim>\<open>RealExecute\<close> and \<^verbatim>\<open>Execution\<close>).
  The script sees objects whose methods are C++ callbacks: storage, blockchain, crypto, an instruction counter,
  console and require. Scripts of the node stand in between (\<^verbatim>\<open>libjs/storage.js\<close>, \<^verbatim>\<open>vm.js\<close>, \<^verbatim>\<open>int64.js\<close>, \<^verbatim>\<open>float64.js\<close>). A callback checks its arguments, encodes strings as C memory, calls a Go function through a
  table of pointers, adds the gas the function reports, and turns its result into a value or an exception. The Go
  functions look up the sandbox and act on the host (\<^verbatim>\<open>src/vm/host\<close>), whose storage is a stack of handlers over
  a write cache, a read cache and the state database (\<^verbatim>\<open>src/vm/database\<close>, \<^verbatim>\<open>src/db\<close>).

  \<^bold>\<open>Conventions.\<close> An action on the world is a function to an option; \<open>None\<close> is undefined behaviour in C++, an
  abort, or a panic in Go, so a theorem that an action is \<open>Some\<close> says that none of these happens. A JavaScript
  exception is the field \<open>w_exc\<close> of the world. The C heap (\<open>Prelude\<close>) is a map from addresses to blocks that remember
  whether they came from \<^verbatim>\<open>malloc\<close>, \<^verbatim>\<open>new\<close> or \<^verbatim>\<open>new[]\<close>; freeing a block in another way, twice, or reading outside of it is
  \<open>None\<close>. An allocation is taken to succeed. Machine integers are words of their width.

  \<^bold>\<open>The theories, from the bottom up.\<close>
  \<^item> \<open>Prelude\<close>: C memory, C strings, decimal numbers. \<open>GoLib\<close>: what the Go sources use of the standard library
    (\<^verbatim>\<open>strings\<close>, \<^verbatim>\<open>strconv\<close>, \<^verbatim>\<open>binary\<close>, \<^verbatim>\<open>hex\<close>, \<^verbatim>\<open>json\<close>).
  \<^item> \<open>Engine\<close>: JavaScript values, the parameters that stand for V8, the world, \<^verbatim>\<open>NewCStr\<close> and \<^verbatim>\<open>NewCStrChecked\<close> of \<^verbatim>\<open>sandbox.h\<close>.
  \<^item> \<open>Bridge\<close>: what all callbacks share, and the notion of refinement: \<open>refines_at\<close> compares an action with an abstract
    one that knows no C memory, and demands that the blocks of the heap are the same afterwards. \<open>implements\<close>
    is the contract of a Go callback.
  \<^item> \<open>StorageApi\<close>, \<open>BlockchainApi\<close>, \<open>CryptoApi\<close>: \<^verbatim>\<open>storage.cc\<close>, \<^verbatim>\<open>blockchain.cc\<close>, \<^verbatim>\<open>crypto.cc\<close>, one definition for each callback and each
    wrapper method, and a locale for the table of Go functions (\<open>storage_callbacks\<close>, \<open>blockchain_callbacks\<close>,
    \<open>crypto_callbacks\<close>) in which the refinement of every callback is proved.
  \<^item> \<open>Instruction\<close>, \<open>Allocator\<close>: \<^verbatim>\<open>instruction.h\<close>, \<^verbatim>\<open>instruction.cc\<close>, \<^verbatim>\<open>allocator.cc\<close>. \<open>ConsoleRequire\<close>, \<open>EmbeddedJs\<close>: \<^verbatim>\<open>console.cc\<close>,
    \<^verbatim>\<open>require.cc\<close>, \<^verbatim>\<open>console.go\<close> and the embedded modules.
  \<^item> \<open>Serializer\<close>, \<open>Database\<close>, \<open>LruCache\<close>, \<open>MapStore\<close>, \<open>HostDb\<close>: \<^verbatim>\<open>serializer.go\<close>, \<^verbatim>\<open>write_cache.go\<close>, \<^verbatim>\<open>adapter.go\<close>, \<^verbatim>\<open>mvccdb.go\<close>,
    \<^verbatim>\<open>lru.go\<close>, \<^verbatim>\<open>basic_handler.go\<close>, \<^verbatim>\<open>map_handler.go\<close>, \<^verbatim>\<open>db_handler.go\<close>. A database is a record of operations; the locale
    \<open>kv_database\<close> states its laws over a view (key to value) and an invariant. The adapter interprets it, and
    the write cache over any database that satisfies it satisfies it again (\<open>cached_database\<close> with a sublocale), which
    gives the interpretation \<open>visitor\<close> used by the properties. \<open>StorageLaws\<close>: round trips and the charging of RAM.
  \<^item> \<open>GoStorage\<close>: \<^verbatim>\<open>storage.go\<close>, \<^verbatim>\<open>ctypes.go\<close>, the table of the Go functions, and its interpretation of \<open>storage_callbacks\<close>.
    \<open>StorageEnd\<close>: the composition from the callback to the database. \<open>GoBlockchain\<close>, \<open>BlockchainLaws\<close>: \<^verbatim>\<open>blockchain.go\<close>, \<^verbatim>\<open>host.go\<close>,
    \<^verbatim>\<open>stack.go\<close>, \<^verbatim>\<open>authority.go\<close>, \<^verbatim>\<open>context.go\<close>, \<^verbatim>\<open>info.go\<close>, \<^verbatim>\<open>event.go\<close> and the laws of calls and permissions.
  \<^item> \<open>SandboxLife\<close>: \<^verbatim>\<open>sandbox.cc\<close> but for the execution, with the ownership of memory. \<open>Execution\<close>: the two threads as a step
    relation, one step for each access to a shared variable; its invariant is proved by rule induction.
  \<^item> \<open>Compile\<close>, \<open>CompileLaws\<close>: \<^verbatim>\<open>compile.cc\<close>, \<^verbatim>\<open>module.go\<close>, and \<^verbatim>\<open>Compile\<close>, \<^verbatim>\<open>Validate\<close> and \<^verbatim>\<open>Prepare\<close> of \<^verbatim>\<open>sandbox.go\<close>.
  \<^item> \<open>JsTree\<close>: syntax trees as JavaScript objects. \<open>InjectGas\<close>, \<open>InjectOps\<close>: \<^verbatim>\<open>inject_gas.js\<close>, one definition for each function; \<open>InjectLaws\<close>:
    what is inserted, against the specification \<open>spliced\<close> of the text and \<open>tree_gas\<close> of the charges. \<open>Validate\<close>: \<^verbatim>\<open>validate.js\<close>,
    against the specification \<open>contract_ok\<close>.
  \<^item> \<open>StorageJs\<close>: \<^verbatim>\<open>storage.js\<close> on top of the callbacks. \<open>NumbersJs\<close>: \<^verbatim>\<open>int64.js\<close> and \<^verbatim>\<open>float64.js\<close>. \<open>VmJs\<close>: the operators of \<^verbatim>\<open>vm.js\<close> on top of
    the instruction counter.
  \<^item> \<open>VmLifecycle\<close>, \<open>VmLaws\<close>: \<^verbatim>\<open>vm.cc\<close>, \<^verbatim>\<open>vm.go\<close>, \<^verbatim>\<open>pool.go\<close>. \<open>ThreadPool\<close>: \<^verbatim>\<open>include/common/ThreadPool.h\<close>.
  \<^item> \<open>Samples\<close>: concrete engines, hosts and runs at which the properties below are applied.

  \<^bold>\<open>What is shown.\<close> C1 and C2 are about the storage of contracts from end to end. C4, C5, C20, C26 and C27 are the
  refinements of the callbacks, C13 and C14 their checks. C3, C37 and C38 are the treatment of contract sources on the way to
  the scripts; C6 to C8 are the injection of gas, C9 what the injected operators do and charge, C10 the validation of contracts,
  C11 and C12 the number classes. C15 to C19 are the layers of storage. C21 to C25 are calls between contracts and
  permissions. C28 to C30 are console, gas and memory counters. C31 to C33 are the lives of sandboxes, machines and pools. C34 to
  C36 are the execution and its result. C39 and C40 are the thread pool.

  \<^bold>\<open>Parameters and what is asked of them.\<close> V8 is a record of functions (\<open>v8_api\<close>, \<open>engine\<close>): \<open>utf8_bound\<close> says that the
  encoding of a string has at most three bytes for each unit, \<open>codec_roundtrip\<close> that a string without lone surrogates
  survives encoding and decoding, \<open>pure_scripts\<close> and \<open>scripts_ok\<close> that a script which is compiled or run leaves
  the C memory as it was. What a running contract does is the list of replies of the engine in a step of the
  execution, and is not restricted. The monitor that runs a called contract, the JSON decoding of an account, the
  hash functions and the signature check, the start-up blobs and \<^verbatim>\<open>environment.js\<close> are parameters as well. Of the libraries under
  \<^verbatim>\<open>libjs\<close>, the parser and the printer of JavaScript are functions of which C6 asks that the trees carry positions (\<open>tree_ok\<close>),
  the printing of a sum of charges is the argument \<open>num\<close>, and \<^verbatim>\<open>BigNumber\<close> is a record of operations whose documented
  behaviour is \<open>bn_numbers\<close> and \<open>bn_arithmetic\<close>. What the engine does for an operator on objects is a record (\<open>js_engine\<close>);
  \<open>plain_strings\<close> says that a contract has not replaced the method \<^verbatim>\<open>toString\<close> of strings.

  \<^bold>\<open>Bounds.\<close> The depth of the permission check is bounded by fuel; C23 shows that a depth above the number of
  account-permission pairs in reach is enough, so the fuel is no restriction. Strings handed to C are shorter than
  \<open>2 ^ 31\<close> bytes: arguments by \<open>INPUT_MAX_LENGTH\<close>, results by a hypothesis (\<open>small_string\<close>), since the length
  is passed as a C \<^verbatim>\<open>int\<close>. The polling loop has no bound of its own; C35 gives seven steps once the worker has stopped.

  \<^bold>\<open>Not modelled.\<close> The V8 headers and blobs under \<^verbatim>\<open>include\<close>, which belong to the engine. Under \<^verbatim>\<open>libjs\<close>, the third-party libraries
  (\<^verbatim>\<open>bignumber.js\<close>, \<^verbatim>\<open>esprima.js\<close>, \<^verbatim>\<open>escodegen.js\<close>, \<^verbatim>\<open>json.js\<close>), the set-up of the global object (\<^verbatim>\<open>environment.js\<close>), text formatting and
  logging (\<^verbatim>\<open>utils.js\<close>, \<^verbatim>\<open>console.js\<close>), the wrapper \<^verbatim>\<open>blockchain.js\<close>, the module loader of \<^verbatim>\<open>vm.js\<close>, and the accessors of the
  number classes; the three arrays that C++ reads by name are in \<open>EmbeddedJs\<close> byte for byte. \<^verbatim>\<open>snapshot.cc\<close> and \<^verbatim>\<open>snapshot.h\<close>, which
  are not built and are no valid C++. \<^verbatim>\<open>error.h\<close>, which nothing uses. The effects of weakly ordered memory on the variables
  the two threads share: their accesses are interleaved. The values of futures in the thread pool. Native contracts, the
  monitor and the tries below the state database.
\<close>

section \<open>Storage, from the contract to the store\<close>

text \<open>
  C1. What a contract puts it gets: after \<^verbatim>\<open>storage.put(key, value, payer)\<close>, with or without a payer, \<^verbatim>\<open>storage.get(key)\<close>
  returns the same JavaScript string, through the script \<^verbatim>\<open>storage.js\<close>, the C++ callbacks, the Go functions, the handler, the
  serialised form and the write cache. No exception is scheduled and no C memory is leaked.
\<close>

theorem storage_put_get:
  assumes "heap_ok (w_heap w)" and "utf8_bound v" and "w_fields w holder = IFExternal CStorage"
    and "length k \<le> INPUT_MAX_LENGTH" and "length x \<le> INPUT_MAX_LENGTH"
    and "p = JUndefined \<or> (\<exists>s. p = JString s \<and> length s \<le> INPUT_MAX_LENGTH)"
    and "runs_in w hst" and "visitor_inv (h_db hst)" and "IsValidKey (utf8_of v k) = None"
    and "entry_ok hst c (visitor_view (h_db hst) (basic_key (modifyGlobalKey c (utf8_of v k))))"
    and "codec_roundtrip v x"
    and "\<forall>q payer. payer_or_empty p = JString q \<longrightarrow>
      choose_payer hst (basic_Get visitor_db (h_db hst) (modifyGlobalKey c (utf8_of v k))) (payer_arg (utf8_of v q)) = Some payer \<longrightarrow>
      CHR ''@'' \<notin> set payer"
  shows "\<exists>w1 w2.
    js_put (InitStorage v (go_storage_table visitor_db)) holder (JString k) (JString x) p w = Some w1 \<and>
    js_get (InitStorage v (go_storage_table visitor_db)) holder (JString k) w1 = Some w2 \<and>
    w_ret w2 = JString x \<and> w_exc w2 = w_exc w \<and> blocks (w_heap w2) = blocks (w_heap w)"
  using assms by (intro visitor.cached.js_put_get) blast+

theorem storage_put_get_witness:
  "\<exists>w1 w2.
    js_put (InitStorage byte_v8 (go_storage_table visitor_db)) 0 (JString (js ''k'')) (JString (js ''v'')) JUndefined (alice_world CStorage) = Some w1 \<and>
    js_get (InitStorage byte_v8 (go_storage_table visitor_db)) 0 (JString (js ''k'')) w1 = Some w2 \<and>
    w_ret w2 = JString (js ''v'') \<and> w_exc w2 = None \<and> blocks (w_heap w2) = (\<lambda>_. None)"
  using storage_put_get [of "alice_world CStorage" byte_v8 0 "js ''k''" "js ''v''" JUndefined alice_host "''Contract1''"]
  by (simp add: INPUT_MAX_LENGTH_def payer_arg_def payer_or_empty_def empty_heap_def [THEN arg_cong [where f = blocks]])

text \<open>
  C2. Contracts are isolated: whatever a contract writes (\<^verbatim>\<open>put\<close>, \<^verbatim>\<open>del\<close>, \<^verbatim>\<open>mapPut\<close>, \<^verbatim>\<open>mapDel\<close>), all that can be read
  of another contract's storage stays as it was. Contract names have no hyphen.
\<close>

theorem contract_isolation:
  assumes "visitor_inv (h_db h)" and "contract_name h = Some c" and "run_write visitor_db x h = Some (cost, err, h')"
    and "CHR ''-'' \<notin> set c" and "CHR ''-'' \<notin> set c'" and "c' \<noteq> c"
  shows "dbh_GlobalHas visitor_db h' c' k = dbh_GlobalHas visitor_db h c' k \<and>
    dbh_GlobalGet visitor_db h' c' k = dbh_GlobalGet visitor_db h c' k \<and>
    dbh_GlobalMapHas visitor_db h' c' k f = dbh_GlobalMapHas visitor_db h c' k f \<and>
    dbh_GlobalMapGet visitor_db h' c' k f = dbh_GlobalMapGet visitor_db h c' k f \<and>
    dbh_GlobalMapKeys visitor_db h' c' k = dbh_GlobalMapKeys visitor_db h c' k"
  using visitor.cached.write_isolated [OF assms] by simp

theorem contract_isolation_witness:
  "\<exists>cost h'. run_write visitor_db (WPut ''k'' (GString ''v'') []) alice_host = Some (cost, None, h') \<and>
    dbh_GlobalHas visitor_db h' ''Contract2'' ''k'' = dbh_GlobalHas visitor_db alice_host ''Contract2'' ''k''"
proof -
  obtain h where h: "dbh_Put visitor_db alice_host ''k'' (GString ''v'') [] = Some (put_cost (stored_string ''v'' ''Contract1''), None, h)"
    by (rule alice_put)
  then show ?thesis
    using contract_isolation [of alice_host "''Contract1''" "WPut ''k'' (GString ''v'') []" _ None h "''Contract2''" "''k''"] by simp
qed

text \<open>
  C3. A contract's source, escaped by \<^verbatim>\<open>moduleReplacer\<close> and pasted between two double quotes, is
  read by the engine as one string literal that ends at the second quote: no source can break
  out of the literal. Its value is the source with each NUL byte as the four characters of its escape.
\<close>

theorem source_stays_in_literal:
  "js_literal (module_replace s @ CHR 0x22 # r) = Some (literal_value s, r)"
  by (rule js_literal_replace)

text \<open>
  C4. The four writing callbacks of the storage object, with the Go functions behind them, do what
  their operations mean: with string arguments of admitted length they call the operation on the encoded
  bytes, add its gas and return null or throw its error; a longer argument is an exception. All C
  memory they use is given back, and they fail only where the operation panics.
\<close>

theorem storage_writes_refine:
  assumes "heap_ok (w_heap w)" and "utf8_bound v" and "w_fields w holder = IFExternal CStorage"
  shows "refines_at (IOSTContractStorage_Put v (go_storage_table D) \<lparr>ci_args = [JString k, JString x, JString p], ci_holder = holder\<rparr>) w
      (limit_args v [k, x, p] (js_call v (op_Put (go_storage_ops D) (w_sbxPtr w) (utf8_of v k) (utf8_of v x) (utf8_of v p)) (\<lambda>_. JNull)) w) \<and>
    refines_at (IOSTContractStorage_Del v (go_storage_table D) \<lparr>ci_args = [JString k, JString p], ci_holder = holder\<rparr>) w
      (limit_args v [k, p] (js_call v (op_Del (go_storage_ops D) (w_sbxPtr w) (utf8_of v k) (utf8_of v p)) (\<lambda>_. JNull)) w) \<and>
    refines_at (IOSTContractStorage_MapPut v (go_storage_table D) \<lparr>ci_args = [JString k, JString f, JString x, JString p], ci_holder = holder\<rparr>) w
      (limit_args v [k, f, x, p]
        (js_call v (op_MapPut (go_storage_ops D) (w_sbxPtr w) (utf8_of v k) (utf8_of v f) (utf8_of v x) (utf8_of v p)) (\<lambda>_. JNull)) w) \<and>
    refines_at (IOSTContractStorage_MapDel v (go_storage_table D) \<lparr>ci_args = [JString k, JString f, JString p], ci_holder = holder\<rparr>) w
      (limit_args v [k, f, p] (js_call v (op_MapDel (go_storage_ops D) (w_sbxPtr w) (utf8_of v k) (utf8_of v f) (utf8_of v p)) (\<lambda>_. JNull)) w)"
  using assms
  by (intro conjI go_storage.Put_refines go_storage.Del_refines go_storage.MapPut_refines go_storage.MapDel_refines) simp_all

theorem storage_writes_refine_witness:
  "refines_at (IOSTContractStorage_Del byte_v8 (go_storage_table visitor_db)
      \<lparr>ci_args = [JString (js ''k''), JString (js [])], ci_holder = 0\<rparr>) (alice_world CStorage)
    (js_call byte_v8 (op_Del (go_storage_ops visitor_db) 7 ''k'' []) (\<lambda>_. JNull) (alice_world CStorage))"
  using storage_writes_refine [of "alice_world CStorage" byte_v8 0 visitor_db "js ''k''" "js []" "js []" "js []"]
  by (simp add: limit_args_def INPUT_MAX_LENGTH_def)

text \<open>
  C5. The twelve reading callbacks of the storage object, on the contract's own storage and on that of a named contract,
  refine their operations in the same way: a flag, a count through a C \<^verbatim>\<open>int\<close>, a string, or null where there is nothing.
\<close>

theorem storage_reads_refine:
  assumes "heap_ok (w_heap w)" and "utf8_bound v" and "w_fields w holder = IFExternal CStorage"
    and "small_result small_string_opt (op_Get (go_storage_ops D) (w_sbxPtr w) (utf8_of v k) (utf8_of v p)) (w_host w)"
    and "small_result small_string_opt (op_MapGet (go_storage_ops D) (w_sbxPtr w) (utf8_of v k) (utf8_of v f) (utf8_of v p)) (w_host w)"
    and "small_result small_string (op_MapKeys (go_storage_ops D) (w_sbxPtr w) (utf8_of v k) (utf8_of v p)) (w_host w)"
    and "small_result small_string_opt (op_GlobalGet (go_storage_ops D) (w_sbxPtr w) (utf8_of v c) (utf8_of v k) (utf8_of v p)) (w_host w)"
    and "small_result small_string_opt
           (op_GlobalMapGet (go_storage_ops D) (w_sbxPtr w) (utf8_of v c) (utf8_of v k) (utf8_of v f) (utf8_of v p)) (w_host w)"
    and "small_result small_string (op_GlobalMapKeys (go_storage_ops D) (w_sbxPtr w) (utf8_of v c) (utf8_of v k) (utf8_of v p)) (w_host w)"
  shows "refines_at (IOSTContractStorage_Has v (go_storage_table D) \<lparr>ci_args = [JString k, JString p], ci_holder = holder\<rparr>) w
      (limit_args v [k, p] (js_call v (op_Has (go_storage_ops D) (w_sbxPtr w) (utf8_of v k) (utf8_of v p)) JBool) w) \<and>
    refines_at (IOSTContractStorage_Get v (go_storage_table D) \<lparr>ci_args = [JString k, JString p], ci_holder = holder\<rparr>) w
      (limit_args v [k, p] (js_call v (op_Get (go_storage_ops D) (w_sbxPtr w) (utf8_of v k) (utf8_of v p)) (js_result_opt v)) w) \<and>
    refines_at (IOSTContractStorage_MapHas v (go_storage_table D) \<lparr>ci_args = [JString k, JString f, JString p], ci_holder = holder\<rparr>) w
      (limit_args v [k, f, p] (js_call v (op_MapHas (go_storage_ops D) (w_sbxPtr w) (utf8_of v k) (utf8_of v f) (utf8_of v p)) JBool) w) \<and>
    refines_at (IOSTContractStorage_MapGet v (go_storage_table D) \<lparr>ci_args = [JString k, JString f, JString p], ci_holder = holder\<rparr>) w
      (limit_args v [k, f, p]
        (js_call v (op_MapGet (go_storage_ops D) (w_sbxPtr w) (utf8_of v k) (utf8_of v f) (utf8_of v p)) (js_result_opt v)) w) \<and>
    refines_at (IOSTContractStorage_MapKeys v (go_storage_table D) \<lparr>ci_args = [JString k, JString p], ci_holder = holder\<rparr>) w
      (limit_args v [k, p] (js_call v (op_MapKeys (go_storage_ops D) (w_sbxPtr w) (utf8_of v k) (utf8_of v p)) (js_result v)) w) \<and>
    refines_at (IOSTContractStorage_MapLen v (go_storage_table D) \<lparr>ci_args = [JString k, JString p], ci_holder = holder\<rparr>) w
      (limit_args v [k, p] (js_call v (op_MapLen (go_storage_ops D) (w_sbxPtr w) (utf8_of v k) (utf8_of v p)) js_int) w) \<and>
    refines_at (IOSTContractStorage_GlobalHas v (go_storage_table D) \<lparr>ci_args = [JString c, JString k, JString p], ci_holder = holder\<rparr>) w
      (limit_args v [c, k, p] (js_call v (op_GlobalHas (go_storage_ops D) (w_sbxPtr w) (utf8_of v c) (utf8_of v k) (utf8_of v p)) JBool) w) \<and>
    refines_at (IOSTContractStorage_GlobalGet v (go_storage_table D) \<lparr>ci_args = [JString c, JString k, JString p], ci_holder = holder\<rparr>) w
      (limit_args v [c, k, p]
        (js_call v (op_GlobalGet (go_storage_ops D) (w_sbxPtr w) (utf8_of v c) (utf8_of v k) (utf8_of v p)) (js_result_opt v)) w) \<and>
    refines_at (IOSTContractStorage_GlobalMapHas v (go_storage_table D)
        \<lparr>ci_args = [JString c, JString k, JString f, JString p], ci_holder = holder\<rparr>) w
      (limit_args v [c, k, f, p]
        (js_call v (op_GlobalMapHas (go_storage_ops D) (w_sbxPtr w) (utf8_of v c) (utf8_of v k) (utf8_of v f) (utf8_of v p)) JBool) w) \<and>
    refines_at (IOSTContractStorage_GlobalMapGet v (go_storage_table D)
        \<lparr>ci_args = [JString c, JString k, JString f, JString p], ci_holder = holder\<rparr>) w
      (limit_args v [c, k, f, p]
        (js_call v (op_GlobalMapGet (go_storage_ops D) (w_sbxPtr w) (utf8_of v c) (utf8_of v k) (utf8_of v f) (utf8_of v p)) (js_result_opt v)) w) \<and>
    refines_at (IOSTContractStorage_GlobalMapKeys v (go_storage_table D) \<lparr>ci_args = [JString c, JString k, JString p], ci_holder = holder\<rparr>) w
      (limit_args v [c, k, p]
        (js_call v (op_GlobalMapKeys (go_storage_ops D) (w_sbxPtr w) (utf8_of v c) (utf8_of v k) (utf8_of v p)) (js_result v)) w) \<and>
    refines_at (IOSTContractStorage_GlobalMapLen v (go_storage_table D) \<lparr>ci_args = [JString c, JString k, JString p], ci_holder = holder\<rparr>) w
      (limit_args v [c, k, p] (js_call v (op_GlobalMapLen (go_storage_ops D) (w_sbxPtr w) (utf8_of v c) (utf8_of v k) (utf8_of v p)) js_int) w)"
  using assms
  by (intro conjI go_storage.Has_refines go_storage.Get_refines go_storage.MapHas_refines go_storage.MapGet_refines
      go_storage.MapKeys_refines go_storage.MapLen_refines
      go_storage.GlobalHas_refines go_storage.GlobalGet_refines go_storage.GlobalMapHas_refines
      go_storage.GlobalMapGet_refines go_storage.GlobalMapKeys_refines go_storage.GlobalMapLen_refines) simp_all

theorem storage_reads_refine_witness:
  "refines_at (IOSTContractStorage_Get byte_v8 (go_storage_table visitor_db)
      \<lparr>ci_args = [JString (js ''k''), JString (js [])], ci_holder = 0\<rparr>) (alice_world CStorage)
    (js_call byte_v8 (op_Get (go_storage_ops visitor_db) 7 ''k'' []) (js_result_opt byte_v8) (alice_world CStorage)) \<and>
   refines_at (IOSTContractStorage_GlobalGet byte_v8 (go_storage_table visitor_db)
      \<lparr>ci_args = [JString (js ''c''), JString (js ''k''), JString (js [])], ci_holder = 0\<rparr>) (alice_world CStorage)
    (js_call byte_v8 (op_GlobalGet (go_storage_ops visitor_db) 7 ''c'' ''k'' []) (js_result_opt byte_v8) (alice_world CStorage))"
  using storage_reads_refine [of "alice_world CStorage" byte_v8 0 visitor_db "js ''k''" "js []" "js ''f''" "js ''c''"]
  by (simp add: limit_args_def INPUT_MAX_LENGTH_def alice_reads)


section \<open>The scripts\<close>

text \<open>
  C6. Collecting the charges of a source never fails, loses no charge and charges nothing twice: what stands in
  the table at the end is, as a multiset, the charges of the nodes of the tree. Every loop is metered: at the
  start of its body there is an entry that is written out as a call of the counter. A tree qualifies if its nodes have the
  positions the parser gives them and nothing starts where a bracketed node ends.
\<close>

theorem gas_injection:
  assumes "tree_ok t"
  shows "\<exists>m. traverse t None NullRef [] = Some m \<and> injections_ok m \<and> all_charges m = mset (tree_gas t) \<and>
    loops_metered (subtrees t) m"
  using assms by (rule traverse_ok)

theorem gas_injection_witness:
  "\<exists>m. traverse sample_loop None NullRef [] = Some m \<and> all_charges m = {#Units 1, Units 1, Units 4#} \<and> metered_at m 8"
proof -
  obtain m where m: "traverse sample_loop None NullRef [] = Some m" "all_charges m = mset (tree_gas sample_loop)"
    "loops_metered (subtrees sample_loop) m"
    using gas_injection [OF sample_loop_ok] by blast
  obtain n where "n \<in> set (subtrees sample_loop)" "node_type n = ''WhileStatement''" "body_start (field n ''body'') = Some 8"
    using sample_loop_body by (auto simp: list_ex_iff)
  then have "metered_at m 8" using m(3) by (auto simp: loops_metered_def loops_def)
  then show ?thesis using m sample_loop_gas by auto
qed

text \<open>
  C7. Writing the new source is the same as putting the texts of every position, in order, in front of
  the character there: the loop over sorted positions and slices neither drops nor repeats a part of the source.
\<close>

theorem injections_woven:
  assumes "distinct (map fst m)" and "\<forall>p \<in> set (map fst m). p < len" and "length source \<le> len"
  shows "genNewScript num m source = spliced num m source len"
  using assms by (rule genNewScript_spliced)

theorem injections_woven_witness:
  "genNewScript (\<lambda>cs. js ''1'') [(2, [\<lparr>en_type = rightBrace, en_text = None, en_charges = []\<rparr>]), (0, [\<lparr>en_type = leftBrace, en_text = None, en_charges = []\<rparr>])] (js ''b;'') =
   js ''{b;}''"
proof -
  let ?m = "[(2, [\<lparr>en_type = rightBrace, en_text = None, en_charges = []\<rparr>]), (0, [\<lparr>en_type = leftBrace, en_text = None, en_charges = []\<rparr>])]"
  have "spliced (\<lambda>cs. js ''1'') ?m (js ''b;'') 3 = js ''{b;}''" by code_simp
  then show ?thesis using injections_woven [of ?m 3 "js ''b;''" "\<lambda>cs. js ''1''"] by simp
qed

text \<open>
  C8. After the rewriting of operators no operator escapes the runtime, at any depth of the tree: no binary
  operator of the list, no compound assignment, no untagged template and no pattern is left, and every spread
  element spreads the result of the runtime's function.
\<close>

theorem operators_rewritten:
  assumes "traverseOperator d p t = Inr u"
  shows "ops_metered p u"
  using assms by (rule traverseOperator_metered)

theorem operators_rewritten_witness:
  "\<exists>u. traverseOperator 0 ''undefined'' sample_sum = Inr u \<and> ops_metered ''undefined'' u \<and>
    field u ''right'' = binary_call (sample_name ''a'' 0 1) (sample_name ''b'' 5 6) (js ''+'')"
proof -
  have "(case traverseOperator 0 ''undefined'' sample_sum of Inl e \<Rightarrow> False
      | Inr u \<Rightarrow> field u ''right'' = binary_call (sample_name ''a'' 0 1) (sample_name ''b'' 5 6) (js ''+''))" by code_simp
  then obtain u where u: "traverseOperator 0 ''undefined'' sample_sum = Inr u"
    "field u ''right'' = binary_call (sample_name ''a'' 0 1) (sample_name ''b'' 5 6) (js ''+'')"
    by (auto split: sum.splits)
  then show ?thesis using operators_rewritten [OF u(1)] by blast
qed

text \<open>
  C9. What the operators of the runtime do on strings and charge for it: a sum costs three and the length of
  its result, an equality three and the lengths of both sides, and a template four and eight for each hole. The
  loose equality of a source is decided as the strict one.
\<close>

theorem string_operators_charged:
  assumes "plain_strings E" and "can_charge counter (3 + length b + length a) 3 w"
    and "length a + length b \<le> max_string E" and "length a + length b < 2147483647"
  shows "(\<exists>w'. IOSTBinaryOp v counter E (JString a) (JString b) ''+'' w = Some w' \<and> w_ret w' = JString (a @ b) \<and> w_exc w' = None \<and>
      gas_of w' = gas_of w + 3 + (length a + length b)) \<and>
    (\<forall>opr \<in> {''=='', ''===''}.
      \<exists>w'. IOSTBinaryOp v counter E (JString a) (JString b) opr w = Some w' \<and> w_ret w' = JBool (a = b) \<and> w_exc w' = None \<and>
        gas_of w' = gas_of w + 3 + (length a + length b)) \<and>
    (can_charge counter (8 * length keys + 4) (Suc (length keys)) w \<longrightarrow> length strings = Suc (length keys) \<longrightarrow>
      length (concat strings) + length (concat keys) \<le> max_string E \<longrightarrow>
      (\<exists>w'. IOSTTemplateTag v counter E strings (map JString keys) w = Some w' \<and> w_exc w' = None \<and>
        gas_of w' = gas_of w + 4 + 8 * length keys \<and> w_ret w' = JString (concat (map2 (@) (butlast strings) keys) @ last strings)))"
proof -
  have "can_charge counter (3 + (length a + length b)) 2 w" using assms(2) by (simp add: can_charge_def ac_simps)
  then show ?thesis
    using BinaryOp_concat [OF _ assms(3,4)] BinaryOp_equals [OF assms(1,2)] TemplateTag_gas assms(4) by auto
qed

theorem string_operators_charged_witness:
  "(\<exists>w'. IOSTBinaryOp byte_v8 0 plain_js (JString (js ''a'')) (JString (js ''bc'')) ''+'' (alice_world CInstruction) = Some w' \<and>
     w_ret w' = JString (js ''a'' @ js ''bc'') \<and> gas_of w' = 6) \<and>
   (\<exists>w'. IOSTTemplateTag byte_v8 0 plain_js [js ''x='', js '';''] (map JString [js ''1'']) (alice_world CInstruction) = Some w' \<and>
     w_ret w' = JString (js ''x='' @ js ''1'' @ js '';'') \<and> gas_of w' = 12)"
proof -
  have w: "plain_strings plain_js" "can_charge 0 6 3 (alice_world CInstruction)" "can_charge 0 12 (Suc (Suc 0)) (alice_world CInstruction)"
    "gas_of (alice_world CInstruction) = 0"
    by (simp_all add: plain_strings_def plain_js_def can_charge_def gas_of_def alice_world_def sample_sandbox_def MemoryUsage_def GetMaxAllocatedMemSize_def ArrayBufferAllocator_new_def)
  show ?thesis
    using string_operators_charged [OF w(1), of 0 "js ''bc''" "js ''a''" "alice_world CInstruction" byte_v8 "[js ''1'']" "[js ''x='', js '';'']"] w(2-)
    by simp blast
qed



text \<open>
  C11. The number classes keep their promise whatever they are given: every object that a constructor or an operation
  returns holds, for \<^verbatim>\<open>Int64\<close>, an integer of 64 bits, and for \<^verbatim>\<open>Float64\<close>, a number of that range or NaN. Asked of
  \<^verbatim>\<open>BigNumber\<close> are exact copies, the two limits, and right comparisons.
\<close>

theorem numbers_in_range:
  assumes "bn_numbers B val"
  shows "(Inr u \<in> set (Int64_results B x n k) \<longrightarrow> is_int64 val u) \<and> (Inr u \<in> set (Float64_results B x n k) \<longrightarrow> is_float64 val u)"
  using Int64_results_ok [OF assms] Float64_results_ok [OF assms] by blast

theorem numbers_in_range_witness:
  "Inr (num_int 5) \<in> set (Int64_results rat_bignumber (num_int 2) (Same (num_int 3)) JUndefined) \<and> is_int64 (\<lambda>x. x) (num_int 5) \<and>
   Inr (num_int 9223372036854775808) \<notin> set (Int64_results rat_bignumber (num_int 9223372036854775807) (Same (num_int 1)) JUndefined)"
proof -
  have "Inr (num_int 5) \<in> set (Int64_results rat_bignumber (num_int 2) (Same (num_int 3)) JUndefined)" by code_simp
  moreover have "\<not> is_int64 (\<lambda>x. x) (num_int 9223372036854775808)" by (simp add: is_int64_def in_int64_def)
  ultimately show ?thesis using numbers_in_range [OF rat_bn_numbers] by blast
qed

text \<open>
  C12. Arithmetic on \<^verbatim>\<open>Int64\<close> is exact or refused: sums, differences, products, quotients cut off towards zero,
  remainders with the sign of the dividend and negations are the integers they should be when these fit into 64 bits,
  and errors when they do not; so is a division by zero.
\<close>

theorem int64_exact:
  assumes "bn_numbers B val" and "bn_arithmetic B val" and "val x = num_int a" and "val y = num_int b" and "in_int64 b"
  shows "exactly val (Int64_plus B x (Same y)) (a + b) \<and> exactly val (Int64_minus B x (Same y)) (a - b) \<and>
    exactly val (Int64_multi B x (Same y)) (a * b) \<and> exactly val (Int64_negated B x) (- a) \<and>
    (if b = 0 then (\<exists>e. Int64_div B x (Same y) = Inl e) \<and> (\<exists>e. Int64_mod B x (Same y) = Inl e)
     else exactly val (Int64_div B x (Same y)) (a sdiv b) \<and> exactly val (Int64_mod B x (Same y)) (a smod b))"
  using Int64_exact [OF assms] by simp

theorem int64_exact_witness:
  "(\<exists>e. Int64_div rat_bignumber (num_int (- 9223372036854775808)) (Same (num_int (- 1))) = Inl e) \<and>
   Int64_div rat_bignumber (num_int (- 7)) (Same (num_int 2)) = Inr (num_int (- 3))"
proof -
  have "(- 9223372036854775808 :: int) sdiv (- 1) = 9223372036854775808" "(- 7 :: int) sdiv 2 = - 3" by code_simp+
  then show ?thesis
    using int64_exact [OF rat_bn_numbers rat_bn_arithmetic refl refl, of "- 1" "- 9223372036854775808"]
      int64_exact [OF rat_bn_numbers rat_bn_arithmetic refl refl, of 2 "- 7"]
    by (simp add: exactly_def in_int64_def)
qed

section \<open>The checks of the storage object\<close>

text \<open>
  C13. Every method of the storage object turns wrong arguments away with an exception and has no
  other effect: a wrong number of them, or one that is not a string, the payer of the two
  writing methods \<^verbatim>\<open>put\<close> and \<^verbatim>\<open>mapPut\<close> excepted.
\<close>

theorem storage_arguments_refused:
  assumes "(name, f) \<in> set (tpl_methods (InitStorage v C))" and "map_of storage_arity name = Some n"
    and "length (ci_args args) \<noteq> n \<or>
         (\<exists>i < n. \<not> IsString (ci_args args ! i) \<and> (name \<in> {''put'', ''mapPut''} \<longrightarrow> Suc i < n))"
  shows "only_throws v (f args) w"
  using wrong_arity [OF assms(1,2)] wrong_type [OF assms(1,2)] assms(3) by blast

theorem storage_arguments_refused_witness:
  "only_throws byte_v8
    (IOSTContractStorage_Has byte_v8 (go_storage_table visitor_db) \<lparr>ci_args = [JString (js ''k''), JNull], ci_holder = 0\<rparr>)
    (alice_world CStorage)"
proof -
  have "(''has'', IOSTContractStorage_Has byte_v8 (go_storage_table visitor_db)) \<in>
      set (tpl_methods (InitStorage byte_v8 (go_storage_table visitor_db)))"
    by (simp add: InitStorage_def)
  then show ?thesis
    by (rule storage_arguments_refused [where n = 2]) (auto simp: storage_arity_def intro: exI [of _ 1])
qed

text \<open>
  C14. The type of the payer is not checked by \<^verbatim>\<open>put\<close> and \<^verbatim>\<open>mapPut\<close>: the test meant for it looks at the value
  again, so a payer that is not a string is cast to one, which is undefined behaviour. Contracts can bring
  it about: \<^verbatim>\<open>storage.js\<close> only replaces an undefined payer.
\<close>

theorem storage_payer_unchecked:
  assumes "\<not> IsString p" and "length k \<le> INPUT_MAX_LENGTH" and "length f \<le> INPUT_MAX_LENGTH" and "length x \<le> INPUT_MAX_LENGTH"
  shows "IOSTContractStorage_Put v C \<lparr>ci_args = [JString k, JString x, p], ci_holder = holder\<rparr> w = None \<and>
    IOSTContractStorage_MapPut v C \<lparr>ci_args = [JString k, JString f, JString x, p], ci_holder = holder\<rparr> w = None \<and>
    (p \<noteq> JUndefined \<longrightarrow>
       js_put (InitStorage v C) holder (JString k) (JString x) p w = None \<and>
       js_mapPut (InitStorage v C) holder (JString k) (JString f) (JString x) p w = None)"
  using assms js_payer_unchecked [of p k x v C holder w] js_mapPut_payer_unchecked [of p k f x v C holder w]
  by (intro conjI impI put_payer_unchecked [where k = k and x = x and p = p] mapPut_payer_unchecked [where k = k and f = f and x = x and p = p]) simp_all

theorem storage_payer_unchecked_witness:
  "js_put (InitStorage byte_v8 (go_storage_table visitor_db)) 0 (JString (js ''k'')) (JString (js ''v'')) JNull (alice_world CStorage) = None"
  using storage_payer_unchecked [of JNull "js ''k''" "js ''f''" "js ''v''" byte_v8 "go_storage_table visitor_db" 0 "alice_world CStorage"]
  by (simp add: INPUT_MAX_LENGTH_def)

section \<open>The ledger of storage\<close>

text \<open>
  C15. Writing or deleting an entry charges exactly what changes hands: for every account, what the cached cost
  charges it more is what it owns of the entry afterwards minus what it owned before, where an
  account owns the bytes of key and value of the entries it pays for. After a deletion nobody owns anything of it.
\<close>

theorem storage_ledger:
  assumes "visitor_inv (h_db h)" and "IsValidKey key = None"
    and "entry_ok h c (visitor_view (h_db h) (basic_key (modifyGlobalKey c key)))"
  shows "(choose_payer h (basic_Get visitor_db (h_db h) (modifyGlobalKey c key)) ps = Some payer \<longrightarrow> payer \<noteq> [] \<longrightarrow>
      CHR ''@'' \<notin> set payer \<longrightarrow> dbh_Put visitor_db h key (GString s) ps = Some (cost, None, h') \<longrightarrow>
      charged (h_cacheCost h') who - charged (h_cacheCost h) who =
        owned h (length (modifyGlobalKey c key)) (visitor_view (h_db h') (basic_key (modifyGlobalKey c key))) who -
        owned h (length (modifyGlobalKey c key)) (visitor_view (h_db h) (basic_key (modifyGlobalKey c key))) who) \<and>
    ((\<forall>s. visitor_view (h_db h) (basic_key (modifyGlobalKey c key)) = Some s \<longrightarrow> (\<exists>q. parseValuePayer s = Some q \<and> q \<noteq> [])) \<longrightarrow>
      dbh_Del visitor_db h key = Some (cost, None, h') \<longrightarrow>
      charged (h_cacheCost h') who - charged (h_cacheCost h) who =
        - owned h (length (modifyGlobalKey c key)) (visitor_view (h_db h) (basic_key (modifyGlobalKey c key))) who)"
  using visitor.cached.dbh_Put_ledger [OF assms] visitor.cached.dbh_Del_ledger [OF assms] by blast

theorem storage_ledger_witness:
  "(\<exists>cost h'. dbh_Put visitor_db alice_host ''k'' (GString ''v'') [] = Some (cost, None, h') \<and>
     charged (h_cacheCost h') ''Contract1'' - charged Cost0 ''Contract1'' = 23) \<and>
   (\<exists>cost h'. dbh_Del visitor_db alice_host ''k'' = Some (cost, None, h') \<and>
     charged (h_cacheCost h') ''bob'' - charged (h_cacheCost alice_host) ''bob'' = 0)"
proof -
  have ok: "visitor_inv (h_db alice_host)"
    "entry_ok alice_host ''Contract1'' (visitor_view (h_db alice_host) (basic_key (modifyGlobalKey ''Contract1'' ''k'')))" by simp_all
  obtain h where h: "dbh_Put visitor_db alice_host ''k'' (GString ''v'') [] = Some (put_cost (stored_string ''v'' ''Contract1''), None, h)"
    "visitor_view (h_db h) (basic_key (modifyGlobalKey ''Contract1'' ''k'')) = Some (stored_string ''v'' ''Contract1'')"
    by (rule alice_put)
  have "owner_of alice_host (stored_string ''v'' ''Contract1'') = Some ''Contract1''"
    by (simp add: owner_of_def stored_string_read)
  then have put: "charged (h_cacheCost h) ''Contract1'' - charged Cost0 ''Contract1'' = 23"
    using storage_ledger [OF ok(1) valid_k(1) ok(2), of "[]" "''Contract1''" "''v''" _ h "''Contract1''"] h
    by (simp add: owned_def) (simp add: alice_host_def stored_string_def modifyGlobalKey_def)
  obtain h2 where d: "dbh_Del visitor_db alice_host ''k'' = Some (DelCost, None, h2)"
    using visitor.cached.dbh_Del_view [OF ok(1) valid_k(1) ok(2)] by metis
  then have "charged (h_cacheCost h2) ''bob'' - charged (h_cacheCost alice_host) ''bob'' = 0"
    using storage_ledger [OF ok(1) valid_k(1) ok(2), of "[]" "[]" "[]" DelCost h2 "''bob''"] by (simp add: owned_def)
  then show ?thesis using put h d by blast
qed

text \<open>
  C16. A stored value is read back with the account that pays for it, for every kind of value
  that can be stored, as long as the payer's name has no separator.
\<close>

theorem value_round_trip:
  assumes "storable x" and "x \<noteq> GNil" and "CHR ''@'' \<notin> set payer"
  shows "\<exists>s. Marshal x [payer] = Some s \<and> Unmarshal s = Some x \<and> UnmarshalWithExtra s = Some (x, payer)"
  using Marshal_body [OF assms(1,2), of payer] Unmarshal_body [OF assms(3), of x] UnmarshalWithExtra_body [OF assms(3), of x]
    unmarshalInner_body [OF assms(1)] by simp

theorem value_round_trip_witness:
  "\<exists>s. Marshal (GString ''v@w'') [''alice''] = Some s \<and> Unmarshal s = Some (GString ''v@w'') \<and>
    UnmarshalWithExtra s = Some (GString ''v@w'', ''alice'')"
  using value_round_trip [of "GString ''v@w''" "''alice''"] by simp

section \<open>The store\<close>

text \<open>
  C17. Committing makes the base show what the transaction saw and empties the cache; rolling back
  returns to what the base shows, which is not touched.
\<close>

theorem commit_and_rollback:
  assumes "visitor_inv d"
  shows "adapter_view (wc_db (Commit adapter_db d)) = visitor_view d \<and> adapter_inv (wc_db (Commit adapter_db d)) \<and>
    visitor_view (Commit adapter_db d) = visitor_view d \<and>
    visitor_view (Rollback d) = adapter_view (wc_db d) \<and> wc_db (Rollback d) = wc_db d \<and> visitor_inv (Rollback d)"
  using visitor.commit_base [OF assms] visitor.commit_view [OF assms] wc_inv_Drop [OF assms]
  by (simp add: Rollback_def wc_view_Drop) (simp add: wc_Drop_def)

theorem commit_and_rollback_witness:
  "adapter_view (wc_db (Commit adapter_db (wc_Put (NewWriteCache empty_store) ''k'' ''v''))) ''k'' = Some ''v'' \<and>
   visitor_view (Rollback (wc_Put (NewWriteCache empty_store) ''k'' ''v'')) ''k'' = None"
proof -
  have "visitor_inv (wc_Put (NewWriteCache empty_store) ''k'' ''v'')" by (simp add: wc_inv_Put)
  from commit_and_rollback [OF this] show ?thesis by (simp add: wc_view_Put) (simp add: wc_Put_def NewWriteCache_def)
qed

text \<open>
  C18. The list of the fields of a map stays right when a field is written or deleted: no duplicates, and listed are
  exactly the fields that are there. A new field comes last; at 257 fields the list is full. From version 3.1.0 on, a deleted
  field is taken out and the others keep their order.
\<close>

theorem map_fields_kept:
  assumes "visitor_inv d" and "fields_ok (visitor_view d) key" and "CHR ''@'' \<notin> set f"
  shows "(x \<noteq> [] \<longrightarrow> visitor_view d (field_key key f) \<noteq> None \<or> length (listed (visitor_view d) key) \<le> 256 \<longrightarrow>
      fields_ok (visitor_view (MPut visitor_db d key f x)) key \<and>
      MKeys visitor_db (MPut visitor_db d key f x) key =
        (if MHas visitor_db d key f then MKeys visitor_db d key else MKeys visitor_db d key @ [f])) \<and>
    (IsFork3_1_0 (db_Rules visitor_db d) \<longrightarrow>
      fields_ok (visitor_view (MDel visitor_db d key f)) key \<and>
      listed (visitor_view (MDel visitor_db d key f)) key = filter (\<lambda>g. g \<noteq> f) (listed (visitor_view d) key) \<and>
      visitor_view (MDel visitor_db d key f) (field_key key f) = None)"
proof (intro conjI impI)
  assume "x \<noteq> []" and "visitor_view d (field_key key f) \<noteq> None \<or> length (listed (visitor_view d) key) \<le> 256"
  then show "fields_ok (visitor_view (MPut visitor_db d key f x)) key"
    "MKeys visitor_db (MPut visitor_db d key f x) key =
      (if MHas visitor_db d key f then MKeys visitor_db d key else MKeys visitor_db d key @ [f])"
    using visitor.cached.MPut_fields_ok [OF assms] visitor.cached.MKeys_view visitor.cached.MHas_view [OF assms(1)]
      visitor.cached.MPut_inv [OF assms(1), of x key f] assms(1) by simp_all
next
  assume "IsFork3_1_0 (db_Rules visitor_db d)"
  from visitor.cached.MDel_fields_ok [OF assms this]
  show "fields_ok (visitor_view (MDel visitor_db d key f)) key"
    "listed (visitor_view (MDel visitor_db d key f)) key = filter (\<lambda>g. g \<noteq> f) (listed (visitor_view d) key)"
    "visitor_view (MDel visitor_db d key f) (field_key key f) = None" by simp_all
qed

theorem map_fields_kept_witness:
  "MKeys visitor_db (MPut visitor_db (NewWriteCache empty_store) ''k'' ''f'' ''v'') ''k'' = [''f''] \<and>
   visitor_view (MDel visitor_db (NewWriteCache empty_store) ''k'' ''f'') (field_key ''k'' ''f'') = None"
proof -
  have "fields_ok (visitor_view (NewWriteCache empty_store)) ''k''" "listed (visitor_view (NewWriteCache empty_store)) ''k'' = []"
    by (simp_all add: fields_ok_def listed_def)
  moreover have "IsFork3_1_0 (db_Rules visitor_db (NewWriteCache empty_store))"
    by (simp add: wc_database_def wc_Rules_def adapter_db_def NewWriteCache_def empty_store_def forks_def)
  ultimately show ?thesis
    using map_fields_kept [of "NewWriteCache empty_store" "''k''" "''f''" "''v''"] visitor.cached.MHas_view [of "NewWriteCache empty_store"]
    by simp
qed

text \<open>
  C19. The read cache under the write cache cannot be seen: any sequence of reads, writes, deletions
  and purges answers as the adapter alone does and leaves the same base, and a cache of positive
  length never holds more entries than that.
\<close>

theorem read_cache_transparent:
  assumes "adapter_inv b" and "list_all writes_nonempty ops" and "0 < n"
  shows "fst (run_ops (lru_step adapter_db) ops (NewLRU n b)) = fst (run_ops (base_step adapter_db) ops b) \<and>
    lru_db (snd (run_ops (lru_step adapter_db) ops (NewLRU n b))) = snd (run_ops (base_step adapter_db) ops b) \<and>
    (\<exists>c. lru_cache (snd (run_ops (lru_step adapter_db) ops (NewLRU n b))) = Some c \<and> int (length (ca_list c)) \<le> n)"
  using adapter.lru_transparent [of "NewLRU n b" ops] adapter.lru_bounded [OF assms(1,3,2)] assms
  by (simp add: lru_inv_New) (simp add: NewLRU_def)

theorem read_cache_transparent_witness:
  "fst (run_ops (lru_step adapter_db) [OPut ''a'' ''1'', OGet ''a'', OPut ''b'' ''2'', OGet ''b'', ODel ''a'', OHas ''a''] (NewLRU 1 empty_store)) =
   [ADone, AValue ''1'', ADone, AValue ''2'', ADone, ABool False]"
  using read_cache_transparent [of empty_store "[OPut ''a'' ''1'', OGet ''a'', OPut ''b'' ''2'', OGet ''b'', ODel ''a'', OHas ''a'']" 1]
  by (simp add: adapter.kv_laws adapter.put_inv adapter.del_inv)

section \<open>Calls between contracts and permissions\<close>

text \<open>
  C20. The eight callbacks of the blockchain object, with the Go functions behind them, refine their
  operations: information about block, transaction and context, calls of other contracts, permission
  checks, receipts and events. As for storage, all C memory is given back.
\<close>

theorem blockchain_calls_refine:
  assumes "heap_ok (w_heap w)" and "utf8_bound v" and "w_fields w holder = IFExternal CBlockchain"
    and "small_result small_string (op_BlockInfo (go_blockchain_ops n D dec M) (w_sbxPtr w)) (w_host w)"
    and "small_result small_string (op_TxInfo (go_blockchain_ops n D dec M) (w_sbxPtr w)) (w_host w)"
    and "small_result small_string (op_ContextInfo (go_blockchain_ops n D dec M) (w_sbxPtr w)) (w_host w)"
    and "small_result small_string (op_Call (go_blockchain_ops n D dec M) (w_sbxPtr w) (utf8_of v a) (utf8_of v b) (utf8_of v c)) (w_host w)"
    and "small_result small_string (op_CallWithAuth (go_blockchain_ops n D dec M) (w_sbxPtr w) (utf8_of v a) (utf8_of v b) (utf8_of v c)) (w_host w)"
  shows "refines_at (IOSTBlockchain_blockInfo v (go_blockchain_table n D dec M) \<lparr>ci_args = xs, ci_holder = holder\<rparr>) w
      (js_call v (op_BlockInfo (go_blockchain_ops n D dec M) (w_sbxPtr w)) (js_result v) w) \<and>
    refines_at (IOSTBlockchain_txInfo v (go_blockchain_table n D dec M) \<lparr>ci_args = xs, ci_holder = holder\<rparr>) w
      (js_call v (op_TxInfo (go_blockchain_ops n D dec M) (w_sbxPtr w)) (js_result v) w) \<and>
    refines_at (IOSTBlockchain_contextInfo v (go_blockchain_table n D dec M) \<lparr>ci_args = xs, ci_holder = holder\<rparr>) w
      (js_call v (op_ContextInfo (go_blockchain_ops n D dec M) (w_sbxPtr w)) (js_result v) w) \<and>
    refines_at (IOSTBlockchain_call v (go_blockchain_table n D dec M) \<lparr>ci_args = [JString a, JString b, JString c], ci_holder = holder\<rparr>) w
      (limit_args v [a, b, c]
        (js_call v (op_Call (go_blockchain_ops n D dec M) (w_sbxPtr w) (utf8_of v a) (utf8_of v b) (utf8_of v c)) (js_result v)) w) \<and>
    refines_at (IOSTBlockchain_callWithAuth v (go_blockchain_table n D dec M) \<lparr>ci_args = [JString a, JString b, JString c], ci_holder = holder\<rparr>) w
      (limit_args v [a, b, c]
        (js_call v (op_CallWithAuth (go_blockchain_ops n D dec M) (w_sbxPtr w) (utf8_of v a) (utf8_of v b) (utf8_of v c)) (js_result v)) w) \<and>
    refines_at (IOSTBlockchain_requireAuth v (go_blockchain_table n D dec M) \<lparr>ci_args = [JString a, JString b], ci_holder = holder\<rparr>) w
      (limit_args v [a, b]
        (js_call v (op_RequireAuth (go_blockchain_ops n D dec M) (w_sbxPtr w) (utf8_of v a) (utf8_of v b)) JBool) w) \<and>
    refines_at (IOSTBlockchain_receipt v (go_blockchain_table n D dec M) \<lparr>ci_args = [JString a], ci_holder = holder\<rparr>) w
      (limit_args v [a] (js_call v (op_Receipt (go_blockchain_ops n D dec M) (w_sbxPtr w) (utf8_of v a)) (\<lambda>_. JNull)) w) \<and>
    refines_at (IOSTBlockchain_event v (go_blockchain_table n D dec M) \<lparr>ci_args = [JString a], ci_holder = holder\<rparr>) w
      (limit_args v [a] (js_call v (op_Event (go_blockchain_ops n D dec M) (w_sbxPtr w) (utf8_of v a)) (\<lambda>_. JNull)) w)"
  using assms
  by (intro conjI go_blockchain.BlockInfo_refines go_blockchain.TxInfo_refines go_blockchain.ContextInfo_refines
      go_blockchain.Call_refines go_blockchain.CallWithAuth_refines go_blockchain.RequireAuth_refines
      go_blockchain.Receipt_refines go_blockchain.Event_refines) simp_all

theorem blockchain_calls_refine_witness:
  "refines_at (IOSTBlockchain_receipt byte_v8 (go_blockchain_table 3 visitor_db no_accounts still_monitor)
      \<lparr>ci_args = [JString (js ''paid'')], ci_holder = 0\<rparr>) ((alice_world CBlockchain)\<lparr>w_sbxPtr := 8\<rparr>)
    (js_call byte_v8 (op_Receipt (go_blockchain_ops 3 visitor_db no_accounts still_monitor) 8 ''paid'') (\<lambda>_. JNull)
      ((alice_world CBlockchain)\<lparr>w_sbxPtr := 8\<rparr>))"
proof -
  have "with_sandbox 8 f alice_node = Some (Inl ErrGetSandbox, 0, alice_node)" for f :: "_ \<Rightarrow> ((string + string) \<times> _) option"
    by (simp add: with_sandbox_def GetSandbox_def alice_node_def)
  then show ?thesis
    using blockchain_calls_refine [of "(alice_world CBlockchain)\<lparr>w_sbxPtr := 8\<rparr>" byte_v8 0 3 visitor_db no_accounts still_monitor
        "js ''paid''" "js []" "js []" "[]"]
    by (simp add: limit_args_def INPUT_MAX_LENGTH_def small_result_def go_blockchain_ops_def info_op_def call_op_def)
qed

text \<open>
  C21. Calls are guarded by the stack. A contract function that is on it cannot be entered again: the call ends with the
  re-entry error, the monitor is not asked, and the host is as it was. Otherwise the monitor is only asked to run a
  contract on a stack of at most five pairwise different entries whose last one is the call itself: two monitors that
  agree on these agree on every call.
\<close>

theorem call_guard:
  assumes "stack_is (h_ctx h) rs"
  shows "(call_record con api \<in> set rs \<longrightarrow> host_call M h con api jarg withAuth = Some (None, Cost0, Some ErrReenter, h)) \<and>
    (distinct rs \<longrightarrow>
      (\<forall>h1 rs1. stack_is (h_ctx h1) rs1 \<longrightarrow> distinct rs1 \<longrightarrow> length rs1 \<le> 5 \<longrightarrow> last rs1 = call_record con api \<longrightarrow>
         mon_Call M h1 con api jarg = mon_Call M' h1 con api jarg) \<longrightarrow>
      host_call M h con api jarg withAuth = host_call M' h con api jarg withAuth)"
  using assms by (intro conjI impI host_call_reenter host_call_guard) blast+

theorem call_guard_witness:
  "host_call still_monitor alice_host ''Contract1'' ''run'' ''[]'' True = Some (None, Cost0, Some ErrReenter, alice_host) \<and>
   host_call low_monitor alice_host ''Contract2'' ''run'' ''[]'' False = host_call still_monitor alice_host ''Contract2'' ''run'' ''[]'' False"
proof
  show "host_call still_monitor alice_host ''Contract1'' ''run'' ''[]'' True = Some (None, Cost0, Some ErrReenter, alice_host)"
    using call_guard [of alice_host "[''Contract1-run'']"] by (simp add: call_record_def)
  show "host_call low_monitor alice_host ''Contract2'' ''run'' ''[]'' False = host_call still_monitor alice_host ''Contract2'' ''run'' ''[]'' False"
    by (rule call_guard [of _ "[''Contract1-run'']", THEN conjunct2, rule_format])
      (auto simp: low_monitor_def still_monitor_def dest!: StackHeight_is)
qed



text \<open>
  C23. The permission check ends although accounts may refer to each other in circles: a recursion
  depth above the number of account-permission pairs it can reach is always enough.
\<close>

theorem auth_terminates:
  assumes "finite U" and "auth_closed D dec db U" and "(i, p) \<in> U" and "card (auth_keys U) < n"
  shows "auth n D dec db authMap signerMap ty i p [] \<noteq> AuthFuel"
  using auth_ends_enough [OF assms(1-3), where R = "[]" and n = n and authMap = authMap and signerMap = signerMap and ty = ty] assms(4)
  by auto

theorem auth_terminates_witness:
  "auth 3 visitor_db no_accounts (NewWriteCache empty_store) [] [] authNormal ''bob'' ''active'' [] \<noteq> AuthFuel"
proof -
  let ?U = "{(''bob'', ''active''), (''bob'', ''owner'')}"
  have "auth_closed visitor_db no_accounts (NewWriteCache empty_store) ?U" by (auto simp: auth_closed_def)
  moreover have "card (auth_keys ?U) < 3" by (simp add: auth_keys_def auth_key_def)
  ultimately show ?thesis
    using auth_terminates [of ?U visitor_db no_accounts "NewWriteCache empty_store" "''bob''" "''active''" 3] by simp
qed





section \<open>Hashing, modules, logging\<close>

text \<open>
  C26. The callbacks of the crypto object refine the hash functions and the signature check: the
  result is returned and its gas is added, although the C++ code hands the Go function a gas variable
  it has not set.
\<close>

theorem crypto_calls_refine:
  assumes "heap_ok (w_heap w)" and "utf8_bound v" and "w_fields w holder = IFExternal CCrypto"
    and "small_string (fst (op_sha3 (go_crypto_ops L) (utf8_of v a)))"
    and "small_string (fst (op_sha3Hex (go_crypto_ops L) (utf8_of v a)))"
    and "small_string (fst (op_ripemd160Hex (go_crypto_ops L) (utf8_of v a)))"
  shows "refines_at (IOSTCrypto_sha3 v (go_crypto_table L) \<lparr>ci_args = [JString a], ci_holder = holder\<rparr>) w
      (limit_args v [a] (\<lambda>w. let r = op_sha3 (go_crypto_ops L) (utf8_of v a) in set_ret (js_result v (fst r)) (add_gas (snd r) w)) w) \<and>
    refines_at (IOSTCrypto_sha3Hex v (go_crypto_table L) \<lparr>ci_args = [JString a], ci_holder = holder\<rparr>) w
      (limit_args v [a] (\<lambda>w. let r = op_sha3Hex (go_crypto_ops L) (utf8_of v a) in set_ret (js_result v (fst r)) (add_gas (snd r) w)) w) \<and>
    refines_at (IOSTCrypto_ripemd160Hex v (go_crypto_table L) \<lparr>ci_args = [JString a], ci_holder = holder\<rparr>) w
      (limit_args v [a] (\<lambda>w. let r = op_ripemd160Hex (go_crypto_ops L) (utf8_of v a) in set_ret (js_result v (fst r)) (add_gas (snd r) w)) w) \<and>
    refines_at (IOSTCrypto_verify v (go_crypto_table L) \<lparr>ci_args = [JString a, JString b, JString c, JString d], ci_holder = holder\<rparr>) w
      (limit_args v [a, b, c, d] (\<lambda>w. let r = op_verify (go_crypto_ops L) (utf8_of v a) (utf8_of v b) (utf8_of v c) (utf8_of v d) in
         set_ret (js_c_int (if fst r then 1 else 0)) (add_gas (snd r) w)) w)"
  using assms
  by (intro conjI go_crypto.sha3_refines go_crypto.sha3Hex_refines go_crypto.ripemd160Hex_refines go_crypto.verify_refines) simp_all

theorem crypto_calls_refine_witness:
  "refines_at (IOSTCrypto_sha3 byte_v8 (go_crypto_table plain_crypto) \<lparr>ci_args = [JString (js ''ab'')], ci_holder = 0\<rparr>) (alice_world CCrypto)
    (set_ret (JString (js ''ab'')) (add_gas 102 (alice_world CCrypto)))"
proof -
  have ab: "hex_DecodeString ''ab'' = ([CHR 0xAB], False)" by code_simp
  have small: "small_string (fst (op_sha3 (go_crypto_ops plain_crypto) ''ab''))"
    "small_string (fst (op_sha3Hex (go_crypto_ops plain_crypto) ''ab''))"
    "small_string (fst (op_ripemd160Hex (go_crypto_ops plain_crypto) ''ab''))"
    by (simp_all add: small_string_def go_crypto_ops_def plain_crypto_def ab hex_EncodeToString_def del: hex_DecodeString.simps)
  have r: "op_sha3 (go_crypto_ops plain_crypto) ''ab'' = (''ab'', 102)"
    by (simp add: go_crypto_ops_def plain_crypto_def cryptGasBase_def)
  have "js_result byte_v8 ''ab'' = JString (js ''ab'')"
    using js_result_roundtrip [OF byte_codec, of "''ab''"] by simp
  then show ?thesis
    using crypto_calls_refine [of "alice_world CCrypto" byte_v8 0 plain_crypto "js ''ab''" "[]" "[]" "[]"] small r
    by (simp add: limit_args_def INPUT_MAX_LENGTH_def)
qed

text \<open>
  C27. Requiring a module hands out its embedded text in full when there is one of that name, changes
  nothing otherwise, and gives back the C memory it used.
\<close>

theorem require_module:
  assumes "heap_ok (w_heap w)" and "w_global w = IFExternal CSandbox" and "ci_args info = [JString path]"
  shows "refines_at (NewNativeRequire v info) w
    (case map_of libJS (c_trunc (utf8_of v path)) of
       None \<Rightarrow> Some w
     | Some t \<Rightarrow> set_ret (JString (js_of_utf8 v (butlast t))) w)"
  using assms by (rule require_refines)

theorem require_module_witness:
  "refines_at (NewNativeRequire byte_v8 \<lparr>ci_args = [JString (js ''storage'')], ci_holder = 0\<rparr>) (alice_world CStorage)
    (set_ret (JString (js (butlast libjs_storage_js))) (alice_world CStorage))"
  using require_module [of "alice_world CStorage" "\<lparr>ci_args = [JString (js ''storage'')], ci_holder = 0\<rparr>" "js ''storage''" byte_v8]
  by (simp add: libJS_def) (simp add: byte_v8_def)

text \<open>
  C28. Logging reaches the logger of the host when the level is valid; the message of an error is
  neither thrown nor freed, so each failed call leaves one block of C memory behind.
\<close>

theorem console_log:
  assumes "heap_ok (w_heap w)" and "utf8_bound v" and "w_global w = IFExternal CSandbox"
    and "ci_args args = [JString l, JString m]" and "length l \<le> INPUT_MAX_LENGTH" and "length m \<le> INPUT_MAX_LENGTH"
    and "op_console (w_sbxPtr w) (utf8_of v l) (utf8_of v m) (w_host w) = Some s'"
  shows "\<exists>h. NewConsoleLog v (InitGoConsole goConsoleLog) args w = Some (w\<lparr>w_host := s', w_heap := h\<rparr>) \<and>
    blocks h = (case console_error (w_sbxPtr w) (utf8_of v l) (w_host w) of
       None \<Rightarrow> blocks (w_heap w)
     | Some e \<Rightarrow> (blocks (w_heap w))(brk (w_heap w) + 2 := Some (Malloc (e @ [NUL]))))"
  using assms by (rule console_log_effect)

theorem console_log_witness:
  "\<exists>h. NewConsoleLog byte_v8 (InitGoConsole goConsoleLog) \<lparr>ci_args = [JString (js ''info''), JString (js ''hi'')], ci_holder = 0\<rparr>
      (alice_world CStorage) = Some ((alice_world CStorage)\<lparr>w_host := alice_node, w_heap := h\<rparr>) \<and>
    blocks h = (\<lambda>_. None)(2 := Some (Malloc (ErrConsoleNoLogger @ [NUL])))"
proof -
  have "op_console 7 ''info'' ''hi'' alice_node = Some alice_node" "console_error 7 ''info'' alice_node = Some ErrConsoleNoLogger"
    by (simp_all add: op_console_def console_error_def GetSandbox_def sbx_host_def alice_node_def alice_host_def)
  then show ?thesis
    using console_log [of "alice_world CStorage" byte_v8 "\<lparr>ci_args = [JString (js ''info''), JString (js ''hi'')], ci_holder = 0\<rparr>"
        "js ''info''" "js ''hi''" alice_node]
      heap_ok_empty
    by (simp add: INPUT_MAX_LENGTH_def) (simp add: empty_heap_def numeral_2_eq_2)
qed

text \<open>
  C29. Charging gas: a finite, non-negative number below the largest \<^verbatim>\<open>int\<close>, cut off to an integer, is added to the counter exactly when it does not
  overflow, the instruction count goes up by one, and the only error that can be raised is the one about memory, on
  every tenth instruction. Any other amount is refused with an exception and changes no counter.
\<close>

theorem gas_charged:
  assumes "ci_args info = [x]" and "w_fields w (ci_holder info) = IFExternal CInstruction"
  shows "(\<forall>n. gas_amount x = Some n \<longrightarrow> unat (gasUsed (w_sbx w)) + n < 2 ^ 64 \<longrightarrow> sint (inst_count (w_sbx w)) < INT_MAX \<longrightarrow>
      (\<exists>w'. IOSTContractInstruction_Incr v info w = Some w' \<and>
        unat (gasUsed (w_sbx w')) = unat (gasUsed (w_sbx w)) + n \<and>
        inst_count (w_sbx w') = inst_count (w_sbx w) + 1 \<and>
        w_ret w' = double_of_size_t (gasUsed (w_sbx w')) \<and> w_fields w' = w_fields w \<and>
        (w_exc w' = w_exc w \<or>
         Instruction_Count w' mod 10 = 0 \<and> MemoryUsage w > memLimit (w_sbx w)))) \<and>
    (gas_amount x = None \<or> (\<exists>n. gas_amount x = Some n \<and> 2 ^ 64 \<le> unat (gasUsed (w_sbx w)) + n) \<longrightarrow>
      (\<exists>w'. IOSTContractInstruction_Incr v info w = Some w' \<and>
        w_sbx w' = w_sbx w \<and> w_fields w' = w_fields w \<and> w_exc w' \<noteq> None))"
  using incr_accepted [OF assms] incr_refused [OF assms] by blast

theorem gas_charged_witness:
  "(\<exists>w'. IOSTContractInstruction_Incr byte_v8 \<lparr>ci_args = [JNumber (Fin (11 / 2))], ci_holder = 0\<rparr> (alice_world CInstruction) = Some w' \<and>
     unat (gasUsed (w_sbx w')) = 5 \<and> inst_count (w_sbx w') = 1) \<and>
   (\<exists>w'. IOSTContractInstruction_Incr byte_v8 \<lparr>ci_args = [JNumber (Fin (- 5))], ci_holder = 0\<rparr> (alice_world CInstruction) = Some w' \<and>
     w_sbx w' = w_sbx (alice_world CInstruction) \<and> w_exc w' \<noteq> None)"
proof -
  have "gas_amount (JNumber (Fin (11 / 2))) = Some 5" "gas_amount (JNumber (Fin (- 5))) = None" by code_simp+
  then show ?thesis
    using gas_charged [of "\<lparr>ci_args = [JNumber (Fin (11 / 2))], ci_holder = 0\<rparr>" "JNumber (Fin (11 / 2))" "alice_world CInstruction" byte_v8]
      gas_charged [of "\<lparr>ci_args = [JNumber (Fin (- 5))], ci_holder = 0\<rparr>" "JNumber (Fin (- 5))" "alice_world CInstruction" byte_v8]
    by (auto simp: alice_world_def sample_sandbox_def simp del: gas_amount.simps)
qed



text \<open>
  C31. The life of a C++ sandbox: whatever paths and limits are set in between, creating a sandbox and
  releasing it succeeds and gives back every block it took.
\<close>

theorem sandbox_balanced:
  assumes "heap_ok h0"
  shows "\<exists>w h. sbx_run ops (snd (newSandbox E P iw flags n host h0)) = Some w \<and>
    releaseSandbox False w = Some h \<and> blocks h = blocks h0"
  using sbx_run_owns [OF newSandbox_owns [OF assms], of ops E P iw flags n host] releaseSandbox_owns by blast

theorem sandbox_balanced_witness:
  "\<exists>w h. sbx_run [SetPath ''libjs'', SetPath ''other'', SetGas 9] (snd (newSandbox still_engine alice_pointers first_isolate 1 0 alice_node empty_heap)) = Some w \<and>
    releaseSandbox False w = Some h \<and> blocks h = (\<lambda>_. None)"
  using sandbox_balanced [of empty_heap] heap_ok_empty by (fastforce simp: empty_heap_def)



text \<open>
  C33. The pool of virtual machines: after any sequence of takes and returns no machine is lost or added,
  and every machine has an isolate and a use count below the limit at which it is renewed, so the test for the limit by
  equality cannot be jumped over. While a machine is out, the channel has room for it: returning one never blocks.
\<close>

theorem vm_pool_kept:
  assumes "vm_pool_run S data p"
  shows "length (pl_buff p) + length (pl_busy p) = pl_size p \<and>
    (\<forall>e \<in> set (pl_buff p). vm_isolate e \<noteq> None \<and> 0 \<le> vm_refCount e \<and> vm_refCount e < vmRefLimit - 1) \<and>
    (\<forall>e \<in> set (pl_busy p). vm_isolate e \<noteq> None \<and> 0 < vm_refCount e \<and> vm_refCount e < vmRefLimit) \<and>
    (pl_busy p \<noteq> [] \<longrightarrow> length (pl_buff p) < pl_size p)"
  using vm_pool_run_ok [OF assms] by (cases "pl_busy p") (auto simp: vm_pool_ok_def)

theorem vm_pool_kept_witness:
  "\<exists>p q. pool_Init alice_around no_snapshot RunVMPool ''path'' 1 empty_heap = Some p \<and> getVM alice_around None p = Some q \<and>
    length (pl_busy q) = 1 \<and> length (pl_buff q) < pl_size q \<and> vm_refCount (pl_busy q ! 0) < vmRefLimit"
proof -
  obtain p where p: "pool_Init alice_around no_snapshot RunVMPool ''path'' 1 empty_heap = Some p" "length (pl_buff p) = 1"
    "pl_busy p = []" using one_machine by blast
  then obtain q where q: "getVM alice_around None p = Some q" "length (pl_busy q) = 1"
    by (cases "pl_buff p") (auto simp: getVM_def)
  then have "pl_busy q ! 0 \<in> set (pl_busy q)" "pl_busy q \<noteq> []" by auto
  then show ?thesis using vm_pool_kept [OF vm_pool_run.get [OF vm_pool_run.init [OF p(1)] q(1)]] p(1) q by blast
qed



text \<open>
  C35. The caller always returns: from every state a run can reach in which the worker has stopped, seven
  steps of the caller are enough, whatever its clock shows.
\<close>

theorem execution_returns:
  assumes "exec_reach E t (Execution_start sbx h) s" and "heap_ok h" and "x_worker s = WStopped"
    and "copyable (x_error s)" and "copyable (x_result s)"
    and "time_ok t" and "\<forall>now \<in> set ns. time_ok now" and "7 \<le> length ns"
  shows "\<exists>s'. main_run t ns s = Some s' \<and> x_main s' = MReturned"
  using assms by (rule reachable_returns)

theorem execution_returns_witness:
  "\<exists>s s'. exec_run (still_engine :: unit engine) 100 quiet_worker (Execution_start sample_sandbox empty_heap) = Some s \<and> x_main s = MInit \<and>
    main_run 100 (replicate 7 0) s = Some s' \<and> x_main s' = MReturned"
proof -
  obtain s where s: "exec_run (still_engine :: unit engine) 100 quiet_worker quiet_start = Some s" "x_worker s = WStopped"
    "x_error s = []" "x_result s = []" "x_main s = MInit" using quiet_stopped by blast
  have "exec_reach (still_engine :: unit engine) 100 (Execution_start sample_sandbox empty_heap) s"
    using exec_run_reach [OF exec_reach.start s(1)] by (simp add: quiet_start_def)
  then show ?thesis
    using execution_returns [of "still_engine :: unit engine" 100 sample_sandbox empty_heap s "replicate 7 0"] s heap_ok_empty
    by (auto simp: quiet_start_def copyable_def time_ok_def)
qed

text \<open>
  C36. The two sides of the result disagree on the allocator: the C++ side copies every result and error
  with \<^verbatim>\<open>new char[]\<close>, and the Go side passes that block to \<^verbatim>\<open>free\<close>, so no execution has a defined end.
\<close>

theorem execution_result_freed_wrongly:
  assumes "Execute E sbx h t rs sbx' h'" and "heap_ok h"
  shows "go_Execute_result rs h' = None"
  using assms by (rule result_mismatch)

theorem execution_result_freed_wrongly_witness:
  "\<exists>rs sbx' h'. Execute (still_engine :: unit engine) sample_sandbox empty_heap 100 rs sbx' h' \<and> go_Execute_result rs h' = None"
proof -
  obtain s where s: "exec_run (still_engine :: unit engine) 100 (quiet_worker @ replicate 6 (Main 0)) quiet_start = Some s" "x_main s = MReturned"
    using quiet_returns by blast
  have "Execute (still_engine :: unit engine) sample_sandbox empty_heap 100 (x_res s) (x_sbx s) (x_heap s)"
    using exec_run_reach [OF exec_reach.start s(1)] s(2) by (auto simp: quiet_start_def Execute_def)
  with execution_result_freed_wrongly [OF this heap_ok_empty] show ?thesis by blast
qed

text \<open>
  C37. Compiling a contract: Go receives exactly what the gas-injection script answered on the quoted source,
  as a value or as an error, and no memory is lost; a text with a zero byte before its end is read past the
  end of its copy.
\<close>

theorem compile_outcome:
  assumes "pure_scripts E" and "heap_ok (w_heap w)"
  shows "\<exists>w0 out w2. heap_erase w0 = heap_erase w \<and>
    script_outcome E (inject_text source) ''__inject_gas.js'' w0 = Some (out, w2) \<and>
    (readable (outcome_text out) \<longrightarrow>
       (\<exists>w'. go_Compile E source w = Some (case out of Inr t \<Rightarrow> Inr t | Inl e \<Rightarrow> Inl (outcome_text out), w') \<and>
          heap_erase w' = heap_erase w2 \<and> blocks (w_heap w') = blocks (w_heap w))) \<and>
    (over_read (outcome_text out) \<longrightarrow> go_Compile E source w = None)"
  using assms by (rule go_Compile_outcome)

theorem compile_outcome_witness:
  "\<exists>w'. go_Compile still_engine ''let a = 1;'' (alice_world CStorage) = Some (Inr ''success'', w') \<and>
    blocks (w_heap w') = blocks (w_heap (alice_world CStorage))"
proof -
  have "readable (outcome_text (Inr ''success''))" by (simp add: readable_def outcome_text_def)
  then show ?thesis
    using compile_outcome [of still_engine "alice_world CStorage" "''let a = 1;''"] heap_ok_empty by auto
qed

text \<open>
  C38. Validating a contract: it is accepted exactly when the validation script answers \<^verbatim>\<open>success\<close>; any other
  answer and any exception is an error that quotes it; no memory is lost.
\<close>

theorem validate_outcome:
  assumes "pure_scripts E" and "heap_ok (w_heap w)" and "NUL \<notin> set abi"
  shows "\<exists>w0 out w2. heap_erase w0 = heap_erase w \<and>
    script_outcome E (validate_text source abi) ''__validate.js'' w0 = Some (out, w2) \<and>
    (readable (outcome_text out) \<longrightarrow>
       (\<exists>w'. go_Validate E source abi w = Some (validate_answer out, w') \<and> (validate_answer out = Inr () \<longleftrightarrow> out = Inr ''success'') \<and>
          heap_erase w' = heap_erase w2 \<and> blocks (w_heap w') = blocks (w_heap w))) \<and>
    (over_read (outcome_text out) \<longrightarrow> go_Validate E source abi w = None)"
proof -
  have "validate_answer out = Inr () \<longleftrightarrow> out = Inr ''success''" for out by (simp add: validate_answer_def)
  then show ?thesis using go_Validate_outcome [OF assms] by simp
qed

theorem validate_outcome_witness:
  "\<exists>w'. go_Validate still_engine ''let a = 1;'' ''[]'' (alice_world CStorage) = Some (Inr (), w') \<and>
    blocks (w_heap w') = blocks (w_heap (alice_world CStorage))"
proof -
  have "readable (outcome_text (Inr ''success''))" by (simp add: readable_def outcome_text_def)
  then show ?thesis
    using validate_outcome [of still_engine "alice_world CStorage" "''[]''" "''let a = 1;''"] heap_ok_empty
    by (auto simp: validate_answer_def)
qed

text \<open>
  C39. The thread pool, at every moment of every run: the accepted tasks are the started ones followed by
  the queued ones, in the order of acceptance, and every started task is either completed once or in the
  hands of one thread; no thread has left while a task is queued.
\<close>

theorem thread_pool_keeps_tasks:
  assumes "pool_reach n p"
  shows "length (workers p) = n \<and> distinct (accepted p) \<and> accepted p = started p @ tasks p \<and>
    mset (started p) = mset (completed p) + \<Sum>\<^sub># (mset (map in_hand (workers p))) \<and>
    (Finished \<in> set (workers p) \<longrightarrow> stop p \<and> tasks p = [])"
  using pool_reach_inv [OF assms] unfolding pool_inv_def .

theorem thread_pool_keeps_tasks_witness:
  "\<exists>p. enqueue 5 (ThreadPool_new 1) = Inr p \<and> accepted p = started p @ tasks p \<and> accepted p = [5]"
proof -
  obtain p where p: "enqueue 5 (ThreadPool_new 1) = Inr p" "accepted p = [5]"
    by (simp add: enqueue_def ThreadPool_new_def)
  have "pool_reach 1 p"
    using pool_reach.step [OF pool_reach.new pool_step.accept [OF _ p(1)]] by (simp add: ThreadPool_new_def)
  then show ?thesis using thread_pool_keeps_tasks [of 1 p] p by blast
qed



end
